(* ===== verification/Prelude.thy ===== *)
theory Prelude
  imports Main "HOL-Library.Word" "HOL-Library.Sublist" "HOL-Library.While_Combinator"
begin

text \<open>
  Shared vocabulary of the development: machine integers and byte strings, the results of
  fallible Rust code, the state-and-failure monad in which asynchronous handlers are written,
  a small Hoare calculus for it, and the contract of self-delimiting byte encodings.
\<close>

section \<open>Machine integers and byte strings\<close>

type_synonym u8 = "8 word"
type_synonym u16 = "16 word"
type_synonym u32 = "32 word"
type_synonym u64 = "64 word"
type_synonym bytes = "8 word list"

text \<open>
  The little-endian byte representation of a number, \<open>k\<close> bytes wide, as Rust's
  \<open>to_le_bytes\<close> gives it, and the number a little-endian byte string denotes.
\<close>

fun le_bytes :: "nat \<Rightarrow> nat \<Rightarrow> bytes" where
  "le_bytes 0 v = []"
| "le_bytes (Suc k) v = of_nat v # le_bytes k (v div 256)"

fun le_val :: "bytes \<Rightarrow> nat" where
  "le_val [] = 0"
| "le_val (b # bs) = unat b + 256 * le_val bs"

definition u16_le :: "u16 \<Rightarrow> bytes" where
  "u16_le w = le_bytes 2 (unat w)"

definition u32_le :: "u32 \<Rightarrow> bytes" where
  "u32_le w = le_bytes 4 (unat w)"

definition u64_le :: "u64 \<Rightarrow> bytes" where
  "u64_le w = le_bytes 8 (unat w)"

definition u32_be :: "u32 \<Rightarrow> bytes" where
  "u32_be w = rev (u32_le w)"

definition u64_be :: "u64 \<Rightarrow> bytes" where
  "u64_be w = rev (u64_le w)"

text \<open>Strings are UTF-8 byte strings; \<open>as_bytes\<close> is Rust's method of that name.\<close>

definition as_bytes :: "string \<Rightarrow> bytes" where
  "as_bytes s = map of_char s"

text \<open>The string of given bytes (\<open>from_utf8\<close> where it succeeds).\<close>

definition str_of_bytes :: "bytes \<Rightarrow> string" where
  "str_of_bytes bs = map (\<lambda>b. char_of (unat b)) bs"

text \<open>Checked arithmetic on unsigned 64-bit integers.\<close>

definition checked_add_u64 :: "u64 \<Rightarrow> u64 \<Rightarrow> u64 option" where
  "checked_add_u64 a b = (if unat a + unat b < 2 ^ 64 then Some (a + b) else None)"

definition checked_sub_u64 :: "u64 \<Rightarrow> u64 \<Rightarrow> u64 option" where
  "checked_sub_u64 a b = (if b \<le> a then Some (a - b) else None)"

section \<open>Results of fallible code\<close>

text \<open>
  \<open>Ok\<close> and \<open>Err\<close> are Rust's. \<open>Panic\<close> is an abort of the firmware (the build uses
  \<open>panic = "abort"\<close>), \<open>Pending\<close> a task that waits for an input that never comes.
\<close>

datatype ('e, 'a) result = Ok 'a | Err 'e | Panic | Pending

fun bindR :: "('e, 'a) result \<Rightarrow> ('a \<Rightarrow> ('e, 'b) result) \<Rightarrow> ('e, 'b) result" where
  "bindR (Ok a) f = f a"
| "bindR (Err e) f = Err e"
| "bindR Panic f = Panic"
| "bindR Pending f = Pending"

fun map_err :: "('e \<Rightarrow> 'f) \<Rightarrow> ('e, 'a) result \<Rightarrow> ('f, 'a) result" where
  "map_err f (Ok a) = Ok a"
| "map_err f (Err e) = Err (f e)"
| "map_err f Panic = Panic"
| "map_err f Pending = Pending"

fun ok_or :: "'e \<Rightarrow> 'a option \<Rightarrow> ('e, 'a) result" where
  "ok_or e (Some a) = Ok a"
| "ok_or e None = Err e"

text \<open>Indexing panics out of range.\<close>

definition index :: "'a list \<Rightarrow> nat \<Rightarrow> ('e, 'a) result" where
  "index xs i = (if i < length xs then Ok (xs ! i) else Panic)"

text \<open>\<open>iter().map(f).collect::<Result<Vec<_>, _>>()\<close>: stops at the first error.\<close>

fun collectR :: "('a \<Rightarrow> ('e, 'b) result) \<Rightarrow> 'a list \<Rightarrow> ('e, 'b list) result" where
  "collectR f [] = Ok []"
| "collectR f (x # xs) = bindR (f x) (\<lambda>y. bindR (collectR f xs) (\<lambda>ys. Ok (y # ys)))"

definition is_ok :: "('e, 'a) result \<Rightarrow> bool" where
  "is_ok r = (case r of Ok _ \<Rightarrow> True | _ \<Rightarrow> False)"

section \<open>The monad of handlers\<close>

type_synonym ('s, 'e, 'a) io = "'s \<Rightarrow> ('e, 'a) result \<times> 's"

definition returnM :: "'a \<Rightarrow> ('s, 'e, 'a) io" where
  "returnM a s = (Ok a, s)"

definition failM :: "'e \<Rightarrow> ('s, 'e, 'a) io" where
  "failM e s = (Err e, s)"

definition liftM :: "('e, 'a) result \<Rightarrow> ('s, 'e, 'a) io" where
  "liftM r s = (r, s)"

definition bindM :: "('s, 'e, 'a) io \<Rightarrow> ('a \<Rightarrow> ('s, 'e, 'b) io) \<Rightarrow> ('s, 'e, 'b) io" where
  "bindM m f s = (case m s of
      (Ok a, t) \<Rightarrow> f a t
    | (Err e, t) \<Rightarrow> (Err e, t)
    | (Panic, t) \<Rightarrow> (Panic, t)
    | (Pending, t) \<Rightarrow> (Pending, t))"

definition getM :: "('s \<Rightarrow> 'a) \<Rightarrow> ('s, 'e, 'a) io" where
  "getM f s = (Ok (f s), s)"

definition modifyM :: "('s \<Rightarrow> 's) \<Rightarrow> ('s, 'e, unit) io" where
  "modifyM f s = (Ok (), f s)"

definition map_errM :: "('e \<Rightarrow> 'f) \<Rightarrow> ('s, 'e, 'a) io \<Rightarrow> ('s, 'f, 'a) io" where
  "map_errM f m s = (case m s of (r, t) \<Rightarrow> (map_err f r, t))"

text \<open>\<open>if c { return Err(e) }\<close>.\<close>

definition guardM :: "bool \<Rightarrow> 'e \<Rightarrow> ('s, 'e, unit) io" where
  "guardM c e = (if c then returnM () else failM e)"

text \<open>A \<open>for\<close> loop with an accumulator, left at the first failure.\<close>

fun foldM :: "('i \<Rightarrow> 'acc \<Rightarrow> ('s, 'e, 'acc) io) \<Rightarrow> 'i list \<Rightarrow> 'acc \<Rightarrow> ('s, 'e, 'acc) io" where
  "foldM f [] acc = returnM acc"
| "foldM f (i # is) acc = bindM (f i acc) (foldM f is)"

text \<open>The index range \<open>0..n\<close> of a \<open>u32\<close> bound.\<close>

definition range_u32 :: "u32 \<Rightarrow> u32 list" where
  "range_u32 n = map of_nat [0..<unat n]"

text \<open>
  A \<open>loop\<close>: a round ends with \<open>Inl\<close> to go on in a new state of the loop's variables, with \<open>Inr\<close> to
  break with a value. A loop that goes on forever never finishes, like an await that is never ready.
\<close>

definition loopM :: "('st \<Rightarrow> ('s, 'e, 'st + 'a) io) \<Rightarrow> 'st \<Rightarrow> ('s, 'e, 'a) io" where
  "loopM body st s =
     (case while_option (\<lambda>(r, _). case r of Ok (Inl _) \<Rightarrow> True | _ \<Rightarrow> False)
        (\<lambda>(r, s). case r of Ok (Inl st) \<Rightarrow> body st s | _ \<Rightarrow> (r, s)) (Ok (Inl st), s) of
        Some (r, t) \<Rightarrow> (bindR r (\<lambda>x. case x of Inl _ \<Rightarrow> Pending | Inr a \<Rightarrow> Ok a), t)
      | None \<Rightarrow> (Pending, s))"

text \<open>A computation that only reads the state.\<close>

definition readM :: "('s \<Rightarrow> ('e, 'a) result) \<Rightarrow> ('s, 'e, 'a) io" where
  "readM f s = (f s, s)"

section \<open>Successful runs\<close>

text \<open>
  The collection \<open>runs\<close> takes a successful run of a composed handler apart into the runs of its
  steps.
\<close>

named_theorems runs

lemma bindM_Ok_iff [runs]:
  "bindM m f s = (Ok b, u) \<longleftrightarrow> (\<exists>a t. m s = (Ok a, t) \<and> f a t = (Ok b, u))"
  by (auto simp: bindM_def split: prod.splits result.splits)

lemma returnM_Ok_iff [runs]: "returnM a s = (Ok b, t) \<longleftrightarrow> b = a \<and> t = s"
  by (auto simp: returnM_def)

lemma failM_Ok_iff [runs]: "failM e s = (Ok b, t) \<longleftrightarrow> False"
  by (simp add: failM_def)

lemma liftM_Ok_iff [runs]: "liftM r s = (Ok b, t) \<longleftrightarrow> r = Ok b \<and> t = s"
  by (auto simp: liftM_def)

lemma getM_Ok_iff [runs]: "getM f s = (Ok b, t) \<longleftrightarrow> b = f s \<and> t = s"
  by (auto simp: getM_def)

lemma readM_Ok_iff [runs]: "readM f s = (Ok b, t) \<longleftrightarrow> f s = Ok b \<and> t = s"
  by (auto simp: readM_def)

lemma modifyM_Ok_iff [runs]: "modifyM f s = (Ok b, t) \<longleftrightarrow> t = f s"
  by (auto simp: modifyM_def)

lemma guardM_Ok_iff [runs]: "guardM c e s = (Ok b, t) \<longleftrightarrow> c \<and> t = s"
  by (auto simp: guardM_def returnM_def failM_def)

lemma map_errM_Ok_iff [runs]: "map_errM f m s = (Ok b, t) \<longleftrightarrow> m s = (Ok b, t)"
  by (cases "m s"; cases "fst (m s)") (auto simp: map_errM_def)

lemma foldM_Ok_induct:
  assumes "foldM f xs a s = (Ok b, t)" and "I [] a s"
    and step: "\<And>pre i rest acc s acc' s'. xs = pre @ i # rest \<Longrightarrow> I pre acc s \<Longrightarrow>
      f i acc s = (Ok acc', s') \<Longrightarrow> I (pre @ [i]) acc' s'"
  shows "I xs b t"
proof -
  have "I xs b t" if "xs = pre @ rest" "foldM f rest acc u = (Ok b, t)" "I pre acc u" for pre rest acc u
    using that
  proof (induction rest arbitrary: pre acc u)
    case (Cons i rest)
    from Cons.prems(2) obtain acc' u' where *: "f i acc u = (Ok acc', u')"
      "foldM f rest acc' u' = (Ok b, t)" by (auto simp: bindM_Ok_iff)
    show ?case
      by (rule Cons.IH [of "pre @ [i]" acc' u'])
        (use Cons.prems * step [of pre i rest acc u acc' u'] in simp_all)
  qed (simp add: returnM_def)
  from this [of "[]" xs a s] assms(1,2) show ?thesis by simp
qed

section \<open>Loops\<close>

lemma loopM_step:
  assumes "body st s = (Ok (Inl st'), s')" and "loopM body st' s' = (r, t)" and "r \<noteq> Pending"
  shows "loopM body st s = (r, t)"
  using assms unfolding loopM_def
  by (subst while_option_unfold) (auto split: option.splits)

lemma loopM_last:
  assumes "body st s = (r, t)" and "\<And>st'. r \<noteq> Ok (Inl st')"
  shows "loopM body st s = (bindR r (\<lambda>x. case x of Inl _ \<Rightarrow> Pending | Inr a \<Rightarrow> Ok a), t)"
  using assms unfolding loopM_def
  by (subst while_option_unfold, subst while_option_unfold) (auto split: result.splits sum.splits)

lemma loopM_rule:
  assumes run: "loopM body st s = (r, t)" and start: "I st s"
    and step: "\<And>st s st' s'. I st s \<Longrightarrow> body st s = (Ok (Inl st'), s') \<Longrightarrow> I st' s'"
  obtains (diverges) "r = Pending" "t = s"
  | (ends) st' s' r' where "I st' s'" "body st' s' = (r', t)" "\<And>st. r' \<noteq> Ok (Inl st)"
      "r = bindR r' (\<lambda>x. case x of Inl _ \<Rightarrow> Pending | Inr a \<Rightarrow> Ok a)"
proof -
  let ?b = "\<lambda>(r, _). case r of Ok (Inl _) \<Rightarrow> True | _ \<Rightarrow> False"
  let ?c = "\<lambda>(r, s). case r of Ok (Inl st) \<Rightarrow> body st s | _ \<Rightarrow> (r, s)"
  let ?P = "\<lambda>(r, t). (case r of Ok (Inl st) \<Rightarrow> I st t
     | _ \<Rightarrow> \<exists>st' s'. I st' s' \<and> body st' s' = (r, t))"
  show ?thesis
  proof (cases "while_option ?b ?c (Ok (Inl st), s)")
    case None
    with run show ?thesis by (intro diverges) (auto simp: loopM_def)
  next
    case (Some p)
    obtain q u where p: "p = (q, u)" by (cases p)
    have "?P p"
    proof (rule while_option_rule [where P = ?P, OF _ Some])
      show "?P (Ok (Inl st), s)" using start by simp
    next
      fix x
      assume "?P x" and "?b x"
      then obtain st1 s1 where x: "x = (Ok (Inl st1), s1)" and "I st1 s1"
        by (cases x) (auto split: result.splits sum.splits)
      then show "?P (?c x)"
        by (cases "body st1 s1") (auto split: result.splits sum.splits intro: step)
    qed
    moreover have "\<not> ?b p" by (rule while_option_stop [OF Some])
    ultimately obtain st' s' where "I st' s'" "body st' s' = (q, u)" "\<And>st. q \<noteq> Ok (Inl st)"
      unfolding p by (auto split: result.splits sum.splits)
    then show ?thesis using run Some p by (intro ends) (auto simp: loopM_def)
  qed
qed

lemma loopM_Ok_rule:
  assumes run: "loopM body st s = (Ok a, t)" and start: "I st s"
    and step: "\<And>st s st' s'. I st s \<Longrightarrow> body st s = (Ok (Inl st'), s') \<Longrightarrow> I st' s'"
  obtains st' s' where "I st' s'" "body st' s' = (Ok (Inr a), t)"
proof (rule loopM_rule [where I = I, OF run start step])
  fix st' s' r'
  assume "I st' s'" "body st' s' = (r', t)" "\<And>st. r' \<noteq> Ok (Inl st)"
    and "Ok a = bindR r' (\<lambda>x. case x of Inl _ \<Rightarrow> Pending | Inr a \<Rightarrow> Ok a)"
  then show thesis by (cases r') (auto split: sum.splits intro: that)
qed auto

text \<open>A loop whose rounds decrease a measure ends with one of its rounds.\<close>

lemma loopM_terminates:
  assumes step: "\<And>st s st' s'. I st s \<Longrightarrow> body st s = (Ok (Inl st'), s')
      \<Longrightarrow> I st' s' \<and> f st' s' < (f st s :: nat)"
    and start: "I st s"
  shows "\<exists>st' s' r t. I st' s' \<and> body st' s' = (r, t) \<and> (\<forall>st. r \<noteq> Ok (Inl st)) \<and>
     loopM body st s = (bindR r (\<lambda>x. case x of Inl _ \<Rightarrow> Pending | Inr a \<Rightarrow> Ok a), t)"
proof -
  let ?b = "\<lambda>(r, _). case r of Ok (Inl _) \<Rightarrow> True | _ \<Rightarrow> False"
  let ?c = "\<lambda>(r, s). case r of Ok (Inl st) \<Rightarrow> body st s | _ \<Rightarrow> (r, s)"
  have "\<exists>st' s' r t. I st' s' \<and> body st' s' = (r, t) \<and> (\<forall>st. r \<noteq> Ok (Inl st)) \<and>
     while_option ?b ?c (Ok (Inl st), s) = Some (r, t)"
    using start
  proof (induction "f st s" arbitrary: st s rule: less_induct)
    case less
    obtain r t where b: "body st s = (r, t)" by (cases "body st s")
    have unfold: "while_option ?b ?c (Ok (Inl st), s) = while_option ?b ?c (r, t)"
      by (subst while_option_unfold) (simp add: b)
    show ?case
    proof (cases "\<exists>st'. r = Ok (Inl st')")
      case False
      then have "while_option ?b ?c (r, t) = Some (r, t)"
        by (subst while_option_unfold) (auto split: result.splits sum.splits)
      with False b less.prems show ?thesis by (auto simp: unfold)
    next
      case True
      then obtain st' where r: "r = Ok (Inl st')" by blast
      with step [OF less.prems] b have "I st' t" "f st' t < f st s" by auto
      from less.hyps [OF this(2,1)] show ?thesis unfolding unfold r .
    qed
  qed
  then obtain st' s' r t where ends: "I st' s'" "body st' s' = (r, t)" "\<forall>st. r \<noteq> Ok (Inl st)"
    "while_option ?b ?c (Ok (Inl st), s) = Some (r, t)" by blast
  then show ?thesis
    by (intro exI [of _ st'] exI [of _ s'] exI [of _ r] exI [of _ t]) (simp add: loopM_def)
qed

section \<open>Results: laws\<close>

lemma bindR_Ok_iff [simp]: "bindR r f = Ok b \<longleftrightarrow> (\<exists>a. r = Ok a \<and> f a = Ok b)"
  by (cases r) auto

lemma bindR_Err_iff: "bindR r f = Err e \<longleftrightarrow> r = Err e \<or> (\<exists>a. r = Ok a \<and> f a = Err e)"
  by (cases r) auto

lemma bindR_Panic_iff: "bindR r f = Panic \<longleftrightarrow> r = Panic \<or> (\<exists>a. r = Ok a \<and> f a = Panic)"
  by (cases r) auto

lemma bindR_Pending_iff:
  "bindR r f = Pending \<longleftrightarrow> r = Pending \<or> (\<exists>a. r = Ok a \<and> f a = Pending)"
  by (cases r) auto

lemma map_err_Ok_iff [simp]: "map_err f r = Ok a \<longleftrightarrow> r = Ok a"
  by (cases r) auto

lemma map_err_Err_iff [simp]: "map_err f r = Err e \<longleftrightarrow> (\<exists>e'. r = Err e' \<and> e = f e')"
  by (cases r) auto

lemma ok_or_Ok_iff [simp]: "ok_or e x = Ok a \<longleftrightarrow> x = Some a"
  by (cases x) auto

lemma ok_or_not_Panic [simp]: "ok_or e x \<noteq> Panic" "ok_or e x \<noteq> Pending"
  by (cases x; simp)+

lemma index_Ok_iff [simp]: "index xs i = Ok a \<longleftrightarrow> i < length xs \<and> a = xs ! i"
  by (auto simp: index_def)

lemma collectR_Ok_iff: "collectR f xs = Ok ys \<longleftrightarrow> list_all2 (\<lambda>x y. f x = Ok y) xs ys"
  by (induction xs arbitrary: ys) (auto simp: list_all2_Cons1)

lemma collectR_length: "collectR f xs = Ok ys \<Longrightarrow> length ys = length xs"
  by (simp add: collectR_Ok_iff list_all2_lengthD)

lemma length_range_u32 [simp]: "length (range_u32 n) = unat n"
  by (simp add: range_u32_def)

section \<open>Little-endian representation: laws\<close>

lemma length_le_bytes [simp]: "length (le_bytes k v) = k"
  by (induction k arbitrary: v) auto

lemma le_val_le_bytes: "le_val (le_bytes k v) = v mod 256 ^ k"
proof (induction k arbitrary: v)
  case 0
  then show ?case by simp
next
  case (Suc k)
  have "unat (of_nat v :: u8) = v mod 256"
    by (simp add: unat_of_nat)
  then show ?case
    by (simp add: Suc mod_mult2_eq)
qed

lemma le_bytes_le_val: "le_bytes (length bs) (le_val bs) = bs"
proof (induction bs)
  case Nil
  then show ?case by simp
next
  case (Cons b bs)
  have b: "unat b < 256" using unsigned_less [of b, where ?'a = nat] by simp
  have "unat (of_nat (unat b + 256 * le_val bs) :: u8) = unat b"
    by (simp only: unat_of_nat) (simp add: b)
  then have "(of_nat (unat b + 256 * le_val bs) :: u8) = b"
    by (simp only: word_unat_eq_iff)
  moreover have "(unat b + 256 * le_val bs) div 256 = le_val bs"
    using b by simp
  ultimately show ?case by (simp add: Cons)
qed

lemma length_u_le [simp]:
  "length (u16_le a) = 2" "length (u32_le b) = 4" "length (u64_le c) = 8"
  "length (u32_be b) = 4" "length (u64_be c) = 8"
  by (simp_all add: u16_le_def u32_le_def u64_le_def u32_be_def u64_be_def)

lemma le_val_less: "le_val bs < 256 ^ length bs"
proof -
  have "le_val bs = le_val bs mod 256 ^ length bs"
    using le_val_le_bytes [of "length bs" "le_val bs"] by (simp add: le_bytes_le_val)
  then show ?thesis by (metis mod_less_divisor zero_less_numeral zero_less_power)
qed

lemma le_val_u16_le: "le_val (u16_le w) = unat w"
  using unsigned_less [of w, where ?'a = nat] by (simp add: u16_le_def le_val_le_bytes)

lemma le_val_u32_le: "le_val (u32_le w) = unat w"
  using unsigned_less [of w, where ?'a = nat] by (simp add: u32_le_def le_val_le_bytes)

lemma le_val_u64_le: "le_val (u64_le w) = unat w"
  using unsigned_less [of w, where ?'a = nat] by (simp add: u64_le_def le_val_le_bytes)

lemma length_as_bytes [simp]: "length (as_bytes s) = length s"
  by (simp add: as_bytes_def)

lemma unat_of_char: "unat (of_char c :: u8) = of_char c"
proof -
  have "(of_char c :: nat) < 256" by simp
  moreover have "(of_char c :: u8) = of_nat (of_char c)" by (simp only: of_nat_of_char)
  ultimately show ?thesis by (simp only: unat_of_nat) simp
qed

lemma str_of_bytes_as_bytes [simp]: "str_of_bytes (as_bytes s) = s"
  by (simp add: str_of_bytes_def as_bytes_def comp_def unat_of_char)

lemma as_bytes_str_of_bytes [simp]: "as_bytes (str_of_bytes bs) = bs"
proof -
  have "(of_char (char_of (unat b) :: char) :: u8) = b" for b :: u8
  proof -
    have "unat b < 256" using unsigned_less [of b, where ?'a = nat] by simp
    then have "unat (of_char (char_of (unat b) :: char) :: u8) = unat b"
      by (simp add: unat_of_char)
    then show ?thesis by (simp only: word_unat_eq_iff)
  qed
  then show ?thesis by (simp add: str_of_bytes_def as_bytes_def comp_def)
qed

lemma as_bytes_inj: "as_bytes s = as_bytes t \<longleftrightarrow> s = t"
  using str_of_bytes_as_bytes by metis

section \<open>Checked arithmetic: laws\<close>

text \<open>For evaluation: the addition overflows exactly when it wraps around.\<close>

lemma checked_add_u64_code [code]: "checked_add_u64 a b = (if a + b < a then None else Some (a + b))"
proof -
  have "unat a + unat b < 2 ^ 64 \<longleftrightarrow> \<not> a + b < a"
    using unsigned_less [of a, where ?'a = nat] unsigned_less [of b, where ?'a = nat]
    by (simp add: word_less_nat_alt unat_word_ariths mod_if split: if_splits) arith
  then show ?thesis by (simp add: checked_add_u64_def)
qed

lemma checked_add_u64_SomeD: "checked_add_u64 a b = Some c \<Longrightarrow> unat c = unat a + unat b"
  by (auto simp: checked_add_u64_def unat_word_ariths split: if_splits)

lemma checked_sub_u64_SomeD:
  "checked_sub_u64 a b = Some c \<Longrightarrow> unat c = unat a - unat b \<and> unat b \<le> unat a"
  by (auto simp: checked_sub_u64_def unat_sub word_le_nat_alt split: if_splits)

lemma unat_ucast_fits:
  assumes "unat (v :: 'a::len word) < 2 ^ LENGTH('b)"
  shows "unat (ucast v :: 'b::len word) = unat v"
  using assms by (simp add: unsigned_ucast_eq take_bit_nat_eq_self)

section \<open>Self-delimiting encodings\<close>

text \<open>
  The contract of an encoding of which no codeword is the beginning of another: what follows a
  codeword does not change how it is read.
\<close>

locale prefix_free =
  fixes enc :: "'a \<Rightarrow> bytes" and valid :: "'a \<Rightarrow> bool"
  assumes enc_append_inj: "valid x \<Longrightarrow> valid y \<Longrightarrow> enc x @ r = enc y @ s \<Longrightarrow> x = y \<and> r = s"
begin

lemma enc_inj: "valid x \<Longrightarrow> valid y \<Longrightarrow> enc x = enc y \<longleftrightarrow> x = y"
  using enc_append_inj [of x y "[]" "[]"] by auto

lemma enc_append_eq: "valid x \<Longrightarrow> valid y \<Longrightarrow> enc x @ r = enc y @ s \<longleftrightarrow> x = y \<and> r = s"
  using enc_append_inj by blast

text \<open>A sequence of codewords of known length determines the sequence.\<close>

lemma concat_enc_inj:
  assumes "list_all valid xs" and "list_all valid ys" and "length xs = length ys"
    and "concat (map enc xs) @ r = concat (map enc ys) @ s"
  shows "xs = ys \<and> r = s"
  using assms(3,1,2,4)
proof (induction xs ys rule: list_induct2)
  case Nil
  then show ?case by simp
next
  case (Cons x xs y ys)
  then have "x = y \<and> concat (map enc xs) @ r = concat (map enc ys) @ s"
    by (intro enc_append_inj) auto
  with Cons show ?case by simp
qed

end

text \<open>
  The contract of an encoding whose end can be found by reading it: decoding what was encoded,
  followed by any further bytes, gives back the value and exactly those bytes.
\<close>

locale prefix_code =
  fixes enc :: "'a \<Rightarrow> bytes" and dec :: "bytes \<Rightarrow> ('a \<times> bytes) option" and valid :: "'a \<Rightarrow> bool"
  assumes dec_enc: "valid x \<Longrightarrow> dec (enc x @ r) = Some (x, r)"

sublocale prefix_code \<subseteq> prefix_free enc valid
proof
  fix x y r s
  assume v: "valid x" "valid y" and eq: "enc x @ r = enc y @ s"
  have "Some (x, r) = dec (enc x @ r)" by (rule dec_enc [OF v(1), symmetric])
  also have "\<dots> = dec (enc y @ s)" by (rule arg_cong [OF eq])
  also have "\<dots> = Some (y, s)" by (rule dec_enc [OF v(2)])
  finally show "x = y \<and> r = s" by simp
qed

text \<open>Fixed-width encodings: a value of \<open>n\<close> bytes is read back by splitting off \<open>n\<close> bytes.\<close>

definition take_exact :: "nat \<Rightarrow> bytes \<Rightarrow> (bytes \<times> bytes) option" where
  "take_exact n bs = (if n \<le> length bs then Some (take n bs, drop n bs) else None)"

definition u32_of_le :: "bytes \<Rightarrow> (u32 \<times> bytes) option" where
  "u32_of_le bs = map_option (\<lambda>(h, t). (of_nat (le_val h), t)) (take_exact 4 bs)"

definition u64_of_le :: "bytes \<Rightarrow> (u64 \<times> bytes) option" where
  "u64_of_le bs = map_option (\<lambda>(h, t). (of_nat (le_val h), t)) (take_exact 8 bs)"

lemma take_exact_append [simp]: "length x = n \<Longrightarrow> take_exact n (x @ r) = Some (x, r)"
  by (simp add: take_exact_def)

interpretation le32: prefix_code u32_le u32_of_le "\<lambda>_. True"
  by unfold_locales (simp add: u32_of_le_def le_val_u32_le)

interpretation le64: prefix_code u64_le u64_of_le "\<lambda>_. True"
  by unfold_locales (simp add: u64_of_le_def le_val_u64_le)

interpretation hash32: prefix_code "\<lambda>x. x" "take_exact 32" "\<lambda>x. length x = 32"
  by unfold_locales simp

section \<open>Hash collisions\<close>

text \<open>
  Two different inputs with the same hash. What a hash commits to is stated up to such an explicit
  pair.
\<close>

definition collides :: "(bytes \<Rightarrow> bytes) \<Rightarrow> bytes \<Rightarrow> bytes \<Rightarrow> bool" where
  "collides h x y \<longleftrightarrow> x \<noteq> y \<and> h x = h y"

lemma hash_eqD: "h x = h y \<Longrightarrow> x = y \<or> collides h x y"
  by (auto simp: collides_def)

lemma not_collides_id [simp]: "\<not> collides (\<lambda>x. x) x y"
  by (simp add: collides_def)

end
