(* ===== verification/Pb.thy ===== *)
theory Pb
  imports Prelude
begin

text \<open>
  The protobuf messages of the host API (\<open>shiftcrypto.bitbox02.rs\<close>, generated from
  \<open>messages/*.proto\<close>): structs as records, \<open>oneof\<close>s as datatypes, enumerations as datatypes
  with the checked conversion from the wire's \<open>i32\<close>. A message with a single field is a
  synonym of that field's type.
\<close>

type_synonym i32 = int
type_synonym keypath = "u32 list"

section \<open>Keys\<close>

record XPub =
  xp_depth :: bytes
  xp_parent_fingerprint :: bytes
  xp_child_num :: u32
  xp_chain_code :: bytes
  xp_public_key :: bytes

record KeyOriginInfo =
  ko_root_fingerprint :: bytes
  ko_keypath :: keypath
  ko_xpub :: "XPub option"

type_synonym AntiKleptoHostNonceCommitment = bytes
type_synonym AntiKleptoSignerCommitment = bytes
type_synonym AntiKleptoSignatureRequest = bytes

section \<open>Bitcoin\<close>

datatype BtcCoin = Btc | Tbtc | Ltc | Tltc

definition btc_coin_try_from :: "i32 \<Rightarrow> BtcCoin option" where
  "btc_coin_try_from i =
     (if i = 0 then Some Btc else if i = 1 then Some Tbtc
      else if i = 2 then Some Ltc else if i = 3 then Some Tltc else None)"

datatype BtcOutputType = OutUnknown | OutP2pkh | OutP2sh | OutP2wpkh | OutP2wsh | OutP2tr

definition btc_output_type_try_from :: "i32 \<Rightarrow> BtcOutputType option" where
  "btc_output_type_try_from i =
     (if i = 0 then Some OutUnknown else if i = 1 then Some OutP2pkh
      else if i = 2 then Some OutP2sh else if i = 3 then Some OutP2wpkh
      else if i = 4 then Some OutP2wsh else if i = 5 then Some OutP2tr else None)"

datatype SimpleType = P2wpkhP2sh | P2wpkh | P2tr

definition simple_type_try_from :: "i32 \<Rightarrow> SimpleType option" where
  "simple_type_try_from i =
     (if i = 0 then Some P2wpkhP2sh else if i = 1 then Some P2wpkh
      else if i = 2 then Some P2tr else None)"

datatype ScriptType = P2wsh | P2wshP2sh

definition script_type_try_from :: "i32 \<Rightarrow> ScriptType option" where
  "script_type_try_from i = (if i = 0 then Some P2wsh else if i = 1 then Some P2wshP2sh else None)"

datatype FormatUnit = UnitDefault | UnitSat

definition format_unit_try_from :: "i32 \<Rightarrow> FormatUnit option" where
  "format_unit_try_from i =
     (if i = 0 then Some UnitDefault else if i = 1 then Some UnitSat else None)"

datatype XPubType = Tpub | Xpub | Ypub | Zpub | Vpub | Upub
  | CapitalVpub | CapitalZpub | CapitalUpub | CapitalYpub

definition xpub_type_try_from :: "i32 \<Rightarrow> XPubType option" where
  "xpub_type_try_from i =
     (if i = 0 then Some Tpub else if i = 1 then Some Xpub else if i = 2 then Some Ypub
      else if i = 3 then Some Zpub else if i = 4 then Some Vpub else if i = 5 then Some Upub
      else if i = 6 then Some CapitalVpub else if i = 7 then Some CapitalZpub
      else if i = 8 then Some CapitalUpub else if i = 9 then Some CapitalYpub else None)"

datatype RegXPubType = AutoElectrum | AutoXpubTpub

definition reg_xpub_type_try_from :: "i32 \<Rightarrow> RegXPubType option" where
  "reg_xpub_type_try_from i =
     (if i = 0 then Some AutoElectrum else if i = 1 then Some AutoXpubTpub else None)"

record Multisig =
  ms_threshold :: u32
  ms_xpubs :: "XPub list"
  ms_our_xpub_index :: u32
  ms_script_type :: i32

record Policy =
  pol_policy :: string
  pol_keys :: "KeyOriginInfo list"

datatype Config = ConfigSimpleType i32 | ConfigMultisig Multisig | ConfigPolicy Policy

type_synonym BtcScriptConfig = "Config option"

record BtcScriptConfigWithKeypath =
  sck_script_config :: "BtcScriptConfig option"
  sck_keypath :: keypath

datatype PubOutput = OutputXpubType i32 | OutputScriptConfig BtcScriptConfig

record BtcPubRequest =
  bpr_coin :: i32
  bpr_keypath :: keypath
  bpr_display :: bool
  bpr_output :: "PubOutput option"

record BtcSignInitRequest =
  bsi_coin :: i32
  bsi_script_configs :: "BtcScriptConfigWithKeypath list"
  bsi_version :: u32
  bsi_num_inputs :: u32
  bsi_num_outputs :: u32
  bsi_locktime :: u32
  bsi_format_unit :: i32

datatype NextType = NextInput | NextOutput | NextDone | NextPrevtxInit | NextPrevtxInput
  | NextPrevtxOutput | NextHostNonce | NextPaymentRequest

fun next_type_as_i32 :: "NextType \<Rightarrow> i32" where
  "next_type_as_i32 NextInput = 0"
| "next_type_as_i32 NextOutput = 1"
| "next_type_as_i32 NextDone = 2"
| "next_type_as_i32 NextPrevtxInit = 3"
| "next_type_as_i32 NextPrevtxInput = 4"
| "next_type_as_i32 NextPrevtxOutput = 5"
| "next_type_as_i32 NextHostNonce = 6"
| "next_type_as_i32 NextPaymentRequest = 7"

record BtcSignNextResponse =
  bsn_type :: i32
  bsn_index :: u32
  bsn_has_signature :: bool
  bsn_signature :: bytes
  bsn_prev_index :: u32
  bsn_anti_klepto_signer_commitment :: "AntiKleptoSignerCommitment option"

record BtcSignInputRequest =
  txi_prev_out_hash :: bytes
  txi_prev_out_index :: u32
  txi_prev_out_value :: u64
  txi_sequence :: u32
  txi_keypath :: keypath
  txi_script_config_index :: u32
  txi_host_nonce_commitment :: "AntiKleptoHostNonceCommitment option"

record BtcSignOutputRequest =
  txo_ours :: bool
  txo_type :: i32
  txo_value :: u64
  txo_payload :: bytes
  txo_keypath :: keypath
  txo_script_config_index :: u32
  txo_payment_request_index :: "u32 option"

record BtcScriptConfigRegistration =
  reg_coin :: i32
  reg_script_config :: "BtcScriptConfig option"
  reg_keypath :: keypath

type_synonym BtcIsScriptConfigRegisteredRequest = "BtcScriptConfigRegistration option"

record BtcRegisterScriptConfigRequest =
  rsc_registration :: "BtcScriptConfigRegistration option"
  rsc_name :: string
  rsc_xpub_type :: i32

record BtcPrevTxInitRequest =
  pti_version :: u32
  pti_num_inputs :: u32
  pti_num_outputs :: u32
  pti_locktime :: u32

record BtcPrevTxInputRequest =
  ptin_prev_out_hash :: bytes
  ptin_prev_out_index :: u32
  ptin_signature_script :: bytes
  ptin_sequence :: u32

record BtcPrevTxOutputRequest =
  ptout_value :: u64
  ptout_pubkey_script :: bytes

text \<open>A memo is an optional \<open>oneof\<close> whose only case is a text note.\<close>

datatype Memo = TextMemo string

record BtcPaymentRequestRequest =
  pr_recipient_name :: string
  pr_memos :: "Memo option list"
  pr_nonce :: bytes
  pr_total_amount :: u64
  pr_signature :: bytes

record BtcSignMessageRequest =
  bsm_coin :: i32
  bsm_script_config :: "BtcScriptConfigWithKeypath option"
  bsm_msg :: bytes
  bsm_host_nonce_commitment :: "AntiKleptoHostNonceCommitment option"

datatype BtcRequest =
    BtcIsScriptConfigRegistered BtcIsScriptConfigRegisteredRequest
  | BtcRegisterScriptConfig BtcRegisterScriptConfigRequest
  | BtcPrevtxInit BtcPrevTxInitRequest
  | BtcPrevtxInput BtcPrevTxInputRequest
  | BtcPrevtxOutput BtcPrevTxOutputRequest
  | BtcSignMessage BtcSignMessageRequest
  | BtcAntikleptoSignature AntiKleptoSignatureRequest
  | BtcPaymentRequest BtcPaymentRequestRequest

datatype BtcResponse =
    BtcRespSuccess
  | BtcRespIsScriptConfigRegistered bool
  | BtcRespSignNext BtcSignNextResponse
  | BtcRespSignMessage bytes
  | BtcRespAntikleptoSignerCommitment AntiKleptoSignerCommitment

section \<open>Ethereum\<close>

datatype EthCoin = Eth | RopstenEth | RinkebyEth

definition eth_coin_try_from :: "i32 \<Rightarrow> EthCoin option" where
  "eth_coin_try_from i =
     (if i = 0 then Some Eth else if i = 1 then Some RopstenEth
      else if i = 2 then Some RinkebyEth else None)"

datatype EthOutputType = EthOutAddress | EthOutXpub

definition eth_output_type_try_from :: "i32 \<Rightarrow> EthOutputType option" where
  "eth_output_type_try_from i =
     (if i = 0 then Some EthOutAddress else if i = 1 then Some EthOutXpub else None)"

record EthPubRequest =
  epr_keypath :: keypath
  epr_coin :: i32
  epr_output_type :: i32
  epr_display :: bool
  epr_contract_address :: bytes
  epr_chain_id :: u64

record EthSignRequest =
  esr_coin :: i32
  esr_keypath :: keypath
  esr_nonce :: bytes
  esr_gas_price :: bytes
  esr_gas_limit :: bytes
  esr_recipient :: bytes
  esr_value :: bytes
  esr_data :: bytes
  esr_host_nonce_commitment :: "AntiKleptoHostNonceCommitment option"
  esr_chain_id :: u64

record EthSignEip1559Request =
  e1559_chain_id :: u64
  e1559_keypath :: keypath
  e1559_nonce :: bytes
  e1559_max_priority_fee_per_gas :: bytes
  e1559_max_fee_per_gas :: bytes
  e1559_gas_limit :: bytes
  e1559_recipient :: bytes
  e1559_value :: bytes
  e1559_data :: bytes
  e1559_host_nonce_commitment :: "AntiKleptoHostNonceCommitment option"

record EthSignMessageRequest =
  esm_coin :: i32
  esm_keypath :: keypath
  esm_msg :: bytes
  esm_host_nonce_commitment :: "AntiKleptoHostNonceCommitment option"
  esm_chain_id :: u64

datatype DataType = DtUnknown | DtBytes | DtUint | DtInt | DtBool | DtAddress | DtString | DtArray
  | DtStruct

definition data_type_try_from :: "i32 \<Rightarrow> DataType option" where
  "data_type_try_from i =
     (if i = 0 then Some DtUnknown else if i = 1 then Some DtBytes else if i = 2 then Some DtUint
      else if i = 3 then Some DtInt else if i = 4 then Some DtBool else if i = 5 then Some DtAddress
      else if i = 6 then Some DtString else if i = 7 then Some DtArray
      else if i = 8 then Some DtStruct else None)"

datatype RootObject = RootUnknown | RootDomain | RootMessage

fun root_object_as_i32 :: "RootObject \<Rightarrow> i32" where
  "root_object_as_i32 RootUnknown = 0"
| "root_object_as_i32 RootDomain = 1"
| "root_object_as_i32 RootMessage = 2"

datatype MemberType = MemberType
  (mt_type: i32) (mt_size: u32) (mt_struct_name: string) (mt_array_type: "MemberType option")

record Member =
  mem_name :: string
  mem_type :: "MemberType option"

record StructType =
  st_name :: string
  st_members :: "Member list"

record EthSignTypedMessageRequest =
  etm_chain_id :: u64
  etm_keypath :: keypath
  etm_types :: "StructType list"
  etm_primary_type :: string
  etm_host_nonce_commitment :: "AntiKleptoHostNonceCommitment option"

record EthTypedMessageValueResponse =
  tmv_root_object :: i32
  tmv_path :: "u32 list"

datatype EthRequest =
    EthPub EthPubRequest
  | EthSign EthSignRequest
  | EthSignMsg EthSignMessageRequest
  | EthAntikleptoSignature AntiKleptoSignatureRequest
  | EthSignTypedMsg EthSignTypedMessageRequest
  | EthTypedMsgValue bytes
  | EthSignEip1559 EthSignEip1559Request

datatype EthResponse =
    EthRespPub string
  | EthRespSign bytes
  | EthRespAntikleptoSignerCommitment AntiKleptoSignerCommitment
  | EthRespTypedMsgValue EthTypedMessageValueResponse

section \<open>Cardano\<close>

datatype CardanoNetwork = CardanoMainnet | CardanoTestnet

definition cardano_network_try_from :: "i32 \<Rightarrow> CardanoNetwork option" where
  "cardano_network_try_from i =
     (if i = 0 then Some CardanoMainnet else if i = 1 then Some CardanoTestnet else None)"

record PkhSkh =
  pkh_keypath_payment :: keypath
  pkh_keypath_stake :: keypath

type_synonym CardanoScriptConfig = "PkhSkh option"

record CardanoAddressRequest =
  car_network :: i32
  car_display :: bool
  car_script_config :: "CardanoScriptConfig option"

record CardanoInput =
  cin_keypath :: keypath
  cin_prev_out_hash :: bytes
  cin_prev_out_index :: u32

record CardanoToken =
  ctok_asset_name :: bytes
  ctok_value :: u64

record CardanoAssetGroup =
  cag_policy_id :: bytes
  cag_tokens :: "CardanoToken list"

record CardanoOutput =
  cout_encoded_address :: string
  cout_value :: u64
  cout_script_config :: "CardanoScriptConfig option"
  cout_asset_groups :: "CardanoAssetGroup list"

datatype CardanoCert =
    StakeRegistration keypath
  | StakeDeregistration keypath
  | StakeDelegation keypath bytes

record CardanoWithdrawal =
  cwd_keypath :: keypath
  cwd_value :: u64

record CardanoSignTransactionRequest =
  cst_network :: i32
  cst_inputs :: "CardanoInput list"
  cst_outputs :: "CardanoOutput list"
  cst_fee :: u64
  cst_ttl :: u64
  cst_certificates :: "CardanoCert option list"
  cst_withdrawals :: "CardanoWithdrawal list"
  cst_validity_interval_start :: u64
  cst_allow_zero_ttl :: bool

record ShelleyWitness =
  sw_public_key :: bytes
  sw_signature :: bytes

datatype CardanoRequest =
    CardanoXpubs "keypath list"
  | CardanoAddress CardanoAddressRequest
  | CardanoSignTransaction CardanoSignTransactionRequest

datatype CardanoResponse =
    CardanoRespXpubs "bytes list"
  | CardanoRespPub string
  | CardanoRespSignTransaction "ShelleyWitness list"

section \<open>Device management\<close>

record CreateBackupRequest =
  cbr_timestamp :: u32
  cbr_timezone_offset :: i32

record BackupInfo =
  bi_id :: string
  bi_timestamp :: u32
  bi_name :: string

record RestoreBackupRequest =
  rbr_id :: string
  rbr_timestamp :: u32
  rbr_timezone_offset :: i32

record RestoreFromMnemonicRequest =
  rfm_timestamp :: u32
  rfm_timezone_offset :: i32

record DeviceInfoResponse =
  di_name :: string
  di_initialized :: bool
  di_version :: string
  di_mnemonic_passphrase_enabled :: bool
  di_monotonic_increments_remaining :: u32
  di_securechip_model :: string

record PerformAttestationResponse =
  pa_bootloader_hash :: bytes
  pa_device_pubkey :: bytes
  pa_certificate :: bytes
  pa_root_pubkey_identifier :: bytes
  pa_challenge_signature :: bytes

datatype SdCardAction = RemoveCard | InsertCard

definition sd_card_action_try_from :: "i32 \<Rightarrow> SdCardAction option" where
  "sd_card_action_try_from i =
     (if i = 0 then Some RemoveCard else if i = 1 then Some InsertCard else None)"

datatype Purpose = Upgrade | Settings

definition purpose_try_from :: "i32 \<Rightarrow> Purpose option" where
  "purpose_try_from i = (if i = 0 then Some Upgrade else if i = 1 then Some Settings else None)"

record PbError =
  pe_code :: i32
  pe_message :: string

datatype Bip85App = Bip85Bip39 | Bip85Ln u32

datatype Bip85RespApp = Bip85RespBip39 | Bip85RespLn bytes

section \<open>Backup files\<close>

record BackupData =
  bd_seed_length :: u32
  bd_seed :: bytes
  bd_birthdate :: u32
  bd_generator :: string

record BackupMetaData =
  bm_timestamp :: u32
  bm_name :: string
  bm_mode :: i32

record BackupContent =
  bc_checksum :: bytes
  bc_metadata :: "BackupMetaData option"
  bc_length :: u32
  bc_data :: bytes

text \<open>The only version is version 1, a message with an optional content.\<close>

datatype BackupVersion = BackupV1 "BackupContent option"

type_synonym Backup = "BackupVersion option"

section \<open>Top-level requests and responses\<close>

datatype Request =
    ReqDeviceName string
  | ReqDeviceLanguage string
  | ReqDeviceInfo
  | ReqSetPassword bytes
  | ReqCreateBackup CreateBackupRequest
  | ReqShowMnemonic
  | ReqBtcPub BtcPubRequest
  | ReqBtcSignInit BtcSignInitRequest
  | ReqBtcSignInput BtcSignInputRequest
  | ReqBtcSignOutput BtcSignOutputRequest
  | ReqInsertRemoveSdcard i32
  | ReqCheckSdcard
  | ReqSetMnemonicPassphraseEnabled bool
  | ReqListBackups
  | ReqRestoreBackup RestoreBackupRequest
  | ReqPerformAttestation bytes
  | ReqReboot i32
  | ReqCheckBackup bool
  | ReqEth "EthRequest option"
  | ReqReset
  | ReqRestoreFromMnemonic RestoreFromMnemonicRequest
  | ReqFingerprint
  | ReqBtc "BtcRequest option"
  | ReqElectrumEncryptionKey keypath
  | ReqCardano "CardanoRequest option"
  | ReqBip85 "Bip85App option"

datatype Response =
    RespSuccess
  | RespError PbError
  | RespDeviceInfo DeviceInfoResponse
  | RespPub string
  | RespBtcSignNext BtcSignNextResponse
  | RespListBackups "BackupInfo list"
  | RespCheckBackup string
  | RespPerformAttestation PerformAttestationResponse
  | RespCheckSdcard bool
  | RespEth "EthResponse option"
  | RespFingerprint bytes
  | RespBtc "BtcResponse option"
  | RespElectrumEncryptionKey string
  | RespCardano "CardanoResponse option"
  | RespBip85 "Bip85RespApp option"

end
