(* ===== verification/Util_Fmt.thy ===== *)
theory Util_Fmt
  imports Prelude
begin

text \<open>
  The \<open>util\<close> crate: decimal formatting of amounts (\<open>util/src/decimal.rs\<close>), printing of BIP32
  keypaths (\<open>util/src/bip32.rs\<close>), the printable-ASCII check (\<open>util/src/ascii.rs\<close>) and the
  validation of names (\<open>util/src/name.rs\<close>). The theorems say that what is shown determines what
  is meant: an amount and a keypath can be read back from the text on the screen.
\<close>

section \<open>Numbers\<close>

definition digit_char :: "nat \<Rightarrow> char" where
  "digit_char d = char_of (48 + d)"

definition digit_val :: "char \<Rightarrow> nat" where
  "digit_val c = of_char c - 48"

definition is_digit :: "char \<Rightarrow> bool" where
  "is_digit c \<longleftrightarrow> 48 \<le> (of_char c :: nat) \<and> (of_char c :: nat) \<le> 57"

text \<open>\<open>to_string\<close> of an unsigned integer.\<close>

fun show_nat :: "nat \<Rightarrow> string" where
  "show_nat n = (if n < 10 then [digit_char n] else show_nat (n div 10) @ [digit_char (n mod 10)])"

declare show_nat.simps [simp del]

definition digits_val :: "string \<Rightarrow> nat" where
  "digits_val s = foldl (\<lambda>a c. 10 * a + digit_val c) 0 s"

lemma digit_char_digit [simp]: "d < 10 \<Longrightarrow> is_digit (digit_char d)"
  by (simp add: is_digit_def digit_char_def)

lemma digit_val_digit_char [simp]: "d < 10 \<Longrightarrow> digit_val (digit_char d) = d"
  by (simp add: digit_val_def digit_char_def)

lemma digits_val_snoc [simp]: "digits_val (s @ [c]) = 10 * digits_val s + digit_val c"
  by (simp add: digits_val_def)

lemma digits_val_Nil [simp]: "digits_val [] = 0"
  by (simp add: digits_val_def)

lemma digits_val_show_nat [simp]: "digits_val (show_nat n) = n"
proof (induction n rule: show_nat.induct)
  case (1 n)
  show ?case
  proof (cases "n < 10")
    case True
    then have "show_nat n = [] @ [digit_char n]" by (simp add: show_nat.simps)
    then show ?thesis using True by (simp only: digits_val_snoc) simp
  next
    case False
    then have "show_nat n = show_nat (n div 10) @ [digit_char (n mod 10)]"
      by (subst show_nat.simps) simp
    with 1 False show ?thesis by simp
  qed
qed

lemma show_nat_digits: "list_all is_digit (show_nat n)"
proof (induction n rule: show_nat.induct)
  case (1 n)
  then show ?case by (subst show_nat.simps) (auto simp: list_all_iff)
qed

lemma show_nat_nonempty [simp]: "show_nat n \<noteq> []"
  by (subst show_nat.simps) simp

lemma show_nat_inj: "show_nat m = show_nat n \<longleftrightarrow> m = n"
  by (metis digits_val_show_nat)

lemma digits_val_zeros: "digits_val (replicate k CHR ''0'' @ s) = digits_val s"
proof -
  have "foldl (\<lambda>a c. 10 * a + digit_val c) 0 (replicate k CHR ''0'') = 0"
    by (induction k) (auto simp: digit_val_def)
  then show ?thesis by (simp add: digits_val_def)
qed

section \<open>Decimal formatting\<close>

text \<open>\<open>format!("{:0>width$}", s)\<close>, \<open>String::insert\<close> and \<open>str::trim_end_matches\<close>.\<close>

definition pad_left :: "nat \<Rightarrow> string \<Rightarrow> string" where
  "pad_left w s = replicate (w - length s) CHR ''0'' @ s"

definition insert_at :: "nat \<Rightarrow> char \<Rightarrow> string \<Rightarrow> string" where
  "insert_at i c s = take i s @ c # drop i s"

definition trim_end_matches :: "char \<Rightarrow> string \<Rightarrow> string" where
  "trim_end_matches c s = rev (dropWhile (\<lambda>d. d = c) (rev s))"

definition decimal_format :: "nat \<Rightarrow> nat \<Rightarrow> string" where
  "decimal_format v decimals =
     (let v = pad_left (decimals + 1) (show_nat v);
          v = insert_at (length v - decimals) CHR ''.'' v
      in trim_end_matches CHR ''.'' (trim_end_matches CHR ''0'' v))"

definition decimal_format_no_trim :: "nat \<Rightarrow> nat \<Rightarrow> string" where
  "decimal_format_no_trim v decimals =
     (let v = pad_left (decimals + 1) (show_nat v)
      in if 0 < decimals then insert_at (length v - decimals) CHR ''.'' v else v)"

section \<open>Character sets and names\<close>

datatype Charset = All | AllNewline

definition is_printable_ascii :: "bytes \<Rightarrow> Charset \<Rightarrow> bool" where
  "is_printable_ascii bs charset =
     list_all (\<lambda>b. (32 \<le> b \<and> b \<le> 126) \<or> (charset = AllNewline \<and> b = 10)) bs"

definition name_validate :: "string \<Rightarrow> nat \<Rightarrow> bool" where
  "name_validate name max_len =
     (if name = [] \<or> length name > max_len then False
      else if \<not> is_printable_ascii (as_bytes name) All then False
      else if hd (as_bytes name) = 32 \<or> last (as_bytes name) = 32 then False
      else True)"

text \<open>
  \<open>bitbox02::util::truncate_str\<close>: slicing a \<open>str\<close> panics unless the cut is a character
  boundary, i.e.\ unless the byte there is not a UTF-8 continuation byte.
\<close>

definition is_char_boundary :: "string \<Rightarrow> nat \<Rightarrow> bool" where
  "is_char_boundary s i \<longleftrightarrow>
     i = length s \<or> (i < length s \<and> \<not> (128 \<le> as_bytes s ! i \<and> as_bytes s ! i < 192))"

definition truncate_str :: "string \<Rightarrow> nat \<Rightarrow> ('e, string) result" where
  "truncate_str s len =
     (if length s > len then (if is_char_boundary s len then Ok (take len s) else Panic) else Ok s)"

text \<open>\<open>str_to_cstr_vec\<close>: the string with a terminator, unless it contains one.\<close>

definition str_to_cstr_vec :: "string \<Rightarrow> bytes option" where
  "str_to_cstr_vec s = (if 0 \<in> set (as_bytes s) then None else Some (as_bytes s @ [0]))"

section \<open>Keypaths\<close>

definition HARDENED :: u32 where
  "HARDENED = 0x80000000"

fun join :: "string \<Rightarrow> string list \<Rightarrow> string" where
  "join sep [] = []"
| "join sep [x] = x"
| "join sep (x # y # xs) = x @ sep @ join sep (y # xs)"

definition el_to_string :: "u32 \<Rightarrow> string" where
  "el_to_string el =
     (if HARDENED \<le> el then show_nat (unat (el - HARDENED)) @ [CHR 0x27] else show_nat (unat el))"

definition to_string_no_prefix :: "u32 list \<Rightarrow> string" where
  "to_string_no_prefix keypath = join ''/'' (map el_to_string keypath)"

definition keypath_to_string :: "u32 list \<Rightarrow> string" where
  "keypath_to_string keypath = ''m/'' @ to_string_no_prefix keypath"

section \<open>Reading an amount back\<close>

text \<open>
  A reader of decimal numbers with at most \<open>d\<close> places after the point, giving the value
  scaled by \<open>10 ^ d\<close>.
\<close>

definition parse_decimal :: "nat \<Rightarrow> string \<Rightarrow> nat option" where
  "parse_decimal d s =
     (let ip = takeWhile (\<lambda>c. c \<noteq> CHR ''.'') s;
          fp = drop (Suc (length ip)) s
      in if ip \<noteq> [] \<and> list_all is_digit (ip @ fp) \<and> length fp \<le> d
         then Some (digits_val (ip @ fp @ replicate (d - length fp) CHR ''0'')) else None)"

lemma not_digit_dot [simp]: "\<not> is_digit CHR ''.''"
  by (simp add: is_digit_def)

lemma digits_no_dot: "list_all is_digit s \<Longrightarrow> c \<in> set s \<Longrightarrow> c \<noteq> CHR ''.''"
  by (auto simp: list_all_iff)

lemma parse_decimal_point:
  assumes "ip \<noteq> []" and "list_all is_digit (ip @ fp)" and "length fp \<le> d"
  shows "parse_decimal d (ip @ (if fp = [] then [] else CHR ''.'' # fp))
       = Some (digits_val (ip @ fp @ replicate (d - length fp) CHR ''0''))"
proof -
  have "takeWhile (\<lambda>c. c \<noteq> CHR ''.'') (ip @ (if fp = [] then [] else CHR ''.'' # fp)) = ip"
    using assms(2) digits_no_dot [of ip]
    by (subst takeWhile_append2) auto
  then show ?thesis using assms by (simp add: parse_decimal_def Let_def)
qed

lemma pad_left_digits: "list_all is_digit s \<Longrightarrow> list_all is_digit (pad_left w s)"
  by (auto simp: pad_left_def list_all_iff is_digit_def)

lemma length_pad_left: "length (pad_left w s) = max w (length s)"
  by (simp add: pad_left_def)

lemma trim_end_matches_cut:
  "s = trim_end_matches c s @ replicate (length s - length (trim_end_matches c s)) c"
proof -
  have *: "t = takeWhile (\<lambda>d. d = c) t @ dropWhile (\<lambda>d. d = c) t" for t by simp
  have rep: "takeWhile (\<lambda>d. d = c) t = replicate (length (takeWhile (\<lambda>d. d = c) t)) c" for t
    by (rule replicate_eqI [symmetric, THEN sym]) (auto dest: set_takeWhileD)
  have "s = rev (rev s)" by simp
  also have "\<dots> = rev (dropWhile (\<lambda>d. d = c) (rev s)) @ rev (takeWhile (\<lambda>d. d = c) (rev s))"
    by (subst * [of "rev s"]) (simp only: rev_append)
  also have "rev (takeWhile (\<lambda>d. d = c) (rev s))
      = replicate (length (takeWhile (\<lambda>d. d = c) (rev s))) c"
    by (subst rep) simp
  finally have eq: "s = trim_end_matches c s @ replicate (length (takeWhile (\<lambda>d. d = c) (rev s))) c"
    by (simp add: trim_end_matches_def)
  then have "length (takeWhile (\<lambda>d. d = c) (rev s)) = length s - length (trim_end_matches c s)"
    by (metis add_diff_cancel_left' length_append length_replicate)
  with eq show ?thesis by simp
qed

lemma trim_end_matches_length: "length (trim_end_matches c s) \<le> length s"
  by (simp add: trim_end_matches_def) (metis length_dropWhile_le length_rev)

lemma trim_end_matches_last:
  "trim_end_matches c s \<noteq> [] \<Longrightarrow> last (trim_end_matches c s) \<noteq> c"
  using hd_dropWhile [of "\<lambda>d. d = c" "rev s"] by (auto simp: trim_end_matches_def last_rev)

lemma trim_end_matches_noop: "s = [] \<or> last s \<noteq> c \<Longrightarrow> trim_end_matches c s = s"
  by (cases s rule: rev_cases) (auto simp: trim_end_matches_def)

lemma trim_end_matches_append:
  "trim_end_matches c (a @ b)
     = (if trim_end_matches c b = [] then trim_end_matches c a else a @ trim_end_matches c b)"
  by (auto simp: trim_end_matches_def dropWhile_append)

lemma trim_point:
  assumes "ip \<noteq> []" and "CHR ''.'' \<notin> set (ip @ fp)"
  shows "trim_end_matches CHR ''.'' (trim_end_matches CHR ''0'' (ip @ CHR ''.'' # fp))
       = ip @ (if trim_end_matches CHR ''0'' fp = [] then []
               else CHR ''.'' # trim_end_matches CHR ''0'' fp)"
proof -
  let ?f = "trim_end_matches CHR ''0'' fp"
  have last: "last ip \<noteq> CHR ''.''" using assms by (metis Un_iff last_in_set set_append)
  have step: "trim_end_matches CHR ''0'' (ip @ CHR ''.'' # fp) = ip @ CHR ''.'' # ?f"
    using trim_end_matches_append [of "CHR ''0''" "ip @ [CHR ''.'']" fp]
    by (auto simp: trim_end_matches_noop)
  have sub: "set ?f \<subseteq> set fp"
    using set_dropWhileD [of _ _ "rev fp"] by (auto simp: trim_end_matches_def)
  show ?thesis
  proof (cases "?f = []")
    case True
    then show ?thesis
      using last assms(1) unfolding step
      by (simp add: trim_end_matches_append [of _ ip "[CHR ''.'']"] trim_end_matches_noop)
        (simp add: trim_end_matches_def)
  next
    case False
    then have "last ?f \<in> set fp" using sub last_in_set by blast
    then have "last ?f \<noteq> CHR ''.''" using assms(2) by auto
    then show ?thesis using False unfolding step by (simp add: trim_end_matches_noop)
  qed
qed

text \<open>The padded digits split into an integer part and \<open>d\<close> places.\<close>

lemma padded_split:
  assumes "v' = pad_left (d + 1) (show_nat v)"
  shows "take (length v' - d) v' \<noteq> []" and "length (drop (length v' - d) v') = d"
    and "list_all is_digit v'" and "digits_val v' = v"
proof -
  have len: "d < length v'" using assms by (simp add: length_pad_left)
  then show "take (length v' - d) v' \<noteq> []" by auto
  from len show "length (drop (length v' - d) v') = d" by simp
  show "list_all is_digit v'" using assms by (simp add: pad_left_digits show_nat_digits)
  show "digits_val v' = v" using assms by (simp add: pad_left_def digits_val_zeros)
qed

text \<open>
  A formatted amount reads back as the amount it stands for, with trailing zeroes trimmed or not.
\<close>

lemma decimal_format_roundtrip:
  "parse_decimal d (decimal_format v d) = Some v
   \<and> parse_decimal d (decimal_format_no_trim v d) = Some v"
proof -
  define v' where "v' = pad_left (d + 1) (show_nat v)"
  define ip where "ip = take (length v' - d) v'"
  define fp where "fp = drop (length v' - d) v'"
  note sp = padded_split [OF v'_def]
  have ip: "ip \<noteq> []" and fp: "length fp = d" and cat: "ip @ fp = v'"
    using sp(1,2) by (simp_all add: ip_def fp_def)
  have dig: "list_all is_digit (ip @ fp)" using sp(3) cat by simp
  then have dot: "CHR ''.'' \<notin> set (ip @ fp)" using digits_no_dot by blast
  let ?f = "trim_end_matches CHR ''0'' fp"
  have cut: "?f @ replicate (d - length ?f) CHR ''0'' = fp"
    using trim_end_matches_cut [of fp "CHR ''0''"] fp by simp
  have digf: "list_all is_digit (ip @ ?f)"
    using dig cut by (metis list_all_append)
  have "decimal_format v d = ip @ (if ?f = [] then [] else CHR ''.'' # ?f)"
    unfolding decimal_format_def Let_def insert_at_def v'_def [symmetric] ip_def [symmetric]
      fp_def [symmetric]
    by (rule trim_point [OF ip dot])
  then have one: "parse_decimal d (decimal_format v d) = Some v"
    using parse_decimal_point [OF ip digf] cut sp(4) cat fp trim_end_matches_length [of _ fp]
    by simp
  have "decimal_format_no_trim v d = ip @ (if fp = [] then [] else CHR ''.'' # fp)"
    unfolding decimal_format_no_trim_def Let_def insert_at_def v'_def [symmetric] ip_def [symmetric]
      fp_def [symmetric]
    using fp cat by auto
  then have two: "parse_decimal d (decimal_format_no_trim v d) = Some v"
    using parse_decimal_point [OF ip dig] sp(4) cat fp by simp
  from one two show ?thesis ..
qed

section \<open>Reading a keypath back\<close>

lemma show_nat_no_slash: "CHR ''/'' \<notin> set (show_nat n)" "CHR 0x27 \<notin> set (show_nat n)"
  using show_nat_digits [of n] by (auto simp: list_all_iff is_digit_def)

lemma el_to_string_no_slash: "CHR ''/'' \<notin> set (el_to_string el)"
  by (auto simp: el_to_string_def show_nat_no_slash)

lemma el_to_string_nonempty: "el_to_string el \<noteq> []"
  by (simp add: el_to_string_def)

lemma el_to_string_inj: "el_to_string a = el_to_string b \<longleftrightarrow> a = b"
proof
  assume eq: "el_to_string a = el_to_string b"
  have "last (show_nat n) \<noteq> CHR 0x27" for n
    using show_nat_no_slash(2) by (metis last_in_set show_nat_nonempty)
  then have mark: "last (el_to_string x) = CHR 0x27 \<longleftrightarrow> HARDENED \<le> x" for x
    by (simp add: el_to_string_def)
  with eq have "HARDENED \<le> a \<longleftrightarrow> HARDENED \<le> b" by metis
  with eq have "unat (a - HARDENED) = unat (b - HARDENED) \<or> unat a = unat b"
    by (auto simp: el_to_string_def show_nat_inj split: if_splits)
  then show "a = b" by (auto simp flip: word_unat_eq_iff)
qed simp

lemma join_slash_inj:
  assumes "\<And>x. x \<in> set xs \<union> set ys \<Longrightarrow> x \<noteq> [] \<and> CHR ''/'' \<notin> set x"
    and "join ''/'' xs = join ''/'' ys"
  shows "xs = ys"
  using assms
proof (induction xs arbitrary: ys)
  case Nil
  then show ?case by (cases ys rule: list.exhaust; cases "tl ys") auto
next
  case (Cons x xs)
  have split: "join ''/'' (z # zs) = z @ (if zs = [] then [] else CHR ''/'' # join ''/'' zs)" for z zs
    by (cases zs) auto
  from Cons.prems obtain y ys' where ys: "ys = y # ys'"
    by (cases ys) (auto simp: split)
  have cut: "takeWhile (\<lambda>c. c \<noteq> CHR ''/'') (z @ (if zs = [] then [] else CHR ''/'' # join ''/'' zs)) = z"
    if "CHR ''/'' \<notin> set z" for z zs
    using that by (subst takeWhile_append2) (auto intro: ccontr)
  from Cons.prems have eq: "x @ (if xs = [] then [] else CHR ''/'' # join ''/'' xs)
      = y @ (if ys' = [] then [] else CHR ''/'' # join ''/'' ys')"
    by (simp add: ys split)
  then have "x = y" using cut [of x xs] cut [of y ys'] Cons.prems(1) by (auto simp: ys)
  with eq have "xs = [] \<longleftrightarrow> ys' = []" and "join ''/'' xs = join ''/'' ys'"
    by (auto split: if_splits)
  with Cons show ?case using \<open>x = y\<close> by (auto simp: ys)
qed

text \<open>
  C23: the text shown for a keypath determines the keypath: no two keypaths are displayed alike.
\<close>

theorem keypath_to_string_inj: "keypath_to_string kp = keypath_to_string kp' \<longleftrightarrow> kp = kp'"
proof
  assume "keypath_to_string kp = keypath_to_string kp'"
  then have "join ''/'' (map el_to_string kp) = join ''/'' (map el_to_string kp')"
    by (simp add: keypath_to_string_def to_string_no_prefix_def)
  then have "map el_to_string kp = map el_to_string kp'"
    by (rule join_slash_inj [rotated]) (auto simp: el_to_string_nonempty el_to_string_no_slash)
  then show "kp = kp'" by (simp add: inj_map_eq_map inj_def el_to_string_inj)
qed simp

end
