(* ===== verification/F64.thy ===== *)
theory F64
  imports Util_Fmt Complex_Main "HOL-Library.Log_Nat"
begin

text \<open>
  The part of IEEE-754 double arithmetic the fee warning uses: non-negative values, conversion from
  an unsigned integer, multiplication and division rounded to 53 significant bits, ties to even,
  comparison, and formatting with one decimal place.
\<close>

datatype f64 = Fin rat | PosInf | FNaN

definition round_even :: "rat \<Rightarrow> int" where
  "round_even x = (let n = \<lfloor>x\<rfloor>; r = x - of_int n in
     if r < 1/2 then n else if r > 1/2 then n + 1 else if even n then n else n + 1)"

text \<open>The exponent \<open>k\<close> with \<open>2 powi k \<le> x < 2 powi (k + 1)\<close> of a positive \<open>x\<close>.\<close>

definition log2_floor :: "rat \<Rightarrow> int" where
  "log2_floor x = (let (n, d) = quotient_of x; k = bitlen n - bitlen d in
     if (2::rat) powi k \<le> x then k else k - 1)"

definition round53 :: "rat \<Rightarrow> rat" where
  "round53 x = (if x = 0 then 0 else
     (let e = log2_floor x - 52 in of_int (round_even (x * 2 powi (- e))) * 2 powi e))"

text \<open>\<open>n as f64\<close>.\<close>

definition f64_of_nat :: "nat \<Rightarrow> f64" where
  "f64_of_nat n = Fin (round53 (of_nat n))"

fun f64_mul :: "f64 \<Rightarrow> f64 \<Rightarrow> f64" where
  "f64_mul (Fin a) (Fin b) = Fin (round53 (a * b))"
| "f64_mul (Fin a) PosInf = (if a = 0 then FNaN else PosInf)"
| "f64_mul PosInf (Fin a) = (if a = 0 then FNaN else PosInf)"
| "f64_mul PosInf PosInf = PosInf"
| "f64_mul _ _ = FNaN"

fun f64_div :: "f64 \<Rightarrow> f64 \<Rightarrow> f64" where
  "f64_div (Fin a) (Fin b) =
     (if b = 0 then (if a = 0 then FNaN else PosInf) else Fin (round53 (a / b)))"
| "f64_div (Fin a) PosInf = Fin 0"
| "f64_div PosInf (Fin a) = PosInf"
| "f64_div _ _ = FNaN"

fun f64_ge :: "f64 \<Rightarrow> rat \<Rightarrow> bool" where
  "f64_ge (Fin a) b = (b \<le> a)"
| "f64_ge PosInf b = True"
| "f64_ge FNaN b = False"

text \<open>\<open>format!("{:.1}", x)\<close>.\<close>

fun fmt_1 :: "f64 \<Rightarrow> string" where
  "fmt_1 (Fin a) = (let n = nat (round_even (a * 10)) in
     show_nat (n div 10) @ ''.'' @ show_nat (n mod 10))"
| "fmt_1 PosInf = ''inf''"
| "fmt_1 FNaN = ''NaN''"

text \<open>\<open>100. * (fee as f64) / (amount as f64)\<close>.\<close>

definition percentage_f64 :: "nat \<Rightarrow> nat \<Rightarrow> f64" where
  "percentage_f64 fee amount =
     f64_div (f64_mul (Fin 100) (f64_of_nat fee)) (f64_of_nat amount)"

section \<open>Laws\<close>

lemma round_even_of_int [simp]: "round_even (of_int n) = n"
  by (simp add: round_even_def)

lemma round_even_ge:
  assumes "of_int n \<le> x"
  shows "n \<le> round_even x"
proof -
  have "n \<le> \<lfloor>x\<rfloor>" using assms by (simp add: le_floor_iff)
  then show ?thesis by (simp add: round_even_def Let_def)
qed

lemma round_even_less:
  assumes "x < of_int n - 1/2"
  shows "round_even x < n"
proof -
  have "\<lfloor>x\<rfloor> < n" using assms by (simp add: floor_less_iff)
  then consider "\<lfloor>x\<rfloor> = n - 1" | "\<lfloor>x\<rfloor> + 1 < n" by linarith
  then show ?thesis
  proof cases
    case 1
    then have "x - of_int \<lfloor>x\<rfloor> < 1/2" using assms by simp
    with 1 show ?thesis by (simp add: round_even_def Let_def)
  next
    case 2
    then show ?thesis by (simp add: round_even_def Let_def)
  qed
qed

lemma round_even_le:
  assumes "x \<le> of_int n"
  shows "round_even x \<le> n"
proof (cases "x = of_int n")
  case False
  then have "\<lfloor>x\<rfloor> < n" using assms by (simp add: floor_less_iff)
  then show ?thesis by (simp add: round_even_def Let_def)
qed simp

lemma powi_less_iff: "(2::rat) powi a < 2 powi b \<longleftrightarrow> a < b"
proof
  show "a < b" if "(2::rat) powi a < 2 powi b"
    using that power_int_increasing [of b a "2::rat"] by (meson leI not_le one_le_numeral)
qed (simp add: power_int_strict_increasing)

lemma pow_powi: "(2::rat) ^ n * 2 powi k = 2 powi (int n + k)"
  by (simp add: power_int_add)

lemma bitlen_pow_bounds:
  assumes "0 < n"
  shows "(2::rat) powi (bitlen n - 1) \<le> of_int n \<and> of_int n < (2::rat) powi (bitlen n)"
proof -
  have pos: "0 < bitlen n"
    using assms floorlog_eq_zero_iff [of 2 "nat n"] by (simp add: bitlen_def)
  from bitlen_bounds [OF assms] have b: "2 ^ nat (bitlen n - 1) \<le> n" "n < 2 ^ nat (bitlen n)" by auto
  have e: "(2::rat) powi (bitlen n - 1) = of_int (2 ^ nat (bitlen n - 1))"
    "(2::rat) powi (bitlen n) = of_int (2 ^ nat (bitlen n))"
    using pos by (simp_all add: power_int_def)
  show ?thesis unfolding e of_int_le_iff of_int_less_iff using b by simp
qed

lemma log2_floor_bounds:
  assumes "0 < x"
  shows "2 powi (log2_floor x) \<le> x \<and> x < 2 powi (log2_floor x + 1)"
proof -
  obtain n d where q: "quotient_of x = (n, d)" by (cases "quotient_of x")
  have d: "0 < d" using quotient_of_denom_pos [OF q] .
  have x: "x = of_int n / of_int d" using quotient_of_div [OF q] .
  with assms d have n: "0 < n" by (simp add: zero_less_divide_iff)
  note bn = bitlen_pow_bounds [OF n] and bd = bitlen_pow_bounds [OF d]
  let ?k = "bitlen n - bitlen d"
  have lo: "(2::rat) powi (?k - 1) < x"
  proof -
    have "(2::rat) powi (?k - 1) * of_int d < 2 powi (?k - 1) * 2 powi (bitlen d)"
      using bd by simp
    also have "\<dots> = 2 powi (bitlen n - 1)" by (simp flip: power_int_add)
    also have "\<dots> \<le> of_int n" using bn by simp
    finally show ?thesis using d by (simp add: x pos_less_divide_eq)
  qed
  have hi: "x < (2::rat) powi (?k + 1)"
  proof -
    have "of_int n < (2::rat) powi (bitlen n)" using bn by simp
    also have "\<dots> = 2 powi (?k + 1) * 2 powi (bitlen d - 1)" by (simp flip: power_int_add)
    also have "\<dots> \<le> 2 powi (?k + 1) * of_int d" using bd by simp
    finally show ?thesis using d by (simp add: x pos_divide_less_eq)
  qed
  show ?thesis using lo hi by (auto simp: log2_floor_def q Let_def)
qed

text \<open>Exponents are determined by the binade.\<close>

lemma log2_floor_ge:
  assumes "2 powi k \<le> x" shows "k \<le> log2_floor x"
proof -
  have "0 < x" using assms zero_less_power_int [of "2::rat" k] by linarith
  from log2_floor_bounds [OF this] assms have "(2::rat) powi k < 2 powi (log2_floor x + 1)" by linarith
  then show ?thesis by (simp add: powi_less_iff)
qed

lemma log2_floor_less:
  assumes "0 < x" "x < 2 powi k" shows "log2_floor x < k"
proof -
  from log2_floor_bounds [OF assms(1)] assms have "(2::rat) powi (log2_floor x) < 2 powi k" by linarith
  then show ?thesis by (simp add: powi_less_iff)
qed

text \<open>Rounding stays inside the binade's closure.\<close>

lemma round53_ge_binade:
  assumes "0 < x" shows "2 powi (log2_floor x) \<le> round53 x"
proof -
  let ?k = "log2_floor x" let ?e = "?k - 52"
  have "of_int (2 ^ 52) = (2::rat) powi ?k * 2 powi (- ?e)" by (simp flip: power_int_add)
  also have "\<dots> \<le> x * 2 powi (- ?e)" using log2_floor_bounds [OF assms] by simp
  finally have "2 ^ 52 \<le> round_even (x * 2 powi (- ?e))" by (rule round_even_ge)
  then have "of_int (2 ^ 52) * 2 powi ?e \<le> round53 x"
    using assms by (simp add: round53_def Let_def)
  moreover have "of_int (2 ^ 52) * (2::rat) powi ?e = 2 powi ?k"
    using pow_powi [of 52 ?e] by simp
  ultimately show ?thesis by simp
qed

lemma round53_le_binade:
  assumes "0 < x" shows "round53 x \<le> 2 powi (log2_floor x + 1)"
proof -
  let ?k = "log2_floor x" let ?e = "?k - 52"
  have "x * 2 powi (- ?e) \<le> (2::rat) powi (?k + 1) * 2 powi (- ?e)"
    using log2_floor_bounds [OF assms] by simp
  also have "\<dots> = of_int (2 ^ 53)" by (simp flip: power_int_add)
  finally have "round_even (x * 2 powi (- ?e)) \<le> 2 ^ 53" by (rule round_even_le)
  then have "round53 x \<le> of_int (2 ^ 53) * 2 powi ?e"
    using assms by (simp add: round53_def Let_def)
  moreover have "of_int (2 ^ 53) * (2::rat) powi ?e = 2 powi (?k + 1)"
    using pow_powi [of 53 ?e] by (simp add: algebra_simps)
  ultimately show ?thesis by simp
qed

text \<open>Integers below \<open>2 ^ 53\<close> are exact.\<close>

lemma round53_of_nat:
  assumes "n < 2 ^ 53" shows "round53 (of_nat n) = of_nat n"
proof (cases "n = 0")
  case False
  let ?x = "of_nat n :: rat" let ?e = "log2_floor ?x - 52"
  have "?x < of_nat (2 ^ 53)" using assms by (simp only: of_nat_less_iff)
  then have "?x < 2 powi 53" by (simp add: power_int_def)
  with False have e: "?e \<le> 0" using log2_floor_less [of ?x 53] by simp
  have "?x * 2 powi (- ?e) = of_int (int n * 2 ^ nat (- ?e))"
    using e by (simp add: power_int_def)
  then have "round53 ?x = of_int (int n * 2 ^ nat (- ?e)) * 2 powi ?e"
    using False by (simp only: round53_def Let_def round_even_of_int) simp
  also have "\<dots> = ?x * ((2::rat) powi (- ?e) * 2 powi ?e)"
    using e by (simp add: power_int_def)
  also have "\<dots> = ?x" by (simp flip: power_int_add)
  finally show ?thesis .
qed (simp add: round53_def)

lemma f64_of_nat_exact: "n < 2 ^ 53 \<Longrightarrow> f64_of_nat n = Fin (of_nat n)"
  by (simp add: f64_of_nat_def round53_of_nat)

lemma round53_binade3:
  assumes "log2_floor x = 3" "0 < x"
  shows "round53 x = of_int (round_even (x * 2 ^ 49)) / 2 ^ 49"
  using assms by (simp add: round53_def Let_def power_int_def field_simps)

lemma round53_ge_10:
  assumes "10 \<le> x" shows "10 \<le> round53 x"
proof (cases "x < 16")
  case True
  have "log2_floor x = 3"
    using log2_floor_ge [of 3 x] log2_floor_less [of x 4] True assms by (simp add: power_int_def)
  moreover have "10 * 2 ^ 49 \<le> round_even (x * 2 ^ 49)"
    by (rule round_even_ge) (use assms in simp)
  then have "of_int (10 * 2 ^ 49) \<le> (of_int (round_even (x * 2 ^ 49)) :: rat)"
    by (simp only: of_int_le_iff)
  ultimately show ?thesis using assms by (simp add: round53_binade3)
next
  case False
  then have "(2::rat) powi 4 \<le> 2 powi (log2_floor x)"
    using log2_floor_ge [of 4 x] by (intro power_int_increasing) (simp_all add: power_int_def)
  also have "\<dots> \<le> round53 x" using False by (intro round53_ge_binade) simp
  finally show ?thesis by (simp add: power_int_def)
qed

lemma round53_less_10:
  assumes "x < 10 - 1 / 2 ^ 50" and that: "0 \<le> x" shows "round53 x < 10"
proof (cases "x < 8")
  case True
  show ?thesis
  proof (cases "x = 0")
    case False
    with that have "0 < x" by simp
    have "round53 x \<le> 2 powi (log2_floor x + 1)" by (rule round53_le_binade) fact
    also have "\<dots> \<le> 2 powi 3"
      using log2_floor_less [of x 3] \<open>0 < x\<close> True by (intro power_int_increasing) (simp_all add: power_int_def)
    finally show ?thesis by (simp add: power_int_def)
  qed (simp add: round53_def)
next
  case False
  have "log2_floor x = 3"
    using log2_floor_ge [of 3 x] log2_floor_less [of x 4] False assms by (simp add: power_int_def)
  moreover have "round_even (x * 2 ^ 49) < 10 * 2 ^ 49"
    by (rule round_even_less) (use assms in simp)
  then have "(of_int (round_even (x * 2 ^ 49)) :: rat) < of_int (10 * 2 ^ 49)"
    by (simp only: of_int_less_iff)
  ultimately show ?thesis using False by (simp add: round53_binade3)
qed

text \<open>
  For amounts up to \<open>2 ^ 53 / 100\<close> the floating point test against 10 is the exact one.
\<close>

lemma percentage_ge_10_iff:
  assumes "0 < amount" "100 * amount < 2 ^ 53" "100 * fee < 2 ^ 53"
  shows "f64_ge (percentage_f64 fee amount) 10 \<longleftrightarrow> amount \<le> 10 * fee"
proof -
  let ?q = "of_nat (100 * fee) / of_nat amount :: rat"
  have "f64_mul (Fin 100) (f64_of_nat fee) = Fin (round53 (of_nat (100 * fee)))"
    using assms(3) by (simp add: f64_of_nat_exact)
  also have "\<dots> = Fin (of_nat (100 * fee))" using assms(3) by (simp only: round53_of_nat)
  finally have p: "percentage_f64 fee amount = Fin (round53 ?q)"
    using assms by (simp add: percentage_f64_def f64_of_nat_exact del: of_nat_mult)
  show ?thesis
  proof (cases "amount \<le> 10 * fee")
    case True
    then have "of_nat (10 * amount) \<le> (of_nat (100 * fee) :: rat)" by (simp only: of_nat_le_iff)
    then have "10 \<le> ?q" using assms(1) by (simp add: pos_le_divide_eq)
    with True show ?thesis by (simp add: p round53_ge_10)
  next
    case False
    then have "of_nat (100 * fee + 10) \<le> (of_nat (10 * amount) :: rat)"
      by (simp only: of_nat_le_iff)
    then have "?q \<le> 10 - 10 / of_nat amount" using assms(1) by (simp add: field_simps)
    moreover have "1 / 2 ^ 50 < 10 / (of_nat amount :: rat)"
    proof -
      have "(of_nat (100 * amount) :: rat) < of_nat (2 ^ 53)" using assms(2) by (simp only: of_nat_less_iff)
      then show ?thesis using assms(1) by (simp add: field_simps)
    qed
    ultimately have "round53 ?q < 10" by (intro round53_less_10) simp_all
    with False show ?thesis by (simp add: p)
  qed
qed

end
