(* ===== verification/World.thy ===== *)
theory World
  imports Pb Util_Fmt F64
begin

text \<open>
  The world the handlers act on. What the repository does not contain (hash functions, elliptic
  curve and address-encoding libraries, the user, the host, flash hardware) are the fields of an
  environment; the state holds the persistent memory, the unlocked keystore and the trace of every
  interaction. The user and the host answer as arbitrary functions of the trace, so they may adapt
  to everything that happened before. Also the UI workflows
  (\<open>workflow/{confirm,transaction,verify_message,status}.rs\<close>) and error codes
  (\<open>hww/api/error.rs\<close>).
\<close>

section \<open>Errors\<close>

datatype Error = ErrInvalidInput | ErrMemory | ErrGeneric | ErrUserAbort | ErrInvalidState
  | ErrDisabled | ErrDuplicate | ErrNoiseEncrypt | ErrNoiseDecrypt

fun make_error :: "Error \<Rightarrow> Response" where
  "make_error ErrInvalidInput = RespError \<lparr>pe_code = 101, pe_message = ''invalid input''\<rparr>"
| "make_error ErrMemory = RespError \<lparr>pe_code = 102, pe_message = ''memory''\<rparr>"
| "make_error ErrGeneric = RespError \<lparr>pe_code = 103, pe_message = ''generic error''\<rparr>"
| "make_error ErrUserAbort = RespError \<lparr>pe_code = 104, pe_message = ''aborted by the user''\<rparr>"
| "make_error ErrInvalidState =
     RespError \<lparr>pe_code = 105, pe_message = ''can'' @ [CHR 0x27] @ ''t call this endpoint: wrong state''\<rparr>"
| "make_error ErrDisabled = RespError \<lparr>pe_code = 106, pe_message = ''function disabled''\<rparr>"
| "make_error ErrDuplicate = RespError \<lparr>pe_code = 107, pe_message = ''duplicate entry''\<rparr>"
| "make_error ErrNoiseEncrypt = RespError \<lparr>pe_code = 108, pe_message = ''noise encryption failed''\<rparr>"
| "make_error ErrNoiseDecrypt = RespError \<lparr>pe_code = 109, pe_message = ''noise decryption failed''\<rparr>"

section \<open>Prompts and events\<close>

datatype Font = FontDefault | Password11X12 | Monogram5X9

record ConfirmParams =
  cp_title :: string
  cp_title_autowrap :: bool
  cp_body :: string
  cp_font :: Font
  cp_scrollable :: bool
  cp_longtouch :: bool
  cp_accept_only :: bool
  cp_accept_is_nextarrow :: bool
  cp_display_size :: nat

text \<open>\<open>Default::default()\<close>.\<close>

definition confirm_default :: ConfirmParams where
  "confirm_default = \<lparr>cp_title = [], cp_title_autowrap = False, cp_body = [], cp_font = FontDefault,
     cp_scrollable = False, cp_longtouch = False, cp_accept_only = False,
     cp_accept_is_nextarrow = False, cp_display_size = 0\<rparr>"

record InputParams =
  ip_title :: string
  ip_wordlist :: "string list option"
  ip_number_input :: bool
  ip_hide :: bool
  ip_special_chars :: bool
  ip_longtouch :: bool
  ip_cancel_is_backbutton :: bool

datatype prompt =
    PConfirm ConfirmParams
  | PRecipient string string
  | PFee string string bool
  | PStatus string bool
  | PSdcard bool
  | PMenu "string list" "string option"
  | PTrinaryChoice string string string string
  | PInput InputParams string

text \<open>
  \<open>EvAsk\<close> is a prompt with the user's accept or reject, \<open>EvChoose\<close> and \<open>EvEnter\<close> a choice or a
  text with None for cancelling, \<open>EvSign\<close>, \<open>EvSchnorrSign\<close> and \<open>EvNonceCommit\<close> a use of the
  private key at a key path on a 32-byte message, \<open>EvFlash\<close> a write to flash, \<open>EvSecurechip\<close> the result of a
  call of the secure chip, \<open>EvSd\<close> an access to the SD card.
\<close>

datatype event =
    EvAsk prompt bool
  | EvShow prompt
  | EvChoose prompt "nat option"
  | EvEnter prompt "string option"
  | EvSend Response
  | EvRecv Request
  | EvNonceCommit keypath bytes bytes
  | EvSign keypath bytes bytes
  | EvSchnorrSign keypath bytes
  | EvEd25519Sign keypath bytes
  | EvFlash bool
  | EvRandom bytes
  | EvSecurechip int
  | EvSd bool

type_synonym trace = "event list"

section \<open>Environment\<close>

text \<open>
  Outside code: \<open>sha2\<close>, \<open>ripemd\<close> (through \<open>hash160\<close>), \<open>base58\<close>, \<open>bech32\<close>, libwally's BIP-32
  derivation (\<open>bip32_xpub_at\<close> from the BIP-39 seed, \<open>derive_xpub\<close> from a serialised xpub) and
  libsecp256k1; \<open>blake2\<close>, \<open>crc\<close> and the BIP-32 Ed25519 keys of Cardano (\<open>ed25519_xpub\<close> is the public
  key and the chain code, \<open>ed25519_sign\<close> the signature and the public key); libwally's BIP-39; the
  password stretching of the secure chip, which depends on the salt root and on the secure chip's
  keys, and the authenticated encryption of the seed; attestation data; the SD card's readiness;
  the protobuf encoding of backup files; the tables of ERC20 tokens the build generates, by number of
  decimals. The oracles with a trace argument see everything that
  happened so far; None of a user oracle means that the user never answers.
\<close>

text \<open>
  Of a parsed miniscript expression the firmware uses the leaves, in order: key expressions and
  hash fragments; \<open>env_ms_encode\<close> is the witness script of the expression with its keys replaced,
  None where the library rejects the result.
\<close>

datatype ms_leaf = MsKey string | MsHash

record env =
  env_sha256 :: "bytes \<Rightarrow> bytes"
  env_hash160 :: "bytes \<Rightarrow> bytes"
  env_keccak256 :: "bytes \<Rightarrow> bytes"
  env_base58check :: "bytes \<Rightarrow> string"
  env_segwit_encode :: "string \<Rightarrow> nat \<Rightarrow> bytes \<Rightarrow> string option"
  env_bip32_xpub_at :: "bytes \<Rightarrow> keypath \<Rightarrow> bytes option"
  env_derive_xpub :: "bytes \<Rightarrow> keypath \<Rightarrow> bytes option"
  env_uncompress :: "bytes \<Rightarrow> bytes option"
  env_bip86_pubkey :: "bytes \<Rightarrow> bytes option"
  env_sign :: "bytes \<Rightarrow> keypath \<Rightarrow> bytes \<Rightarrow> bytes \<Rightarrow> (bytes \<times> u8) option"
  env_schnorr_sign :: "bytes \<Rightarrow> keypath \<Rightarrow> bytes \<Rightarrow> bytes \<Rightarrow> bytes option"
  env_nonce_commit :: "bytes \<Rightarrow> keypath \<Rightarrow> bytes \<Rightarrow> bytes \<Rightarrow> bytes option"
  env_ecdsa_verify :: "bytes \<Rightarrow> bytes \<Rightarrow> bytes \<Rightarrow> bool"
  env_pubkey_ok :: "bytes \<Rightarrow> bool"
  env_ms_parse :: "string \<Rightarrow> ms_leaf list option"
  env_ms_encode :: "string \<Rightarrow> bytes list \<Rightarrow> bytes option"
  env_user_confirm :: "trace \<Rightarrow> prompt \<Rightarrow> bool option"
  env_user_choose :: "trace \<Rightarrow> prompt \<Rightarrow> nat option option"
  env_user_enter :: "trace \<Rightarrow> prompt \<Rightarrow> string option option"
  env_host_next :: "trace \<Rightarrow> (Error, Request) result"
  env_flash_ok :: "trace \<Rightarrow> bool"
  env_random_32 :: "trace \<Rightarrow> bytes"
  env_hmac_sha256 :: "bytes \<Rightarrow> bytes \<Rightarrow> bytes"
  env_blake2b :: "nat \<Rightarrow> bytes \<Rightarrow> bytes"
  env_crc32 :: "bytes \<Rightarrow> u32"
  env_bech32_encode :: "string \<Rightarrow> bytes \<Rightarrow> string"
  env_bech32_decode :: "string \<Rightarrow> (string \<times> bytes) option"
  env_base58_decode :: "string \<Rightarrow> bytes option"
  env_ed25519_xpub :: "bytes \<Rightarrow> keypath \<Rightarrow> bytes \<times> bytes"
  env_ed25519_sign :: "bytes \<Rightarrow> keypath \<Rightarrow> bytes \<Rightarrow> bytes \<times> bytes"
  env_bip39_word :: "nat \<Rightarrow> string option"
  env_bip39_from_bytes :: "bytes \<Rightarrow> string option"
  env_bip39_to_bytes :: "string \<Rightarrow> bytes option"
  env_bip39_to_seed :: "string \<Rightarrow> string \<Rightarrow> bytes option"
  env_bip85_entropy :: "bytes \<Rightarrow> keypath \<Rightarrow> bytes option"
  env_salt_hash :: "bytes \<Rightarrow> bytes \<Rightarrow> string \<Rightarrow> bytes"
  env_stretch :: "bytes \<Rightarrow> nat \<Rightarrow> string \<Rightarrow> bytes"
  env_aes_encrypt :: "bytes \<Rightarrow> bytes \<Rightarrow> bytes \<Rightarrow> bytes"
  env_aes_decrypt :: "bytes \<Rightarrow> bytes \<Rightarrow> bytes option"
  env_securechip_error :: "trace \<Rightarrow> int"
  env_monotonic_remaining :: "trace \<Rightarrow> u32 option"
  env_securechip_model :: "string option"
  env_attestation :: "(bytes \<times> bytes \<times> bytes) option"
  env_attestation_sign :: "bytes \<Rightarrow> bytes option"
  env_bootloader_hash :: bytes
  env_version :: string
  env_app_u2f :: bool
  env_sd_inserted :: "trace \<Rightarrow> bool"
  env_sd_ok :: "trace \<Rightarrow> bool"
  env_strftime :: "u32 \<Rightarrow> string \<Rightarrow> string"
  env_backup_encode :: "Backup \<Rightarrow> bytes"
  env_backup_decode :: "bytes \<Rightarrow> Backup option"
  env_backup_data_encode :: "BackupData \<Rightarrow> bytes"
  env_backup_data_decode :: "bytes \<Rightarrow> BackupData option"
  env_erc20_tables :: "(nat \<times> (bytes \<times> string) list) list"

section \<open>State\<close>

text \<open>
  The retained seed is there when the device is unlocked, the BIP-39 seed when the passphrase step
  was done too (\<open>keystore.c\<close>).
\<close>

record world =
  w_trace :: trace
  w_seed :: "bytes option"
  w_bip39_seed :: "bytes option"
  w_multisigs :: "(bytes \<times> string) option list"
  w_initialized :: bool
  w_seeded :: bool
  w_passphrase_enabled :: bool
  w_device_name :: string
  w_seed_birthdate :: u32
  w_noise_pubkeys :: "bytes list"
  w_noise_private_key :: bytes
  w_encrypted_seed :: bytes
  w_unlock_attempts :: nat
  w_salt_root :: bytes
  w_securechip_keys :: nat
  w_sd :: "(string \<times> (string \<times> bytes) list) list"

type_synonym 'a handler = "(world, Error, 'a) io"

definition emit :: "event \<Rightarrow> (world, 'e, unit) io" where
  "emit e = modifyM (\<lambda>w. w\<lparr>w_trace := w_trace w @ [e]\<rparr>)"

definition is_locked :: "world \<Rightarrow> bool" where
  "is_locked w \<longleftrightarrow> \<not> (w_seed w \<noteq> None \<and> w_bip39_seed w \<noteq> None)"

text \<open>A value of the environment that may never come.\<close>

definition await :: "'a option \<Rightarrow> (world, 'e, 'a) io" where
  "await v = liftM (case v of Some a \<Rightarrow> Ok a | None \<Rightarrow> Pending)"

definition unwrapM :: "'a option \<Rightarrow> (world, 'e, 'a) io" where
  "unwrapM v = liftM (case v of Some a \<Rightarrow> Ok a | None \<Rightarrow> Panic)"

section \<open>UI workflows\<close>

definition MAX_LABEL_SIZE :: nat where "MAX_LABEL_SIZE = 640"

text \<open>Ask the user to accept or reject a prompt.\<close>

definition ask :: "env \<Rightarrow> prompt \<Rightarrow> (world, unit, unit) io" where
  "ask E p =
     bindM (getM w_trace) (\<lambda>tr.
     bindM (await (env_user_confirm E tr p)) (\<lambda>accepted.
     bindM (emit (EvAsk p accepted)) (\<lambda>_.
     if accepted then returnM () else failM ())))"

text \<open>Show something that needs no answer; it ends when the user was shown it.\<close>

definition show_prompt :: "prompt \<Rightarrow> (world, 'e, unit) io" where
  "show_prompt p = emit (EvShow p)"

text \<open>The two labels of a confirm screen, truncated and converted for C (\<open>to_c_params\<close>).\<close>

definition to_c_params :: "ConfirmParams \<Rightarrow> (world, 'e, unit) io" where
  "to_c_params p =
     bindM (liftM (truncate_str (cp_title p) (MAX_LABEL_SIZE + 1))) (\<lambda>title.
     bindM (unwrapM (str_to_cstr_vec title)) (\<lambda>_.
     bindM (liftM (truncate_str (cp_body p) (MAX_LABEL_SIZE + 1))) (\<lambda>body.
     bindM (unwrapM (str_to_cstr_vec body)) (\<lambda>_. returnM ()))))"

definition confirm :: "env \<Rightarrow> ConfirmParams \<Rightarrow> (world, unit, unit) io" where
  "confirm E p = bindM (to_c_params p) (\<lambda>_. ask E (PConfirm p))"

definition status :: "string \<Rightarrow> bool \<Rightarrow> (world, 'e, unit) io" where
  "status title success =
     bindM (unwrapM (str_to_cstr_vec title)) (\<lambda>_. show_prompt (PStatus title success))"

definition verify_recipient :: "env \<Rightarrow> string \<Rightarrow> string \<Rightarrow> (world, unit, unit) io" where
  "verify_recipient E recipient amount =
     bindM (unwrapM (str_to_cstr_vec amount)) (\<lambda>_.
     bindM (unwrapM (str_to_cstr_vec recipient)) (\<lambda>_.
     ask E (PRecipient recipient amount)))"

definition FEE_WARNING_THRESHOLD :: rat where "FEE_WARNING_THRESHOLD = 10"

definition high_fee_params :: "f64 \<Rightarrow> ConfirmParams" where
  "high_fee_params fee_percentage = confirm_default\<lparr>cp_title := ''High fee'',
     cp_body := ''The fee is '' @ fmt_1 fee_percentage @ ''%'' @ [CHR 0x0A] @ ''the send amount.''
       @ [CHR 0x0A] @ ''Proceed?'', cp_longtouch := True\<rparr>"

definition verify_total_fee ::
  "env \<Rightarrow> string \<Rightarrow> string \<Rightarrow> f64 option \<Rightarrow> (world, unit, unit) io" where
  "verify_total_fee E total_amount fee fee_percentage =
     (let fee_percentage = (case fee_percentage of
            Some f \<Rightarrow> if f64_ge f FEE_WARNING_THRESHOLD then Some f else None | None \<Rightarrow> None);
          longtouch = (fee_percentage = None) in
      bindM (unwrapM (str_to_cstr_vec total_amount)) (\<lambda>_.
      bindM (unwrapM (str_to_cstr_vec fee)) (\<lambda>_.
      bindM (ask E (PFee total_amount fee longtouch)) (\<lambda>_.
      case fee_percentage of
        Some f \<Rightarrow> confirm E (high_fee_params f)
      | None \<Rightarrow> returnM ()))))"

text \<open>The conversions of an abort into the API error.\<close>

definition user_abort :: "(world, unit, 'a) io \<Rightarrow> 'a handler" where
  "user_abort m = map_errM (\<lambda>_. ErrUserAbort) m"

definition generic_err :: "(unit, 'a) result \<Rightarrow> 'a handler" where
  "generic_err r = liftM (map_err (\<lambda>_. ErrGeneric) r)"

text \<open>A handler that shows something before it passes on an abort by the user.\<close>

definition on_user_abort :: "'a handler \<Rightarrow> unit handler \<Rightarrow> 'a handler" where
  "on_user_abort m f w = (case m w of
     (Err ErrUserAbort, w) \<Rightarrow> bindM f (\<lambda>_. failM ErrUserAbort) w | r \<Rightarrow> r)"

section \<open>Host\<close>

text \<open>
  \<open>hww::next_request\<close>: send a response over the encrypted channel and wait for the next request;
  failures of the channel and undecodable requests are errors of \<open>env_host_next\<close>.
\<close>

definition hww_next_request :: "env \<Rightarrow> Response \<Rightarrow> Request handler" where
  "hww_next_request E response =
     bindM (emit (EvSend response)) (\<lambda>_.
     bindM (getM w_trace) (\<lambda>tr.
     bindM (liftM (env_host_next E tr)) (\<lambda>req.
     bindM (emit (EvRecv req)) (\<lambda>_. returnM req))))"

section \<open>Keystore\<close>

text \<open>
  The keystore gives keys only while it is unlocked. Reading a public key changes nothing, so it is
  a function of the state.
\<close>

definition bip39_seed :: "world \<Rightarrow> (unit, bytes) result" where
  "bip39_seed w = ok_or () (if is_locked w then None else w_bip39_seed w)"

definition encode_xpub_at_keypath :: "env \<Rightarrow> world \<Rightarrow> keypath \<Rightarrow> (unit, bytes) result" where
  "encode_xpub_at_keypath E w keypath =
     bindR (bip39_seed w) (\<lambda>seed. ok_or () (env_bip32_xpub_at E seed keypath))"

definition secp256k1_sign ::
  "env \<Rightarrow> keypath \<Rightarrow> bytes \<Rightarrow> bytes \<Rightarrow> (world, unit, bytes \<times> u8) io" where
  "secp256k1_sign E keypath msg host_nonce =
     bindM (readM bip39_seed) (\<lambda>seed.
     bindM (liftM (ok_or () (env_sign E seed keypath msg host_nonce))) (\<lambda>r.
     bindM (emit (EvSign keypath msg host_nonce)) (\<lambda>_. returnM r)))"

definition secp256k1_nonce_commit ::
  "env \<Rightarrow> keypath \<Rightarrow> bytes \<Rightarrow> bytes \<Rightarrow> (world, unit, bytes) io" where
  "secp256k1_nonce_commit E keypath msg host_commitment =
     bindM (readM bip39_seed) (\<lambda>seed.
     bindM (liftM (ok_or () (env_nonce_commit E seed keypath msg host_commitment))) (\<lambda>r.
     bindM (emit (EvNonceCommit keypath msg host_commitment)) (\<lambda>_. returnM r)))"

definition random_32_bytes :: "env \<Rightarrow> (world, 'e, bytes) io" where
  "random_32_bytes E =
     bindM (getM (\<lambda>w. env_random_32 E (w_trace w))) (\<lambda>r.
     bindM (emit (EvRandom r)) (\<lambda>_. returnM r))"

definition secp256k1_schnorr_bip86_sign ::
  "env \<Rightarrow> keypath \<Rightarrow> bytes \<Rightarrow> (world, unit, bytes) io" where
  "secp256k1_schnorr_bip86_sign E keypath msg =
     bindM (readM bip39_seed) (\<lambda>seed.
     bindM (random_32_bytes E) (\<lambda>aux_rand.
     bindM (liftM (ok_or () (env_schnorr_sign E seed keypath msg aux_rand))) (\<lambda>r.
     bindM (emit (EvSchnorrSign keypath msg)) (\<lambda>_. returnM r))))"

section \<open>What handlers append to the trace\<close>

text \<open>
  \<open>emits P m\<close>: however \<open>m\<close> ends, it changed nothing but the trace, to which it appended events
  satisfying \<open>P\<close>.
\<close>

definition emits :: "(event \<Rightarrow> bool) \<Rightarrow> (world, 'e, 'a) io \<Rightarrow> bool" where
  "emits P m \<longleftrightarrow> (\<forall>w r w'. m w = (r, w') \<longrightarrow>
     (\<exists>t. w' = w\<lparr>w_trace := w_trace w @ t\<rparr> \<and> list_all P t))"

named_theorems emits_rules

abbreviation ext_trace :: "world \<Rightarrow> trace \<Rightarrow> world" where
  "ext_trace w t \<equiv> w\<lparr>w_trace := w_trace w @ t\<rparr>"

lemma emitsI:
  assumes "\<And>w r w'. m w = (r, w') \<Longrightarrow> \<exists>t. w' = ext_trace w t \<and> list_all P t"
  shows "emits P m"
  using assms by (simp add: emits_def)

lemma emitsD:
  assumes "emits P m" "m w = (r, w')"
  obtains t where "w' = ext_trace w t" "list_all P t"
  using assms unfolding emits_def by blast

lemma emits_pure:
  assumes "\<And>w. snd (m w) = w" shows "emits P m"
proof (rule emitsI)
  fix w r w'
  assume "m w = (r, w')"
  then have "w' = ext_trace w []" using assms [of w] by simp
  then show "\<exists>t. w' = ext_trace w t \<and> list_all P t" by (intro exI [of _ "[]"]) simp
qed

lemma emits_mono: "emits P m \<Longrightarrow> (\<And>e. P e \<Longrightarrow> Q e) \<Longrightarrow> emits Q m"
  unfolding emits_def list_all_iff by blast

lemma emits_return [emits_rules]: "emits P (returnM a)"
  by (rule emits_pure) (simp add: returnM_def)

lemma emits_fail [emits_rules]: "emits P (failM e)"
  by (rule emits_pure) (simp add: failM_def)

lemma emits_lift [emits_rules]: "emits P (liftM r)"
  by (rule emits_pure) (simp add: liftM_def)

lemma emits_get [emits_rules]: "emits P (getM f)"
  by (rule emits_pure) (simp add: getM_def)

lemma emits_read [emits_rules]: "emits P (readM f)"
  by (rule emits_pure) (simp add: readM_def)

lemma emits_guard [emits_rules]: "emits P (guardM c e)"
  by (rule emits_pure) (simp add: guardM_def returnM_def failM_def)

lemma emits_await [emits_rules]: "emits P (await v)"
  by (simp add: await_def emits_lift)

lemma emits_unwrap [emits_rules]: "emits P (unwrapM v)"
  by (simp add: unwrapM_def emits_lift)

lemma emits_emit [emits_rules]: "P e \<Longrightarrow> emits P (emit e)"
  by (rule emitsI) (auto simp: emit_def modifyM_def intro: exI [of _ "[e]"])

lemma emits_bind [emits_rules]:
  assumes "emits P m" and "\<And>a. emits P (f a)"
  shows "emits P (bindM m f)"
proof (rule emitsI)
  fix w r w'
  assume run: "bindM m f w = (r, w')"
  obtain q u where q: "m w = (q, u)" by force
  with assms(1) obtain t where t: "u = ext_trace w t" "list_all P t" by (rule emitsD)
  show "\<exists>t. w' = ext_trace w t \<and> list_all P t"
  proof (cases q)
    case (Ok a)
    with run q have "f a u = (r, w')" by (simp add: bindM_def)
    with assms(2) obtain t' where "w' = ext_trace u t'" "list_all P t'" by (rule emitsD)
    with t show ?thesis by (intro exI [of _ "t @ t'"]) simp
  qed (use run q t in \<open>auto simp: bindM_def\<close>)
qed

lemma emits_map_err [emits_rules]:
  assumes "emits P m" shows "emits P (map_errM f m)"
proof (rule emitsI)
  fix w r w'
  assume "map_errM f m w = (r, w')"
  then have "m w = (fst (m w), w')" by (simp add: map_errM_def split: prod.splits)
  with assms show "\<exists>t. w' = ext_trace w t \<and> list_all P t" by (blast elim: emitsD)
qed

lemma emits_on_user_abort [emits_rules]:
  assumes "emits P m" "emits P f" shows "emits P (on_user_abort m f)"
proof (rule emitsI)
  fix w r w'
  assume run: "on_user_abort m f w = (r, w')"
  obtain q u where q: "m w = (q, u)" by force
  with assms(1) obtain t where t: "u = ext_trace w t" "list_all P t" by (rule emitsD)
  show "\<exists>t. w' = ext_trace w t \<and> list_all P t"
  proof (cases "q = Err ErrUserAbort")
    case True
    with run q have "bindM f (\<lambda>_. failM ErrUserAbort) u = (r, w')" by (simp add: on_user_abort_def)
    with emits_bind [OF assms(2) emits_fail] obtain t' where "w' = ext_trace u t'" "list_all P t'"
      by (rule emitsD)
    with t show ?thesis by (intro exI [of _ "t @ t'"]) simp
  next
    case False
    with run q have "w' = u" by (auto simp: on_user_abort_def split: result.splits Error.splits)
    with t show ?thesis by blast
  qed
qed

lemma emits_if [emits_rules]:
  "(c \<Longrightarrow> emits P m) \<Longrightarrow> (\<not> c \<Longrightarrow> emits P n) \<Longrightarrow> emits P (if c then m else n)"
  by simp

lemma emits_foldM [emits_rules]:
  "(\<And>i acc. emits P (f i acc)) \<Longrightarrow> emits P (foldM f xs acc)"
  by (induction xs arbitrary: acc) (simp_all add: emits_return emits_bind)

lemma emits_loopM [emits_rules]:
  assumes body: "\<And>st. emits P (body st)" shows "emits P (loopM body st)"
proof (rule emitsI)
  fix w r w'
  assume run: "loopM body st w = (r, w')"
  let ?I = "\<lambda>_ v. \<exists>t. v = ext_trace w t \<and> list_all P t"
  have step: "?I st' v'" if inv: "?I st v" and bd: "body st v = (Ok (Inl st'), v')" for st v st' v'
  proof -
    from inv obtain t where t: "v = ext_trace w t" "list_all P t" by blast
    obtain u where "v' = ext_trace v u" "list_all P u" by (rule emitsD [OF body bd])
    with t show ?thesis by (intro exI [of _ "t @ u"]) simp
  qed
  show "\<exists>t. w' = ext_trace w t \<and> list_all P t"
  proof (rule loopM_rule [where I = ?I, OF run _ step])
    show "?I st w" by (intro exI [of _ "[]"]) simp
  next
    assume "w' = w"
    then show ?thesis by (intro exI [of _ "[]"]) simp
  next
    fix st' v r'
    assume "?I st' v" and run': "body st' v = (r', w')"
    then obtain t where t: "v = ext_trace w t" "list_all P t" by blast
    obtain u where "w' = ext_trace v u" "list_all P u" by (rule emitsD [OF body run'])
    with t show ?thesis by (intro exI [of _ "t @ u"]) simp
  qed
qed

lemma emits_ask [emits_rules]:
  assumes "P (EvAsk p True)" "P (EvAsk p False)" shows "emits P (ask E p)"
proof -
  have "P (EvAsk p b)" for b using assms by (cases b) simp_all
  then show ?thesis unfolding ask_def by (intro emits_rules)
qed

text \<open>The events that use a private key.\<close>

fun signs :: "event \<Rightarrow> bool" where
  "signs (EvSign _ _ _) = True"
| "signs (EvSchnorrSign _ _) = True"
| "signs (EvEd25519Sign _ _) = True"
| "signs _ = False"

abbreviation quiet :: "(world, 'e, 'a) io \<Rightarrow> bool" where
  "quiet m \<equiv> emits (\<lambda>e. \<not> signs e) m"

named_theorems quiet_rules

lemma quiet_ask [quiet_rules]: "quiet (ask E p)"
  by (rule emits_ask) simp_all

lemma quiet_confirm [quiet_rules]: "quiet (confirm E p)"
  unfolding confirm_def to_c_params_def by (intro emits_rules quiet_rules)

lemma quiet_status [quiet_rules]: "quiet (status t b)"
  unfolding status_def show_prompt_def by (intro emits_rules) simp

lemma quiet_verify_recipient [quiet_rules]: "quiet (verify_recipient E r a)"
  unfolding verify_recipient_def by (intro emits_rules quiet_rules)

lemma quiet_verify_total_fee [quiet_rules]: "quiet (verify_total_fee E t f p)"
  unfolding verify_total_fee_def Let_def
  by (intro emits_rules quiet_rules) (auto split: option.splits intro: emits_rules quiet_rules)

lemma quiet_user_abort [quiet_rules]: "quiet m \<Longrightarrow> quiet (user_abort m)"
  unfolding user_abort_def by (rule emits_map_err)

lemma quiet_generic_err [quiet_rules]: "quiet (generic_err r)"
  unfolding generic_err_def by (rule emits_lift)

lemma quiet_next_request [quiet_rules]: "quiet (hww_next_request E r)"
  unfolding hww_next_request_def by (intro emits_rules) simp_all

lemma quiet_nonce_commit [quiet_rules]: "quiet (secp256k1_nonce_commit E kp m c)"
  unfolding secp256k1_nonce_commit_def by (intro emits_rules) simp_all

lemma quiet_random [quiet_rules]: "quiet (random_32_bytes E)"
  unfolding random_32_bytes_def by (intro emits_rules) simp_all

lemma emits_secp256k1_sign:
  "P (EvSign kp m n) \<Longrightarrow> emits P (secp256k1_sign E kp m n)"
  unfolding secp256k1_sign_def by (intro emits_rules)

lemma emits_schnorr_sign:
  "P (EvSchnorrSign kp m) \<Longrightarrow> (\<And>r. P (EvRandom r)) \<Longrightarrow> emits P (secp256k1_schnorr_bip86_sign E kp m)"
  unfolding secp256k1_schnorr_bip86_sign_def random_32_bytes_def by (intro emits_rules)

section \<open>Handlers started in a given state\<close>

text \<open>
  \<open>yields w P Q m\<close>: started in a state that differs from \<open>w\<close> in the trace only, \<open>m\<close> changes
  nothing but the trace, appends events satisfying \<open>P\<close> however it ends, and if it returns a value
  that value satisfies \<open>Q\<close>.
\<close>

definition yields :: "world \<Rightarrow> (event \<Rightarrow> bool) \<Rightarrow> ('a \<Rightarrow> bool) \<Rightarrow> (world, 'e, 'a) io \<Rightarrow> bool" where
  "yields w P Q m \<longleftrightarrow> (\<forall>t r w'. m (ext_trace w t) = (r, w') \<longrightarrow>
     (\<exists>u. w' = ext_trace w (t @ u) \<and> list_all P u \<and> (\<forall>a. r = Ok a \<longrightarrow> Q a)))"

named_theorems yields_rules

lemma yieldsD:
  assumes "yields w P Q m" "m (ext_trace w t) = (r, w')"
  obtains u where "w' = ext_trace w (t @ u)" "list_all P u" "\<forall>a. r = Ok a \<longrightarrow> Q a"
  using assms(1) [unfolded yields_def, rule_format, OF assms(2)] by blast

lemma yieldsD':
  assumes "yields w P Q m" "m w = (r, w')"
  obtains u where "w' = ext_trace w u" "list_all P u" "\<forall>a. r = Ok a \<longrightarrow> Q a"
proof -
  have "m (ext_trace w []) = (r, w')" using assms(2) by simp
  with assms(1) show thesis by (rule yieldsD) (use that in simp)
qed

lemma yields_emits: "emits P m \<Longrightarrow> yields w P (\<lambda>_. True) m"
  unfolding yields_def
proof (intro allI impI)
  fix t r w'
  assume "emits P m" "m (ext_trace w t) = (r, w')"
  then obtain u where "w' = ext_trace (ext_trace w t) u" "list_all P u" by (rule emitsD)
  then show "\<exists>u. w' = ext_trace w (t @ u) \<and> list_all P u \<and> (\<forall>a. r = Ok a \<longrightarrow> True)"
    by (intro exI [of _ u]) simp
qed

lemma yields_weaken: "yields w P Q m \<Longrightarrow> (\<And>a. Q a \<Longrightarrow> R a) \<Longrightarrow> yields w P R m"
  unfolding yields_def by (elim all_forward imp_forward ex_forward conj_forward) assumption+

lemma yields_bind [yields_rules]:
  assumes "yields w P Q m" and "\<And>a. Q a \<Longrightarrow> yields w P R (f a)"
  shows "yields w P R (bindM m f)"
  unfolding yields_def
proof (intro allI impI)
  fix t r w'
  assume run: "bindM m f (ext_trace w t) = (r, w')"
  obtain q v where q: "m (ext_trace w t) = (q, v)" by force
  with assms(1) obtain u where u: "v = ext_trace w (t @ u)" "list_all P u" "\<forall>a. q = Ok a \<longrightarrow> Q a"
    by (rule yieldsD)
  show "\<exists>u. w' = ext_trace w (t @ u) \<and> list_all P u \<and> (\<forall>a. r = Ok a \<longrightarrow> R a)"
  proof (cases q)
    case (Ok a)
    with run q u(1) have "f a (ext_trace w (t @ u)) = (r, w')" by (simp add: bindM_def)
    with assms(2) [OF u(3) [rule_format, OF Ok]] obtain u' where
      "w' = ext_trace w ((t @ u) @ u')" "list_all P u'" "\<forall>a. r = Ok a \<longrightarrow> R a" by (rule yieldsD)
    with u(2) show ?thesis by (intro exI [of _ "u @ u'"]) simp
  qed (use run q u in \<open>auto simp: bindM_def\<close>)
qed

lemma yields_return [yields_rules]: "Q a \<Longrightarrow> yields w P Q (returnM a)"
  by (auto simp: yields_def returnM_def intro: exI [of _ "[]"])

lemma yields_fail [yields_rules]: "yields w P Q (failM e)"
  by (auto simp: yields_def failM_def intro: exI [of _ "[]"])

lemma yields_lift [yields_rules]: "yields w P (\<lambda>a. r = Ok a) (liftM r)"
  by (auto simp: yields_def liftM_def intro: exI [of _ "[]"])

lemma yields_guard [yields_rules]: "yields w P (\<lambda>_. c) (guardM c e)"
  by (auto simp: yields_def guardM_def returnM_def failM_def intro: exI [of _ "[]"])

lemma yields_get [yields_rules]: "(\<And>t. f (ext_trace w t) = f w) \<Longrightarrow> yields w P (\<lambda>a. a = f w) (getM f)"
  by (auto simp: yields_def getM_def intro: exI [of _ "[]"])

lemma yields_read [yields_rules]:
  "(\<And>t. f (ext_trace w t) = f w) \<Longrightarrow> yields w P (\<lambda>a. f w = Ok a) (readM f)"
  by (auto simp: yields_def readM_def intro: exI [of _ "[]"])

lemma yields_map_err [yields_rules]:
  assumes "yields w P Q m" shows "yields w P Q (map_errM f m)"
  unfolding yields_def
proof (intro allI impI)
  fix t r w'
  assume run: "map_errM f m (ext_trace w t) = (r, w')"
  obtain q v where q: "m (ext_trace w t) = (q, v)" by force
  with run have r: "w' = v" "r = map_err f q" by (auto simp: map_errM_def)
  from assms q obtain u where "v = ext_trace w (t @ u)" "list_all P u" "\<forall>a. q = Ok a \<longrightarrow> Q a"
    by (rule yieldsD)
  with r show "\<exists>u. w' = ext_trace w (t @ u) \<and> list_all P u \<and> (\<forall>a. r = Ok a \<longrightarrow> Q a)"
    by (intro exI [of _ u]) simp
qed

lemma yields_user_abort [yields_rules]: "yields w P Q m \<Longrightarrow> yields w P Q (user_abort m)"
  unfolding user_abort_def by (rule yields_map_err)

lemma yields_if [yields_rules]:
  "(c \<Longrightarrow> yields w P Q m) \<Longrightarrow> (\<not> c \<Longrightarrow> yields w P Q n) \<Longrightarrow> yields w P Q (if c then m else n)"
  by simp

lemma yields_foldM [yields_rules]:
  assumes "\<And>i acc. i \<in> set xs \<Longrightarrow> I acc \<Longrightarrow> yields w P I (f i acc)" "I acc"
  shows "yields w P I (foldM f xs acc)"
  using assms
proof (induction xs arbitrary: acc)
  case (Cons i xs)
  have "yields w P I (f i acc)" by (rule Cons.prems) (use Cons.prems in simp_all)
  moreover have "yields w P I (foldM f xs acc')" if "I acc'" for acc'
    by (rule Cons.IH [OF Cons.prems(1) that]) simp_all
  ultimately show ?case by (simp add: yields_bind)
qed (simp add: yields_return)

text \<open>
  A handler that first prepares, without signing anything, and then signs: a signature in its trace
  comes after a successful preparation, and is one of the second part.
\<close>

lemma first_signature:
  assumes "list_all (\<lambda>e. \<not> signs e) q" "q @ z = t @ e # u" "signs e"
  shows "\<exists>r. t = q @ r \<and> z = r @ e # u"
proof (cases "length q \<le> length t")
  case True
  then have "take (length q) t = q" "z = drop (length q) t @ e # u"
    using arg_cong [OF assms(2), of "take (length q)"] arg_cong [OF assms(2), of "drop (length q)"]
    by simp_all
  then show ?thesis by (metis append_take_drop_id)
next
  case False
  then have "q ! length t = e" using arg_cong [OF assms(2), of "\<lambda>l. l ! length t"]
    by (simp add: nth_append)
  with False assms(1,3) show ?thesis by (auto simp: list_all_length)
qed

lemma on_user_abort_run:
  assumes "on_user_abort m f w = (r, w')" "quiet f"
  shows "\<exists>q v z. m w = (q, v) \<and> w' = ext_trace v z \<and> list_all (\<lambda>e. \<not> signs e) z"
proof -
  obtain q v where q: "m w = (q, v)" by force
  show ?thesis
  proof (cases "q = Err ErrUserAbort")
    case True
    with assms(1) q have "bindM f (\<lambda>_. failM ErrUserAbort) v = (r, w')" by (simp add: on_user_abort_def)
    with emits_bind [OF assms(2) emits_fail] obtain z where "w' = ext_trace v z" "list_all (\<lambda>e. \<not> signs e) z"
      by (rule emitsD)
    with q show ?thesis by blast
  next
    case False
    with assms(1) q have "w' = v" by (auto simp: on_user_abort_def split: result.splits Error.splits)
    with q show ?thesis by (intro exI [of _ q] exI [of _ v] exI [of _ "[]"]) simp
  qed
qed

lemma on_user_abort_return: "on_user_abort m (returnM ()) = m"
  by (auto simp: fun_eq_iff on_user_abort_def bindM_def returnM_def failM_def
      split: prod.splits result.splits Error.splits)

lemma ext_trace_inj: "ext_trace w t = ext_trace w u \<Longrightarrow> t = u"
  by (drule arg_cong [where f = w_trace]) simp

lemma signature_after:
  assumes "quiet m" "quiet f" and run: "on_user_abort (bindM m g) f w = (r, w')"
    and tr: "w_trace w' = w_trace w @ t @ e # u" and e: "signs e"
    and post: "\<And>a q. m w = (Ok a, ext_trace w q) \<Longrightarrow>
      yields w (\<lambda>e. signs e \<longrightarrow> A a e) (\<lambda>_. True) (g a)"
  shows "\<exists>a q v. m w = (Ok a, ext_trace w q) \<and> t = q @ v \<and> A a e"
proof -
  from on_user_abort_run [OF run assms(2)] obtain r1 w1 z where
    1: "bindM m g w = (r1, w1)" "w' = ext_trace w1 z" "list_all (\<lambda>e. \<not> signs e) z" by blast
  obtain c v0 where c: "m w = (c, v0)" by force
  with assms(1) obtain q where q: "v0 = ext_trace w q" "list_all (\<lambda>e. \<not> signs e) q" by (rule emitsD)
  have stop: ?thesis if "w1 = v0"
  proof -
    from that q 1 tr have "q @ z = t @ e # u" by simp
    from first_signature [OF q(2) this e] obtain v where "z = v @ e # u" by blast
    with 1(3) e show ?thesis by simp
  qed
  show ?thesis
  proof (cases c)
    case (Ok a)
    with c 1 q have g: "g a (ext_trace w q) = (r1, w1)" by (simp add: bindM_def)
    have "yields w (\<lambda>e. signs e \<longrightarrow> A a e) (\<lambda>_. True) (g a)" by (rule post) (use c Ok q in simp)
    then obtain y where y: "w1 = ext_trace w (q @ y)" "list_all (\<lambda>e. signs e \<longrightarrow> A a e) y"
      using g by (rule yieldsD)
    with 1 tr have "q @ y @ z = t @ e # u" by simp
    from first_signature [OF q(2) this e] obtain v where v: "t = q @ v" "y @ z = v @ e # u" by blast
    then have "e \<in> set y \<or> e \<in> set z" by (metis in_set_conv_decomp set_append Un_iff)
    with y(2) 1(3) e have "A a e" by (auto simp: list_all_iff)
    with c Ok q v show ?thesis by blast
  qed (rule stop, use c 1 in \<open>simp add: bindM_def\<close>)+
qed

section \<open>What accepted prompts leave in the trace\<close>

lemma emit_Ok_iff [runs]: "emit e w = (Ok a, w') \<longleftrightarrow> w' = ext_trace w [e]"
  by (simp add: emit_def modifyM_Ok_iff)

lemma await_Ok_iff [runs]: "await v w = (Ok a, w') \<longleftrightarrow> v = Some a \<and> w' = w"
  by (auto simp: await_def liftM_def split: option.splits)

lemma unwrapM_Ok_iff [runs]: "unwrapM v w = (Ok a, w') \<longleftrightarrow> v = Some a \<and> w' = w"
  by (auto simp: unwrapM_def liftM_def split: option.splits)

lemma ask_OkD: "ask E p w = (Ok a, w') \<Longrightarrow> w' = ext_trace w [EvAsk p True]"
  by (auto simp: ask_def runs split: if_splits)

lemma confirm_OkD: "confirm E p w = (Ok a, w') \<Longrightarrow> w' = ext_trace w [EvAsk (PConfirm p) True]"
  by (auto simp: confirm_def to_c_params_def runs dest: ask_OkD)

lemma user_abort_Ok_iff [runs]: "user_abort m w = (Ok a, w') \<longleftrightarrow> m w = (Ok a, w')"
  by (simp add: user_abort_def runs)

lemma on_user_abort_Ok_iff [runs]: "on_user_abort m f w = (Ok a, w') \<longleftrightarrow> m w = (Ok a, w')"
  by (auto simp: on_user_abort_def bindM_def failM_def split: prod.splits result.splits Error.splits)

lemma verify_recipient_OkD:
  "verify_recipient E r a w = (Ok u, w') \<Longrightarrow> w' = ext_trace w [EvAsk (PRecipient r a) True]"
  by (auto simp: verify_recipient_def runs dest: ask_OkD)

text \<open>
  A total and fee prompt that was accepted, and the extra warning if the fee is at least 10 percent
  of the amount sent.
\<close>

definition high_fee :: "f64 option \<Rightarrow> bool" where
  "high_fee p \<longleftrightarrow> (case p of Some f \<Rightarrow> f64_ge f FEE_WARNING_THRESHOLD | None \<Rightarrow> False)"

definition fee_events :: "string \<Rightarrow> string \<Rightarrow> f64 option \<Rightarrow> trace" where
  "fee_events t f p = EvAsk (PFee t f (\<not> high_fee p)) True #
     (if high_fee p then [EvAsk (PConfirm (high_fee_params (the p))) True] else [])"

lemma verify_total_fee_OkD:
  assumes "verify_total_fee E t f p w = (Ok a, w')" shows "w' = ext_trace w (fee_events t f p)"
proof (cases "high_fee p")
  case True
  then obtain g where "p = Some g" "f64_ge g FEE_WARNING_THRESHOLD"
    by (auto simp: high_fee_def split: option.splits)
  with assms True show ?thesis
    by (auto simp: verify_total_fee_def fee_events_def runs dest!: ask_OkD confirm_OkD)
next
  case False
  then have "(case p of None \<Rightarrow> None | Some f \<Rightarrow> if f64_ge f FEE_WARNING_THRESHOLD then Some f else None)
      = None"
    by (auto simp: high_fee_def split: option.splits)
  with assms False show ?thesis
    by (auto simp: verify_total_fee_def fee_events_def Let_def runs dest!: ask_OkD)
qed

section \<open>A concrete environment\<close>

text \<open>
  An instance of the parameters on which hypotheses can be checked: hash functions without
  collisions, one extended public key for every path, a user who accepts everything and a host that
  sends nothing.
\<close>

definition sample_xpub :: bytes where
  "sample_xpub = [0x04, 0x88, 0xb2, 0x1e] @ replicate 74 0"

definition sample_env :: env where
  "sample_env = \<lparr>env_sha256 = (\<lambda>x. x), env_hash160 = (\<lambda>x. take 20 (x @ replicate 20 0)),
     env_keccak256 = (\<lambda>x. x), env_base58check = (\<lambda>x. map (\<lambda>b. char_of (unat b)) x),
     env_segwit_encode = (\<lambda>hrp v p. Some (hrp @ show_nat v @ map (\<lambda>b. char_of (unat b)) p)),
     env_bip32_xpub_at = (\<lambda>seed kp. Some sample_xpub),
     env_derive_xpub = (\<lambda>x kp. if list_all (\<lambda>k. k < HARDENED) kp then Some sample_xpub else None),
     env_uncompress = (\<lambda>p. Some (replicate 65 4)), env_bip86_pubkey = (\<lambda>p. Some (replicate 32 7)),
     env_sign = (\<lambda>seed kp m n. Some (replicate 64 1, 0)),
     env_schnorr_sign = (\<lambda>seed kp m r. Some (replicate 64 2)),
     env_nonce_commit = (\<lambda>seed kp m c. Some (replicate 33 3)),
     env_ecdsa_verify = (\<lambda>pk m s. True), env_pubkey_ok = (\<lambda>p. True), env_ms_parse = (\<lambda>s. Some [MsKey ''@0/**'']),
     env_ms_encode = (\<lambda>s ks. Some (concat ks)),
     env_user_confirm = (\<lambda>tr p. Some True), env_user_choose = (\<lambda>tr p. Some (Some 0)),
     env_user_enter = (\<lambda>tr p. Some (Some [])), env_host_next = (\<lambda>tr. Err ErrInvalidInput),
     env_flash_ok = (\<lambda>tr. True), env_random_32 = (\<lambda>tr. replicate 32 5),
     env_hmac_sha256 = (\<lambda>k m. k @ m), env_blake2b = (\<lambda>n m. take n (m @ replicate n 0)),
     env_crc32 = (\<lambda>m. of_nat (length m)),
     env_bech32_encode = (\<lambda>hrp m. hrp @ CHR ''1'' # str_of_bytes m),
     env_bech32_decode = (\<lambda>s. None), env_base58_decode = (\<lambda>s. Some (as_bytes s)),
     env_ed25519_xpub = (\<lambda>seed kp. (replicate 32 8, replicate 32 9)),
     env_ed25519_sign = (\<lambda>seed kp m. (replicate 64 4, replicate 32 8)),
     env_bip39_word = (\<lambda>i. if i < 2048 then Some (show_nat i) else None),
     env_bip39_from_bytes = (\<lambda>m. Some (str_of_bytes m)),
     env_bip39_to_bytes = (\<lambda>s. Some (as_bytes s)),
     env_bip39_to_seed = (\<lambda>m p. Some (as_bytes (m @ p))),
     env_bip85_entropy = (\<lambda>seed kp. Some (replicate 64 6)),
     env_salt_hash = (\<lambda>salt m purpose. replicate 32 0),
     env_stretch = (\<lambda>salt keys p. salt @ replicate keys 1 @ as_bytes p),
     env_aes_encrypt = (\<lambda>iv k m. of_nat (length k) # k @ m),
     env_aes_decrypt = (\<lambda>k c. if take (length k + 1) c = of_nat (length k) # k
       then Some (drop (length k + 1) c) else None),
     env_securechip_error = (\<lambda>tr. 0), env_monotonic_remaining = (\<lambda>tr. Some 700000),
     env_securechip_model = Some ''ATECC608B'',
     env_attestation = Some (replicate 64 1, replicate 64 2, replicate 32 3),
     env_attestation_sign = (\<lambda>h. Some (replicate 64 4)), env_bootloader_hash = replicate 32 5,
     env_version = ''v9.17.0'', env_app_u2f = True, env_sd_inserted = (\<lambda>tr. True), env_sd_ok = (\<lambda>tr. True),
     env_strftime = (\<lambda>t f. show_nat (unat t)),
     env_backup_encode = (\<lambda>b. []), env_backup_decode = (\<lambda>b. None),
     env_backup_data_encode = (\<lambda>d. []), env_backup_data_decode = (\<lambda>b. None), env_erc20_tables = []\<rparr>"

definition sample_world :: world where
  "sample_world = \<lparr>w_trace = [], w_seed = Some (replicate 32 1), w_bip39_seed = Some (replicate 64 2),
     w_multisigs = replicate 25 None, w_initialized = True, w_seeded = True,
     w_passphrase_enabled = False, w_device_name = ''My BitBox'', w_seed_birthdate = 0,
     w_noise_pubkeys = [], w_noise_private_key = replicate 32 3, w_encrypted_seed = [], w_unlock_attempts = 0,
     w_salt_root = replicate 32 7, w_securechip_keys = 0, w_sd = []\<rparr>"

end
