(* ===== verification/Workflows.thy ===== *)
theory Workflows
  imports World
begin

text \<open>
  The interactive workflows below the API handlers (\<open>workflow/trinary_input_string.rs\<close>,
  \<open>trinary_choice.rs\<close>, \<open>menu.rs\<close>, \<open>sdcard.rs\<close>, \<open>cancel.rs\<close> and \<open>password.rs\<close>): text entry, choices, the
  confirmation of a cancellation and the entry of a new password.
\<close>

section \<open>Model\<close>

text \<open>The error of a cancelled workflow, \<open>cancel::Error::Cancelled\<close>, is the unit error.\<close>

type_synonym 'a cancellable = "(world, unit, 'a) io"

datatype CanCancel = CanCancelNo | CanCancelYes

definition input_default :: InputParams where
  "input_default = \<lparr>ip_title = [], ip_wordlist = None, ip_number_input = False, ip_hide = False,
     ip_special_chars = False, ip_longtouch = False, ip_cancel_is_backbutton = False\<rparr>"

text \<open>
  Text entry. Without a cancel callback the component has no cancel button, so only a text can end
  the wait.
\<close>

definition enter :: "env \<Rightarrow> InputParams \<Rightarrow> CanCancel \<Rightarrow> string \<Rightarrow> string cancellable" where
  "enter E params can_cancel preset =
     bindM (liftM (truncate_str (ip_title params) (MAX_LABEL_SIZE + 1))) (\<lambda>title.
     bindM (unwrapM (str_to_cstr_vec title)) (\<lambda>_.
     bindM (unwrapM (str_to_cstr_vec preset)) (\<lambda>_.
     bindM (getM w_trace) (\<lambda>tr.
     bindM (await (env_user_enter E tr (PInput params preset))) (\<lambda>answer.
     case (answer, can_cancel) of
       (None, CanCancelNo) \<Rightarrow> liftM Pending
     | (None, CanCancelYes) \<Rightarrow> bindM (emit (EvEnter (PInput params preset) None)) (\<lambda>_. failM ())
     | (Some s, _) \<Rightarrow> bindM (emit (EvEnter (PInput params preset) (Some s))) (\<lambda>_. returnM s))))))"

text \<open>A choice among the entries of a menu; the component reports indices below the number of entries.\<close>

definition choose_from :: "env \<Rightarrow> prompt \<Rightarrow> nat \<Rightarrow> nat cancellable" where
  "choose_from E p n =
     bindM (getM w_trace) (\<lambda>tr.
     bindM (await (env_user_choose E tr p)) (\<lambda>answer.
     case answer of
       None \<Rightarrow> bindM (emit (EvChoose p None)) (\<lambda>_. failM ())
     | Some i \<Rightarrow> if i < n then bindM (emit (EvChoose p (Some i))) (\<lambda>_. returnM i) else liftM Pending))"

definition check_cstrs :: "string list \<Rightarrow> (world, 'e, unit) io" where
  "check_cstrs ss = foldM (\<lambda>s _. bindM (unwrapM (str_to_cstr_vec s)) (\<lambda>_. returnM ())) ss ()"

definition menu_pick :: "env \<Rightarrow> string list \<Rightarrow> string option \<Rightarrow> nat cancellable" where
  "menu_pick E ws title =
     bindM (check_cstrs (ws @ (case title of None \<Rightarrow> [] | Some t \<Rightarrow> [t]))) (\<lambda>_.
     choose_from E (PMenu ws title) (length ws))"

datatype TrinaryChoice = TRINARY_CHOICE_LEFT | TRINARY_CHOICE_MIDDLE | TRINARY_CHOICE_RIGHT

text \<open>The trinary choice has three buttons and no way to cancel.\<close>

definition trinary_choose :: "env \<Rightarrow> string \<Rightarrow> string \<Rightarrow> string \<Rightarrow> string \<Rightarrow> (world, 'e, TrinaryChoice) io" where
  "trinary_choose E message label_left label_middle label_right =
     (let p = PTrinaryChoice message label_left label_middle label_right in
     bindM (check_cstrs [message, label_left, label_middle, label_right]) (\<lambda>_.
     bindM (getM w_trace) (\<lambda>tr.
     bindM (await (env_user_choose E tr p)) (\<lambda>answer.
     bindM (await (case answer of Some i \<Rightarrow> if i = 0 then Some TRINARY_CHOICE_LEFT
        else if i = 1 then Some TRINARY_CHOICE_MIDDLE
        else if i = 2 then Some TRINARY_CHOICE_RIGHT else None | None \<Rightarrow> None)) (\<lambda>choice.
     bindM (emit (EvChoose p answer)) (\<lambda>_. returnM choice))))))"

definition sdcard :: "env \<Rightarrow> bool \<Rightarrow> (world, unit, unit) io" where
  "sdcard E do_insert = ask E (PSdcard do_insert)"

text \<open>The result of a computation whose error is handled by the caller.\<close>

definition attempt :: "(world, 'e, 'a) io \<Rightarrow> (world, 'f, 'e + 'a) io" where
  "attempt m w = (case m w of (Ok a, w) \<Rightarrow> (Ok (Inr a), w) | (Err e, w) \<Rightarrow> (Ok (Inl e), w)
     | (Panic, w) \<Rightarrow> (Panic, w) | (Pending, w) \<Rightarrow> (Pending, w))"

definition cancel_body :: string where
  "cancel_body = ''Do you really'' @ [CHR 0x0A] @ ''want to cancel?''"

text \<open>
  \<open>with_cancel\<close>: a cancelled component stays on the screen until the user confirms the cancellation.
\<close>

definition with_cancel :: "env \<Rightarrow> string \<Rightarrow> 'a cancellable \<Rightarrow> 'a cancellable" where
  "with_cancel E title component = loopM (\<lambda>_.
     bindM (attempt component) (\<lambda>result.
     case result of
       Inr a \<Rightarrow> returnM (Inr a)
     | Inl _ \<Rightarrow>
         bindM (attempt (confirm E (confirm_default\<lparr>cp_title := title, cp_body := cancel_body\<rparr>))) (\<lambda>c.
         case c of Inl _ \<Rightarrow> returnM (Inl ()) | Inr _ \<Rightarrow> failM ()))) ()"

section \<open>Passwords\<close>

definition prompt_cancel :: "env \<Rightarrow> (world, unit, unit) io" where
  "prompt_cancel E = confirm E (confirm_default\<lparr>cp_body := cancel_body\<rparr>)"

definition password_params :: "string \<Rightarrow> bool \<Rightarrow> InputParams" where
  "password_params title special_chars = input_default\<lparr>ip_title := title, ip_hide := True,
     ip_special_chars := special_chars, ip_longtouch := True\<rparr>"

definition password_enter :: "env \<Rightarrow> string \<Rightarrow> bool \<Rightarrow> CanCancel \<Rightarrow> string cancellable" where
  "password_enter E title special_chars can_cancel = loopM (\<lambda>_.
     bindM (attempt (enter E (password_params title special_chars) can_cancel [])) (\<lambda>r.
     case r of
       Inr pw \<Rightarrow> returnM (Inr pw)
     | Inl _ \<Rightarrow>
         bindM (attempt (prompt_cancel E)) (\<lambda>c.
         case c of Inr _ \<Rightarrow> failM () | Inl _ \<Rightarrow> returnM (Inl ())))) ()"

datatype EnterTwiceError = DoNotMatch | TwiceCancelled

definition short_password_params :: ConfirmParams where
  "short_password_params = confirm_default\<lparr>cp_title := ''WARNING'',
     cp_body := ''Your password'' @ [CHR 0x0A] @ '' has fewer than'' @ [CHR 0x0A]
       @ '' 4 characters.'' @ [CHR 0x0A] @ ''Continue?'',
     cp_longtouch := True\<rparr>"

definition warn_short :: "env \<Rightarrow> (world, EnterTwiceError, unit) io" where
  "warn_short E = loopM (\<lambda>_.
     bindM (attempt (confirm E short_password_params)) (\<lambda>r.
     case r of
       Inr _ \<Rightarrow> returnM (Inr ())
     | Inl _ \<Rightarrow>
         bindM (attempt (prompt_cancel E)) (\<lambda>c.
         case c of Inr _ \<Rightarrow> failM TwiceCancelled | Inl _ \<Rightarrow> returnM (Inl ())))) ()"

definition enter_twice :: "env \<Rightarrow> (world, EnterTwiceError, string) io" where
  "enter_twice E =
     bindM (map_errM (\<lambda>_. TwiceCancelled) (password_enter E ''Set password'' False CanCancelYes)) (\<lambda>password.
     bindM (map_errM (\<lambda>_. TwiceCancelled) (password_enter E ''Repeat password'' False CanCancelYes)) (\<lambda>password_repeat.
     bindM (if password \<noteq> password_repeat
            then bindM (status (''Passwords'' @ [CHR 0x0A] @ ''do not match'') False) (\<lambda>_. failM DoNotMatch)
            else returnM ()) (\<lambda>_.
     bindM (if length password < 4 then warn_short E else returnM ()) (\<lambda>_.
     bindM (status ''Success'' True) (\<lambda>_.
     returnM password)))))"

end
