(* ===== verification/Keystore.thy ===== *)
theory Keystore
  imports Workflows
begin

text \<open>
  The state that outlives a request: the flash memory (\<open>memory/memory.c\<close>), the factory reset
  (\<open>reset.c\<close>) and the keystore (\<open>keystore.c\<close> with the wrappers of \<open>bitbox02/src/keystore.rs\<close>): creating,
  storing, unlocking and locking the seed. The encryption of the seeds retained in RAM is not
  modelled: a retained seed is there or not.
\<close>

section \<open>Flash memory and secure chip\<close>

definition write_chunk :: "env \<Rightarrow> (world \<Rightarrow> world) \<Rightarrow> (world, unit, unit) io" where
  "write_chunk E f =
     bindM (getM (\<lambda>w. env_flash_ok E (w_trace w))) (\<lambda>ok.
     bindM (emit (EvFlash ok)) (\<lambda>_.
     if ok then modifyM f else failM ()))"

text \<open>A call of the secure chip and its result, 0 for success.\<close>

definition securechip_call :: "env \<Rightarrow> (world, 'e, int) io" where
  "securechip_call E =
     bindM (getM (\<lambda>w. env_securechip_error E (w_trace w))) (\<lambda>r.
     bindM (emit (EvSecurechip r)) (\<lambda>_. returnM r))"

definition MEMORY_DEFAULT_DEVICE_NAME :: string where "MEMORY_DEFAULT_DEVICE_NAME = ''My BitBox''"

definition erased :: bytes where "erased = replicate 32 0xff"

text \<open>
  Erasing chunk 1 (system data) and chunk 2 (registered accounts); a reset erases four more chunks, which
  hold nothing.
\<close>

definition erase_chunk_1 :: "world \<Rightarrow> world" where
  "erase_chunk_1 w = w\<lparr>w_initialized := False, w_seeded := False, w_passphrase_enabled := False,
     w_device_name := MEMORY_DEFAULT_DEVICE_NAME, w_seed_birthdate := 0, w_noise_pubkeys := replicate 5 erased,
     w_noise_private_key := erased, w_encrypted_seed := [], w_salt_root := erased\<rparr>"

definition erase_chunk_2 :: "world \<Rightarrow> world" where
  "erase_chunk_2 w = w\<lparr>w_multisigs := map (\<lambda>_. None) (w_multisigs w)\<rparr>"

definition memory_reset_hww :: "env \<Rightarrow> (world, unit, unit) io" where
  "memory_reset_hww E =
     bindM (foldM (\<lambda>erase _. write_chunk E erase) [erase_chunk_1, erase_chunk_2, id, id, id, id] ()) (\<lambda>_.
     bindM (random_32_bytes E) (\<lambda>salt_root.
     bindM (random_32_bytes E) (\<lambda>private_key.
     write_chunk E (\<lambda>w. w\<lparr>w_salt_root := salt_root, w_noise_private_key := private_key\<rparr>))))"

definition memory_set_initialized :: "env \<Rightarrow> (world, unit, unit) io" where
  "memory_set_initialized E =
     bindM (getM w_seeded) (\<lambda>seeded.
     if \<not> seeded then failM () else write_chunk E (\<lambda>w. w\<lparr>w_initialized := True\<rparr>))"

definition memory_set_mnemonic_passphrase_enabled :: "env \<Rightarrow> bool \<Rightarrow> (world, unit, unit) io" where
  "memory_set_mnemonic_passphrase_enabled E enabled = write_chunk E (\<lambda>w. w\<lparr>w_passphrase_enabled := enabled\<rparr>)"

text \<open>A name is stored as a C string of at most 63 bytes; an erased birth date reads as 0.\<close>

definition memory_set_device_name :: "env \<Rightarrow> string \<Rightarrow> (world, unit, unit) io" where
  "memory_set_device_name E name =
     bindM (liftM (ok_or () (str_to_cstr_vec name))) (\<lambda>_.
     if name \<noteq> [] \<and> hd name = CHR 0xFF then failM ()
     else write_chunk E (\<lambda>w. w\<lparr>w_device_name := take 63 name\<rparr>))"

definition memory_set_seed_birthdate :: "env \<Rightarrow> u32 \<Rightarrow> (world, unit, unit) io" where
  "memory_set_seed_birthdate E timestamp =
     write_chunk E (\<lambda>w. w\<lparr>w_seed_birthdate := (if timestamp = 0xFFFFFFFF then 0 else timestamp)\<rparr>)"

text \<open>The five remembered hosts: the oldest is evicted.\<close>

definition memory_check_noise_remote_static_pubkey :: "world \<Rightarrow> bytes \<Rightarrow> bool" where
  "memory_check_noise_remote_static_pubkey w pubkey \<longleftrightarrow> pubkey \<in> set (w_noise_pubkeys w)"

definition memory_add_noise_remote_static_pubkey :: "env \<Rightarrow> bytes \<Rightarrow> (world, unit, unit) io" where
  "memory_add_noise_remote_static_pubkey E pubkey =
     bindM (getM (\<lambda>w. memory_check_noise_remote_static_pubkey w pubkey)) (\<lambda>stored.
     if stored then returnM ()
     else write_chunk E (\<lambda>w. w\<lparr>w_noise_pubkeys := tl (w_noise_pubkeys w) @ [pubkey]\<rparr>))"

definition keystore_lock :: "world \<Rightarrow> world" where
  "keystore_lock w = w\<lparr>w_seed := None, w_bip39_seed := None\<rparr>"

text \<open>New keys in the secure chip, one by one; the stretched passwords change with each.\<close>

definition roll_key :: "env \<Rightarrow> (world, 'e, bool) io" where
  "roll_key E =
     bindM (securechip_call E) (\<lambda>r.
     if r = 0 then bindM (modifyM (\<lambda>w. w\<lparr>w_securechip_keys := w_securechip_keys w + 1\<rparr>)) (\<lambda>_. returnM True)
     else returnM False)"

definition securechip_update_keys :: "env \<Rightarrow> (world, 'e, bool) io" where
  "securechip_update_keys E = bindM (roll_key E) (\<lambda>ok. if ok then roll_key E else returnM False)"

text \<open>Up to \<open>n\<close> tries of a call of the secure chip.\<close>

fun retry :: "nat \<Rightarrow> (world, 'e, bool) io \<Rightarrow> (world, 'e, bool) io" where
  "retry 0 m = returnM False"
| "retry (Suc n) m = bindM m (\<lambda>ok. if ok then returnM True else retry n m)"

text \<open>
  The factory reset ends with a restart of the device, on which the unlock attempts are erased: it
  never returns to its caller.
\<close>

definition reset_reset :: "env \<Rightarrow> (world, 'e, 'a) io" where
  "reset_reset E =
     bindM (modifyM keystore_lock) (\<lambda>_.
     bindM (retry 5 (securechip_update_keys E)) (\<lambda>updated.
     bindM (unwrapM (if updated then Some () else None)) (\<lambda>_.
     bindM (if env_app_u2f E then retry 5 (bindM (securechip_call E) (\<lambda>r. returnM (r = 0)))
       else returnM True) (\<lambda>u2f_counter_set.
     bindM (unwrapM (if u2f_counter_set then Some () else None)) (\<lambda>_.
     bindM (attempt (memory_reset_hww E)) (\<lambda>r.
     bindM (unwrapM (case r of Inr _ \<Rightarrow> Some () | Inl _ \<Rightarrow> None)) (\<lambda>_.
     bindM (modifyM (\<lambda>w. w\<lparr>w_unlock_attempts := 0\<rparr>)) (\<lambda>_.
     liftM Pending))))))))"

section \<open>Storing the seed\<close>

datatype KeystoreError = CannotUnlockBIP39 | IncorrectPassword nat | MaxAttemptsExceeded | Unseeded
  | KeystoreMemory | SecureChip int | Salt | Hash | SeedSize | Encrypt

definition validate_seed_length :: "nat \<Rightarrow> bool" where
  "validate_seed_length n \<longleftrightarrow> n = 16 \<or> n = 24 \<or> n = 32"

definition KDF_NUM_ITERATIONS :: nat where "KDF_NUM_ITERATIONS = 2"

definition securechip_kdf :: "env \<Rightarrow> (world, int, unit) io" where
  "securechip_kdf E = bindM (securechip_call E) (\<lambda>r. if r = 0 then returnM () else failM r)"

text \<open>The password is stretched by the secure chip, once with the rolling key and then in rounds.\<close>

definition stretch_password :: "env \<Rightarrow> string \<Rightarrow> (world, KeystoreError, bytes) io" where
  "stretch_password E password =
     bindM (getM w_salt_root) (\<lambda>salt_root.
     if salt_root = erased then failM Salt
     else bindM (map_errM SecureChip
         (bindM (securechip_kdf E) (\<lambda>_. foldM (\<lambda>_ _. securechip_kdf E) [0..<KDF_NUM_ITERATIONS] ()))) (\<lambda>_.
       getM (\<lambda>w. env_stretch E salt_root (w_securechip_keys w) password)))"

text \<open>The decrypted seed, None for a wrong password.\<close>

definition get_and_decrypt_seed :: "env \<Rightarrow> string \<Rightarrow> (world, KeystoreError, bytes option) io" where
  "get_and_decrypt_seed E password =
     bindM (getM w_seeded) (\<lambda>seeded.
     if \<not> seeded then failM KeystoreMemory
     else bindM (stretch_password E password) (\<lambda>secret.
       bindM (getM w_encrypted_seed) (\<lambda>encrypted.
       if length encrypted < 49 then liftM Panic
       else case env_aes_decrypt E secret encrypted of
         None \<Rightarrow> returnM None
       | Some seed \<Rightarrow> if validate_seed_length (length seed) then returnM (Some seed) else failM SeedSize)))"

definition verify_seed :: "env \<Rightarrow> string \<Rightarrow> bytes \<Rightarrow> (world, 'e, bool) io" where
  "verify_seed E password expected =
     bindM (attempt (get_and_decrypt_seed E password)) (\<lambda>r. returnM (r = Inr (Some expected)))"

text \<open>The code of a secure chip failure is lost when a seed is stored.\<close>

definition no_code :: "KeystoreError \<Rightarrow> KeystoreError" where
  "no_code e = (case e of SecureChip _ \<Rightarrow> SecureChip 0 | _ \<Rightarrow> e)"

definition encrypt_and_store_seed :: "env \<Rightarrow> bytes \<Rightarrow> string \<Rightarrow> (world, KeystoreError, unit) io" where
  "encrypt_and_store_seed E seed password =
     bindM (getM w_initialized) (\<lambda>initialized.
     if initialized then failM KeystoreMemory
     else bindM (modifyM keystore_lock) (\<lambda>_.
       if \<not> validate_seed_length (length seed) then failM SeedSize
       else bindM (securechip_update_keys E) (\<lambda>updated.
         if \<not> updated then failM (SecureChip 0)
         else bindM (map_errM no_code (stretch_password E password)) (\<lambda>secret.
           bindM (random_32_bytes E) (\<lambda>iv.
           bindM (map_errM (\<lambda>_. KeystoreMemory) (write_chunk E (\<lambda>w.
             w\<lparr>w_encrypted_seed := env_aes_encrypt E iv secret seed, w_seeded := True\<rparr>))) (\<lambda>_.
           bindM (verify_seed E password seed) (\<lambda>ok.
           if ok then returnM ()
           else bindM (attempt (memory_reset_hww E)) (\<lambda>_. failM KeystoreMemory))))))))"

text \<open>A new seed: randomness of the device, entropy of the host and of the password.\<close>

definition xor_bytes :: "bytes \<Rightarrow> bytes \<Rightarrow> bytes" where
  "xor_bytes x y = map (\<lambda>(a, b). xor a b) (zip x y)"

definition create_and_store_seed :: "env \<Rightarrow> string \<Rightarrow> bytes \<Rightarrow> (world, KeystoreError, unit) io" where
  "create_and_store_seed E password host_entropy =
     (if length host_entropy \<noteq> 16 \<and> length host_entropy \<noteq> 32 then failM SeedSize
      else bindM (random_32_bytes E) (\<lambda>random.
        bindM (getM w_salt_root) (\<lambda>salt_root.
        if salt_root = erased then failM Salt
        else encrypt_and_store_seed E
          (xor_bytes (xor_bytes random host_entropy)
            (env_salt_hash E salt_root (as_bytes password) ''keystore_seed_generation'')) password)))"

section \<open>Unlocking\<close>

definition MAX_UNLOCK_ATTEMPTS :: nat where "MAX_UNLOCK_ATTEMPTS = 10"

text \<open>What follows an attempt: the remaining attempts are counted, and the device is reset at the last.\<close>

definition unlock_result :: "env \<Rightarrow> bool \<Rightarrow> (world, KeystoreError, unit) io" where
  "unlock_result E correct =
     bindM (getM w_unlock_attempts) (\<lambda>failed_attempts.
     if MAX_UNLOCK_ATTEMPTS \<le> failed_attempts then reset_reset E
     else if correct then returnM ()
     else failM (IncorrectPassword (MAX_UNLOCK_ATTEMPTS - failed_attempts)))"

text \<open>
  A retained seed is kept encrypted in RAM, under a random key the secure chip stretches at every use.
  The model keeps the seed itself, and the use of the chip, which may fail.
\<close>

definition stretch_retained_key :: "env \<Rightarrow> (world, KeystoreError, unit) io" where
  "stretch_retained_key E =
     bindM (getM w_salt_root) (\<lambda>salt_root.
     if salt_root = erased then failM Salt else map_errM (\<lambda>_. SecureChip 0) (securechip_kdf E))"

definition copy_seed :: "env \<Rightarrow> (world, unit, bytes) io" where
  "copy_seed E =
     bindM (getM w_seed) (\<lambda>current.
     case current of
       None \<Rightarrow> failM ()
     | Some seed \<Rightarrow> bindM (map_errM (\<lambda>_. ()) (stretch_retained_key E)) (\<lambda>_. returnM seed))"

definition retain_seed :: "env \<Rightarrow> bytes \<Rightarrow> (world, KeystoreError, unit) io" where
  "retain_seed E seed =
     bindM (random_32_bytes E) (\<lambda>_.
     bindM (stretch_retained_key E) (\<lambda>_.
     modifyM (\<lambda>w. w\<lparr>w_seed := Some seed\<rparr>)))"

text \<open>
  An unlocked device checks that the seed is the one it has. Where the seed cannot be read, the error
  is one the Rust wrapper does not convert.
\<close>

definition check_or_retain :: "env \<Rightarrow> bytes \<Rightarrow> (world, KeystoreError, unit) io" where
  "check_or_retain E seed =
     bindM (getM w_seed) (\<lambda>current.
     if current = None then retain_seed E seed
     else bindM (attempt (copy_seed E)) (\<lambda>r. unwrapM (if r = Inr seed then Some () else None)))"

definition keystore_unlock :: "env \<Rightarrow> string \<Rightarrow> (world, KeystoreError, unit) io" where
  "keystore_unlock E password =
     bindM (getM w_seeded) (\<lambda>seeded.
     if \<not> seeded then failM Unseeded
     else bindM (getM w_unlock_attempts) (\<lambda>failed_attempts.
       if MAX_UNLOCK_ATTEMPTS \<le> failed_attempts then reset_reset E
       else bindM (modifyM (\<lambda>w. w\<lparr>w_unlock_attempts := w_unlock_attempts w + 1\<rparr>)) (\<lambda>_.
         bindM (get_and_decrypt_seed E password) (\<lambda>r.
         case r of
           None \<Rightarrow> unlock_result E False
         | Some seed \<Rightarrow>
             bindM (check_or_retain E seed) (\<lambda>_.
             bindM (modifyM (\<lambda>w. w\<lparr>w_unlock_attempts := 0\<rparr>)) (\<lambda>_.
             unlock_result E True))))))"

definition retain_bip39_seed :: "env \<Rightarrow> bytes \<Rightarrow> (world, unit, unit) io" where
  "retain_bip39_seed E retained =
     bindM (random_32_bytes E) (\<lambda>_.
     bindM (map_errM (\<lambda>_. ()) (stretch_retained_key E)) (\<lambda>_.
     modifyM (\<lambda>w. w\<lparr>w_bip39_seed := Some retained\<rparr>)))"

definition keystore_unlock_bip39 :: "env \<Rightarrow> string \<Rightarrow> (world, KeystoreError, unit) io" where
  "keystore_unlock_bip39 E passphrase =
     map_errM (\<lambda>_. CannotUnlockBIP39)
      (bindM (copy_seed E) (\<lambda>seed.
       bindM (liftM (ok_or () (env_bip39_from_bytes E seed))) (\<lambda>mnemonic.
       bindM (liftM (ok_or () (env_bip39_to_seed E mnemonic passphrase))) (\<lambda>retained.
       retain_bip39_seed E retained))))"

text \<open>Mnemonics are read into a buffer of 256 bytes.\<close>

definition get_bip39_mnemonic :: "env \<Rightarrow> (world, unit, string) io" where
  "get_bip39_mnemonic E =
     bindM (getM is_locked) (\<lambda>locked.
     if locked then failM ()
     else bindM (copy_seed E) (\<lambda>seed.
       bindM (liftM (ok_or () (env_bip39_from_bytes E seed))) (\<lambda>mnemonic.
       if length mnemonic < 256 then returnM mnemonic else failM ())))"

definition bip85_seed_size :: "u32 \<Rightarrow> nat option" where
  "bip85_seed_size words = (if words = 12 then Some 16 else if words = 18 then Some 24
     else if words = 24 then Some 32 else None)"

definition bip85_bip39 :: "env \<Rightarrow> world \<Rightarrow> u32 \<Rightarrow> u32 \<Rightarrow> (unit, string) result" where
  "bip85_bip39 E w words idx =
     bindR (ok_or () (bip85_seed_size words)) (\<lambda>seed_size.
     if HARDENED \<le> idx then Err ()
     else bindR (bip39_seed w) (\<lambda>seed.
       bindR (ok_or () (env_bip85_entropy E seed
         [83696968 + HARDENED, 39 + HARDENED, HARDENED, words + HARDENED, idx + HARDENED])) (\<lambda>entropy.
       bindR (ok_or () (env_bip39_from_bytes E (take seed_size entropy))) (\<lambda>mnemonic.
       if length mnemonic < 256 then Ok mnemonic else Err ()))))"

definition bip85_ln :: "env \<Rightarrow> world \<Rightarrow> u32 \<Rightarrow> (unit, bytes) result" where
  "bip85_ln E w idx =
     (if HARDENED \<le> idx then Err ()
      else bindR (bip39_seed w) (\<lambda>seed.
        bindR (ok_or () (env_bip85_entropy E seed
          [83696968 + HARDENED, 19534 + HARDENED, HARDENED, 12 + HARDENED, idx + HARDENED])) (\<lambda>entropy.
        Ok (take 16 entropy))))"

end
