(* ===== verification/Mnemonic.thy ===== *)
theory Mnemonic
  imports Keystore
begin

unbundle bit_operations_syntax

text \<open>
  Recovery words (\<open>workflow/mnemonic.rs\<close>): showing and quizzing them, and entering them with a last
  word that fits the checksum. The word list and the checksum are libwally's.
\<close>

section \<open>Showing recovery words\<close>

definition NUM_RANDOM_WORDS :: nat where "NUM_RANDOM_WORDS = 5"

definition rand16 :: "env \<Rightarrow> (world, 'e, nat) io" where
  "rand16 E = bindM (random_32_bytes E) (\<lambda>r. returnM (256 * unat (r ! 0) + unat (r ! 1)))"

text \<open>A random word that was not picked before and is not the given one.\<close>

definition random_word :: "env \<Rightarrow> string \<Rightarrow> nat list \<Rightarrow> (world, 'e, nat \<times> string) io" where
  "random_word E word picked_indices = loopM (\<lambda>_.
     bindM (rand16 E) (\<lambda>r.
     if r mod 2048 \<in> set picked_indices then returnM (Inl ())
     else bindM (unwrapM (env_bip39_word E (r mod 2048))) (\<lambda>random_word.
       if random_word = word then returnM (Inl ()) else returnM (Inr (r mod 2048, random_word))))) ()"

definition create_random_unique_words :: "env \<Rightarrow> string \<Rightarrow> nat \<Rightarrow> (world, 'e, nat \<times> string list) io" where
  "create_random_unique_words E word n =
     bindM (rand16 E) (\<lambda>r.
     bindM (foldM (\<lambda>i (picked_indices, result).
         if i = (r mod 256) mod n then returnM (picked_indices, result @ [word])
         else bindM (random_word E word picked_indices) (\<lambda>(idx, w).
           returnM (picked_indices @ [idx], result @ [w]))) [0..<n] ([], [])) (\<lambda>(_, result).
     returnM ((r mod 256) mod n, result)))"

definition recovery_title :: string where
  "recovery_title = ''Recovery'' @ [CHR 0x0A] @ ''words''"

definition show_mnemonic :: "env \<Rightarrow> string list \<Rightarrow> unit cancellable" where
  "show_mnemonic E ws = with_cancel E recovery_title
     (bindM (check_cstrs ws) (\<lambda>_. bindM (choose_from E (PMenu ws None) 1) (\<lambda>_. returnM ())))"

definition confirm_word :: "env \<Rightarrow> string list \<Rightarrow> string \<Rightarrow> nat cancellable" where
  "confirm_word E choices title = with_cancel E recovery_title (menu_pick E choices (Some title))"

text \<open>One word of the quiz: until the right one is chosen.\<close>

definition quiz_word :: "env \<Rightarrow> string list \<Rightarrow> string \<Rightarrow> nat \<Rightarrow> string list \<Rightarrow> unit cancellable" where
  "quiz_word E ws title correct_idx choices = loopM (\<lambda>_.
     bindM (confirm_word E choices title) (\<lambda>selected_idx.
     if selected_idx = correct_idx then returnM (Inr ())
     else if selected_idx = length choices - 1 then bindM (show_mnemonic E ws) (\<lambda>_. returnM (Inl ()))
     else bindM (status (''Incorrect word'' @ [CHR 0x0A] @ ''Try again'') False) (\<lambda>_. returnM (Inl ())))) ()"

definition quiz_title :: "nat \<Rightarrow> string" where
  "quiz_title n = (if n < 10 then ''0'' @ show_nat n else show_nat n)"

fun quiz_words :: "env \<Rightarrow> string list \<Rightarrow> nat \<Rightarrow> string list \<Rightarrow> unit cancellable" where
  "quiz_words E ws n [] = returnM ()"
| "quiz_words E ws n (word # rest) =
     bindM (create_random_unique_words E word NUM_RANDOM_WORDS) (\<lambda>(correct_idx, choices).
     bindM (quiz_word E ws (quiz_title n) correct_idx (choices @ [''Back to'' @ [CHR 0x0A] @ ''recovery words''])) (\<lambda>_.
     quiz_words E ws (n + 1) rest))"

definition show_and_confirm_mnemonic :: "env \<Rightarrow> string list \<Rightarrow> unit cancellable" where
  "show_and_confirm_mnemonic E ws =
     bindM (show_mnemonic E ws) (\<lambda>_.
     bindM (attempt (confirm E (confirm_default\<lparr>cp_body := ''Please confirm'' @ [CHR 0x0A] @ ''each word'',
       cp_accept_only := True, cp_accept_is_nextarrow := True\<rparr>))) (\<lambda>_.
     quiz_words E ws 1 ws))"

section \<open>The last word\<close>

text \<open>
  Number of seed bits that are in the last word, bits of checksum and mask of the seed bits in the
  other words, by the number of words entered.
\<close>

definition lastword_bits :: "nat \<Rightarrow> (nat \<times> nat \<times> u8) option" where
  "lastword_bits n = (if n = 11 then Some (7, 4, 0x80) else if n = 17 then Some (5, 6, 0xE0)
     else if n = 23 then Some (3, 8, 0xF8) else None)"

definition bip39_mnemonic_to_seed :: "env \<Rightarrow> string \<Rightarrow> bytes option" where
  "bip39_mnemonic_to_seed E mnemonic =
     (case str_to_cstr_vec mnemonic of None \<Rightarrow> None | Some _ \<Rightarrow> env_bip39_to_bytes E mnemonic)"

text \<open>The first word of the list that completes the entered words, at most \<open>n\<close> are tried.\<close>

fun find_seed :: "env \<Rightarrow> string list \<Rightarrow> nat list \<Rightarrow> ('e, bytes) result" where
  "find_seed E entered_words [] = Panic"
| "find_seed E entered_words (i # is) = (case env_bip39_word E i of
     None \<Rightarrow> Panic
   | Some word \<Rightarrow> (case bip39_mnemonic_to_seed E (join '' '' entered_words @ '' '' @ word) of
       Some seed \<Rightarrow> Ok seed
     | None \<Rightarrow> find_seed E entered_words is))"

definition lastword_index :: "env \<Rightarrow> nat \<Rightarrow> u8 \<Rightarrow> bytes \<Rightarrow> nat \<Rightarrow> nat" where
  "lastword_index E checksum_len bitmask seed i =
     (let seed' = butlast seed @ [(last seed AND bitmask) OR of_nat i] in
      i * 2 ^ checksum_len + unat (hd (env_sha256 E seed')) div 2 ^ (8 - checksum_len))"

definition lastword_choices :: "env \<Rightarrow> string list \<Rightarrow> ('e, nat list) result" where
  "lastword_choices E entered_words = (case lastword_bits (length entered_words) of
     None \<Rightarrow> Panic
   | Some (seed_bits, checksum_len, bitmask) \<Rightarrow>
       bindR (find_seed E entered_words [0..<2048 div 2 ^ seed_bits]) (\<lambda>seed.
       Ok (map (lastword_index E checksum_len bitmask seed) [0..<2 ^ seed_bits])))"

definition bip39_words :: "env \<Rightarrow> nat list \<Rightarrow> ('e, string list) result" where
  "bip39_words E is = collectR (\<lambda>i. case env_bip39_word E i of None \<Rightarrow> Panic | Some w \<Rightarrow> Ok w) is"

definition restart_params :: ConfirmParams where
  "restart_params = confirm_default\<lparr>cp_body :=
     ''Invalid. Check'' @ [CHR 0x0A] @ ''recovery words.'' @ [CHR 0x0A] @ ''Restart?''\<rparr>"

text \<open>None means that none of the candidates is the user's word.\<close>

definition get_24th_word :: "env \<Rightarrow> string \<Rightarrow> string list \<Rightarrow> string option cancellable" where
  "get_24th_word E title entered_words =
     bindM (liftM (bindR (lastword_choices E entered_words) (bip39_words E))) (\<lambda>choices.
     loopM (\<lambda>_.
       bindM (menu_pick E (choices @ [''None of them'']) (Some title)) (\<lambda>choice_idx.
       if choice_idx = length choices
       then bindM (attempt (confirm E restart_params)) (\<lambda>c. case c of Inr _ \<Rightarrow> returnM (Inr None) | Inl _ \<Rightarrow> returnM (Inl ()))
       else bindM (attempt (confirm E (confirm_default\<lparr>cp_title := title, cp_body := choices ! choice_idx\<rparr>))) (\<lambda>c.
         case c of Inr _ \<Rightarrow> returnM (Inr (Some (choices ! choice_idx))) | Inl _ \<Rightarrow> returnM (Inl ())))) ())"

definition wordlist_params :: "string \<Rightarrow> string list \<Rightarrow> InputParams" where
  "wordlist_params title ws = input_default\<lparr>ip_title := title, ip_wordlist := Some ws\<rparr>"

definition get_12th_18th_word :: "env \<Rightarrow> string \<Rightarrow> string list \<Rightarrow> string cancellable" where
  "get_12th_18th_word E title entered_words = loopM (\<lambda>_.
     bindM (liftM (bindR (lastword_choices E entered_words) (bip39_words E))) (\<lambda>candidates.
     bindM (enter E (wordlist_params title candidates) CanCancelYes []) (\<lambda>word.
     bindM (attempt (confirm E (confirm_default\<lparr>cp_title := title, cp_body := word\<rparr>))) (\<lambda>c.
     case c of Inr _ \<Rightarrow> returnM (Inr word) | Inl _ \<Rightarrow> returnM (Inl ()))))) ()"

section \<open>Entering recovery words\<close>

definition word_title :: "nat \<Rightarrow> string" where
  "word_title n = show_nat n @ (if n = 1 \<or> n = 21 then ''st word'' else if n = 2 \<or> n = 22 then ''nd word''
     else if n = 3 \<or> n = 23 then ''rd word'' else ''th word'')"

text \<open>The entry of the word at an index; Some of a word, or None to give up.\<close>

definition enter_word :: "env \<Rightarrow> string list \<Rightarrow> nat \<Rightarrow> nat \<Rightarrow> string list \<Rightarrow> string option cancellable" where
  "enter_word E wordlist num_words word_idx entered_words =
     (if word_idx = num_words - 1 then
        (if num_words = 24 then get_24th_word E (word_title (word_idx + 1)) (take word_idx entered_words)
         else bindM (get_12th_18th_word E (word_title (word_idx + 1)) (take word_idx entered_words)) (\<lambda>w. returnM (Some w)))
      else bindM (enter E (wordlist_params (word_title (word_idx + 1)) wordlist) CanCancelYes (entered_words ! word_idx))
        (\<lambda>w. returnM (Some w)))"

definition cancel_restore_params :: ConfirmParams where
  "cancel_restore_params = confirm_default\<lparr>cp_title := ''Restore'', cp_body := cancel_body\<rparr>"

text \<open>After a cancelled entry: stay, edit the previous word, or cancel the restore.\<close>

definition entry_cancelled :: "env \<Rightarrow> nat \<Rightarrow> nat cancellable" where
  "entry_cancelled E word_idx =
     bindM (if word_idx = 0 then returnM (Inr 1)
       else attempt (menu_pick E [''Edit previous word'', ''Cancel restore''] (Some ''Choose''))) (\<lambda>choice.
     case choice of
       Inl _ \<Rightarrow> returnM word_idx
     | Inr i \<Rightarrow>
         if i = 0 then returnM (word_idx - 1)
         else bindM (attempt (confirm E cancel_restore_params)) (\<lambda>c.
           case c of Inl _ \<Rightarrow> returnM word_idx | Inr _ \<Rightarrow> failM ()))"

definition get_words :: "env \<Rightarrow> string list \<Rightarrow> nat \<Rightarrow> string list cancellable" where
  "get_words E wordlist num_words = loopM (\<lambda>(word_idx, entered_words).
     if num_words \<le> word_idx then returnM (Inr entered_words)
     else bindM (attempt (enter_word E wordlist num_words word_idx entered_words)) (\<lambda>user_entry.
       case user_entry of
         Inl _ \<Rightarrow> bindM (entry_cancelled E word_idx) (\<lambda>word_idx. returnM (Inl (word_idx, entered_words)))
       | Inr None \<Rightarrow> failM ()
       | Inr (Some word) \<Rightarrow> returnM (Inl (word_idx + 1, entered_words[word_idx := word]))))
     (0, replicate num_words [])"

definition mnemonic_get :: "env \<Rightarrow> string cancellable" where
  "mnemonic_get E =
     bindM (trinary_choose E ''How many words?'' ''12'' ''18'' ''24'') (\<lambda>choice.
     let num_words = (case choice of TRINARY_CHOICE_LEFT \<Rightarrow> 12 | TRINARY_CHOICE_MIDDLE \<Rightarrow> 18 | TRINARY_CHOICE_RIGHT \<Rightarrow> 24) in
     bindM (status (''Enter '' @ show_nat num_words @ '' words'') True) (\<lambda>_.
     bindM (liftM (bip39_words E [0..<2048])) (\<lambda>wordlist.
     bindM (get_words E wordlist num_words) (\<lambda>ws.
     returnM (join '' '' ws)))))"

end
