(* ===== verification/Btc_Script.thy ===== *)
theory Btc_Script
  imports Prelude
begin

text \<open>
  Bitcoin script serialisation and the signature hashes: \<open>bitcoin/script.rs\<close>,
  \<open>bitcoin/bip143.rs\<close> and \<open>bitcoin/bip341.rs\<close>. SHA-256 is a parameter \<open>sha256\<close>; the streaming
  hasher of the source hashes the concatenation of what it was fed.
\<close>

section \<open>Scripts\<close>

definition OP_0 :: u8 where "OP_0 = 0"
definition OP_1 :: u8 where "OP_1 = 0x51"
definition OP_HASH160 :: u8 where "OP_HASH160 = 0xa9"
definition OP_DUP :: u8 where "OP_DUP = 0x76"
definition OP_EQUALVERIFY :: u8 where "OP_EQUALVERIFY = 0x88"
definition OP_CHECKSIG :: u8 where "OP_CHECKSIG = 0xac"
definition OP_EQUAL :: u8 where "OP_EQUAL = 0x87"

definition serialize_varint :: "u64 \<Rightarrow> bytes" where
  "serialize_varint value =
     (if value \<le> 0xFC then [ucast value]
      else if value \<le> 0xFFFF then 0xFD # u16_le (ucast value)
      else if value \<le> 0xFFFFFFFF then 0xFE # u32_le (ucast value)
      else 0xFF # u64_le value)"

definition push_data :: "bytes \<Rightarrow> bytes \<Rightarrow> bytes" where
  "push_data v data = v @ serialize_varint (of_nat (length data)) @ data"

section \<open>BIP143 signature hash\<close>

record bip143_args =
  b143_version :: u32
  b143_hash_prevouts :: bytes
  b143_hash_sequence :: bytes
  b143_outpoint_hash :: bytes
  b143_outpoint_index :: u32
  b143_sighash_script :: bytes
  b143_prevout_value :: u64
  b143_sequence :: u32
  b143_hash_outputs :: bytes
  b143_locktime :: u32
  b143_sighash_flags :: u32

text \<open>The bytes the hasher is fed, in the order of the specification's ten items.\<close>

definition bip143_preimage :: "bip143_args \<Rightarrow> bytes" where
  "bip143_preimage args =
     u32_le (b143_version args) @
     b143_hash_prevouts args @
     b143_hash_sequence args @
     b143_outpoint_hash args @
     u32_le (b143_outpoint_index args) @
     serialize_varint (of_nat (length (b143_sighash_script args))) @
     b143_sighash_script args @
     u64_le (b143_prevout_value args) @
     u32_le (b143_sequence args) @
     b143_hash_outputs args @
     u32_le (b143_locktime args) @
     u32_le (b143_sighash_flags args)"

definition bip143_sighash :: "(bytes \<Rightarrow> bytes) \<Rightarrow> bip143_args \<Rightarrow> bytes" where
  "bip143_sighash sha256 args = sha256 (sha256 (bip143_preimage args))"

section \<open>BIP341 signature hash\<close>

record bip341_args =
  b341_version :: u32
  b341_locktime :: u32
  b341_hash_prevouts :: bytes
  b341_hash_amounts :: bytes
  b341_hash_scriptpubkeys :: bytes
  b341_hash_sequences :: bytes
  b341_hash_outputs :: bytes
  b341_input_index :: u32

definition bip341_preimage :: "bytes \<Rightarrow> bip341_args \<Rightarrow> bytes" where
  "bip341_preimage tag args =
     tag @ tag @
     [0] @ [0] @
     u32_le (b341_version args) @
     u32_le (b341_locktime args) @
     b341_hash_prevouts args @
     b341_hash_amounts args @
     b341_hash_scriptpubkeys args @
     b341_hash_sequences args @
     b341_hash_outputs args @
     [0] @
     u32_le (b341_input_index args)"

definition bip341_sighash :: "(bytes \<Rightarrow> bytes) \<Rightarrow> bip341_args \<Rightarrow> bytes" where
  "bip341_sighash sha256 args =
     (let tag = sha256 (as_bytes ''TapSighash'') in sha256 (bip341_preimage tag args))"

section \<open>Reading back\<close>

text \<open>The reader of a variable-length integer, as the Bitcoin protocol documents it.\<close>

definition read_varint :: "bytes \<Rightarrow> (u64 \<times> bytes) option" where
  "read_varint bs = (case bs of
      [] \<Rightarrow> None
    | b # r \<Rightarrow>
        if b = 0xFD then map_option (\<lambda>(h, t). (of_nat (le_val h), t)) (take_exact 2 r)
        else if b = 0xFE then map_option (\<lambda>(h, t). (of_nat (le_val h), t)) (take_exact 4 r)
        else if b = 0xFF then map_option (\<lambda>(h, t). (of_nat (le_val h), t)) (take_exact 8 r)
        else Some (ucast b, r))"

definition read_data :: "bytes \<Rightarrow> (bytes \<times> bytes) option" where
  "read_data bs = (case read_varint bs of
      None \<Rightarrow> None
    | Some (n, r) \<Rightarrow> take_exact (unat n) r)"

lemma read_varint_serialize: "read_varint (serialize_varint v @ r) = Some (v, r)"
proof -
  have small: "ucast (ucast v :: u8) = v \<and> (ucast v :: u8) \<noteq> 0xFD \<and> (ucast v :: u8) \<noteq> 0xFE
      \<and> (ucast v :: u8) \<noteq> 0xFF" if "v \<le> 0xFC"
  proof -
    from that have le: "unat v \<le> 0xFC" by (simp add: word_le_nat_alt)
    then have eq: "unat (ucast v :: u8) = unat v" by (intro unat_ucast_fits) simp
    have "unat (ucast (ucast v :: u8) :: u64) = unat v"
      using eq le by (subst unat_ucast_fits) auto
    then have "ucast (ucast v :: u8) = v" by (simp add: word_unat_eq_iff)
    moreover have "(ucast v :: u8) \<noteq> w" if "0xFC < unat w" for w :: u8
      using that le eq by auto
    ultimately show ?thesis by simp
  qed
  have u16: "unat (ucast v :: u16) = unat v" if "v \<le> 0xFFFF"
    using that by (intro unat_ucast_fits) (simp add: word_le_nat_alt)
  have u32: "unat (ucast v :: u32) = unat v" if "v \<le> 0xFFFFFFFF"
    using that by (intro unat_ucast_fits) (simp add: word_le_nat_alt)
  show ?thesis
    using small
    by (auto simp: serialize_varint_def read_varint_def le_val_u16_le le_val_u32_le le_val_u64_le
        u16 u32)
qed

interpretation varint: prefix_code serialize_varint read_varint "\<lambda>_. True"
  by unfold_locales (rule read_varint_serialize)

abbreviation fits_u64 :: "bytes \<Rightarrow> bool" where
  "fits_u64 d \<equiv> length d < 2 ^ 64"

interpretation lenpref: prefix_code "push_data []" read_data fits_u64
proof
  fix x r :: bytes
  assume "fits_u64 x"
  then have "unat (of_nat (length x) :: u64) = length x"
    by (simp add: unat_of_nat)
  then show "read_data (push_data [] x @ r) = Some (x, r)"
    by (simp add: push_data_def read_data_def read_varint_serialize)
qed

text \<open>
  C22: the variable-length integer encoding is self-delimiting and loses nothing: reading an
  encoded 64-bit value followed by arbitrary bytes gives back the value and those bytes.
\<close>

theorem serialize_varint_roundtrip: "read_varint (serialize_varint v @ rest) = Some (v, rest)"
  by (rule varint.dec_enc) simp

section \<open>What a signature hash commits to\<close>

definition bip143_wf :: "bip143_args \<Rightarrow> bool" where
  "bip143_wf a \<longleftrightarrow> length (b143_hash_prevouts a) = 32 \<and> length (b143_hash_sequence a) = 32 \<and>
     length (b143_outpoint_hash a) = 32 \<and> length (b143_hash_outputs a) = 32 \<and>
     fits_u64 (b143_sighash_script a)"

definition bip341_wf :: "bip341_args \<Rightarrow> bool" where
  "bip341_wf a \<longleftrightarrow> length (b341_hash_prevouts a) = 32 \<and> length (b341_hash_amounts a) = 32 \<and>
     length (b341_hash_scriptpubkeys a) = 32 \<and> length (b341_hash_sequences a) = 32 \<and>
     length (b341_hash_outputs a) = 32"

lemma script_code_eq:
  assumes "fits_u64 s" and "fits_u64 t"
  shows "serialize_varint (of_nat (length s)) @ s @ p = serialize_varint (of_nat (length t)) @ t @ q
     \<longleftrightarrow> s = t \<and> p = q"
  using lenpref.enc_append_eq [OF assms, of p q] by (simp add: push_data_def)

lemma bip143_preimage_inj:
  assumes "bip143_wf a" and "bip143_wf b" and "bip143_preimage a = bip143_preimage b"
  shows "a = b"
  using assms
  by (auto simp: bip143_preimage_def bip143_wf_def le32.enc_append_eq le64.enc_append_eq
      le32.enc_inj le64.enc_inj script_code_eq intro!: bip143_args.equality)

lemma bip341_preimage_inj:
  assumes "bip341_wf a" and "bip341_wf b" and "bip341_preimage tag a = bip341_preimage tag b"
  shows "a = b"
  using assms
  by (auto simp: bip341_preimage_def bip341_wf_def le32.enc_append_eq le32.enc_inj
      intro!: bip341_args.equality)

text \<open>
  C6: a BIP143 signature hash commits to every field of the transaction digest: if two
  well-formed argument records have the same signature hash, they are equal, or their preimages or
  the digests of these are an explicit SHA-256 collision.
\<close>

theorem bip143_sighash_commits:
  assumes "bip143_wf a" and "bip143_wf b"
    and "bip143_sighash sha256 a = bip143_sighash sha256 b"
  shows "a = b \<or> collides sha256 (bip143_preimage a) (bip143_preimage b)
    \<or> collides sha256 (sha256 (bip143_preimage a)) (sha256 (bip143_preimage b))"
  using assms(3) bip143_preimage_inj [OF assms(1,2)]
  unfolding bip143_sighash_def by (blast dest: hash_eqD)

text \<open>
  C7: a BIP341 signature hash commits to every field of the transaction digest, in the same
  sense.
\<close>

theorem bip341_sighash_commits:
  assumes "bip341_wf a" and "bip341_wf b"
    and "bip341_sighash sha256 a = bip341_sighash sha256 b"
  shows "a = b \<or> collides sha256 (bip341_preimage (sha256 (as_bytes ''TapSighash'')) a)
    (bip341_preimage (sha256 (as_bytes ''TapSighash'')) b)"
  using assms(3) bip341_preimage_inj [OF assms(1,2)]
  unfolding bip341_sighash_def Let_def by (blast dest: hash_eqD)

definition zero32 :: bytes where
  "zero32 = replicate 32 0"

definition sample_bip143 :: bip143_args where
  "sample_bip143 = \<lparr>b143_version = 2, b143_hash_prevouts = zero32, b143_hash_sequence = zero32,
     b143_outpoint_hash = zero32, b143_outpoint_index = 7, b143_sighash_script = [0xac],
     b143_prevout_value = 5000, b143_sequence = 0xffffffff, b143_hash_outputs = zero32,
     b143_locktime = 0, b143_sighash_flags = 1\<rparr>"

definition sample_bip341 :: bip341_args where
  "sample_bip341 = \<lparr>b341_version = 2, b341_locktime = 0, b341_hash_prevouts = zero32,
     b341_hash_amounts = zero32, b341_hash_scriptpubkeys = zero32, b341_hash_sequences = zero32,
     b341_hash_outputs = zero32, b341_input_index = 1\<rparr>"

lemma sample_bip143_wf: "bip143_wf sample_bip143"
  by (simp add: bip143_wf_def sample_bip143_def zero32_def)

lemma sample_bip341_wf: "bip341_wf sample_bip341"
  by (simp add: bip341_wf_def sample_bip341_def zero32_def)

text \<open>At the identity function in place of SHA-256, a changed amount changes the hash.\<close>

theorem bip143_sighash_commits_witness:
  "bip143_sighash (\<lambda>x. x) sample_bip143 \<noteq>
   bip143_sighash (\<lambda>x. x) (sample_bip143\<lparr>b143_prevout_value := 5001\<rparr>)"
proof
  assume eq: "bip143_sighash (\<lambda>x. x) sample_bip143 =
   bip143_sighash (\<lambda>x. x) (sample_bip143\<lparr>b143_prevout_value := 5001\<rparr>)"
  have "bip143_wf (sample_bip143\<lparr>b143_prevout_value := 5001\<rparr>)"
    using sample_bip143_wf by (simp add: bip143_wf_def)
  from bip143_sighash_commits [OF sample_bip143_wf this eq]
  show False by (simp add: sample_bip143_def)
qed

theorem bip341_sighash_commits_witness:
  "bip341_sighash (\<lambda>x. x) sample_bip341 \<noteq>
   bip341_sighash (\<lambda>x. x) (sample_bip341\<lparr>b341_input_index := 2\<rparr>)"
proof
  assume eq: "bip341_sighash (\<lambda>x. x) sample_bip341 =
   bip341_sighash (\<lambda>x. x) (sample_bip341\<lparr>b341_input_index := 2\<rparr>)"
  have "bip341_wf (sample_bip341\<lparr>b341_input_index := 2\<rparr>)"
    using sample_bip341_wf by (simp add: bip341_wf_def)
  from bip341_sighash_commits [OF sample_bip341_wf this eq]
  show False by (simp add: sample_bip341_def)
qed

end
