(* ===== verification/Btc_Keypath.thy ===== *)
theory Btc_Keypath
  imports Pb Util_Fmt
begin

text \<open>
  Coin parameters and BIP-44 style key path validation
  (\<open>hww/api/bitcoin/params.rs\<close> and \<open>hww/api/bitcoin/keypath.rs\<close>).
\<close>

section \<open>Coin parameters\<close>

record Params =
  par_coin :: BtcCoin
  par_bip44_coin :: u32
  par_base58_version_p2pkh :: u8
  par_base58_version_p2sh :: u8
  par_bech32_hrp :: string
  par_name :: string
  par_rbf_support :: bool
  par_taproot_support :: bool

definition slip44 :: "Params \<Rightarrow> u32" where
  "slip44 p = par_bip44_coin p - HARDENED"

definition PARAMS_BTC :: Params where
  "PARAMS_BTC = \<lparr>par_coin = Btc, par_bip44_coin = 0 + HARDENED, par_base58_version_p2pkh = 0x00,
     par_base58_version_p2sh = 0x05, par_bech32_hrp = ''bc'', par_name = ''Bitcoin'',
     par_rbf_support = True, par_taproot_support = True\<rparr>"

definition PARAMS_TBTC :: Params where
  "PARAMS_TBTC = \<lparr>par_coin = Tbtc, par_bip44_coin = 1 + HARDENED, par_base58_version_p2pkh = 0x6f,
     par_base58_version_p2sh = 0xc4, par_bech32_hrp = ''tb'', par_name = ''BTC Testnet'',
     par_rbf_support = True, par_taproot_support = True\<rparr>"

definition PARAMS_LTC :: Params where
  "PARAMS_LTC = \<lparr>par_coin = Ltc, par_bip44_coin = 2 + HARDENED, par_base58_version_p2pkh = 0x30,
     par_base58_version_p2sh = 0x32, par_bech32_hrp = ''ltc'', par_name = ''Litecoin'',
     par_rbf_support = False, par_taproot_support = False\<rparr>"

definition PARAMS_TLTC :: Params where
  "PARAMS_TLTC = \<lparr>par_coin = Tltc, par_bip44_coin = 1 + HARDENED, par_base58_version_p2pkh = 0x6f,
     par_base58_version_p2sh = 0xc4, par_bech32_hrp = ''tltc'', par_name = ''LTC Testnet'',
     par_rbf_support = False, par_taproot_support = False\<rparr>"

fun params_get :: "BtcCoin \<Rightarrow> Params" where
  "params_get Btc = PARAMS_BTC"
| "params_get Tbtc = PARAMS_TBTC"
| "params_get Ltc = PARAMS_LTC"
| "params_get Tltc = PARAMS_TLTC"

section \<open>Key path validation\<close>

definition ALL_MULTISCRIPT_SCRIPT_TYPES :: "ScriptType list" where
  "ALL_MULTISCRIPT_SCRIPT_TYPES = [P2wsh, P2wshP2sh]"

definition ALL_SIMPLE_SCRIPT_TYPES :: "SimpleType list" where
  "ALL_SIMPLE_SCRIPT_TYPES = [P2wpkhP2sh, P2wpkh, P2tr]"

definition BIP44_ACCOUNT_MIN :: u32 where "BIP44_ACCOUNT_MIN = HARDENED"
definition BIP44_ACCOUNT_MAX :: u32 where "BIP44_ACCOUNT_MAX = HARDENED + 99"
definition BIP44_ADDRESS_MAX :: u32 where "BIP44_ADDRESS_MAX = 9999"

definition PURPOSE_P2WPKH_P2SH :: u32 where "PURPOSE_P2WPKH_P2SH = 49 + HARDENED"
definition PURPOSE_P2WPKH :: u32 where "PURPOSE_P2WPKH = 84 + HARDENED"
definition PURPOSE_P2TR :: u32 where "PURPOSE_P2TR = 86 + HARDENED"
definition PURPOSE_MULTISIG :: u32 where "PURPOSE_MULTISIG = 48 + HARDENED"
definition MULTISIG_SCRIPT_TYPE_P2WSH :: u32 where "MULTISIG_SCRIPT_TYPE_P2WSH = 2 + HARDENED"
definition MULTISIG_SCRIPT_TYPE_P2WSH_P2SH :: u32 where
  "MULTISIG_SCRIPT_TYPE_P2WSH_P2SH = 1 + HARDENED"

lemmas keypath_consts = HARDENED_def BIP44_ACCOUNT_MIN_def BIP44_ACCOUNT_MAX_def
  BIP44_ADDRESS_MAX_def PURPOSE_P2WPKH_P2SH_def PURPOSE_P2WPKH_def PURPOSE_P2TR_def
  PURPOSE_MULTISIG_def MULTISIG_SCRIPT_TYPE_P2WSH_def MULTISIG_SCRIPT_TYPE_P2WSH_P2SH_def

text \<open>\<open>Result<(), ()>\<close>.\<close>

type_synonym check = "(unit, unit) result"

definition validate_account :: "keypath \<Rightarrow> u32 \<Rightarrow> u32 \<Rightarrow> check" where
  "validate_account keypath expected_purpose expected_coin =
     (case keypath of
        [purpose, coin, account] \<Rightarrow>
          (if purpose = expected_purpose \<and> coin = expected_coin
              \<and> BIP44_ACCOUNT_MIN \<le> account \<and> account \<le> BIP44_ACCOUNT_MAX
           then Ok () else Err ())
      | _ \<Rightarrow> Err ())"

fun expected_bip44_script_type :: "ScriptType \<Rightarrow> u32" where
  "expected_bip44_script_type P2wsh = MULTISIG_SCRIPT_TYPE_P2WSH"
| "expected_bip44_script_type P2wshP2sh = MULTISIG_SCRIPT_TYPE_P2WSH_P2SH"

definition validate_account_multisig :: "keypath \<Rightarrow> u32 \<Rightarrow> ScriptType \<Rightarrow> check" where
  "validate_account_multisig keypath expected_coin script_type =
     (if length keypath = 4 then
        bindR (validate_account (take 3 keypath) PURPOSE_MULTISIG expected_coin) (\<lambda>_.
        bindR (index keypath 3) (\<lambda>k3.
          if k3 \<noteq> expected_bip44_script_type script_type then Err () else Ok ()))
      else if length keypath = 3 then validate_account keypath PURPOSE_MULTISIG expected_coin
      else Err ())"

datatype ReceiveSpend = Receive | Spend

definition validate_change_address :: "u32 \<Rightarrow> u32 \<Rightarrow> ReceiveSpend \<Rightarrow> check" where
  "validate_change_address change address mode =
     (if change \<le> 1 \<and> (mode = Spend \<or> address \<le> BIP44_ADDRESS_MAX) then Ok () else Err ())"

definition validate_address_policy :: "keypath \<Rightarrow> ReceiveSpend \<Rightarrow> check" where
  "validate_address_policy keypath mode =
     (if length keypath \<ge> 2 then
        (let keypath_account = take (length keypath - 2) keypath;
             keypath_rest = drop (length keypath - 2) keypath in
         if keypath_account = [] then Err ()
         else if mode = Spend then Ok ()
         else bindR (index keypath_rest 1) (\<lambda>a. if a \<le> BIP44_ADDRESS_MAX then Ok () else Err ()))
      else Err ())"

fun bip44_purpose :: "SimpleType \<Rightarrow> u32" where
  "bip44_purpose P2wpkhP2sh = PURPOSE_P2WPKH_P2SH"
| "bip44_purpose P2wpkh = PURPOSE_P2WPKH"
| "bip44_purpose P2tr = PURPOSE_P2TR"

definition validate_account_simple :: "keypath \<Rightarrow> u32 \<Rightarrow> SimpleType \<Rightarrow> bool \<Rightarrow> check" where
  "validate_account_simple keypath expected_coin script_type taproot_support =
     (if \<not> taproot_support \<and> script_type = P2tr then Err ()
      else validate_account keypath (bip44_purpose script_type) expected_coin)"

definition validate_address_simple ::
  "keypath \<Rightarrow> u32 \<Rightarrow> SimpleType \<Rightarrow> bool \<Rightarrow> ReceiveSpend \<Rightarrow> check" where
  "validate_address_simple keypath expected_coin script_type taproot_support mode =
     (if length keypath \<ge> 2 then
        (let keypath_account = take (length keypath - 2) keypath;
             keypath_rest = drop (length keypath - 2) keypath in
         bindR (validate_account_simple keypath_account expected_coin script_type taproot_support)
           (\<lambda>_. bindR (index keypath_rest 0) (\<lambda>change. bindR (index keypath_rest 1) (\<lambda>address.
             validate_change_address change address mode))))
      else Err ())"

definition validate_xpub :: "keypath \<Rightarrow> u32 \<Rightarrow> bool \<Rightarrow> check" where
  "validate_xpub keypath expected_coin taproot_support =
     (if \<exists>st \<in> set ALL_MULTISCRIPT_SCRIPT_TYPES. is_ok (validate_account_multisig keypath expected_coin st)
      then Ok ()
      else if \<exists>st \<in> set ALL_SIMPLE_SCRIPT_TYPES.
          is_ok (validate_account_simple keypath expected_coin st taproot_support)
      then Ok ()
      else if keypath = [45 + HARDENED] then Ok ()
      else Err ())"

section \<open>Laws\<close>

lemma validate_account_Ok_iff [simp]:
  "validate_account kp p c = Ok () \<longleftrightarrow>
     (\<exists>account. kp = [p, c, account] \<and> BIP44_ACCOUNT_MIN \<le> account \<and> account \<le> BIP44_ACCOUNT_MAX)"
  by (auto simp: validate_account_def split: list.splits)

lemma validate_account_cases: "validate_account kp p c = Ok () \<or> validate_account kp p c = Err ()"
  by (auto simp: validate_account_def split: list.splits)

lemma validate_account_simple_Ok_iff [simp]:
  "validate_account_simple kp c st tap = Ok () \<longleftrightarrow>
     (st = P2tr \<longrightarrow> tap) \<and> validate_account kp (bip44_purpose st) c = Ok ()"
  by (auto simp: validate_account_simple_def)

lemma index_last2:
  "index (drop (length kp - 2) (kp :: 'a list)) i =
     (if i < length kp - (length kp - 2) then Ok (kp ! (length kp - 2 + i)) else Panic)"
  by (auto simp: index_def)

lemma split_last2:
  assumes "2 \<le> length (kp :: 'a list)"
  obtains acc c a where "kp = acc @ [c, a]"
proof -
  from assms obtain xs a where 1: "kp = xs @ [a]" by (cases kp rule: rev_cases) auto
  with assms obtain acc c where "xs = acc @ [c]" by (cases xs rule: rev_cases) auto
  with 1 that show thesis by simp
qed

lemma validate_address_simple_append:
  "validate_address_simple (acc @ [c, a]) coin st tap mode =
     bindR (validate_account_simple acc coin st tap) (\<lambda>_. validate_change_address c a mode)"
  by (simp add: validate_address_simple_def index_def)

lemma bip44_purpose_inj: "bip44_purpose a = bip44_purpose b \<longleftrightarrow> a = b"
  by (cases a; cases b) (simp_all add: keypath_consts)

lemma bip44_purpose_not_multisig: "bip44_purpose st \<noteq> PURPOSE_MULTISIG"
  by (cases st) (simp_all add: keypath_consts)

lemma validate_account_multisig_hd:
  assumes "validate_account_multisig kp c t = Ok ()"
  shows "kp \<noteq> [] \<and> hd kp = PURPOSE_MULTISIG"
proof -
  from assms obtain acc where "take 3 kp = [PURPOSE_MULTISIG, c, acc]"
    by (auto simp: validate_account_multisig_def split: if_splits)
  then show ?thesis by (cases kp) auto
qed

lemma expected_bip44_script_type_inj:
  "expected_bip44_script_type a = expected_bip44_script_type b \<longleftrightarrow> a = b"
  by (cases a; cases b) (simp_all add: keypath_consts)

lemma validate_address_simple_Ok_iff:
  "validate_address_simple kp coin st tap mode = Ok () \<longleftrightarrow>
     (\<exists>account change address.
        kp = [bip44_purpose st, coin, account, change, address] \<and> (st = P2tr \<longrightarrow> tap)
        \<and> BIP44_ACCOUNT_MIN \<le> account \<and> account \<le> BIP44_ACCOUNT_MAX
        \<and> change \<le> 1 \<and> (mode = Spend \<or> address \<le> BIP44_ADDRESS_MAX))"
proof (cases "2 \<le> length kp")
  case True
  then obtain acc c a where kp: "kp = acc @ [c, a]" by (rule split_last2)
  show ?thesis unfolding kp validate_address_simple_append
    by (auto simp: validate_change_address_def append_eq_Cons_conv)
next
  case False
  then show ?thesis by (auto simp: validate_address_simple_def)
qed


text \<open>
  C19: Accepted key paths keep coins and script types apart: a path that is accepted as a singlesig
  path determines both, and it is not the path of a multisig account (whatever follows the account).
\<close>

theorem validate_address_simple_separation:
  assumes "validate_address_simple kp coin st tap mode = Ok ()"
  shows "(validate_address_simple kp coin' st' tap' mode' = Ok () \<longrightarrow> coin' = coin \<and> st' = st)
    \<and> validate_account_multisig (take n kp) coin' mst \<noteq> Ok ()"
proof -
  from assms obtain account change address
    where kp: "kp = [bip44_purpose st, coin, account, change, address]"
    unfolding validate_address_simple_Ok_iff by blast
  then have "take n kp = [] \<or> hd (take n kp) \<noteq> PURPOSE_MULTISIG"
    by (cases n) (simp_all add: bip44_purpose_not_multisig)
  then have "validate_account_multisig (take n kp) coin' mst \<noteq> Ok ()"
    using validate_account_multisig_hd by blast
  then show ?thesis
    using kp by (auto simp: validate_address_simple_Ok_iff bip44_purpose_inj)
qed

theorem validate_address_simple_separation_witness:
  "validate_address_simple [84 + HARDENED, HARDENED, HARDENED, 0, 7] HARDENED P2wpkh True Receive = Ok ()
   \<and> validate_account_multisig [84 + HARDENED, HARDENED, HARDENED] HARDENED P2wsh \<noteq> Ok ()"
proof -
  have "validate_address_simple [84 + HARDENED, HARDENED, HARDENED, 0, 7] HARDENED P2wpkh True Receive
      = Ok ()"
    by (simp add: validate_address_simple_Ok_iff keypath_consts)
  from this validate_address_simple_separation [OF this, of HARDENED P2wpkh True Receive 3 P2wsh]
  show ?thesis by simp
qed

end
