(* ===== verification/Bip32.thy ===== *)
theory Bip32
  imports World
begin

text \<open>
  Extended public keys (\<open>bip32.rs\<close>, \<open>keystore.rs\<close>, and \<open>bip32_derive_xpub\<close> of \<open>bip32.c\<close>):
  the 78-byte BIP-32 serialisation, child derivation, and the keystore's public keys.
\<close>

fun xpub_version :: "XPubType \<Rightarrow> bytes" where
  "xpub_version Tpub = [0x04, 0x35, 0x87, 0xcf]"
| "xpub_version Xpub = [0x04, 0x88, 0xb2, 0x1e]"
| "xpub_version Ypub = [0x04, 0x9d, 0x7c, 0xb2]"
| "xpub_version Zpub = [0x04, 0xb2, 0x47, 0x46]"
| "xpub_version Vpub = [0x04, 0x5f, 0x1c, 0xf6]"
| "xpub_version Upub = [0x04, 0x4a, 0x52, 0x62]"
| "xpub_version CapitalVpub = [0x02, 0x57, 0x54, 0x83]"
| "xpub_version CapitalZpub = [0x02, 0xaa, 0x7e, 0xd3]"
| "xpub_version CapitalUpub = [0x02, 0x42, 0x89, 0xef]"
| "xpub_version CapitalYpub = [0x02, 0x95, 0xb4, 0x3f]"

definition slice :: "nat \<Rightarrow> nat \<Rightarrow> 'a list \<Rightarrow> 'a list" where
  "slice i j xs = take (j - i) (drop i xs)"

definition u32_from_be_bytes :: "bytes \<Rightarrow> u32" where
  "u32_from_be_bytes bs = of_nat (le_val (rev bs))"

definition xpub_from_bytes :: "bytes \<Rightarrow> (unit, XPub) result" where
  "xpub_from_bytes xpub =
     (if length xpub \<noteq> 78 then Err ()
      else Ok \<lparr>xp_depth = slice 4 5 xpub, xp_parent_fingerprint = slice 5 9 xpub,
        xp_child_num = u32_from_be_bytes (slice 9 13 xpub), xp_chain_code = slice 13 45 xpub,
        xp_public_key = slice 45 78 xpub\<rparr>)"

definition xpub_serialize :: "XPub \<Rightarrow> XPubType option \<Rightarrow> (unit, bytes) result" where
  "xpub_serialize xpub xpub_type =
     (if length (xp_depth xpub) \<noteq> 1 \<or> length (xp_parent_fingerprint xpub) \<noteq> 4
         \<or> length (xp_chain_code xpub) \<noteq> 32 \<or> length (xp_public_key xpub) \<noteq> 33
      then Err ()
      else Ok ((case xpub_type of Some t \<Rightarrow> xpub_version t | None \<Rightarrow> []) @ xp_depth xpub
        @ xp_parent_fingerprint xpub @ u32_be (xp_child_num xpub) @ xp_chain_code xpub
        @ xp_public_key xpub))"

definition xpub_serialize_str :: "env \<Rightarrow> XPub \<Rightarrow> XPubType \<Rightarrow> (unit, string) result" where
  "xpub_serialize_str E xpub xpub_type =
     bindR (xpub_serialize xpub (Some xpub_type)) (\<lambda>s. Ok (env_base58check E s))"

text \<open>\<open>bip32_derive_xpub\<close> of \<open>bip32.c\<close>: the empty path copies the key, any other goes to libwally.\<close>

definition bip32_derive_xpub :: "env \<Rightarrow> bytes \<Rightarrow> keypath \<Rightarrow> (unit, bytes) result" where
  "bip32_derive_xpub E xpub78 keypath =
     (if keypath = [] then Ok xpub78 else ok_or () (env_derive_xpub E xpub78 keypath))"

definition xpub_derive :: "env \<Rightarrow> XPub \<Rightarrow> keypath \<Rightarrow> (unit, XPub) result" where
  "xpub_derive E xpub keypath =
     bindR (xpub_serialize xpub (Some Xpub)) (\<lambda>xpub_ser.
     bindR (bip32_derive_xpub E xpub_ser keypath) xpub_from_bytes)"

definition pubkey_hash160 :: "env \<Rightarrow> XPub \<Rightarrow> bytes" where
  "pubkey_hash160 E xpub = env_hash160 E (xp_public_key xpub)"

definition pubkey_uncompressed :: "env \<Rightarrow> XPub \<Rightarrow> (unit, bytes) result" where
  "pubkey_uncompressed E xpub = ok_or () (env_uncompress E (xp_public_key xpub))"

definition schnorr_bip86_pubkey :: "env \<Rightarrow> XPub \<Rightarrow> (unit, bytes) result" where
  "schnorr_bip86_pubkey E xpub = ok_or () (env_bip86_pubkey E (xp_public_key xpub))"

definition keystore_get_xpub :: "env \<Rightarrow> world \<Rightarrow> keypath \<Rightarrow> (unit, XPub) result" where
  "keystore_get_xpub E w keypath = bindR (encode_xpub_at_keypath E w keypath) xpub_from_bytes"

definition root_fingerprint :: "env \<Rightarrow> world \<Rightarrow> (unit, bytes) result" where
  "root_fingerprint E w =
     bindR (keystore_get_xpub E w []) (\<lambda>x.
       let h = pubkey_hash160 E x in if 4 \<le> length h then Ok (take 4 h) else Err ())"

section \<open>Laws\<close>

definition xpub_wf :: "XPub \<Rightarrow> bool" where
  "xpub_wf x \<longleftrightarrow> length (xp_depth x) = 1 \<and> length (xp_parent_fingerprint x) = 4
     \<and> length (xp_chain_code x) = 32 \<and> length (xp_public_key x) = 33"

lemma length_xpub_version [simp]: "length (xpub_version t) = 4"
  by (cases t) simp_all

lemma xpub_version_inj: "xpub_version a = xpub_version b \<longleftrightarrow> a = b"
  by (cases a; cases b) simp_all

lemma u32_from_be_bytes_u32_be [simp]: "u32_from_be_bytes (u32_be w) = w"
  by (simp add: u32_from_be_bytes_def u32_be_def le_val_u32_le)

lemma slice_append:
  "length xs = i \<Longrightarrow> length ys = j - i \<Longrightarrow> slice i j (xs @ ys @ zs) = ys"
  by (simp add: slice_def)

lemma length_slice [simp]: "j \<le> length xs \<Longrightarrow> length (slice i j xs) = j - i"
  by (simp add: slice_def)

lemma xpub_serialize_cases:
  "xpub_serialize x t = (if xpub_wf x then
     Ok ((case t of Some t \<Rightarrow> xpub_version t | None \<Rightarrow> []) @ xp_depth x @ xp_parent_fingerprint x
       @ u32_be (xp_child_num x) @ xp_chain_code x @ xp_public_key x) else Err ())"
  by (auto simp: xpub_serialize_def xpub_wf_def)

lemma xpub_from_bytes_parts:
  assumes "length v = 4" "xpub_wf x"
  shows "xpub_from_bytes (v @ xp_depth x @ xp_parent_fingerprint x
       @ u32_be (xp_child_num x) @ xp_chain_code x @ xp_public_key x) = Ok x"
  using assms by (simp add: xpub_from_bytes_def xpub_wf_def slice_def drop_append take_append)

lemma xpub_from_bytes_wf: "xpub_from_bytes bs = Ok x \<Longrightarrow> xpub_wf x"
  by (auto simp: xpub_from_bytes_def xpub_wf_def split: if_splits)

lemma xpub_derive_wf: "xpub_derive E x kp = Ok y \<Longrightarrow> xpub_wf y"
  by (auto simp: xpub_derive_def dest: xpub_from_bytes_wf)

lemma keystore_get_xpub_wf: "keystore_get_xpub E w kp = Ok y \<Longrightarrow> xpub_wf y"
  by (auto simp: keystore_get_xpub_def dest: xpub_from_bytes_wf)

text \<open>
  C21: The BIP-32 serialisation of an extended public key is total on well-formed keys, rejects all
  others, is 78 bytes long, starts with the version of its type, and parsing it gives the key back.
\<close>

theorem xpub_serialize_roundtrip:
  "case xpub_serialize x (Some t) of
     Ok bs \<Rightarrow> xpub_wf x \<and> length bs = 78 \<and> take 4 bs = xpub_version t \<and> xpub_from_bytes bs = Ok x
   | Err _ \<Rightarrow> \<not> xpub_wf x
   | _ \<Rightarrow> False"
  using xpub_from_bytes_parts [of "xpub_version t" x]
  by (auto simp: xpub_serialize_cases) (simp_all add: xpub_wf_def)

section \<open>The contract of BIP-32\<close>

text \<open>
  What BIP-32 promises of libwally: keys are serialised with 78 bytes and the mainnet public
  version, and deriving an unhardened path from an extended public key gives the key the seed has at
  the concatenated path. Hardened children cannot be derived from a public key.
\<close>

definition unhardened :: "keypath \<Rightarrow> bool" where
  "unhardened kp \<longleftrightarrow> list_all (\<lambda>k. k < HARDENED) kp"

definition bip32_lawful :: "env \<Rightarrow> bool" where
  "bip32_lawful E \<longleftrightarrow>
     (\<forall>seed kp x. env_bip32_xpub_at E seed kp = Some x \<longrightarrow>
        length x = 78 \<and> take 4 x = xpub_version Xpub)
   \<and> (\<forall>seed p s. s \<noteq> [] \<longrightarrow> unhardened s \<longrightarrow>
        env_bip32_xpub_at E seed (p @ s) =
          Option.bind (env_bip32_xpub_at E seed p) (\<lambda>x. env_derive_xpub E x s))
   \<and> (\<forall>x s. \<not> unhardened s \<longrightarrow> env_derive_xpub E x s = None)"

lemma unhardened_Nil [simp]: "unhardened []"
  and unhardened_append [simp]: "unhardened (a @ b) \<longleftrightarrow> unhardened a \<and> unhardened b"
  by (simp_all add: unhardened_def)

lemma u32_be_from_be_bytes:
  assumes "length bs = 4" shows "u32_be (u32_from_be_bytes bs) = bs"
proof -
  have "le_bytes 4 (le_val (rev bs)) = rev bs" using assms le_bytes_le_val [of "rev bs"] by simp
  moreover have "le_val (rev bs) < 2 ^ 32" using assms le_val_less [of "rev bs"] by simp
  ultimately show ?thesis
    by (simp add: u32_be_def u32_le_def u32_from_be_bytes_def unat_of_nat)
qed

lemma slice_split:
  "i \<le> j \<Longrightarrow> slice i j xs @ drop j xs = drop i xs"
  by (simp add: slice_def take_add [symmetric] flip: drop_drop)
    (metis append_take_drop_id drop_drop le_add_diff_inverse2)

lemma xpub_serialize_from_bytes:
  assumes "xpub_from_bytes bs = Ok x" "take 4 bs = xpub_version t"
  shows "xpub_serialize x (Some t) = Ok bs"
proof -
  have l: "length bs = 78" and x: "xp_depth x = slice 4 5 bs" "xp_parent_fingerprint x = slice 5 9 bs"
    "xp_chain_code x = slice 13 45 bs" "xp_public_key x = slice 45 78 bs"
    "u32_be (xp_child_num x) = slice 9 13 bs"
    using assms(1) by (auto simp: xpub_from_bytes_def u32_be_from_be_bytes split: if_splits)
  have "slice 45 78 bs @ drop 78 bs = drop 45 bs" by (rule slice_split) simp
  then have "xp_public_key x = drop 45 bs" using l x by simp
  then have "xpub_version t @ xp_depth x @ xp_parent_fingerprint x @ u32_be (xp_child_num x)
      @ xp_chain_code x @ xp_public_key x = bs"
    unfolding x assms(2) [symmetric] by (simp add: slice_split x)
  then show ?thesis using xpub_from_bytes_wf [OF assms(1)] by (simp add: xpub_serialize_cases)
qed

lemma keystore_get_xpub_derive:
  assumes "bip32_lawful E" "unhardened s"
  shows "bindR (keystore_get_xpub E w p) (\<lambda>x. xpub_derive E x s) = keystore_get_xpub E w (p @ s)"
proof (cases "encode_xpub_at_keypath E w p")
  case (Ok bs)
  then obtain seed where seed: "bip39_seed w = Ok seed" "env_bip32_xpub_at E seed p = Some bs"
    by (auto simp: encode_xpub_at_keypath_def elim!: ok_or.elims)
  with assms(1) have l: "length bs = 78" "take 4 bs = xpub_version Xpub"
    by (auto simp: bip32_lawful_def)
  then obtain x where x: "xpub_from_bytes bs = Ok x" by (simp add: xpub_from_bytes_def)
  have ser: "xpub_serialize x (Some Xpub) = Ok bs" by (rule xpub_serialize_from_bytes) (fact x l)+
  have "encode_xpub_at_keypath E w (p @ s) = bip32_derive_xpub E bs s"
    using assms seed by (auto simp: encode_xpub_at_keypath_def bip32_derive_xpub_def bip32_lawful_def)
  then show ?thesis by (simp add: keystore_get_xpub_def Ok x xpub_derive_def ser)
next
  case (Err e)
  have "encode_xpub_at_keypath E w (p @ s) = Err ()"
  proof (cases "bip39_seed w")
    case (Ok seed)
    with Err have "env_bip32_xpub_at E seed p = None"
      by (cases "env_bip32_xpub_at E seed p") (simp_all add: encode_xpub_at_keypath_def)
    with assms have "env_bip32_xpub_at E seed (p @ s) = None"
      by (cases "s = []") (simp_all add: bip32_lawful_def)
    with Ok show ?thesis by (simp add: encode_xpub_at_keypath_def)
  qed (use Err in \<open>simp_all add: encode_xpub_at_keypath_def\<close>)
  with Err show ?thesis by (simp add: keystore_get_xpub_def)
qed (auto simp: encode_xpub_at_keypath_def bip39_seed_def bindR_Panic_iff bindR_Pending_iff
    elim!: ok_or.elims)

lemma xpub_derive_hardened:
  assumes "bip32_lawful E" "\<not> unhardened s"
  shows "xpub_derive E x s = Err ()"
proof -
  have "s \<noteq> []" using assms(2) by auto
  with assms show ?thesis
    by (simp add: xpub_derive_def xpub_serialize_cases bip32_derive_xpub_def bip32_lawful_def)
qed

lemma bip32_lawful_sample: "bip32_lawful sample_env"
  by (simp add: bip32_lawful_def sample_env_def sample_xpub_def unhardened_def)

section \<open>Public keys do not depend on the trace\<close>

lemma bip39_seed_trace [simp]: "bip39_seed (w\<lparr>w_trace := t\<rparr>) = bip39_seed w"
  by (simp add: bip39_seed_def is_locked_def)

lemma keystore_get_xpub_trace [simp]: "keystore_get_xpub E (w\<lparr>w_trace := t\<rparr>) = keystore_get_xpub E w"
  by (simp add: fun_eq_iff keystore_get_xpub_def encode_xpub_at_keypath_def)

end
