(* ===== verification/Multisig_Memory.thy ===== *)
theory Multisig_Memory
  imports World
begin

text \<open>
  The registry of named script configurations in flash (\<open>bitbox02/src/memory.rs\<close> on top of
  \<open>memory_multisig_set_by_hash\<close> and \<open>memory_multisig_get_by_hash\<close> of \<open>memory/memory.c\<close>): 25
  slots, each empty or holding a configuration hash and its name. It refines a finite map from
  hashes to names.
\<close>

datatype MemoryError = MEMORY_ERR_INVALID_INPUT | MEMORY_ERR_FULL | MEMORY_ERR_DUPLICATE_NAME
  | MEMORY_ERR_UNKNOWN

type_synonym slots = "(bytes \<times> string) option list"

definition MULTISIG_NAME_MAX_LEN :: nat where "MULTISIG_NAME_MAX_LEN = 30"

definition MEMORY_MULTISIG_NUM_ENTRIES :: nat where "MEMORY_MULTISIG_NUM_ENTRIES = 25"

definition empty_hash :: bytes where "empty_hash = replicate 32 0xFF"

text \<open>The first index of a list satisfying a predicate.\<close>

fun find_index :: "('a \<Rightarrow> bool) \<Rightarrow> 'a list \<Rightarrow> nat option" where
  "find_index P [] = None"
| "find_index P (x # xs) = (if P x then Some 0 else map_option Suc (find_index P xs))"

definition has_hash :: "bytes \<Rightarrow> (bytes \<times> string) option \<Rightarrow> bool" where
  "has_hash hash slot = (case slot of Some (h, _) \<Rightarrow> h = hash | None \<Rightarrow> False)"

definition has_name :: "string \<Rightarrow> (bytes \<times> string) option \<Rightarrow> bool" where
  "has_name name slot = (case slot of Some (_, n) \<Rightarrow> n = name | None \<Rightarrow> False)"

text \<open>The slot to write: the one with the hash, else the first empty one.\<close>

definition write_index :: "bytes \<Rightarrow> slots \<Rightarrow> nat option" where
  "write_index hash slots = (case find_index (has_hash hash) slots of
     Some i \<Rightarrow> Some i | None \<Rightarrow> find_index (\<lambda>s. s = None) slots)"

text \<open>\<open>Ok None\<close>: the entry exists already and nothing is written.\<close>

definition memory_multisig_set_by_hash :: "bytes \<Rightarrow> string \<Rightarrow> slots \<Rightarrow> (MemoryError, slots option) result" where
  "memory_multisig_set_by_hash hash name slots =
     (if name = [] then Err MEMORY_ERR_INVALID_INPUT
      else if hash = empty_hash then Err MEMORY_ERR_INVALID_INPUT
      else (case find_index (has_name name) slots of
         Some i \<Rightarrow> if \<not> has_hash hash (slots ! i) then Err MEMORY_ERR_DUPLICATE_NAME else Ok None
       | None \<Rightarrow> (case write_index hash slots of
           None \<Rightarrow> Err MEMORY_ERR_FULL
         | Some i \<Rightarrow> Ok (Some (slots[i := Some (hash, take MULTISIG_NAME_MAX_LEN name)])))))"

definition multisig_set_by_hash :: "env \<Rightarrow> bytes \<Rightarrow> string \<Rightarrow> (world, MemoryError, unit) io" where
  "multisig_set_by_hash E hash name =
     bindM (guardM (length hash = 32) MEMORY_ERR_INVALID_INPUT) (\<lambda>_.
     bindM (liftM (ok_or MEMORY_ERR_INVALID_INPUT (str_to_cstr_vec name))) (\<lambda>_.
     bindM (readM (\<lambda>w. memory_multisig_set_by_hash hash name (w_multisigs w))) (\<lambda>r.
     case r of
       None \<Rightarrow> returnM ()
     | Some slots \<Rightarrow>
         bindM (getM (\<lambda>w. env_flash_ok E (w_trace w))) (\<lambda>ok.
         bindM (emit (EvFlash ok)) (\<lambda>_.
         if ok then modifyM (\<lambda>w. w\<lparr>w_multisigs := slots\<rparr>) else failM MEMORY_ERR_UNKNOWN)))))"

definition slots_get :: "slots \<Rightarrow> bytes \<Rightarrow> string option" where
  "slots_get slots hash = (case find_index (has_hash hash) slots of
     Some i \<Rightarrow> map_option snd (slots ! i) | None \<Rightarrow> None)"

definition multisig_get_by_hash :: "world \<Rightarrow> bytes \<Rightarrow> string option" where
  "multisig_get_by_hash w hash = slots_get (w_multisigs w) hash"

section \<open>Laws\<close>

lemma find_index_SomeD: "find_index P xs = Some i \<Longrightarrow> i < length xs \<and> P (xs ! i)"
  by (induction xs arbitrary: i) (auto split: if_splits)

lemma find_index_None_iff: "find_index P xs = None \<longleftrightarrow> (\<forall>x\<in>set xs. \<not> P x)"
  by (induction xs) auto

text \<open>
  Well-formed: hashes and names of different slots differ, and no stored hash is the empty mark.
\<close>

definition slots_wf :: "slots \<Rightarrow> bool" where
  "slots_wf slots \<longleftrightarrow> length slots = MEMORY_MULTISIG_NUM_ENTRIES \<and>
     (\<forall>i < length slots. \<forall>j < length slots. \<forall>h n h' n'.
        slots ! i = Some (h, n) \<longrightarrow> slots ! j = Some (h', n') \<longrightarrow>
        h \<noteq> empty_hash \<and> (i \<noteq> j \<longrightarrow> h \<noteq> h' \<and> n \<noteq> n'))"

lemma slots_wfD:
  assumes "slots_wf s" "i < length s" "s ! i = Some (h, n)" "j < length s" "s ! j = Some (h', n')"
  shows "h \<noteq> empty_hash" and "h = h' \<Longrightarrow> i = j" and "n = n' \<Longrightarrow> i = j"
  using assms unfolding slots_wf_def by blast+

lemma slots_wfI:
  assumes "length s = MEMORY_MULTISIG_NUM_ENTRIES"
    and "\<And>i h n. i < length s \<Longrightarrow> s ! i = Some (h, n) \<Longrightarrow> h \<noteq> empty_hash"
    and "\<And>i j h n h' n'. i < length s \<Longrightarrow> j < length s \<Longrightarrow> s ! i = Some (h, n) \<Longrightarrow>
      s ! j = Some (h', n') \<Longrightarrow> i \<noteq> j \<Longrightarrow> h \<noteq> h' \<and> n \<noteq> n'"
  shows "slots_wf s"
  using assms unfolding slots_wf_def by blast

lemma has_hash_iff: "has_hash h s \<longleftrightarrow> (\<exists>n. s = Some (h, n))"
  by (auto simp: has_hash_def split: option.splits)

lemma has_name_iff: "has_name n s \<longleftrightarrow> (\<exists>h. s = Some (h, n))"
  by (auto simp: has_name_def split: option.splits)

lemma slots_get_Some_iff:
  assumes "slots_wf s"
  shows "slots_get s h = Some n \<longleftrightarrow> (\<exists>i < length s. s ! i = Some (h, n))"
proof (cases "find_index (has_hash h) s")
  case None
  then have "\<forall>x\<in>set s. \<forall>n. x \<noteq> Some (h, n)" by (simp add: find_index_None_iff has_hash_iff)
  then have "s ! i \<noteq> Some (h, n)" if "i < length s" for i using that nth_mem by blast
  with None show ?thesis by (simp add: slots_get_def)
next
  case (Some i)
  with find_index_SomeD [OF this] obtain m where i: "i < length s" "s ! i = Some (h, m)"
    by (auto simp: has_hash_iff)
  then have "n' = m" if "j < length s" "s ! j = Some (h, n')" for j n'
    using slots_wfD(2) [OF assms i that] that i by simp
  then have "(\<exists>j < length s. s ! j = Some (h, n)) \<longleftrightarrow> n = m" using i by blast
  moreover have "slots_get s h = Some m" using i Some by (simp add: slots_get_def)
  ultimately show ?thesis by auto
qed

lemma write_index_bound:
  "write_index h s = Some i \<Longrightarrow> i < length s \<and> (\<forall>h' n. s ! i = Some (h', n) \<longrightarrow> h' = h)"
  by (auto simp: write_index_def has_hash_iff split: option.splits dest!: find_index_SomeD)

lemma write_index_unique:
  assumes "write_index h s = Some i" "j < length s" "s ! j = Some (h, n)" "slots_wf s"
  shows "j = i"
proof -
  have "find_index (has_hash h) s \<noteq> None"
    using assms(3) nth_mem [OF assms(2)] unfolding find_index_None_iff has_hash_iff by blast
  then have "find_index (has_hash h) s = Some i" using assms(1) by (auto simp: write_index_def)
  from find_index_SomeD [OF this] obtain m where "i < length s" "s ! i = Some (h, m)"
    by (auto simp: has_hash_iff)
  from slots_wfD(2) [OF assms(4) assms(2,3) this] show ?thesis by simp
qed

lemma set_by_hash_wf:
  assumes "slots_wf s" "memory_multisig_set_by_hash h n s = Ok (Some s')"
    and "length n \<le> MULTISIG_NAME_MAX_LEN"
  shows "slots_wf s'"
proof -
  from assms(2,3) obtain i where i: "write_index h s = Some i" "s' = s[i := Some (h, n)]"
    "h \<noteq> empty_hash" and fresh: "\<forall>x\<in>set s. \<not> has_name n x"
    by (auto simp: memory_multisig_set_by_hash_def find_index_None_iff
        split: if_splits option.splits)
  have new: "s ! j \<noteq> Some (h', n)" if "j < length s" for j h'
    using fresh nth_mem [OF that] unfolding has_name_iff by blast
  have here: "j = i" if "j < length s" "s ! j = Some (h, n')" for j n'
    using write_index_unique [OF i(1) that assms(1)] .
  have len: "length s' = length s" by (simp add: i(2))
  have upd: "s' ! j = (if j = i then Some (h, n) else s ! j)" for j
    using write_index_bound [OF i(1)] by (simp add: i(2) nth_list_update)
  show ?thesis
  proof (rule slots_wfI)
    show "length s' = MEMORY_MULTISIG_NUM_ENTRIES" using assms(1) len by (simp add: slots_wf_def)
    show "k \<noteq> empty_hash" if "j < length s'" "s' ! j = Some (k, m)" for j k m
      using that i(3) slots_wfD(1) [OF assms(1), of j k m j k m] unfolding len upd
      by (cases "j = i") simp_all
    show "k \<noteq> k' \<and> m \<noteq> m'" if *: "a < length s'" "b < length s'" "s' ! a = Some (k, m)"
      "s' ! b = Some (k', m')" "a \<noteq> b" for a b k m k' m'
    proof -
      note ** = * [unfolded len upd]
      consider "a = i" "b \<noteq> i" | "b = i" "a \<noteq> i" | "a \<noteq> i" "b \<noteq> i" using *(5) by blast
      then show ?thesis
      proof cases
        case 1
        with ** have "k = h" "m = n" "s ! b = Some (k', m')" by simp_all
        with 1 here [of b m'] new [of b k'] **(2) show ?thesis by auto
      next
        case 2
        with ** have "k' = h" "m' = n" "s ! a = Some (k, m)" by simp_all
        with 2 here [of a m] new [of a k] **(1) show ?thesis by auto
      next
        case 3
        with ** have "s ! a = Some (k, m)" "s ! b = Some (k', m')" by simp_all
        from slots_wfD(2,3) [OF assms(1) **(1) this(1) **(2) this(2)] *(5) show ?thesis by blast
      qed
    qed
  qed
qed

lemma set_by_hash_get:
  assumes "slots_wf s" "memory_multisig_set_by_hash h n s = Ok (Some s')"
    and "length n \<le> MULTISIG_NAME_MAX_LEN"
  shows "slots_get s' = (slots_get s)(h \<mapsto> n)"
proof
  fix k
  from assms(2,3) obtain i where i: "write_index h s = Some i" "s' = s[i := Some (h, n)]"
    by (auto simp: memory_multisig_set_by_hash_def split: if_splits option.splits)
  have upd: "s' ! j = (if j = i then Some (h, n) else s ! j)" for j
    using write_index_bound [OF i(1)] by (simp add: i(2) nth_list_update)
  have len: "length s' = length s" by (simp add: i(2))
  note b = write_index_bound [OF i(1)]
  have "slots_get s' k = Some m \<longleftrightarrow> ((slots_get s)(h \<mapsto> n)) k = Some m" for m
  proof (cases "k = h")
    case True
    have "j = i" if "j < length s" "s ! j = Some (h, m)" for j
      by (rule write_index_unique [OF i(1) that assms(1)])
    with True b show ?thesis
      unfolding slots_get_Some_iff [OF set_by_hash_wf [OF assms]] len upd by auto
  next
    case False
    then have "(if j = i then Some (h, n) else s ! j) = Some (k, m) \<longleftrightarrow> s ! j = Some (k, m)" for j
      using b by auto
    with False slots_get_Some_iff [OF assms(1), of k m] show ?thesis
      unfolding slots_get_Some_iff [OF set_by_hash_wf [OF assms]] len upd by simp
  qed
  then show "slots_get s' k = ((slots_get s)(h \<mapsto> n)) k" by (metis option.exhaust)
qed

lemma set_by_hash_same:
  assumes "slots_wf s" "memory_multisig_set_by_hash h n s = Ok None"
  shows "slots_get s h = Some n"
  using assms(2) slots_get_Some_iff [OF assms(1), of h n]
  by (auto simp: memory_multisig_set_by_hash_def has_hash_iff has_name_iff
      split: if_splits option.splits dest!: find_index_SomeD)

section \<open>The contract of the registry\<close>

locale name_registry =
  fixes lookup :: "'s \<Rightarrow> 'k \<Rightarrow> 'n option"
    and store :: "'k \<Rightarrow> 'n \<Rightarrow> 's \<Rightarrow> 's option"
    and valid :: "'s \<Rightarrow> bool"
    and storable :: "'n \<Rightarrow> bool"
  assumes store_lookup:
      "valid s \<Longrightarrow> storable n \<Longrightarrow> store k n s = Some s' \<Longrightarrow> lookup s' = (lookup s)(k \<mapsto> n)"
    and store_valid: "valid s \<Longrightarrow> storable n \<Longrightarrow> store k n s = Some s' \<Longrightarrow> valid s'"
begin

fun store_all :: "('k \<times> 'n) list \<Rightarrow> 's \<Rightarrow> 's option" where
  "store_all [] s = Some s"
| "store_all ((k, n) # rest) s = Option.bind (store k n s) (store_all rest)"

text \<open>Any sequence of successful registrations acts as the same sequence of map updates.\<close>

lemma store_all_lookup:
  "valid s \<Longrightarrow> list_all (\<lambda>(k, n). storable n) kns \<Longrightarrow> store_all kns s = Some s' \<Longrightarrow>
     valid s' \<and> lookup s' = foldl (\<lambda>m (k, n). m(k \<mapsto> n)) (lookup s) kns"
proof (induction kns arbitrary: s)
  case (Cons kn kns)
  obtain k n where kn: "kn = (k, n)" by (cases kn)
  with Cons.prems obtain t where t: "store k n s = Some t" "store_all kns t = Some s'"
    by (auto simp: bind_eq_Some_conv)
  have "storable n" "list_all (\<lambda>(k, n). storable n) kns" using Cons.prems kn by simp_all
  with Cons.IH [OF store_valid [OF Cons.prems(1) _ t(1)] _ t(2)]
    store_lookup [OF Cons.prems(1) _ t(1)] kn show ?case by simp
qed simp

end

definition slots_store :: "bytes \<Rightarrow> string \<Rightarrow> slots \<Rightarrow> slots option" where
  "slots_store h n s = (case memory_multisig_set_by_hash h n s of
     Ok None \<Rightarrow> Some s | Ok (Some s') \<Rightarrow> Some s' | _ \<Rightarrow> None)"

lemma slots_store_cases:
  "slots_store h n s = Some s' \<Longrightarrow>
     (memory_multisig_set_by_hash h n s = Ok None \<and> s' = s)
     \<or> memory_multisig_set_by_hash h n s = Ok (Some s')"
  by (auto simp: slots_store_def split: result.splits option.splits)

interpretation registry: name_registry slots_get slots_store slots_wf
    "\<lambda>n. length n \<le> MULTISIG_NAME_MAX_LEN"
proof
  fix s s' :: slots and k :: bytes and n :: string
  assume *: "slots_wf s" "length n \<le> MULTISIG_NAME_MAX_LEN" "slots_store k n s = Some s'"
  from slots_store_cases [OF *(3)] consider
      (same) "memory_multisig_set_by_hash k n s = Ok None" "s' = s"
    | (new) "memory_multisig_set_by_hash k n s = Ok (Some s')" by blast
  then have "slots_get s' = (slots_get s)(k \<mapsto> n) \<and> slots_wf s'"
  proof cases
    case same
    then show ?thesis using set_by_hash_same [OF *(1) same(1)] *(1) by (simp add: fun_upd_idem)
  next
    case new
    then show ?thesis using set_by_hash_get [OF *(1) new *(2)] set_by_hash_wf [OF *(1) new *(2)] by simp
  qed
  then show "slots_get s' = (slots_get s)(k \<mapsto> n)" "slots_wf s'" by simp_all
qed



end
