(* ===== verification/Btc_Multisig.thy ===== *)
theory Btc_Multisig
  imports Btc_Script Btc_Keypath Bip32 Multisig_Memory
    "HOL-Library.List_Lexorder" "HOL-Library.Multiset"
begin

text \<open>
  Multisig accounts (\<open>hww/api/bitcoin/multisig.rs\<close>): validation, the hash that identifies a
  registered account, the confirmation screens and the witness script.
\<close>

definition MAX_SIGNERS :: nat where "MAX_SIGNERS = 15"

datatype SortXpubs = SortNo | SortYes

fun coin_byte :: "BtcCoin \<Rightarrow> u8" where
  "coin_byte Btc = 0x00"
| "coin_byte Tbtc = 0x01"
| "coin_byte Ltc = 0x02"
| "coin_byte Tltc = 0x03"

fun script_type_byte :: "ScriptType \<Rightarrow> u8" where
  "script_type_byte P2wsh = 0x00"
| "script_type_byte P2wshP2sh = 0x01"

definition sort_xpubs :: "SortXpubs \<Rightarrow> bytes list \<Rightarrow> bytes list" where
  "sort_xpubs s xs = (if s = SortYes then sort xs else xs)"

text \<open>The bytes fed to the hasher.\<close>

definition multisig_preimage :: "BtcCoin \<Rightarrow> Multisig \<Rightarrow> SortXpubs \<Rightarrow> keypath \<Rightarrow> (unit, bytes) result" where
  "multisig_preimage coin multisig sort_flag keypath =
     bindR (ok_or () (script_type_try_from (ms_script_type multisig))) (\<lambda>script_type.
     bindR (collectR (\<lambda>x. xpub_serialize x None) (ms_xpubs multisig)) (\<lambda>xpubs_serialized.
     Ok ([coin_byte coin] @ [script_type_byte script_type] @ u32_le (ms_threshold multisig)
       @ u32_le (of_nat (length (ms_xpubs multisig))) @ concat (sort_xpubs sort_flag xpubs_serialized)
       @ u32_le (of_nat (length keypath)) @ concat (map u32_le keypath))))"

definition multisig_get_hash ::
  "env \<Rightarrow> BtcCoin \<Rightarrow> Multisig \<Rightarrow> SortXpubs \<Rightarrow> keypath \<Rightarrow> (unit, bytes) result" where
  "multisig_get_hash E coin multisig sort_flag keypath =
     bindR (multisig_preimage coin multisig sort_flag keypath) (\<lambda>p. Ok (env_sha256 E p))"

definition multisig_get_name ::
  "env \<Rightarrow> world \<Rightarrow> BtcCoin \<Rightarrow> Multisig \<Rightarrow> keypath \<Rightarrow> (unit, string option) result" where
  "multisig_get_name E w coin multisig keypath =
     bindR (multisig_get_hash E coin multisig SortYes keypath) (\<lambda>h.
     case multisig_get_by_hash w h of
       Some name \<Rightarrow> Ok (Some name)
     | None \<Rightarrow> bindR (multisig_get_hash E coin multisig SortNo keypath) (\<lambda>h.
         Ok (multisig_get_by_hash w h)))"

definition multisig_confirm :: "env \<Rightarrow> string \<Rightarrow> Params \<Rightarrow> string \<Rightarrow> Multisig \<Rightarrow> unit handler" where
  "multisig_confirm E title params name multisig =
     bindM (user_abort (confirm E (confirm_default\<lparr>cp_title := title,
       cp_body := show_nat (unat (ms_threshold multisig)) @ ''-of-''
         @ show_nat (length (ms_xpubs multisig)) @ [CHR 0x0A] @ par_name params @ '' multisig'',
       cp_accept_is_nextarrow := True\<rparr>))) (\<lambda>_.
     user_abort (confirm E (confirm_default\<lparr>cp_title := title, cp_body := name,
       cp_scrollable := True, cp_accept_is_nextarrow := True\<rparr>)))"

fun script_type_name :: "ScriptType \<Rightarrow> string" where
  "script_type_name P2wsh = ''p2wsh''"
| "script_type_name P2wshP2sh = ''p2wsh-p2sh''"

fun output_xpub_type :: "RegXPubType \<Rightarrow> BtcCoin \<Rightarrow> ScriptType \<Rightarrow> XPubType" where
  "output_xpub_type AutoElectrum coin P2wsh =
     (if coin = Btc \<or> coin = Ltc then CapitalZpub else CapitalVpub)"
| "output_xpub_type AutoElectrum coin P2wshP2sh =
     (if coin = Btc \<or> coin = Ltc then CapitalYpub else CapitalUpub)"
| "output_xpub_type AutoXpubTpub coin _ = (if coin = Btc \<or> coin = Ltc then Xpub else Tpub)"

definition cosigner_params :: "string \<Rightarrow> Multisig \<Rightarrow> nat \<Rightarrow> string \<Rightarrow> ConfirmParams" where
  "cosigner_params title multisig i xpub_str =
     (let num_cosigners = length (ms_xpubs multisig) in
      confirm_default\<lparr>cp_title := title,
        cp_body := ''Cosigner '' @ show_nat (i + 1) @ ''/'' @ show_nat num_cosigners
          @ (if i = unat (ms_our_xpub_index multisig) then '' (this device): '' else '': '') @ xpub_str,
        cp_scrollable := True, cp_longtouch := (i = num_cosigners - 1),
        cp_accept_is_nextarrow := True\<rparr>)"

definition multisig_confirm_extended ::
  "env \<Rightarrow> string \<Rightarrow> Params \<Rightarrow> string \<Rightarrow> Multisig \<Rightarrow> RegXPubType \<Rightarrow> keypath \<Rightarrow> unit handler" where
  "multisig_confirm_extended E title params name multisig xpub_type keypath =
     bindM (liftM (ok_or ErrInvalidInput (script_type_try_from (ms_script_type multisig)))) (\<lambda>script_type.
     bindM (multisig_confirm E title params name multisig) (\<lambda>_.
     bindM (user_abort (confirm E (confirm_default\<lparr>cp_title := title,
       cp_body := script_type_name script_type @ [CHR 0x0A] @ ''at'' @ [CHR 0x0A]
         @ keypath_to_string keypath,
       cp_accept_is_nextarrow := True\<rparr>))) (\<lambda>_.
     foldM (\<lambda>(i, xpub) _.
         bindM (liftM (map_err (\<lambda>_. ErrInvalidInput) (xpub_serialize_str E xpub
           (output_xpub_type xpub_type (par_coin params) script_type)))) (\<lambda>xpub_str.
         user_abort (confirm E (cosigner_params title multisig i xpub_str))))
       (enumerate 0 (ms_xpubs multisig)) ())))"

text \<open>\<open>(1..len).any(|i| xs[i..].contains(&xs[i - 1]))\<close>.\<close>

definition has_duplicates :: "'a list \<Rightarrow> bool" where
  "has_duplicates xs \<longleftrightarrow> list_ex (\<lambda>i. xs ! (i - 1) \<in> set (drop i xs)) [1..<length xs]"

definition to_generic :: "(unit, 'a) result \<Rightarrow> (Error, 'a) result" where
  "to_generic r = map_err (\<lambda>_. ErrGeneric) r"

definition multisig_validate :: "env \<Rightarrow> world \<Rightarrow> Multisig \<Rightarrow> keypath \<Rightarrow> (Error, unit) result" where
  "multisig_validate E w multisig keypath =
     (let xpubs = ms_xpubs multisig in
      if length xpubs < 2 \<or> length xpubs > MAX_SIGNERS then Err ErrInvalidInput
      else if ms_threshold multisig = 0 \<or> ms_threshold multisig > of_nat (length xpubs)
      then Err ErrInvalidInput
      else if ms_our_xpub_index multisig \<ge> of_nat (length xpubs) then Err ErrInvalidInput
      else
        bindR (to_generic (bindR (keystore_get_xpub E w keypath) (\<lambda>x. xpub_serialize x None))) (\<lambda>our_xpub.
        bindR (index xpubs (unat (ms_our_xpub_index multisig))) (\<lambda>x.
        bindR (to_generic (xpub_serialize x None)) (\<lambda>maybe_our_xpub.
        if our_xpub \<noteq> maybe_our_xpub then Err ErrInvalidInput
        else if has_duplicates xpubs then Err ErrInvalidInput
        else Ok ()))))"

section \<open>The witness script\<close>

text \<open>
  The script builder of the \<open>bitcoin\<close> crate: small integers have opcodes, others are pushed as
  minimally encoded script numbers; data is pushed with the shortest length prefix.
\<close>

definition push_slice :: "bytes \<Rightarrow> bytes" where
  "push_slice data =
     (let n = length data in
      (if n < 0x4c then [of_nat n]
       else if n < 0x100 then [0x4c, of_nat n]
       else if n < 0x10000 then 0x4d # u16_le (of_nat n)
       else 0x4e # u32_le (of_nat n)) @ data)"

fun scriptint :: "nat \<Rightarrow> bytes" where
  "scriptint n = (if n < 128 then [of_nat n] else if n < 256 then [of_nat n, 0]
     else of_nat n # scriptint (n div 256))"

definition push_int :: "nat \<Rightarrow> bytes" where
  "push_int n = (if 1 \<le> n \<and> n \<le> 16 then [of_nat (n - 1 + 0x51)] else if n = 0 then [0]
     else push_slice (scriptint n))"

definition OP_CHECKMULTISIG :: u8 where "OP_CHECKMULTISIG = 0xae"

definition multisig_pkscript :: "env \<Rightarrow> Multisig \<Rightarrow> u32 \<Rightarrow> u32 \<Rightarrow> (Error, bytes) result" where
  "multisig_pkscript E multisig keypath_change keypath_address =
     (let xpubs = ms_xpubs multisig in
      if length xpubs < 2 \<or> length xpubs > MAX_SIGNERS then Err ErrInvalidInput
      else if ms_threshold multisig = 0 \<or> ms_threshold multisig > of_nat (length xpubs)
      then Err ErrInvalidInput
      else
        bindR (to_generic (collectR (\<lambda>xpub.
            bindR (xpub_derive E xpub [keypath_change, keypath_address]) (\<lambda>x. Ok (xp_public_key x)))
          xpubs)) (\<lambda>pubkeys.
        Ok (push_int (unat (ms_threshold multisig)) @ concat (map push_slice (sort pubkeys))
          @ push_int (length pubkeys) @ [OP_CHECKMULTISIG])))"

section \<open>Laws\<close>

lemma has_duplicates_iff [simp]: "has_duplicates xs \<longleftrightarrow> \<not> distinct xs"
proof -
  have "has_duplicates xs \<longleftrightarrow> (\<exists>i. Suc i < length xs \<and> xs ! i \<in> set (drop (Suc i) xs))"
  proof -
    have "(\<exists>i\<in>{1..<length xs}. xs ! (i - 1) \<in> set (drop i xs))
        \<longleftrightarrow> (\<exists>i. Suc i < length xs \<and> xs ! i \<in> set (drop (Suc i) xs))" (is "?l \<longleftrightarrow> ?r")
    proof
      assume ?l
      then obtain i where "1 \<le> i" "i < length xs" "xs ! (i - 1) \<in> set (drop i xs)" by auto
      then show ?r by (intro exI [of _ "i - 1"]) simp
    next
      assume ?r
      then obtain i where "Suc i < length xs" "xs ! i \<in> set (drop (Suc i) xs)" by blast
      then show ?l by (intro bexI [of _ "Suc i"]) simp_all
    qed
    then show ?thesis by (simp add: has_duplicates_def list_ex_iff)
  qed
  also have "\<dots> \<longleftrightarrow> \<not> distinct xs"
  proof (induction xs)
    case (Cons x xs)
    have "(\<exists>i. Suc i < length (x # xs) \<and> (x # xs) ! i \<in> set (drop (Suc i) (x # xs)))
        \<longleftrightarrow> x \<in> set xs \<or> (\<exists>i. Suc i < length xs \<and> xs ! i \<in> set (drop (Suc i) xs))"
      (is "(\<exists>i. ?P i) \<longleftrightarrow> _")
    proof -
      have "(\<exists>i. ?P i) \<longleftrightarrow> ?P 0 \<or> (\<exists>i. ?P (Suc i))" by (metis not0_implies_Suc)
      then show ?thesis by (auto simp: length_pos_if_in_set)
    qed
    with Cons show ?case by simp
  qed simp
  finally show ?thesis .
qed

text \<open>The serialisation without version bytes is injective.\<close>

lemma xpub_serialize_None_Ok: "xpub_serialize x None = Ok bs \<Longrightarrow> length bs = 74 \<and> xpub_wf x"
  by (auto simp: xpub_serialize_cases xpub_wf_def split: if_splits)

lemma xpub_serialize_None_inj:
  assumes "xpub_serialize x None = Ok bs" "xpub_serialize y None = Ok bs"
  shows "x = y"
proof -
  let ?v = "[0, 0, 0, 0] :: bytes"
  have "xpub_from_bytes (?v @ bs) = Ok x" "xpub_from_bytes (?v @ bs) = Ok y"
    using assms xpub_from_bytes_parts [of ?v x] xpub_from_bytes_parts [of ?v y]
    by (auto simp: xpub_serialize_cases split: if_splits)
  then show ?thesis by simp
qed

lemma collect_xpubs_mset:
  assumes "list_all2 (\<lambda>x b. xpub_serialize x None = Ok b) xs bs"
    and "list_all2 (\<lambda>x b. xpub_serialize x None = Ok b) ys cs" and "mset bs = mset cs"
  shows "mset xs = mset ys"
proof -
  define dec where "dec b = (THE x. xpub_serialize x None = Ok b)" for b
  have dec: "dec b = x" if "xpub_serialize x None = Ok b" for x b
    unfolding dec_def using that xpub_serialize_None_inj by blast
  have "xs = map dec bs" if "list_all2 (\<lambda>x b. xpub_serialize x None = Ok b) xs bs" for xs bs
    using that by (induction rule: list_all2_induct) (simp_all add: dec)
  with assms(1,2) have "xs = map dec bs" "ys = map dec cs" by blast+
  then show ?thesis using assms(3) by simp
qed

lemma concat_eq_length:
  assumes "concat xs @ r = concat ys @ s" "list_all (\<lambda>x. length x = n) xs"
    "list_all (\<lambda>x. length x = n) ys" "length xs = length ys"
  shows "xs = ys \<and> r = s"
  using assms(4) assms(1,2,3) by (induction xs ys rule: list_induct2) auto

lemma length_concat_const:
  "list_all (\<lambda>x. length x = n) xs \<Longrightarrow> length (concat xs) = n * length xs"
  by (induction xs) auto

lemma coin_byte_inj: "coin_byte a = coin_byte b \<longleftrightarrow> a = b"
  by (cases a; cases b) simp_all

lemma script_type_byte_inj: "script_type_byte a = script_type_byte b \<longleftrightarrow> a = b"
  by (cases a; cases b) simp_all

lemma mset_sort_xpubs [simp]: "mset (sort_xpubs s xs) = mset xs"
  by (simp add: sort_xpubs_def)

lemma list_all_sort_xpubs [simp]: "list_all P (sort_xpubs s xs) = list_all P xs"
  by (simp add: sort_xpubs_def list_all_iff)

lemma length_sort_xpubs [simp]: "length (sort_xpubs s xs) = length xs"
  by (simp add: sort_xpubs_def)

lemma u32_le_concat_inj:
  assumes "concat (map u32_le a) = concat (map u32_le b)" shows "a = b"
proof -
  have "length (concat (map u32_le c)) = 4 * length c" for c
    using length_concat_const [of 4 "map u32_le c"] by (simp add: list_all_iff)
  with assms have "length a = length b" by (metis mult_left_cancel zero_neq_numeral)
  with le32.concat_enc_inj [of a b "[]" "[]"] assms show ?thesis by (simp add: list_all_iff)
qed

lemma multisig_preimage_Ok:
  assumes "multisig_preimage c m s k = Ok p"
  obtains t bs where "script_type_try_from (ms_script_type m) = Some t"
    "list_all2 (\<lambda>x b. xpub_serialize x None = Ok b) (ms_xpubs m) bs"
    "p = [coin_byte c] @ [script_type_byte t] @ u32_le (ms_threshold m)
       @ u32_le (of_nat (length (ms_xpubs m))) @ concat (sort_xpubs s bs)
       @ u32_le (of_nat (length k)) @ concat (map u32_le k)"
    "list_all (\<lambda>b. length b = 74) (sort_xpubs s bs)" "length bs = length (ms_xpubs m)"
proof -
  from assms obtain t bs where *: "script_type_try_from (ms_script_type m) = Some t"
    "list_all2 (\<lambda>x b. xpub_serialize x None = Ok b) (ms_xpubs m) bs"
    "p = [coin_byte c] @ [script_type_byte t] @ u32_le (ms_threshold m)
       @ u32_le (of_nat (length (ms_xpubs m))) @ concat (sort_xpubs s bs)
       @ u32_le (of_nat (length k)) @ concat (map u32_le k)"
    by (auto simp: multisig_preimage_def collectR_Ok_iff elim!: ok_or.elims)
  from *(2) have "list_all (\<lambda>b. length b = 74) bs"
    by (induction rule: list_all2_induct) (auto dest: xpub_serialize_None_Ok)
  with * that list_all2_lengthD [OF *(2)] show thesis by simp
qed

lemma multisig_preimage_inj:
  assumes "multisig_preimage c m s k = Ok p" "multisig_preimage c' m' s' k' = Ok p"
    and "length (ms_xpubs m) \<le> MAX_SIGNERS" "length (ms_xpubs m') \<le> MAX_SIGNERS"
  shows "c = c' \<and> script_type_try_from (ms_script_type m) = script_type_try_from (ms_script_type m')
    \<and> ms_threshold m = ms_threshold m' \<and> mset (ms_xpubs m) = mset (ms_xpubs m') \<and> k = k'"
proof -
  obtain t bs where 1: "script_type_try_from (ms_script_type m) = Some t"
    "list_all2 (\<lambda>x b. xpub_serialize x None = Ok b) (ms_xpubs m) bs"
    "p = [coin_byte c] @ [script_type_byte t] @ u32_le (ms_threshold m)
       @ u32_le (of_nat (length (ms_xpubs m))) @ concat (sort_xpubs s bs)
       @ u32_le (of_nat (length k)) @ concat (map u32_le k)"
    "list_all (\<lambda>b. length b = 74) (sort_xpubs s bs)" "length bs = length (ms_xpubs m)"
    using assms(1) by (rule multisig_preimage_Ok)
  obtain t' bs' where 2: "script_type_try_from (ms_script_type m') = Some t'"
    "list_all2 (\<lambda>x b. xpub_serialize x None = Ok b) (ms_xpubs m') bs'"
    "p = [coin_byte c'] @ [script_type_byte t'] @ u32_le (ms_threshold m')
       @ u32_le (of_nat (length (ms_xpubs m'))) @ concat (sort_xpubs s' bs')
       @ u32_le (of_nat (length k')) @ concat (map u32_le k')"
    "list_all (\<lambda>b. length b = 74) (sort_xpubs s' bs')" "length bs' = length (ms_xpubs m')"
    using assms(2) by (rule multisig_preimage_Ok)
  from 1(3) 2(3) have eq: "c = c'" "t = t'" "ms_threshold m = ms_threshold m'"
    "(of_nat (length (ms_xpubs m)) :: u32) = of_nat (length (ms_xpubs m'))"
    "concat (sort_xpubs s bs) @ u32_le (of_nat (length k)) @ concat (map u32_le k)
      = concat (sort_xpubs s' bs') @ u32_le (of_nat (length k')) @ concat (map u32_le k')"
    by (auto simp: coin_byte_inj script_type_byte_inj le32.enc_inj)
  have "length (ms_xpubs m) = length (ms_xpubs m')"
    using eq(4) assms(3,4) by (simp add: MAX_SIGNERS_def word_unat_eq_iff unat_of_nat)
  with concat_eq_length [OF eq(5) 1(4) 2(4)] 1(5) 2(5)
  have "sort_xpubs s bs = sort_xpubs s' bs'" "concat (map u32_le k) = concat (map u32_le k')"
    by (auto simp: le32.enc_inj)
  moreover from this(1) have "mset bs = mset bs'" by (metis mset_sort_xpubs)
  ultimately show ?thesis
    using collect_xpubs_mset [OF 1(2) 2(2)] u32_le_concat_inj eq 1(1) 2(1) by simp
qed

text \<open>
  C10: The registration hash of a multisig account commits to the coin, the script type, the
  threshold, the account keypath and the multiset of cosigner keys (for at most 15 of them, the
  limit validation enforces): two accounts with equal hashes agree on all of these, or their
  preimages are an explicit SHA-256 collision. This holds for both the sorted and the legacy
  unsorted form, also between the two.
\<close>

theorem multisig_get_hash_commits:
  assumes "multisig_get_hash E c m s k = Ok h" "multisig_get_hash E c' m' s' k' = Ok h"
    and "length (ms_xpubs m) \<le> MAX_SIGNERS" "length (ms_xpubs m') \<le> MAX_SIGNERS"
  shows "(c = c' \<and> script_type_try_from (ms_script_type m) = script_type_try_from (ms_script_type m')
      \<and> ms_threshold m = ms_threshold m' \<and> mset (ms_xpubs m) = mset (ms_xpubs m') \<and> k = k')
    \<or> (\<exists>p p'. multisig_preimage c m s k = Ok p \<and> multisig_preimage c' m' s' k' = Ok p'
        \<and> collides (env_sha256 E) p p')"
proof -
  from assms(1,2) obtain p p' where p: "multisig_preimage c m s k = Ok p"
    "multisig_preimage c' m' s' k' = Ok p'" "env_sha256 E p = env_sha256 E p'"
    by (auto simp: multisig_get_hash_def)
  with hash_eqD [of "env_sha256 E" p p'] multisig_preimage_inj [OF p(1) _ assms(3,4), of c' s' k']
  show ?thesis by blast
qed


lemma collectR_total:
  assumes "\<And>x. f x \<noteq> Panic" "\<And>x. f x \<noteq> Pending"
  shows "collectR f xs = (if list_all (\<lambda>x. is_ok (f x)) xs
    then Ok (map (\<lambda>x. case f x of Ok y \<Rightarrow> y) xs) else Err ())"
proof (induction xs)
  case (Cons x xs)
  then show ?case using assms [of x] by (cases "f x") (simp_all add: is_ok_def)
qed simp

lemma xpub_derive_total: "xpub_derive E x kp \<noteq> Panic \<and> xpub_derive E x kp \<noteq> Pending"
  by (auto simp: xpub_derive_def xpub_serialize_cases bip32_derive_xpub_def xpub_from_bytes_def
      bindR_Panic_iff bindR_Pending_iff elim!: ok_or.elims split: if_splits)

text \<open>
  C12: The multisig script does not depend on the order of the cosigner keys: setups with the same
  threshold and the same multiset of keys have the same script, or the same error, at every change
  and address index.
\<close>

theorem multisig_pkscript_order_independent:
  assumes "ms_threshold m = ms_threshold m'" "mset (ms_xpubs m) = mset (ms_xpubs m')"
  shows "multisig_pkscript E m c a = multisig_pkscript E m' c a"
proof -
  let ?f = "\<lambda>xpub. bindR (xpub_derive E xpub [c, a]) (\<lambda>x. Ok (xp_public_key x))"
  have t: "?f x \<noteq> Panic" "?f x \<noteq> Pending" for x
    using xpub_derive_total [of E x "[c, a]"] by (auto simp: bindR_Panic_iff bindR_Pending_iff)
  have len: "length (ms_xpubs m) = length (ms_xpubs m')" using assms(2) by (rule mset_eq_length)
  have "set (ms_xpubs m) = set (ms_xpubs m')" using assms(2) by (rule mset_eq_setD)
  then have all: "list_all P (ms_xpubs m) = list_all P (ms_xpubs m')" for P by (simp add: list_all_iff)
  have "sort (map g (ms_xpubs m)) = sort (map g (ms_xpubs m'))" for g :: "XPub \<Rightarrow> bytes"
    by (rule properties_for_sort) (simp_all add: assms(2))
  then show ?thesis
    unfolding multisig_pkscript_def Let_def collectR_total [of ?f, OF t] all
    by (simp add: assms(1) len to_generic_def)
qed

definition sample_key :: "u8 \<Rightarrow> XPub" where
  "sample_key b = \<lparr>xp_depth = [4], xp_parent_fingerprint = [1, 2, 3, 4], xp_child_num = 7,
     xp_chain_code = replicate 32 9, xp_public_key = replicate 33 b\<rparr>"

definition sample_multisig :: Multisig where
  "sample_multisig = \<lparr>ms_threshold = 1, ms_xpubs = [sample_key 3, sample_key 2], ms_our_xpub_index = 0,
     ms_script_type = 0\<rparr>"

theorem multisig_get_hash_commits_witness:
  "multisig_get_hash sample_env Btc sample_multisig SortYes [48] \<noteq>
   multisig_get_hash sample_env Tbtc sample_multisig SortYes [48]"
proof
  assume eq: "multisig_get_hash sample_env Btc sample_multisig SortYes [48] =
   multisig_get_hash sample_env Tbtc sample_multisig SortYes [48]"
  obtain h where h: "multisig_get_hash sample_env Btc sample_multisig SortYes [48] = Ok h"
    by (simp add: multisig_get_hash_def multisig_preimage_def sample_multisig_def
        script_type_try_from_def xpub_serialize_def sample_key_def)
  have "length (ms_xpubs sample_multisig) \<le> MAX_SIGNERS"
    by (simp add: sample_multisig_def MAX_SIGNERS_def)
  from multisig_get_hash_commits [OF h eq [symmetric, unfolded h] this this]
  show False by (simp add: sample_env_def)
qed

theorem multisig_pkscript_order_independent_witness:
  "multisig_pkscript sample_env sample_multisig 0 5
   = multisig_pkscript sample_env (sample_multisig\<lparr>ms_xpubs := [sample_key 2, sample_key 3]\<rparr>) 0 5"
  by (rule multisig_pkscript_order_independent) (simp_all add: sample_multisig_def)

section \<open>The confirmation screens\<close>

lemma quiet_multisig_confirm [quiet_rules]: "quiet (multisig_confirm E t p n m)"
  unfolding multisig_confirm_def by (intro emits_rules quiet_rules)

lemma multisig_confirm_OkD:
  assumes "multisig_confirm E t p n m w = (Ok a, w')"
  shows "\<exists>q. w' = ext_trace w [q, EvAsk (PConfirm (confirm_default\<lparr>cp_title := t, cp_body := n,
    cp_scrollable := True, cp_accept_is_nextarrow := True\<rparr>)) True]"
  using assms by (auto simp: multisig_confirm_def runs dest!: confirm_OkD)

lemma multisig_validate_trace [simp]: "multisig_validate E (w\<lparr>w_trace := t\<rparr>) = multisig_validate E w"
  by (simp add: fun_eq_iff multisig_validate_def Let_def)

lemma quiet_multisig_confirm_extended [quiet_rules]:
  "quiet (multisig_confirm_extended E t p n m x k)"
  unfolding multisig_confirm_extended_def
  by (auto intro!: emits_rules quiet_rules split: prod.splits)

end
