(* ===== verification/Xpub_Cache.thy ===== *)
theory Xpub_Cache
  imports Bip32 "HOL-Library.Sublist"
begin

text \<open>
  The xpub cache (\<open>xpubcache.rs\<close>), generic in the \<open>Xpub\<close> trait's \<open>derive\<close> and \<open>from_keypath\<close>,
  and its refinement: looking a key up through the cache gives what deriving it from the root gives.
\<close>

record 'x xpub_cache =
  xc_keypaths :: "keypath list"
  xc_xpubs :: "(keypath \<times> 'x) list"

definition cache_new :: "'x xpub_cache" where
  "cache_new = \<lparr>xc_keypaths = [], xc_xpubs = []\<rparr>"

definition add_keypath :: "keypath \<Rightarrow> 'x xpub_cache \<Rightarrow> 'x xpub_cache" where
  "add_keypath keypath c = c\<lparr>xc_keypaths := xc_keypaths c @ [keypath]\<rparr>"

fun strip_prefix :: "'a list \<Rightarrow> 'a list \<Rightarrow> 'a list option" where
  "strip_prefix [] ys = Some ys"
| "strip_prefix (x # xs) [] = None"
| "strip_prefix (x # xs) (y # ys) = (if x = y then strip_prefix xs ys else None)"

text \<open>\<open>filter_map(strip_prefix).max_by_key(len)\<close>; the last of several maxima wins.\<close>

fun search_prefix :: "keypath list \<Rightarrow> keypath \<Rightarrow> (keypath \<times> keypath) option" where
  "search_prefix [] keypath = None"
| "search_prefix (kp # kps) keypath =
     (case strip_prefix kp keypath of
        None \<Rightarrow> search_prefix kps keypath
      | Some rest \<Rightarrow>
          (case search_prefix kps keypath of
             Some (kp', rest') \<Rightarrow>
               if length kp \<le> length kp' then Some (kp', rest') else Some (kp, rest)
           | None \<Rightarrow> Some (kp, rest)))"

lemma strip_prefix_Some_iff [simp]: "strip_prefix p xs = Some s \<longleftrightarrow> xs = p @ s"
  by (induction p xs rule: strip_prefix.induct) auto

lemma strip_prefix_None_iff [simp]: "strip_prefix p xs = None \<longleftrightarrow> \<not> prefix p xs"
  by (induction p xs rule: strip_prefix.induct) auto

lemma search_prefix_Some:
  "search_prefix kps kp = Some (p, s) \<Longrightarrow> kp = p @ s \<and> p \<in> set kps"
  by (induction kps arbitrary: p s) (auto split: option.splits if_splits)

type_synonym 'x from_keypath = "keypath \<Rightarrow> (unit, 'x) result"
type_synonym 'x derive = "'x \<Rightarrow> keypath \<Rightarrow> (unit, 'x) result"

lemma butlast_measure: "kp \<noteq> [] \<Longrightarrow> Suc (2 * (length kp - Suc 0)) < 2 * length kp"
  by (cases kp) simp_all

function cache_get_set ::
    "'x derive \<Rightarrow> 'x from_keypath \<Rightarrow> keypath \<Rightarrow> 'x xpub_cache \<Rightarrow> (unit, 'x) result \<times> 'x xpub_cache"
  and cache_get_xpub ::
    "'x derive \<Rightarrow> 'x from_keypath \<Rightarrow> keypath \<Rightarrow> 'x xpub_cache \<Rightarrow> (unit, 'x) result \<times> 'x xpub_cache"
where
  "cache_get_set der fk keypath c =
     (case find (\<lambda>(cached_keypath, _). cached_keypath = keypath) (xc_xpubs c) of
        Some (_, xpub) \<Rightarrow> (Ok xpub, c)
      | None \<Rightarrow>
          (let (r, c) =
             (if keypath \<noteq> [] \<and> last keypath \<le> HARDENED - 1
              then (case cache_get_xpub der fk (butlast keypath) c of
                      (r, c) \<Rightarrow> (bindR r (\<lambda>x. der x [last keypath]), c))
              else (fk keypath, c))
           in (r, case r of Ok xpub \<Rightarrow> c\<lparr>xc_xpubs := xc_xpubs c @ [(keypath, xpub)]\<rparr> | _ \<Rightarrow> c)))"
| "cache_get_xpub der fk keypath c =
     (case search_prefix (xc_keypaths c) keypath of
        Some (cached_prefix, rest) \<Rightarrow>
          (case cache_get_set der fk cached_prefix c of (r, c) \<Rightarrow> (bindR r (\<lambda>x. der x rest), c))
      | None \<Rightarrow> (fk keypath, c))"
  by pat_completeness auto

termination
  by (relation "measure (\<lambda>x. case x of Inl (_, _, kp, _) \<Rightarrow> 2 * length kp
      | Inr (_, _, kp, _) \<Rightarrow> 2 * length kp + 1)")
    (auto dest!: search_prefix_Some simp: butlast_measure)

declare cache_get_set.simps [simp del] cache_get_xpub.simps [simp del]

section \<open>The contract of the trait and the refinement\<close>

text \<open>
  After each cached prefix of the path only unhardened elements follow. (Through a cached prefix a
  hardened element cannot be derived.)
\<close>

definition cache_usable :: "'x xpub_cache \<Rightarrow> keypath \<Rightarrow> bool" where
  "cache_usable c kp \<longleftrightarrow>
     list_all (\<lambda>p. prefix p kp \<longrightarrow> unhardened (drop (length p) kp)) (xc_keypaths c)"

lemma unhardened_single [simp]: "unhardened [k] \<longleftrightarrow> k \<le> HARDENED - 1"
proof -
  have "unat k < 2147483648 \<longleftrightarrow> unat k \<le> 2147483647" by linarith
  then show ?thesis by (simp add: unhardened_def HARDENED_def word_le_nat_alt word_less_nat_alt)
qed

lemma cache_usable_append:
  assumes "cache_usable c (p @ s)" shows "cache_usable c p"
  unfolding cache_usable_def list_all_iff
proof (intro ballI impI)
  fix q assume "q \<in> set (xc_keypaths c)" "prefix q p"
  then show "unhardened (drop (length q) p)"
    using assms by (auto simp: cache_usable_def list_all_iff prefix_def)
qed

lemma cache_usableD: "cache_usable c (p @ s) \<Longrightarrow> p \<in> set (xc_keypaths c) \<Longrightarrow> unhardened s"
  by (auto simp: cache_usable_def list_all_iff prefix_def)

locale xpub_source =
  fixes lawful :: bool
    and der :: "'x derive"
    and fk :: "'x from_keypath"
  assumes derive_unhardened:
      "lawful \<Longrightarrow> unhardened s \<Longrightarrow> bindR (fk p) (\<lambda>x. der x s) = fk (p @ s)"
    and derive_hardened: "lawful \<Longrightarrow> \<not> unhardened s \<Longrightarrow> der x s = Err ()"
begin

text \<open>Every cached key is the one its path has.\<close>

definition cache_ok :: "'x xpub_cache \<Rightarrow> bool" where
  "cache_ok c \<longleftrightarrow> (\<forall>(kp, x) \<in> set (xc_xpubs c). fk kp = Ok x)"

definition refines :: "keypath \<Rightarrow> 'x xpub_cache \<Rightarrow> (unit, 'x) result \<times> 'x xpub_cache \<Rightarrow> bool" where
  "refines kp c rc \<longleftrightarrow> cache_ok (snd rc) \<and> xc_keypaths (snd rc) = xc_keypaths c
     \<and> (\<forall>x. fst rc = Ok x \<longrightarrow> fk kp = Ok x) \<and> (cache_usable c kp \<longrightarrow> fst rc = fk kp)"

lemma refinesI:
  assumes "cache_ok c'" "xc_keypaths c' = xc_keypaths c" "\<And>x. r = Ok x \<Longrightarrow> fk kp = Ok x"
    "cache_usable c kp \<Longrightarrow> r = fk kp"
  shows "refines kp c (r, c')"
  using assms unfolding refines_def fst_conv snd_conv by blast

lemma refinesD:
  assumes "refines kp c (r, c')"
  shows "cache_ok c' \<and> xc_keypaths c' = xc_keypaths c" and "r = Ok x \<Longrightarrow> fk kp = Ok x"
    and "cache_usable c kp \<Longrightarrow> r = fk kp"
  using assms unfolding refines_def fst_conv snd_conv by blast+

lemma refines_direct: "cache_ok c \<Longrightarrow> refines kp c (fk kp, c)"
  by (rule refinesI) simp_all

lemma refines_find:
  assumes "cache_ok c" "find (\<lambda>(k, _). k = kp) (xc_xpubs c) = Some (k, x)"
  shows "refines kp c (Ok x, c)"
proof -
  from assms(2) obtain i where "i < length (xc_xpubs c)" "xc_xpubs c ! i = (kp, x)"
    by (auto simp: find_Some_iff)
  then have "(kp, x) \<in> set (xc_xpubs c)" by (metis nth_mem)
  then have "fk kp = Ok x" using assms(1) by (auto simp: cache_ok_def)
  with assms(1) show ?thesis by (intro refinesI) simp_all
qed

lemma refines_store:
  assumes "refines kp c (r, c')"
  shows "refines kp c (r, case r of Ok x \<Rightarrow> c'\<lparr>xc_xpubs := xc_xpubs c' @ [(kp, x)]\<rparr> | _ \<Rightarrow> c')"
proof (rule refinesI)
  show "cache_ok (case r of Ok x \<Rightarrow> c'\<lparr>xc_xpubs := xc_xpubs c' @ [(kp, x)]\<rparr> | _ \<Rightarrow> c')"
    using refinesD(1,2) [OF assms] by (cases r) (auto simp: cache_ok_def)
  show "xc_keypaths (case r of Ok x \<Rightarrow> c'\<lparr>xc_xpubs := xc_xpubs c' @ [(kp, x)]\<rparr> | _ \<Rightarrow> c')
      = xc_keypaths c"
    using refinesD(1) [OF assms] by (cases r) simp_all
qed (fact refinesD(2,3) [OF assms])+

lemma refines_derive:
  assumes lawful "refines p c (r, c')" "cache_usable c (p @ s) \<Longrightarrow> unhardened s"
  shows "refines (p @ s) c (bindR r (\<lambda>x. der x s), c')"
proof (rule refinesI)
  show "fk (p @ s) = Ok y" if y: "bindR r (\<lambda>x. der x s) = Ok y" for y
  proof -
    obtain x where x: "r = Ok x" "der x s = Ok y" using y by auto
    then have "unhardened s" using derive_hardened [OF assms(1), of s x] by auto
    from derive_unhardened [OF assms(1) this, of p] refinesD(2) [OF assms(2) x(1)] x(2)
    show ?thesis by simp
  qed
  show "bindR r (\<lambda>x. der x s) = fk (p @ s)" if "cache_usable c (p @ s)"
    unfolding refinesD(3) [OF assms(2) cache_usable_append [OF that]]
    by (rule derive_unhardened [OF assms(1) assms(3) [OF that]])
qed (use refinesD(1) [OF assms(2)] in simp_all)

lemma cache_get_set_refines:
  assumes lawful "cache_ok c"
    and get: "kp \<noteq> [] \<Longrightarrow> refines (butlast kp) c (cache_get_xpub der fk (butlast kp) c)"
  shows "refines kp c (cache_get_set der fk kp c)"
proof (cases "find (\<lambda>(k, _). k = kp) (xc_xpubs c)")
  case None
  show ?thesis
  proof (cases "kp \<noteq> [] \<and> last kp \<le> HARDENED - 1")
    case True
    obtain r c' where rc: "cache_get_xpub der fk (butlast kp) c = (r, c')" by force
    have "refines (butlast kp @ [last kp]) c (bindR r (\<lambda>x. der x [last kp]), c')"
      by (rule refines_derive) (use assms True rc in simp_all)
    then have "refines kp c (bindR r (\<lambda>x. der x [last kp]), c')" using True by simp
    from refines_store [OF this] show ?thesis
      unfolding cache_get_set.simps [of der fk kp c] None using True rc by simp
  next
    case False
    with refines_store [OF refines_direct [OF assms(2), of kp]] show ?thesis
      unfolding cache_get_set.simps [of der fk kp c] None if_not_P [OF False] by simp
  qed
next
  case (Some kx)
  then obtain k x where kx: "find (\<lambda>(k, _). k = kp) (xc_xpubs c) = Some (k, x)" by (cases kx) simp
  with refines_find [OF assms(2) kx] show ?thesis
    unfolding cache_get_set.simps [of der fk kp c] by simp
qed

lemma cache_get_xpub_refines:
  assumes lawful "cache_ok c"
    and "\<And>p s. kp = p @ s \<Longrightarrow> refines p c (cache_get_set der fk p c)"
  shows "refines kp c (cache_get_xpub der fk kp c)"
proof (cases "search_prefix (xc_keypaths c) kp")
  case (Some ps)
  then obtain p s where ps: "search_prefix (xc_keypaths c) kp = Some (p, s)" by (cases ps) auto
  obtain r c' where rc: "cache_get_set der fk p c = (r, c')" by force
  note split = search_prefix_Some [OF ps]
  have "refines p c (r, c')" using assms(3) [of p s] split rc by simp
  then have "refines (p @ s) c (bindR r (\<lambda>x. der x s), c')"
    by (rule refines_derive [OF assms(1)]) (use split cache_usableD [of c p s] in simp)
  then show ?thesis unfolding cache_get_xpub.simps [of der fk kp c] ps using split rc by simp
next
  case None
  then show ?thesis unfolding cache_get_xpub.simps [of der fk kp c]
    using refines_direct [OF assms(2)] by simp
qed

lemma cache_refines:
  assumes lawful "cache_ok c"
  shows "refines kp c (cache_get_set der fk kp c) \<and> refines kp c (cache_get_xpub der fk kp c)"
proof (induction kp rule: length_induct)
  case (1 kp)
  have set: "refines p c (cache_get_set der fk p c)" if "length p \<le> length kp" for p
  proof (rule cache_get_set_refines [OF assms])
    assume "p \<noteq> []"
    then have "length (butlast p) < length kp" using that by (cases p) auto
    then show "refines (butlast p) c (cache_get_xpub der fk (butlast p) c)" using 1 by simp
  qed
  moreover have "refines kp c (cache_get_xpub der fk kp c)"
    by (intro cache_get_xpub_refines assms set) simp
  ultimately show ?case by simp
qed

end

interpretation bip32: xpub_source "bip32_lawful E" "xpub_derive E" "keystore_get_xpub E w" for E w
  by unfold_locales (simp_all add: keystore_get_xpub_derive xpub_derive_hardened)

text \<open>The cache of the Bitcoin handlers (\<open>Bip32XpubCache\<close>) on the keystore's keys.\<close>

type_synonym Bip32XpubCache = "XPub xpub_cache"

definition get_xpub ::
  "env \<Rightarrow> world \<Rightarrow> keypath \<Rightarrow> Bip32XpubCache \<Rightarrow> (unit, XPub) result \<times> Bip32XpubCache" where
  "get_xpub E w keypath c = cache_get_xpub (xpub_derive E) (keystore_get_xpub E w) keypath c"

definition cache_ok :: "env \<Rightarrow> world \<Rightarrow> Bip32XpubCache \<Rightarrow> bool" where
  "cache_ok E w c \<longleftrightarrow> list_all (\<lambda>(kp, x). keystore_get_xpub E w kp = Ok x) (xc_xpubs c)"

lemma cache_ok_bip32: "cache_ok E w c \<longleftrightarrow> bip32.cache_ok E w c"
  by (simp add: cache_ok_def bip32.cache_ok_def list_all_iff)

lemma cache_ok_new [simp]: "cache_ok E w cache_new"
  by (simp add: cache_ok_def cache_new_def)

lemma cache_ok_add [simp]: "cache_ok E w (add_keypath kp c) = cache_ok E w c"
  by (simp add: cache_ok_def add_keypath_def)

lemma get_xpub_refines:
  assumes "bip32_lawful E" "cache_ok E w c" "get_xpub E w kp c = (r, c')"
  shows "cache_ok E w c' \<and> xc_keypaths c' = xc_keypaths c
    \<and> (\<forall>x. r = Ok x \<longrightarrow> keystore_get_xpub E w kp = Ok x)
    \<and> (cache_usable c kp \<longrightarrow> r = keystore_get_xpub E w kp)"
proof -
  have "bip32.refines E w kp c (r, c')"
    using bip32.cache_refines [OF assms(1) assms(2) [unfolded cache_ok_bip32], of kp]
    unfolding get_xpub_def [symmetric] assms(3) by (rule conjunct2)
  then show ?thesis unfolding cache_ok_bip32 bip32.refines_def fst_conv snd_conv .
qed

text \<open>
  C8: A lookup through a correct cache refines derivation from the root key: it keeps the cache
  correct, a key it returns is the key the keystore has at that path, and if only unhardened
  elements follow the cached prefixes of the path it returns exactly what the keystore returns,
  errors included. The hypothesis is the contract BIP-32 states for child derivation.
\<close>

theorem get_xpub_correct:
  assumes "bip32_lawful E" "cache_ok E w c" "get_xpub E w kp c = (r, c')"
  shows "cache_ok E w c' \<and> xc_keypaths c' = xc_keypaths c
    \<and> (\<forall>x. r = Ok x \<longrightarrow> keystore_get_xpub E w kp = Ok x)
    \<and> (cache_usable c kp \<longrightarrow> r = keystore_get_xpub E w kp)"
  by (rule get_xpub_refines [OF assms])

theorem get_xpub_correct_witness:
  "fst (get_xpub sample_env sample_world [84 + HARDENED, 0, 5]
      (add_keypath [84 + HARDENED, 0] cache_new))
   = keystore_get_xpub sample_env sample_world [84 + HARDENED, 0, 5]"
proof -
  let ?c = "add_keypath [84 + HARDENED, 0] cache_new :: Bip32XpubCache"
  have u: "cache_usable ?c [84 + HARDENED, 0, 5]"
    by (simp add: cache_usable_def add_keypath_def cache_new_def HARDENED_def)
  obtain r c' where g: "get_xpub sample_env sample_world [84 + HARDENED, 0, 5] ?c = (r, c')" by force
  have "cache_ok sample_env sample_world ?c" by simp
  from get_xpub_correct [OF bip32_lawful_sample this g] u
  have "r = keystore_get_xpub sample_env sample_world [84 + HARDENED, 0, 5]" by blast
  then show ?thesis unfolding g fst_conv .
qed

end
