(* ===== verification/Btc_Policies.thy ===== *)
theory Btc_Policies
  imports Btc_Multisig Xpub_Cache
begin

text \<open>
  Wallet policies (\<open>hww/api/bitcoin/policies.rs\<close>): parsing of key placeholders, validation,
  recognition of change paths, derivation of the witness script and the registration hash. The
  miniscript library is a parameter (\<open>env_ms_parse\<close>, \<open>env_ms_encode\<close>).
\<close>

section \<open>Strings\<close>

text \<open>\<open>str::split_once\<close> with a character.\<close>

fun split_once :: "char \<Rightarrow> string \<Rightarrow> (string \<times> string) option" where
  "split_once c [] = None"
| "split_once c (x # xs) =
     (if x = c then Some ([], xs) else map_option (\<lambda>(l, r). (x # l, r)) (split_once c xs))"

definition strip_suffix :: "string \<Rightarrow> string \<Rightarrow> string option" where
  "strip_suffix suf s = map_option rev (strip_prefix (rev suf) (rev s))"

text \<open>
  \<open>str::parse\<close> to an unsigned integer below a bound: an optional plus sign and at least one digit.
\<close>

definition parse_uint :: "nat \<Rightarrow> string \<Rightarrow> nat option" where
  "parse_uint bound s =
     (let digits = (case s of c # cs \<Rightarrow> if c = CHR ''+'' then cs else s | [] \<Rightarrow> s) in
      if digits = [] \<or> \<not> list_all is_digit digits then None
      else let v = digits_val digits in if v < bound then Some v else None)"

text \<open>\<open>usize\<close> has 32 bits on the device.\<close>

definition parse_u32 :: "string \<Rightarrow> u32 option" where
  "parse_u32 s = map_option of_nat (parse_uint (2 ^ 32) s)"

definition parse_usize :: "string \<Rightarrow> nat option" where
  "parse_usize s = parse_uint (2 ^ 32) s"

fun hex_digit :: "nat \<Rightarrow> char" where
  "hex_digit n = (if n < 10 then char_of (48 + n) else char_of (87 + n))"

definition hex_encode :: "bytes \<Rightarrow> string" where
  "hex_encode bs = concat (map (\<lambda>b. [hex_digit (unat b div 16), hex_digit (unat b mod 16)]) bs)"

section \<open>Keys of a policy\<close>

definition MAX_KEYS :: nat where "MAX_KEYS = 20"

definition check_enabled :: "BtcCoin \<Rightarrow> (Error, unit) result" where
  "check_enabled coin = (if \<not> (coin = Btc \<or> coin = Tbtc) then Err ErrInvalidInput else Ok ())"

definition is_our_key :: "env \<Rightarrow> world \<Rightarrow> KeyOriginInfo \<Rightarrow> bytes \<Rightarrow> (unit, bool) result" where
  "is_our_key E w key our_root_fingerprint =
     (case ko_xpub key of
        Some xpub \<Rightarrow>
          if ko_root_fingerprint key = our_root_fingerprint then
            bindR (bindR (keystore_get_xpub E w (ko_keypath key)) (\<lambda>x. xpub_serialize x None)) (\<lambda>our_xpub.
            bindR (xpub_serialize xpub None) (\<lambda>maybe_our_xpub.
            Ok (our_xpub = maybe_our_xpub)))
          else Ok False
      | None \<Rightarrow> Ok False)"

definition validate_no_leading_zero :: "string \<Rightarrow> unit option" where
  "validate_no_leading_zero num = (if length num > 1 \<and> hd num = CHR ''0'' then None else Some ())"

definition parse_multipath :: "string \<Rightarrow> (u32 \<times> u32) option" where
  "parse_multipath right =
     (if right = ''**'' then Some (0, 1)
      else Option.bind (strip_prefix ''<'' right) (\<lambda>r.
        Option.bind (strip_suffix ''>/*'' r) (\<lambda>r.
        Option.bind (split_once (CHR '';'') r) (\<lambda>(left_number_str, right_number_str).
        Option.bind (validate_no_leading_zero left_number_str) (\<lambda>_.
        Option.bind (validate_no_leading_zero right_number_str) (\<lambda>_.
        Option.bind (parse_u32 left_number_str) (\<lambda>a.
        Option.bind (parse_u32 right_number_str) (\<lambda>b. Some (a, b)))))))))"

definition parse_wallet_policy_pk :: "string \<Rightarrow> (nat \<times> u32 \<times> u32) option" where
  "parse_wallet_policy_pk pk =
     Option.bind (strip_prefix ''@'' pk) (\<lambda>p.
     Option.bind (split_once (CHR ''/'') p) (\<lambda>(left, right).
     Option.bind (validate_no_leading_zero left) (\<lambda>_.
     Option.bind (parse_multipath right) (\<lambda>(receive_index, change_index).
     if receive_index = change_index \<or> receive_index \<ge> HARDENED \<or> change_index \<ge> HARDENED then None
     else Option.bind (parse_usize left) (\<lambda>i. Some (i, receive_index, change_index))))))"

text \<open>
  One placeholder against the key path: None is the loop's \<open>continue\<close>.
\<close>

definition match_pk ::
  "KeyOriginInfo list \<Rightarrow> bool list \<Rightarrow> keypath \<Rightarrow> string \<Rightarrow> (Error, (bool \<times> u32) option) result" where
  "match_pk keys ours keypath pk =
     bindR (ok_or ErrInvalidInput (parse_wallet_policy_pk pk)) (\<lambda>(key_index, l, r).
     if key_index < length keys then
       bindR (index ours key_index) (\<lambda>our.
       let keypath_account = ko_keypath (keys ! key_index) in
       if our \<and> prefix keypath_account keypath \<and> length keypath = length keypath_account + 2 then
         (let keypath_change = keypath ! (length keypath - 2) in
          if keypath_change = l then Ok (Some (False, keypath ! (length keypath - 1)))
          else if keypath_change = r then Ok (Some (True, keypath ! (length keypath - 1)))
          else Ok None)
       else Ok None)
     else Ok None)"

fun get_change_and_address_index ::
  "string list \<Rightarrow> KeyOriginInfo list \<Rightarrow> bool list \<Rightarrow> keypath \<Rightarrow> (Error, bool \<times> u32) result" where
  "get_change_and_address_index [] keys ours keypath = Err ErrInvalidInput"
| "get_change_and_address_index (pk # pks) keys ours keypath =
     bindR (match_pk keys ours keypath pk) (\<lambda>m.
     case m of Some r \<Rightarrow> Ok r | None \<Rightarrow> get_change_and_address_index pks keys ours keypath)"

text \<open>\<open>WalletPolicyPkTranslator::pk\<close>.\<close>

definition translate_pk ::
  "env \<Rightarrow> KeyOriginInfo list \<Rightarrow> bool \<Rightarrow> u32 \<Rightarrow> string \<Rightarrow> (Error, bytes) result" where
  "translate_pk E keys is_change address_index pk =
     bindR (ok_or ErrInvalidInput (parse_wallet_policy_pk pk)) (\<lambda>(key_index, l, r).
     if key_index < length keys then
       (case ko_xpub (keys ! key_index) of
          Some xpub \<Rightarrow>
            (let multipath_index = (if is_change then r else l) in
             bindR (to_generic (xpub_derive E xpub [multipath_index, address_index])) (\<lambda>derived_xpub.
             if env_pubkey_ok E (xp_public_key derived_xpub) then Ok (xp_public_key derived_xpub)
             else Err ErrGeneric))
        | None \<Rightarrow> Err ErrInvalidInput)
     else Err ErrInvalidInput)"

section \<open>Parsed policies\<close>

text \<open>The miniscript expression is kept as its source and its leaves.\<close>

record ParsedPolicy =
  pp_policy :: Policy
  pp_is_our_key :: "bool list"
  pp_expr :: string
  pp_leaves :: "ms_leaf list"

definition iter_pk :: "ParsedPolicy \<Rightarrow> string list" where
  "iter_pk p = concat (map (\<lambda>l. case l of MsKey s \<Rightarrow> [s] | MsHash \<Rightarrow> []) (pp_leaves p))"

text \<open>
  One round of the loop of \<open>validate_keys\<close>, with the derivations and keys seen so far.
\<close>

definition validate_key_step ::
  "string \<Rightarrow> (nat \<times> u32) list \<times> bool list \<Rightarrow> (Error, (nat \<times> u32) list \<times> bool list) result" where
  "validate_key_step pk = (\<lambda>(derivations_seen, keys_seen).
     bindR (ok_or ErrInvalidInput (parse_wallet_policy_pk pk)) (\<lambda>(key_index, l, r).
     if (key_index, l) \<in> set derivations_seen then Err ErrInvalidInput
     else let derivations_seen = derivations_seen @ [(key_index, l)] in
     if (key_index, r) \<in> set derivations_seen then Err ErrInvalidInput
     else let derivations_seen = derivations_seen @ [(key_index, r)] in
     if key_index < length keys_seen then Ok (derivations_seen, keys_seen[key_index := True])
     else Err ErrInvalidInput))"

fun validate_keys_loop ::
  "string list \<Rightarrow> (nat \<times> u32) list \<times> bool list \<Rightarrow> (Error, (nat \<times> u32) list \<times> bool list) result" where
  "validate_keys_loop [] st = Ok st"
| "validate_keys_loop (pk # pks) st = bindR (validate_key_step pk st) (validate_keys_loop pks)"

definition validate_keys :: "ParsedPolicy \<Rightarrow> (Error, unit) result" where
  "validate_keys p =
     bindR (validate_keys_loop (iter_pk p) ([], replicate (length (pol_keys (pp_policy p))) False))
       (\<lambda>(_, keys_seen). if \<not> list_all (\<lambda>b. b) keys_seen then Err ErrInvalidInput else Ok ())"

definition policy_validate :: "ParsedPolicy \<Rightarrow> (Error, unit) result" where
  "policy_validate p =
     bindR (validate_keys p) (\<lambda>_.
     if \<not> list_ex (\<lambda>b. b) (pp_is_our_key p) then Err ErrInvalidInput
     else bindR (collectR (\<lambda>key. ok_or ErrInvalidInput (ko_xpub key)) (pol_keys (pp_policy p))) (\<lambda>xpubs.
     if has_duplicates xpubs then Err ErrInvalidInput else Ok ()))"

definition policy_parse :: "env \<Rightarrow> world \<Rightarrow> Policy \<Rightarrow> BtcCoin \<Rightarrow> (Error, ParsedPolicy) result" where
  "policy_parse E w policy coin =
     bindR (check_enabled coin) (\<lambda>_.
     if length (pol_keys policy) > MAX_KEYS then Err ErrInvalidInput
     else
       let desc = pol_policy policy in
       bindR (to_generic (root_fingerprint E w)) (\<lambda>our_root_fingerprint.
       bindR (to_generic (collectR (\<lambda>key. is_our_key E w key our_root_fingerprint) (pol_keys policy))) (\<lambda>ours.
       if 5 \<le> length desc \<and> prefix ''wsh('' desc \<and> last desc = CHR '')'' then
         (let expr = slice 4 (length desc - 1) desc in
          bindR (ok_or ErrInvalidInput (env_ms_parse E expr)) (\<lambda>leaves.
          let parsed = \<lparr>pp_policy = policy, pp_is_our_key = ours, pp_expr = expr, pp_leaves = leaves\<rparr> in
          bindR (policy_validate parsed) (\<lambda>_. Ok parsed)))
       else Err ErrInvalidInput)))"

text \<open>
  Derivation: the leaves are translated in order; a hash fragment panics in the translator
  (\<open>translate_hash_fail!\<close>).
\<close>

definition translate_leaf ::
  "env \<Rightarrow> KeyOriginInfo list \<Rightarrow> bool \<Rightarrow> u32 \<Rightarrow> ms_leaf \<Rightarrow> (Error, bytes) result" where
  "translate_leaf E keys is_change address_index leaf =
     (case leaf of MsKey pk \<Rightarrow> translate_pk E keys is_change address_index pk | MsHash \<Rightarrow> Panic)"

text \<open>The witness script of the derived descriptor.\<close>

definition policy_derive :: "env \<Rightarrow> ParsedPolicy \<Rightarrow> bool \<Rightarrow> u32 \<Rightarrow> (Error, bytes) result" where
  "policy_derive E p is_change address_index =
     bindR (collectR (translate_leaf E (pol_keys (pp_policy p)) is_change address_index) (pp_leaves p)) (\<lambda>keys.
     ok_or ErrGeneric (env_ms_encode E (pp_expr p) keys))"

definition derive_at_keypath :: "env \<Rightarrow> ParsedPolicy \<Rightarrow> keypath \<Rightarrow> (Error, bytes) result" where
  "derive_at_keypath E p keypath =
     bindR (get_change_and_address_index (iter_pk p) (pol_keys (pp_policy p)) (pp_is_our_key p) keypath)
       (\<lambda>(is_change, address_index). policy_derive E p is_change address_index)"

definition is_change_keypath :: "ParsedPolicy \<Rightarrow> keypath \<Rightarrow> (Error, bool) result" where
  "is_change_keypath p keypath =
     bindR (get_change_and_address_index (iter_pk p) (pol_keys (pp_policy p)) (pp_is_our_key p) keypath)
       (\<lambda>(is_change, _). Ok is_change)"

section \<open>Confirmation\<close>

datatype Mode = Basic | Advanced

definition policy_key_str :: "env \<Rightarrow> BtcCoin \<Rightarrow> KeyOriginInfo \<Rightarrow> (Error, string) result" where
  "policy_key_str E coin key =
     (case ko_xpub key of
        None \<Rightarrow> Err ErrInvalidInput
      | Some xpub \<Rightarrow>
          bindR (map_err (\<lambda>_. ErrInvalidInput)
            (xpub_serialize_str E xpub (if coin = Btc \<or> coin = Ltc then Xpub else Tpub))) (\<lambda>xpub_str.
          if ko_root_fingerprint key = [] then Ok xpub_str
          else if length (ko_root_fingerprint key) \<noteq> 4 then Err ErrInvalidInput
          else Ok (''['' @ hex_encode (ko_root_fingerprint key) @ ''/''
            @ to_string_no_prefix (ko_keypath key) @ '']'' @ xpub_str)))"

definition policy_confirm_key ::
  "env \<Rightarrow> ParsedPolicy \<Rightarrow> Params \<Rightarrow> Mode \<Rightarrow> nat \<times> KeyOriginInfo \<Rightarrow> unit \<Rightarrow> unit handler" where
  "policy_confirm_key E p params mode = (\<lambda>(i, key) _.
     let num_keys = length (pol_keys (pp_policy p)) in
     bindM (liftM (policy_key_str E (par_coin params) key)) (\<lambda>key_str.
     bindM (liftM (index (pp_is_our_key p) i)) (\<lambda>our.
     user_abort (confirm E (confirm_default\<lparr>
       cp_title := ''Key '' @ show_nat (i + 1) @ ''/'' @ show_nat num_keys,
       cp_body := (if our then ''This device: '' @ key_str else key_str),
       cp_scrollable := True, cp_longtouch := (i = num_keys - 1 \<and> mode = Advanced),
       cp_accept_is_nextarrow := True\<rparr>)))))"

text \<open>\<open>confirm(..).await.is_ok()\<close>: a rejection is an answer, not an early return.\<close>

definition confirm_bool :: "env \<Rightarrow> ConfirmParams \<Rightarrow> (world, 'e, bool) io" where
  "confirm_bool E p w = (case confirm E p w of
     (Ok _, w) \<Rightarrow> (Ok True, w) | (Err _, w) \<Rightarrow> (Ok False, w)
   | (Panic, w) \<Rightarrow> (Panic, w) | (Pending, w) \<Rightarrow> (Pending, w))"

definition policy_confirm :: "env \<Rightarrow> ParsedPolicy \<Rightarrow> string \<Rightarrow> Params \<Rightarrow> string \<Rightarrow> Mode \<Rightarrow> unit handler" where
  "policy_confirm E p title params name mode =
     (let policy = pp_policy p in
     bindM (user_abort (confirm E (confirm_default\<lparr>cp_title := title,
       cp_body := par_name params @ [CHR 0x0A] @ ''policy with'' @ [CHR 0x0A]
         @ show_nat (length (pol_keys policy)) @ '' keys'',
       cp_accept_is_nextarrow := True\<rparr>))) (\<lambda>_.
     bindM (user_abort (confirm E (confirm_default\<lparr>cp_title := ''Name'', cp_body := name,
       cp_scrollable := True, cp_accept_is_nextarrow := True\<rparr>))) (\<lambda>_.
     bindM (if mode = Basic then confirm_bool E (confirm_default\<lparr>
         cp_body := ''Show policy'' @ [CHR 0x0A] @ ''details?'', cp_accept_is_nextarrow := True\<rparr>)
       else returnM True) (\<lambda>details.
     if \<not> details then returnM ()
     else
       bindM (user_abort (confirm E (confirm_default\<lparr>cp_title := ''Policy'',
         cp_body := pol_policy policy, cp_scrollable := True, cp_accept_is_nextarrow := True\<rparr>))) (\<lambda>_.
       foldM (policy_confirm_key E p params mode) (enumerate 0 (pol_keys policy)) ())))))"

section \<open>Registration hash\<close>

definition policy_preimage :: "BtcCoin \<Rightarrow> Policy \<Rightarrow> (unit, bytes) result" where
  "policy_preimage coin policy =
     bindR (collectR (\<lambda>key. case ko_xpub key of None \<Rightarrow> Panic | Some x \<Rightarrow> xpub_serialize x None)
       (pol_keys policy)) (\<lambda>xpubs.
     Ok ([0xff] @ [coin_byte coin] @ u32_le (of_nat (length (pol_policy policy)))
       @ as_bytes (pol_policy policy) @ u32_le (of_nat (length (pol_keys policy))) @ concat xpubs))"

definition policy_get_hash :: "env \<Rightarrow> BtcCoin \<Rightarrow> Policy \<Rightarrow> (unit, bytes) result" where
  "policy_get_hash E coin policy = bindR (policy_preimage coin policy) (\<lambda>p. Ok (env_sha256 E p))"

definition policy_get_name :: "env \<Rightarrow> world \<Rightarrow> BtcCoin \<Rightarrow> Policy \<Rightarrow> (unit, string option) result" where
  "policy_get_name E w coin policy =
     bindR (policy_get_hash E coin policy) (\<lambda>h. Ok (multisig_get_by_hash w h))"

section \<open>Laws: placeholders\<close>

lemma show_nat_hd_zero: "hd (show_nat n) = CHR ''0'' \<longleftrightarrow> n = 0"
proof (induction n rule: show_nat.induct)
  case (1 n)
  show ?case
  proof (cases "n < 10")
    case True
    have "digit_char n = CHR ''0'' \<longleftrightarrow> n = 0"
    proof -
      have "digit_char 0 = CHR ''0''" by code_simp
      then show ?thesis using digit_val_digit_char [OF True] digit_val_digit_char [of 0] by auto
    qed
    with True show ?thesis by (subst show_nat.simps) simp
  next
    case False
    then have "hd (show_nat n) = hd (show_nat (n div 10))" by (subst show_nat.simps) simp
    with 1 False show ?thesis by simp
  qed
qed

lemma validate_no_leading_zero_show [simp]: "validate_no_leading_zero (show_nat n) = Some ()"
proof (cases "n = 0")
  case True
  then show ?thesis by (subst show_nat.simps) (simp add: validate_no_leading_zero_def)
qed (simp add: validate_no_leading_zero_def show_nat_hd_zero)

lemma show_nat_no_plus: "show_nat n = c # cs \<Longrightarrow> c \<noteq> CHR ''+''"
  using show_nat_digits [of n] by (auto simp: is_digit_def)

lemma parse_uint_show: "parse_uint b (show_nat n) = (if n < b then Some n else None)"
proof -
  have "(case show_nat n of c # cs \<Rightarrow> if c = CHR ''+'' then cs else show_nat n | [] \<Rightarrow> show_nat n)
      = show_nat n"
    using show_nat_no_plus [of n] by (auto split: list.splits)
  then show ?thesis using show_nat_digits [of n] by (simp add: parse_uint_def)
qed

lemma parse_u32_show [simp]: "parse_u32 (show_nat (unat w)) = Some w"
  using unsigned_less [of w, where ?'a = nat] by (simp add: parse_u32_def parse_uint_show)

lemma split_once_append: "c \<notin> set l \<Longrightarrow> split_once c (l @ c # r) = Some (l, r)"
  by (induction l) auto

lemma strip_suffix_append [simp]: "strip_suffix suf (s @ suf) = Some s"
proof -
  have "strip_prefix (rev suf) (rev suf @ rev s) = Some (rev s)" by (simp only: strip_prefix_Some_iff)
  then show ?thesis by (simp add: strip_suffix_def)
qed

lemma show_nat_no_char: "\<not> is_digit c \<Longrightarrow> c \<notin> set (show_nat n)"
  using show_nat_digits [of n] by (auto simp: list_all_iff)

lemma parse_multipath_show:
  "parse_multipath (''<'' @ show_nat (unat l) @ '';'' @ show_nat (unat r) @ ''>/*'') = Some (l, r)"
proof -
  have "split_once CHR '';'' (show_nat (unat l) @ CHR '';'' # show_nat (unat r))
      = Some (show_nat (unat l), show_nat (unat r))"
    by (rule split_once_append) (simp add: show_nat_no_char is_digit_def)
  moreover have "strip_suffix ''>/*'' (show_nat (unat l) @ CHR '';'' # show_nat (unat r) @ ''>/*'')
      = Some (show_nat (unat l) @ CHR '';'' # show_nat (unat r))"
    using strip_suffix_append [of "''>/*''" "show_nat (unat l) @ CHR '';'' # show_nat (unat r)"] by simp
  ultimately show ?thesis by (simp add: parse_multipath_def)
qed

lemma parse_wallet_policy_pk_unfold:
  assumes "parse_multipath m = Some (l, r)" "i < 2 ^ 32"
  shows "parse_wallet_policy_pk (''@'' @ show_nat i @ ''/'' @ m) =
    (if l = r \<or> l \<ge> HARDENED \<or> r \<ge> HARDENED then None else Some (i, l, r))"
proof -
  have "split_once CHR ''/'' (show_nat i @ CHR ''/'' # m) = Some (show_nat i, m)"
    by (rule split_once_append) (rule show_nat_no_slash)
  then show ?thesis using assms
    by (simp add: parse_wallet_policy_pk_def parse_usize_def parse_uint_show)
qed

text \<open>
  C20: Placeholders round-trip: for every key index and every two different unhardened branch
  numbers, printing \<open>@i/<l;r>/*\<close> and parsing gives the three numbers back; \<open>@i/**\<close> means
  \<open>@i/<0;1>/*\<close>; equal or hardened branches are rejected.
\<close>

theorem parse_wallet_policy_pk_roundtrip:
  assumes "i < 2 ^ 32"
  shows "parse_wallet_policy_pk (''@'' @ show_nat i @ ''/**'') = Some (i, 0, 1)
    \<and> parse_wallet_policy_pk (''@'' @ show_nat i @ ''/<'' @ show_nat (unat l) @ '';''
        @ show_nat (unat r) @ ''>/*'')
      = (if l \<noteq> r \<and> l < HARDENED \<and> r < HARDENED then Some (i, l, r) else None)"
proof -
  have "parse_multipath ''**'' = Some (0, 1)" by (simp add: parse_multipath_def)
  from parse_wallet_policy_pk_unfold [OF this assms]
  have "parse_wallet_policy_pk (''@'' @ show_nat i @ ''/**'') = Some (i, 0, 1)"
    by (simp add: HARDENED_def word_le_nat_alt)
  with parse_wallet_policy_pk_unfold [OF parse_multipath_show assms, of l r]
  show ?thesis by (auto simp: not_le)
qed

theorem parse_wallet_policy_pk_roundtrip_witness:
  "parse_wallet_policy_pk (''@'' @ show_nat 3 @ ''/<'' @ show_nat (unat (10::u32)) @ '';''
      @ show_nat (unat (11::u32)) @ ''>/*'') = Some (3, 10, 11)"
  using parse_wallet_policy_pk_roundtrip [of 3 10 11] by (simp add: HARDENED_def)

section \<open>Laws: validation\<close>

definition derivations :: "nat \<times> u32 \<times> u32 \<Rightarrow> (nat \<times> u32) list" where
  "derivations = (\<lambda>(i, l, r). [(i, l), (i, r)])"

lemma validate_key_step_Ok:
  assumes "distinct ds"
  shows "validate_key_step pk (ds, seen) = Ok (ds', seen') \<longleftrightarrow>
    (\<exists>k. parse_wallet_policy_pk pk = Some k \<and> ds' = ds @ derivations k \<and> distinct ds'
      \<and> fst k < length seen \<and> seen' = seen[fst k := True])"
  using assms
  by (cases "parse_wallet_policy_pk pk")
    (auto simp: validate_key_step_def derivations_def Let_def split: if_splits)

lemma validate_keys_loop_Ok:
  assumes "distinct ds"
  shows "validate_keys_loop pks (ds, seen) = Ok (ds', seen') \<longleftrightarrow>
    (\<exists>ks. map parse_wallet_policy_pk pks = map Some ks \<and> ds' = ds @ concat (map derivations ks)
      \<and> distinct ds' \<and> (\<forall>k\<in>set ks. fst k < length seen)
      \<and> seen' = foldl (\<lambda>s k. s[fst k := True]) seen ks)"
  using assms
proof (induction pks arbitrary: ds seen)
  case (Cons pk pks)
  show ?case
  proof
    assume "validate_keys_loop (pk # pks) (ds, seen) = Ok (ds', seen')"
    then obtain d s where step: "validate_key_step pk (ds, seen) = Ok (d, s)"
      and loop: "validate_keys_loop pks (d, s) = Ok (ds', seen')" by auto
    from step obtain k where k: "parse_wallet_policy_pk pk = Some k" "d = ds @ derivations k"
      "distinct d" "fst k < length seen" "s = seen[fst k := True]"
      unfolding validate_key_step_Ok [OF Cons.prems] by blast
    from loop [unfolded Cons.IH [OF k(3)]] obtain ks where
      "map parse_wallet_policy_pk pks = map Some ks" "ds' = d @ concat (map derivations ks)"
      "distinct ds'" "\<forall>k\<in>set ks. fst k < length s" "seen' = foldl (\<lambda>s k. s[fst k := True]) s ks"
      by blast
    with k show "\<exists>ks. map parse_wallet_policy_pk (pk # pks) = map Some ks
      \<and> ds' = ds @ concat (map derivations ks) \<and> distinct ds' \<and> (\<forall>k\<in>set ks. fst k < length seen)
      \<and> seen' = foldl (\<lambda>s k. s[fst k := True]) seen ks"
      by (intro exI [of _ "k # ks"]) simp
  next
    assume "\<exists>ks. map parse_wallet_policy_pk (pk # pks) = map Some ks
      \<and> ds' = ds @ concat (map derivations ks) \<and> distinct ds' \<and> (\<forall>k\<in>set ks. fst k < length seen)
      \<and> seen' = foldl (\<lambda>s k. s[fst k := True]) seen ks"
    then obtain k ks where *: "parse_wallet_policy_pk pk = Some k"
      "map parse_wallet_policy_pk pks = map Some ks"
      "ds' = (ds @ derivations k) @ concat (map derivations ks)" "distinct ds'"
      "\<forall>k\<in>set ks. fst k < length seen" "fst k < length seen"
      "seen' = foldl (\<lambda>s k. s[fst k := True]) (seen[fst k := True]) ks"
      by (auto simp: Cons_eq_map_conv map_eq_Cons_conv)
    have d: "distinct (ds @ derivations k)" using *(4) unfolding *(3) distinct_append by blast
    then have "validate_key_step pk (ds, seen) = Ok (ds @ derivations k, seen[fst k := True])"
      unfolding validate_key_step_Ok [OF Cons.prems] using *(1,6) by blast
    moreover have "validate_keys_loop pks (ds @ derivations k, seen[fst k := True]) = Ok (ds', seen')"
      unfolding Cons.IH [OF d] using *(2-7) by (intro exI [of _ ks]) simp
    ultimately show "validate_keys_loop (pk # pks) (ds, seen) = Ok (ds', seen')" by simp
  qed
qed auto

lemma foldl_seen:
  "length (foldl (\<lambda>s k. s[fst k := True]) seen ks) = length seen"
  "i < length seen \<Longrightarrow>
    foldl (\<lambda>s k. s[fst k := True]) seen ks ! i \<longleftrightarrow> seen ! i \<or> i \<in> fst ` set ks"
proof (induction ks arbitrary: seen)
  case (Cons k ks)
  { case 1 show ?case using Cons(1) by simp }
  { case 2 then show ?case using Cons(2) by (cases "i = fst k") auto }
qed simp_all

text \<open>
  C13: Key validation of a policy accepts exactly when every placeholder parses, no (key, branch)
  pair occurs twice among the receive and change branches of all placeholders together, and the
  placeholders use exactly the keys of the key list. So no derivation of the policy, at the receive
  or at the change path, can contain the same public key twice.
\<close>

theorem validate_keys_correct:
  "validate_keys p = Ok () \<longleftrightarrow>
     (\<exists>ks. map parse_wallet_policy_pk (iter_pk p) = map Some ks
       \<and> distinct (concat (map derivations ks))
       \<and> fst ` set ks = {..< length (pol_keys (pp_policy p))})"
proof -
  let ?n = "length (pol_keys (pp_policy p))"
  have seen: "list_all (\<lambda>b. b) (foldl (\<lambda>s k. s[fst k := True]) (replicate ?n False) ks)
      \<longleftrightarrow> {..< ?n} \<subseteq> fst ` set ks" for ks :: "(nat \<times> u32 \<times> u32) list"
    by (auto simp: list_all_length foldl_seen)
  have "validate_keys p = Ok () \<longleftrightarrow> (\<exists>ds seen'. validate_keys_loop (iter_pk p) ([], replicate ?n False)
      = Ok (ds, seen') \<and> list_all (\<lambda>b. b) seen')"
    by (auto simp: validate_keys_def split: if_splits)
  also have "\<dots> \<longleftrightarrow> (\<exists>ks. map parse_wallet_policy_pk (iter_pk p) = map Some ks
       \<and> distinct (concat (map derivations ks)) \<and> (\<forall>k\<in>set ks. fst k < ?n)
       \<and> {..< ?n} \<subseteq> fst ` set ks)"
    by (simp add: validate_keys_loop_Ok) (metis seen)
  also have "\<dots> \<longleftrightarrow> (\<exists>ks. map parse_wallet_policy_pk (iter_pk p) = map Some ks
       \<and> distinct (concat (map derivations ks)) \<and> fst ` set ks = {..< ?n})"
    by (rule ex_cong1) blast
  finally show ?thesis .
qed

section \<open>Laws: change paths\<close>

lemma prefix_two_more:
  assumes "prefix a k" "length k = length a + 2"
  shows "k = a @ [k ! (length k - 2), k ! (length k - 1)]"
proof -
  from assms(1) obtain zs where k: "k = a @ zs" by (auto simp: prefix_def)
  with assms(2) have "length zs = Suc (Suc 0)" by simp
  then obtain x y where "zs = [x, y]" by (auto simp: length_Suc_conv)
  with k show ?thesis by (simp add: nth_append)
qed

lemma match_pk_Some:
  assumes "match_pk keys ours kp pk = Ok (Some (ch, a))"
  obtains i l r where "parse_wallet_policy_pk pk = Some (i, l, r)" "i < length keys" "i < length ours"
    "ours ! i" "kp = ko_keypath (keys ! i) @ [if ch then r else l, a]"
proof -
  from assms obtain i l r where *: "parse_wallet_policy_pk pk = Some (i, l, r)" "i < length keys"
    "i < length ours" "ours ! i" "prefix (ko_keypath (keys ! i)) kp"
    "length kp = length (ko_keypath (keys ! i)) + 2"
    "kp ! (length kp - 2) = (if ch then r else l)" "a = kp ! (length kp - 1)"
    by (cases "parse_wallet_policy_pk pk")
      (auto simp: match_pk_def index_def Let_def split: if_splits)
  from prefix_two_more [OF *(5,6)] have "kp = ko_keypath (keys ! i) @ [if ch then r else l, a]"
    unfolding *(7) *(8) [symmetric] .
  with * that show thesis by blast
qed

text \<open>
  C14: A key path is recognised as belonging to a policy only through one of our own keys: it is the
  key's account path followed by the receive branch (then it is not change) or the change branch
  (then it is change) of a placeholder of that key and by the address index that is returned.
\<close>

theorem get_change_and_address_index_sound:
  assumes "get_change_and_address_index pks keys ours kp = Ok (ch, a)"
  shows "\<exists>pk i l r. pk \<in> set pks \<and> parse_wallet_policy_pk pk = Some (i, l, r) \<and> i < length keys
    \<and> i < length ours \<and> ours ! i \<and> kp = ko_keypath (keys ! i) @ [if ch then r else l, a]"
  using assms
proof (induction pks)
  case (Cons pk pks)
  then obtain m where m: "match_pk keys ours kp pk = Ok m" by auto
  show ?case
  proof (cases m)
    case (Some r)
    with m Cons.prems have "match_pk keys ours kp pk = Ok (Some (ch, a))" by simp
    then show ?thesis by (rule match_pk_Some) (metis list.set_intros(1))
  next
    case None
    with m Cons show ?thesis by (metis bindR.simps(1) get_change_and_address_index.simps(2)
        list.set_intros(2) option.case(1))
  qed
qed simp

definition sample_origin :: KeyOriginInfo where
  "sample_origin = \<lparr>ko_root_fingerprint = [], ko_keypath = [48, 7], ko_xpub = None\<rparr>"

lemma sample_change:
  "get_change_and_address_index [''@0/**''] [sample_origin] [True] [48, 7, 1, 5] = Ok (True, 5)"
proof -
  have "show_nat 0 = ''0''" by code_simp
  then have "parse_wallet_policy_pk ''@0/**'' = Some (0, 0, 1)"
    using parse_wallet_policy_pk_unfold [of "''**''" 0 1 0]
    by (simp add: parse_multipath_def HARDENED_def word_le_nat_alt)
  then show ?thesis by (simp add: match_pk_def index_def sample_origin_def)
qed

theorem get_change_and_address_index_sound_witness:
  "\<exists>i. i < length [sample_origin] \<and> [48, 7, 1, 5] \<noteq> ko_keypath ([sample_origin] ! i)
     \<and> prefix (ko_keypath ([sample_origin] ! i)) [48, 7, 1, 5 :: u32]"
  using get_change_and_address_index_sound [OF sample_change]
  by (auto simp: prefix_def sample_origin_def)

section \<open>Laws: registration hash\<close>

lemma policy_preimage_Ok:
  assumes "policy_preimage c p = Ok h"
  obtains xs bs where "map ko_xpub (pol_keys p) = map Some xs"
    "list_all2 (\<lambda>x b. xpub_serialize x None = Ok b) xs bs" "length bs = length (pol_keys p)"
    "list_all (\<lambda>b. length b = 74) bs"
    "h = [0xff] @ [coin_byte c] @ u32_le (of_nat (length (pol_policy p))) @ as_bytes (pol_policy p)
       @ u32_le (of_nat (length (pol_keys p))) @ concat bs"
proof -
  let ?f = "\<lambda>key. case ko_xpub key of None \<Rightarrow> Panic | Some x \<Rightarrow> xpub_serialize x None"
  from assms obtain bs where bs: "list_all2 (\<lambda>k b. ?f k = Ok b) (pol_keys p) bs"
    and h: "h = [0xff] @ [coin_byte c] @ u32_le (of_nat (length (pol_policy p)))
       @ as_bytes (pol_policy p) @ u32_le (of_nat (length (pol_keys p))) @ concat bs"
    by (auto simp: policy_preimage_def collectR_Ok_iff)
  from bs have "\<exists>xs. map ko_xpub (pol_keys p) = map Some xs
      \<and> list_all2 (\<lambda>x b. xpub_serialize x None = Ok b) xs bs \<and> list_all (\<lambda>b. length b = 74) bs"
  proof (induction rule: list_all2_induct)
    case (Cons k ks b bs)
    then obtain x xs where "ko_xpub k = Some x" "xpub_serialize x None = Ok b"
      "map ko_xpub ks = map Some xs" "list_all2 (\<lambda>x b. xpub_serialize x None = Ok b) xs bs"
      "list_all (\<lambda>b. length b = 74) bs" by (auto split: option.splits)
    then show ?case by (intro exI [of _ "x # xs"]) (simp add: xpub_serialize_None_Ok)
  qed auto
  with list_all2_lengthD [OF bs] h that show thesis by auto
qed

lemma serialize_all_inj:
  assumes "list_all2 (\<lambda>x b. xpub_serialize x None = Ok b) xs bs"
    "list_all2 (\<lambda>x b. xpub_serialize x None = Ok b) ys bs"
  shows "xs = ys"
  using assms
proof (induction bs arbitrary: xs ys rule: list.induct)
  case (Cons b bs)
  from Cons.prems obtain x xs' y ys' where "xs = x # xs'" "ys = y # ys'"
    "xpub_serialize x None = Ok b" "xpub_serialize y None = Ok b"
    "list_all2 (\<lambda>x b. xpub_serialize x None = Ok b) xs' bs"
    "list_all2 (\<lambda>x b. xpub_serialize x None = Ok b) ys' bs"
    unfolding list_all2_Cons2 by blast
  with Cons.IH [of xs' ys'] xpub_serialize_None_inj [of x b y] show ?case by simp
qed auto

lemma policy_preimage_inj:
  assumes "policy_preimage c p = Ok h" "policy_preimage c' p' = Ok h"
    and "length (pol_policy p) < 2 ^ 32" "length (pol_policy p') < 2 ^ 32"
    and "length (pol_keys p) \<le> MAX_KEYS" "length (pol_keys p') \<le> MAX_KEYS"
  shows "c = c' \<and> pol_policy p = pol_policy p' \<and> map ko_xpub (pol_keys p) = map ko_xpub (pol_keys p')"
proof -
  obtain xs bs where 1: "map ko_xpub (pol_keys p) = map Some xs"
    "list_all2 (\<lambda>x b. xpub_serialize x None = Ok b) xs bs" "length bs = length (pol_keys p)"
    "list_all (\<lambda>b. length b = 74) bs"
    "h = [0xff] @ [coin_byte c] @ u32_le (of_nat (length (pol_policy p))) @ as_bytes (pol_policy p)
       @ u32_le (of_nat (length (pol_keys p))) @ concat bs" using assms(1) by (rule policy_preimage_Ok)
  obtain xs' bs' where 2: "map ko_xpub (pol_keys p') = map Some xs'"
    "list_all2 (\<lambda>x b. xpub_serialize x None = Ok b) xs' bs'" "length bs' = length (pol_keys p')"
    "list_all (\<lambda>b. length b = 74) bs'"
    "h = [0xff] @ [coin_byte c'] @ u32_le (of_nat (length (pol_policy p'))) @ as_bytes (pol_policy p')
       @ u32_le (of_nat (length (pol_keys p'))) @ concat bs'" using assms(2) by (rule policy_preimage_Ok)
  from 1(5) 2(5) have eq: "c = c'"
    "(of_nat (length (pol_policy p)) :: u32) = of_nat (length (pol_policy p'))"
    "as_bytes (pol_policy p) @ u32_le (of_nat (length (pol_keys p))) @ concat bs
     = as_bytes (pol_policy p') @ u32_le (of_nat (length (pol_keys p'))) @ concat bs'"
    by (auto simp: coin_byte_inj le32.enc_inj)
  have "length (pol_policy p) = length (pol_policy p')"
    using eq(2) assms(3,4) by (simp add: word_unat_eq_iff unat_of_nat)
  with eq(3) have eq2: "as_bytes (pol_policy p) = as_bytes (pol_policy p')"
    "(of_nat (length (pol_keys p)) :: u32) = of_nat (length (pol_keys p'))" "concat bs = concat bs'"
    by (auto simp: le32.enc_inj)
  have "length bs = length bs'" using eq2(2) assms(5,6) 1(3) 2(3)
    by (simp add: word_unat_eq_iff unat_of_nat MAX_KEYS_def)
  with concat_eq_length [of bs "[]" bs' "[]"] eq2(3) 1(4) 2(4) have "bs = bs'" by auto
  with serialize_all_inj [OF 1(2)] 2(2) have "xs = xs'" by blast
  with eq(1) eq2(1) 1(1) 2(1) show ?thesis by (simp add: as_bytes_inj)
qed

lemma policy_multisig_preimage_differ:
  assumes "policy_preimage c p = Ok h" shows "multisig_preimage c' m s k \<noteq> Ok h"
proof
  assume m: "multisig_preimage c' m s k = Ok h"
  have "hd h = 0xff" using assms by (rule policy_preimage_Ok) simp
  moreover have "hd h = coin_byte c'" using m by (rule multisig_preimage_Ok) simp
  ultimately show False by (cases c') simp_all
qed

text \<open>
  C15: The registration hash of a policy commits to the coin, the policy text and the list of its
  extended public keys, and it is never the hash of a multisig account: whenever two registrations
  have the same hash, they are the same in this sense or their preimages are an explicit SHA-256
  collision.
\<close>

theorem policy_get_hash_commits:
  assumes "policy_get_hash E c p = Ok h"
    and "length (pol_policy p) < 2 ^ 32" "length (pol_keys p) \<le> MAX_KEYS"
  shows "(policy_get_hash E c' p' = Ok h \<longrightarrow> length (pol_policy p') < 2 ^ 32 \<longrightarrow>
      length (pol_keys p') \<le> MAX_KEYS \<longrightarrow>
      (c = c' \<and> pol_policy p = pol_policy p' \<and> map ko_xpub (pol_keys p) = map ko_xpub (pol_keys p'))
      \<or> (\<exists>x y. policy_preimage c p = Ok x \<and> policy_preimage c' p' = Ok y \<and> collides (env_sha256 E) x y))
    \<and> (multisig_get_hash E c' m s k = Ok h \<longrightarrow>
      (\<exists>x y. policy_preimage c p = Ok x \<and> multisig_preimage c' m s k = Ok y
        \<and> collides (env_sha256 E) x y))"
proof (intro conjI impI)
  from assms(1) obtain x where x: "policy_preimage c p = Ok x" "env_sha256 E x = h"
    by (auto simp: policy_get_hash_def)
  { assume *: "policy_get_hash E c' p' = Ok h" "length (pol_policy p') < 2 ^ 32"
      "length (pol_keys p') \<le> MAX_KEYS"
    from *(1) obtain y where y: "policy_preimage c' p' = Ok y" "env_sha256 E y = h"
      by (auto simp: policy_get_hash_def)
    have "x = y \<or> collides (env_sha256 E) x y" by (rule hash_eqD) (simp add: x y)
    with x(1) y(1) policy_preimage_inj [OF x(1) _ assms(2) *(2) assms(3) *(3), of c']
    show "(c = c' \<and> pol_policy p = pol_policy p' \<and> map ko_xpub (pol_keys p) = map ko_xpub (pol_keys p'))
      \<or> (\<exists>x y. policy_preimage c p = Ok x \<and> policy_preimage c' p' = Ok y \<and> collides (env_sha256 E) x y)"
      by blast }
  assume "multisig_get_hash E c' m s k = Ok h"
  then obtain y where y: "multisig_preimage c' m s k = Ok y" "env_sha256 E y = h"
    by (auto simp: multisig_get_hash_def)
  have "x = y \<or> collides (env_sha256 E) x y" by (rule hash_eqD) (simp add: x y)
  with x(1) y(1) policy_multisig_preimage_differ [OF x(1), of c' m s k]
  show "\<exists>x y. policy_preimage c p = Ok x \<and> multisig_preimage c' m s k = Ok y \<and> collides (env_sha256 E) x y"
    by blast
qed

definition sample_policy :: Policy where
  "sample_policy = \<lparr>pol_policy = ''wsh(pk(@0/**))'',
     pol_keys = [\<lparr>ko_root_fingerprint = [], ko_keypath = [48], ko_xpub = Some (sample_key 5)\<rparr>]\<rparr>"

theorem policy_get_hash_commits_witness:
  "policy_get_hash sample_env Btc sample_policy \<noteq> policy_get_hash sample_env Tbtc sample_policy"
proof
  assume eq: "policy_get_hash sample_env Btc sample_policy = policy_get_hash sample_env Tbtc sample_policy"
  obtain h where h: "policy_get_hash sample_env Btc sample_policy = Ok h"
    by (simp add: policy_get_hash_def policy_preimage_def sample_policy_def xpub_serialize_def sample_key_def)
  have b: "length (pol_policy sample_policy) < 2 ^ 32" "length (pol_keys sample_policy) \<le> MAX_KEYS"
    by (simp_all add: sample_policy_def MAX_KEYS_def)
  from policy_get_hash_commits [OF h b, of Tbtc sample_policy] b eq [symmetric, unfolded h]
  show False by (auto simp: sample_env_def)
qed

section \<open>Confirming a policy signs nothing\<close>

lemma quiet_confirm_bool [quiet_rules]: "quiet (confirm_bool E p :: (world, 'e, bool) io)"
proof (rule emitsI)
  fix w r w'
  assume "confirm_bool E p w = (r :: ('e, bool) result, w')"
  then have "confirm E p w = (fst (confirm E p w), w')"
    by (auto simp: confirm_bool_def split: prod.splits result.splits)
  with quiet_confirm show "\<exists>t. w' = ext_trace w t \<and> list_all (\<lambda>e. \<not> signs e) t"
    by (blast elim: emitsD)
qed

lemma quiet_policy_confirm [quiet_rules]: "quiet (policy_confirm E p t q n m)"
proof -
  have "quiet (policy_confirm_key E p q m x u)" for x u
    unfolding policy_confirm_key_def Let_def
    by (cases x) (auto intro!: emits_rules quiet_rules)
  then show ?thesis unfolding policy_confirm_def Let_def by (intro emits_rules quiet_rules)
qed

end
