(* ===== verification/Backup.thy ===== *)
theory Backup
  imports Keystore Btc_Policies "HOL-Library.AList"
begin

unbundle bit_operations_syntax

text \<open>
  Backups on the SD card (\<open>backup.rs\<close> over \<open>bitbox02/src/sd.rs\<close> and \<open>sd.c\<close>): three copies of a file with
  the seed, a checksum, and a bitwise majority vote over damaged copies. The protobuf encoding of the
  files and the file system are parts of the environment.
\<close>

section \<open>The SD card\<close>

definition SD_MAX_FILE_SIZE :: nat where "SD_MAX_FILE_SIZE = 1024"

definition LIST_MAX :: nat where "LIST_MAX = 200"

text \<open>An access to the card, which may fail.\<close>

definition sd_access :: "env \<Rightarrow> (world, unit, unit) io" where
  "sd_access E =
     bindM (getM (\<lambda>w. env_sd_ok E (w_trace w))) (\<lambda>ok.
     bindM (emit (EvSd ok)) (\<lambda>_.
     if ok then returnM () else failM ()))"

definition sd_files :: "world \<Rightarrow> string \<Rightarrow> (string \<times> bytes) list" where
  "sd_files w dir = (case map_of (w_sd w) dir of Some fs \<Rightarrow> fs | None \<Rightarrow> [])"

definition sd_list_dirs :: "env \<Rightarrow> (world, unit, string list) io" where
  "sd_list_dirs E = bindM (sd_access E) (\<lambda>_. getM (\<lambda>w. take LIST_MAX (map fst (w_sd w))))"

definition sd_list_subdir :: "env \<Rightarrow> string \<Rightarrow> (world, unit, string list) io" where
  "sd_list_subdir E dir =
     bindM (unwrapM (str_to_cstr_vec dir)) (\<lambda>_.
     bindM (sd_access E) (\<lambda>_. getM (\<lambda>w. take LIST_MAX (map fst (sd_files w dir)))))"

definition sd_load_bin :: "env \<Rightarrow> string \<Rightarrow> string \<Rightarrow> (world, unit, bytes) io" where
  "sd_load_bin E filename dir =
     bindM (check_cstrs [filename, dir]) (\<lambda>_.
     if filename = [] then failM ()
     else bindM (sd_access E) (\<lambda>_.
       bindM (getM (\<lambda>w. map_of (sd_files w dir) filename)) (\<lambda>contents.
       case contents of
         None \<Rightarrow> failM ()
       | Some bs \<Rightarrow> if SD_MAX_FILE_SIZE < length bs then failM () else returnM bs)))"

text \<open>The length is passed to the C code as 16 bits.\<close>

definition sd_write_bin :: "env \<Rightarrow> string \<Rightarrow> string \<Rightarrow> bytes \<Rightarrow> (world, unit, unit) io" where
  "sd_write_bin E filename dir data =
     bindM (check_cstrs [filename, dir]) (\<lambda>_.
     if filename = [] \<or> length data mod 2 ^ 16 = 0 \<or> SD_MAX_FILE_SIZE < length data mod 2 ^ 16 then failM ()
     else bindM (sd_access E) (\<lambda>_.
       modifyM (\<lambda>w. w\<lparr>w_sd := AList.update dir
         (AList.update filename (take (length data mod 2 ^ 16) data) (sd_files w dir)) (w_sd w)\<rparr>)))"

definition sd_erase_file_in_subdir :: "env \<Rightarrow> string \<Rightarrow> string \<Rightarrow> (world, unit, unit) io" where
  "sd_erase_file_in_subdir E filename dir =
     bindM (check_cstrs [filename, dir]) (\<lambda>_.
     if filename = [] then failM ()
     else bindM (sd_access E) (\<lambda>_.
     bindM (getM (\<lambda>w. map_of (sd_files w dir) filename)) (\<lambda>contents.
     case contents of
       None \<Rightarrow> failM ()
     | Some _ \<Rightarrow> modifyM (\<lambda>w. w\<lparr>w_sd := AList.update dir (AList.delete filename (sd_files w dir)) (w_sd w)\<rparr>))))"

section \<open>Files\<close>

datatype BackupError = BackupGeneric | Stale | SdList | SdRead | SdWrite | Check

text \<open>Slicing and copying panic where the seed is longer than its buffer.\<close>

definition get_seed :: "BackupData \<Rightarrow> ('e, bytes) result" where
  "get_seed d = (if unat (bd_seed_length d) \<le> length (bd_seed d)
     then Ok (take (unat (bd_seed_length d)) (bd_seed d)) else Panic)"

definition padded_seed :: "bytes \<Rightarrow> ('e, bytes) result" where
  "padded_seed seed = (if length seed \<le> 32 then Ok (seed @ replicate (32 - length seed) 0) else Panic)"

definition backup_id :: "env \<Rightarrow> bytes \<Rightarrow> ('e, string) result" where
  "backup_id E seed = bindR (padded_seed seed) (\<lambda>p. Ok (hex_encode (env_hmac_sha256 E (as_bytes ''backup'') p)))"

definition padded :: "nat \<Rightarrow> string \<Rightarrow> (unit, bytes) result" where
  "padded n s = (if n < length s then Err () else Ok (as_bytes s @ replicate (n - length s) 0))"

definition compute_checksum :: "env \<Rightarrow> BackupMetaData \<Rightarrow> BackupData \<Rightarrow> u32 \<Rightarrow> (unit, bytes) result" where
  "compute_checksum E metadata data data_length =
     bindR (padded 64 (bm_name metadata)) (\<lambda>name.
     bindR (if length (bd_seed data) \<noteq> 32 then Err () else Ok ()) (\<lambda>_.
     bindR (padded_seed (bd_seed data)) (\<lambda>seed.
     bindR (padded 20 (bd_generator data)) (\<lambda>generator.
     Ok (env_sha256 E (u32_le (bm_timestamp metadata) @ [word_of_int (bm_mode metadata)] @ name
       @ u32_le (bd_seed_length data) @ seed @ u32_le (bd_birthdate data) @ generator @ u32_le data_length))))))"

definition load_from_buffer :: "env \<Rightarrow> bytes \<Rightarrow> (unit, BackupData \<times> BackupMetaData) result" where
  "load_from_buffer E buf = (case env_backup_decode E buf of
     Some (Some (BackupV1 (Some content))) \<Rightarrow>
       bindR (ok_or () (env_backup_data_decode E (bc_data content))) (\<lambda>data.
       case bc_metadata content of
         None \<Rightarrow> Panic
       | Some metadata \<Rightarrow>
           bindR (compute_checksum E metadata data (bc_length content)) (\<lambda>checksum.
           if checksum \<noteq> bc_checksum content then Err () else Ok (data, metadata)))
   | _ \<Rightarrow> Err ())"

text \<open>The majority of three bits, byte by byte.\<close>

definition majority :: "u8 \<Rightarrow> u8 \<Rightarrow> u8 \<Rightarrow> u8" where
  "majority a b c = foldr (\<lambda>bit r.
     (let mask = push_bit bit 1; bit1 = a AND mask; bit2 = b AND mask; bit3 = c AND mask in
      (if bit1 = bit2 \<or> bit1 = bit3 then bit1 else bit2) OR r)) [0..<8] 0"

definition bitwise_recovery :: "bytes \<Rightarrow> bytes \<Rightarrow> bytes \<Rightarrow> (unit, bytes) result" where
  "bitwise_recovery buf1 buf2 buf3 =
     (if length buf1 \<noteq> length buf2 \<or> length buf1 \<noteq> length buf3 then Err ()
      else Ok (map (\<lambda>(a, b, c). majority a b c) (zip buf1 (zip buf2 buf3))))"

text \<open>The first copy that can be read, or else what the vote recovers. A panic is not caught.\<close>

fun load_first :: "env \<Rightarrow> bytes list \<Rightarrow> (unit, BackupData \<times> BackupMetaData) result \<Rightarrow>
    (unit, BackupData \<times> BackupMetaData) result" where
  "load_first E [] otherwise = otherwise"
| "load_first E (buf # bufs) otherwise = (case load_from_buffer E buf of
     Err _ \<Rightarrow> load_first E bufs otherwise | r \<Rightarrow> r)"

definition backup_load :: "env \<Rightarrow> string \<Rightarrow> (world, unit, BackupData \<times> BackupMetaData) io" where
  "backup_load E dir =
     bindM (sd_list_subdir E dir) (\<lambda>files.
     bindM (guardM (length files = 3) ()) (\<lambda>_.
     bindM (sd_load_bin E (files ! 0) dir) (\<lambda>a.
     bindM (sd_load_bin E (files ! 1) dir) (\<lambda>b.
     bindM (sd_load_bin E (files ! 2) dir) (\<lambda>c.
     liftM (load_first E [a, b, c] (bindR (bitwise_recovery a b c) (load_from_buffer E))))))))"

section \<open>Creating a backup\<close>

definition backup_data_of :: "env \<Rightarrow> bytes \<Rightarrow> u32 \<Rightarrow> ('e, BackupData) result" where
  "backup_data_of E seed birthdate = bindR (padded_seed seed) (\<lambda>p.
     Ok \<lparr>bd_seed_length = of_nat (length seed), bd_seed = p, bd_birthdate = birthdate, bd_generator = env_version E\<rparr>)"

definition backup_metadata_of :: "string \<Rightarrow> u32 \<Rightarrow> BackupMetaData" where
  "backup_metadata_of name timestamp = \<lparr>bm_timestamp = timestamp, bm_name = name, bm_mode = 0\<rparr>"

definition backup_filename :: "env \<Rightarrow> u32 \<Rightarrow> nat \<Rightarrow> string" where
  "backup_filename E timestamp i =
     ''backup_'' @ env_strftime E timestamp ''%a_%Y-%m-%dT%H-%M-%SZ'' @ ''_'' @ show_nat i @ ''.bin''"

definition write_copy :: "env \<Rightarrow> string \<Rightarrow> bytes \<Rightarrow> string list \<Rightarrow> string \<Rightarrow> unit \<Rightarrow> (world, BackupError, unit) io" where
  "write_copy E dir encoded files filename u =
     bindM (guardM (filename \<notin> set files) BackupGeneric) (\<lambda>_.
     bindM (map_errM (\<lambda>_. SdWrite) (sd_write_bin E filename dir encoded)) (\<lambda>_.
     bindM (map_errM (\<lambda>_. SdRead) (sd_load_bin E filename dir)) (\<lambda>contents.
     guardM (contents = encoded) Check)))"

definition erase_old :: "env \<Rightarrow> string \<Rightarrow> string \<Rightarrow> bool \<Rightarrow> (world, 'e, bool) io" where
  "erase_old E dir filename stale =
     bindM (attempt (sd_erase_file_in_subdir E filename dir)) (\<lambda>r.
     returnM (stale \<or> (case r of Inl _ \<Rightarrow> True | Inr _ \<Rightarrow> False)))"

definition backup_file :: "env \<Rightarrow> bytes \<Rightarrow> string \<Rightarrow> u32 \<Rightarrow> u32 \<Rightarrow> (BackupError, bytes) result" where
  "backup_file E seed name timestamp birthdate =
     bindR (backup_data_of E seed birthdate) (\<lambda>data.
     if 19 < length (bd_generator data) \<or> 63 < length name then Err BackupGeneric
     else bindR (map_err (\<lambda>_. BackupGeneric) (compute_checksum E (backup_metadata_of name timestamp) data 0)) (\<lambda>checksum.
       Ok (env_backup_encode E (Some (BackupV1 (Some \<lparr>bc_checksum = checksum,
         bc_metadata = Some (backup_metadata_of name timestamp), bc_length = 0,
         bc_data = env_backup_data_encode E data\<rparr>))))))"

definition backup_create :: "env \<Rightarrow> bytes \<Rightarrow> string \<Rightarrow> u32 \<Rightarrow> u32 \<Rightarrow> (world, BackupError, unit) io" where
  "backup_create E seed name timestamp birthdate =
     bindM (liftM (backup_file E seed name timestamp birthdate)) (\<lambda>encoded.
     bindM (liftM (backup_id E seed)) (\<lambda>dir.
     bindM (map_errM (\<lambda>_. SdList) (sd_list_subdir E dir)) (\<lambda>files.
     bindM (foldM (write_copy E dir encoded files) (map (backup_filename E timestamp) [0, 1, 2]) ()) (\<lambda>_.
     bindM (foldM (erase_old E dir) files False) (\<lambda>stale.
     guardM (\<not> stale) Stale)))))"

end
