(* ===== verification/Device_Api.thy ===== *)
theory Device_Api
  imports Mnemonic Backup Btc_Policies
begin

text \<open>
  The unlock workflow (\<open>workflow/unlock.rs\<close>) and the requests that manage the device
  (\<open>hww/api/set_password.rs\<close>, \<open>restore.rs\<close>, \<open>reset.rs\<close>, \<open>backup.rs\<close>, \<open>show_mnemonic.rs\<close>,
  \<open>set_mnemonic_passphrase_enabled.rs\<close>, \<open>set_device_name.rs\<close>, \<open>sdcard.rs\<close>, \<open>system.rs\<close>,
  \<open>device_info.rs\<close>, \<open>rootfingerprint.rs\<close>, \<open>electrum.rs\<close>, \<open>bip85.rs\<close>). The field
  \<open>env_app_u2f\<close> is the cargo feature \<open>app-u2f\<close>.
\<close>

section \<open>Unlocking\<close>

definition passphrase_params :: "string \<Rightarrow> ConfirmParams" where
  "passphrase_params passphrase = confirm_default\<lparr>cp_title := ''Confirm'', cp_body := passphrase,
     cp_font := Password11X12, cp_scrollable := True, cp_longtouch := True\<rparr>"

definition confirm_mnemonic_passphrase :: "env \<Rightarrow> string \<Rightarrow> (world, unit, unit) io" where
  "confirm_mnemonic_passphrase E passphrase =
     (if passphrase = [] then returnM ()
      else bindM (confirm E (confirm_default\<lparr>cp_body := ''You will be asked to'' @ [CHR 0x0A]
          @ ''visually confirm your'' @ [CHR 0x0A] @ ''passphrase now.'',
          cp_accept_only := True, cp_accept_is_nextarrow := True\<rparr>)) (\<lambda>_.
        confirm E (passphrase_params passphrase)))"

datatype UnlockError = UnlockUserAbort | UnlockIncorrectPassword | UnlockGeneric

text \<open>The text of a keystore error, as the derived formatter prints it.\<close>

fun keystore_error_text :: "KeystoreError \<Rightarrow> string" where
  "keystore_error_text CannotUnlockBIP39 = ''CannotUnlockBIP39''"
| "keystore_error_text (IncorrectPassword n) = ''IncorrectPassword { remaining_attempts: '' @ show_nat n @ '' }''"
| "keystore_error_text MaxAttemptsExceeded = ''MaxAttemptsExceeded''"
| "keystore_error_text Unseeded = ''Unseeded''"
| "keystore_error_text KeystoreMemory = ''Memory''"
| "keystore_error_text (SecureChip r) = ''SecureChip('' @ (if r < 0 then ''-'' else []) @ show_nat (nat \<bar>r\<bar>) @ '')''"
| "keystore_error_text Salt = ''Salt''"
| "keystore_error_text Hash = ''Hash''"
| "keystore_error_text SeedSize = ''SeedSize''"
| "keystore_error_text Encrypt = ''Encrypt''"

definition wrong_password_text :: "nat \<Rightarrow> string" where
  "wrong_password_text n = ''Wrong password'' @ [CHR 0x0A]
     @ (if n = 1 then ''1 try remains'' else show_nat n @ '' tries remain'')"

definition unlock_keystore :: "env \<Rightarrow> string \<Rightarrow> CanCancel \<Rightarrow> (world, UnlockError, unit) io" where
  "unlock_keystore E title can_cancel =
     bindM (map_errM (\<lambda>_. UnlockUserAbort) (password_enter E title False can_cancel)) (\<lambda>password.
     bindM (attempt (keystore_unlock E password)) (\<lambda>r.
     case r of
       Inr _ \<Rightarrow> returnM ()
     | Inl (IncorrectPassword n) \<Rightarrow>
         bindM (status (wrong_password_text n) False) (\<lambda>_. failM UnlockIncorrectPassword)
     | Inl err \<Rightarrow>
         bindM (status (''keystore unlock failed'' @ [CHR 0x0A] @ keystore_error_text err) False) (\<lambda>_.
         failM UnlockGeneric)))"

definition enter_passphrase :: "env \<Rightarrow> (world, 'e, string) io" where
  "enter_passphrase E = loopM (\<lambda>_.
     bindM (attempt (password_enter E ''Optional passphrase'' True CanCancelNo)) (\<lambda>r.
     bindM (unwrapM (case r of Inr p \<Rightarrow> Some p | Inl _ \<Rightarrow> None)) (\<lambda>passphrase.
     bindM (attempt (confirm_mnemonic_passphrase E passphrase)) (\<lambda>c.
     case c of
       Inr _ \<Rightarrow> returnM (Inr passphrase)
     | Inl _ \<Rightarrow> bindM (status ''Please try again'' False) (\<lambda>_. returnM (Inl ())))))) ()"

definition unlock_bip39 :: "env \<Rightarrow> (world, 'e, unit) io" where
  "unlock_bip39 E =
     bindM (getM w_passphrase_enabled) (\<lambda>enabled.
     bindM (if enabled then enter_passphrase E else returnM []) (\<lambda>passphrase.
     bindM (attempt (keystore_unlock_bip39 E passphrase)) (\<lambda>r.
     unwrapM (case r of Inr _ \<Rightarrow> Some () | Inl _ \<Rightarrow> None))))"

definition workflow_unlock :: "env \<Rightarrow> (world, unit, unit) io" where
  "workflow_unlock E =
     bindM (getM w_initialized) (\<lambda>initialized.
     if \<not> initialized then failM ()
     else bindM (getM is_locked) (\<lambda>locked.
       if \<not> locked then returnM ()
       else bindM (loopM (\<lambda>_. bindM (attempt (unlock_keystore E ''Enter password'' CanCancelNo)) (\<lambda>r.
           case r of Inr _ \<Rightarrow> returnM (Inr ()) | Inl _ \<Rightarrow> returnM (Inl ()))) ()) (\<lambda>_.
         unlock_bip39 E)))"

fun from_unlock_error :: "UnlockError \<Rightarrow> Error" where
  "from_unlock_error UnlockUserAbort = ErrUserAbort"
| "from_unlock_error UnlockIncorrectPassword = ErrGeneric"
| "from_unlock_error UnlockGeneric = ErrGeneric"

fun from_enter_twice_error :: "EnterTwiceError \<Rightarrow> Error" where
  "from_enter_twice_error DoNotMatch = ErrGeneric"
| "from_enter_twice_error TwiceCancelled = ErrUserAbort"

section \<open>Creating and restoring a wallet\<close>

text \<open>After a seed was stored: unlock it, which must not fail, with the passphrase if enabled.\<close>

definition unlock_new :: "env \<Rightarrow> string \<Rightarrow> (world, 'e, unit) io" where
  "unlock_new E password =
     bindM (attempt (keystore_unlock E password)) (\<lambda>r.
     unwrapM (case r of Inr _ \<Rightarrow> Some () | Inl _ \<Rightarrow> None))"

definition set_password_process :: "env \<Rightarrow> bytes \<Rightarrow> Response handler" where
  "set_password_process E entropy =
     bindM (guardM (length entropy = 16 \<or> length entropy = 32) ErrInvalidInput) (\<lambda>_.
     bindM (map_errM from_enter_twice_error (enter_twice E)) (\<lambda>password.
     bindM (attempt (create_and_store_seed E password entropy)) (\<lambda>r.
     case r of
       Inl err \<Rightarrow> bindM (status (''Error'' @ [CHR 0x0A] @ keystore_error_text err) False) (\<lambda>_. failM ErrGeneric)
     | Inr _ \<Rightarrow>
         bindM (unlock_new E password) (\<lambda>_.
         bindM (unlock_bip39 E) (\<lambda>_.
         returnM RespSuccess)))))"

definition format_datetime :: "env \<Rightarrow> u32 \<Rightarrow> i32 \<Rightarrow> bool \<Rightarrow> string" where
  "format_datetime E timestamp timezone_offset date_only =
     env_strftime E (timestamp + word_of_int timezone_offset)
       (if date_only then ''%a %Y-%m-%d'' else ''%a %Y-%m-%d'' @ [CHR 0x0A] @ ''%H:%M'')"

definition could_not_restore :: string where
  "could_not_restore = ''Could not'' @ [CHR 0x0A] @ ''restore backup''"

definition is_now_params :: "env \<Rightarrow> u32 \<Rightarrow> i32 \<Rightarrow> ConfirmParams" where
  "is_now_params E timestamp timezone_offset = confirm_default\<lparr>cp_title := ''Is now?'',
     cp_body := format_datetime E timestamp timezone_offset False, cp_accept_is_nextarrow := True\<rparr>"

definition confirm_now :: "env \<Rightarrow> u32 \<Rightarrow> i32 \<Rightarrow> unit handler" where
  "confirm_now E timestamp timezone_offset =
     (if env_app_u2f E then user_abort (confirm E (is_now_params E timestamp timezone_offset)) else returnM ())"

text \<open>The counter lives in the secure chip; whether setting it worked is ignored.\<close>

definition u2f_counter_set :: "env \<Rightarrow> unit handler" where
  "u2f_counter_set E = (if env_app_u2f E then bindM (securechip_call E) (\<lambda>_. returnM ()) else returnM ())"

definition restore_seed :: "env \<Rightarrow> bytes \<Rightarrow> string \<Rightarrow> unit handler" where
  "restore_seed E seed password =
     bindM (attempt (encrypt_and_store_seed E seed password)) (\<lambda>r.
     case r of
       Inl err \<Rightarrow> bindM (status (could_not_restore @ [CHR 0x0A] @ keystore_error_text err) False) (\<lambda>_. failM ErrGeneric)
     | Inr _ \<Rightarrow> returnM ())"

definition restore_from_file :: "env \<Rightarrow> RestoreBackupRequest \<Rightarrow> Response handler" where
  "restore_from_file E request =
     bindM (user_abort (confirm E (confirm_default\<lparr>cp_body := ''Restore backup?'', cp_accept_is_nextarrow := True\<rparr>))) (\<lambda>_.
     bindM (attempt (backup_load E (rbr_id request))) (\<lambda>loaded.
     case loaded of
       Inl _ \<Rightarrow> bindM (status could_not_restore False) (\<lambda>_. failM ErrGeneric)
     | Inr (data, metadata) \<Rightarrow>
         bindM (user_abort (confirm E (confirm_default\<lparr>cp_body := ''Name: '' @ bm_name metadata @ ''. ID: '' @ rbr_id request,
           cp_scrollable := True, cp_accept_is_nextarrow := True\<rparr>))) (\<lambda>_.
         bindM (confirm_now E (rbr_timestamp request) (rbr_timezone_offset request)) (\<lambda>_.
         bindM (map_errM from_enter_twice_error (enter_twice E)) (\<lambda>password.
         bindM (liftM (get_seed data)) (\<lambda>seed.
         bindM (restore_seed E seed password) (\<lambda>_.
         bindM (attempt (memory_set_seed_birthdate E (bd_birthdate data))) (\<lambda>_.
         bindM (u2f_counter_set E) (\<lambda>_.
         bindM (map_errM (\<lambda>_. ErrMemory) (memory_set_initialized E)) (\<lambda>_.
         bindM (unlock_new E password) (\<lambda>_.
         bindM (attempt (memory_set_device_name E (bm_name metadata))) (\<lambda>_.
         bindM (unlock_bip39 E) (\<lambda>_.
         returnM RespSuccess)))))))))))))"

definition try_again_params :: ConfirmParams where
  "try_again_params = confirm_default\<lparr>cp_body :=
     ''Passwords'' @ [CHR 0x0A] @ ''do not match.'' @ [CHR 0x0A] @ ''Try again?''\<rparr>"

definition enter_new_password :: "env \<Rightarrow> string handler" where
  "enter_new_password E = loopM (\<lambda>_.
     bindM (attempt (enter_twice E)) (\<lambda>r.
     case r of
       Inl DoNotMatch \<Rightarrow> bindM (user_abort (confirm E try_again_params)) (\<lambda>_. returnM (Inl ()))
     | Inl TwiceCancelled \<Rightarrow> failM ErrUserAbort
     | Inr password \<Rightarrow> returnM (Inr password))) ()"

definition restore_from_mnemonic :: "env \<Rightarrow> RestoreFromMnemonicRequest \<Rightarrow> Response handler" where
  "restore_from_mnemonic E request =
     bindM (confirm_now E (rfm_timestamp request) (rfm_timezone_offset request)) (\<lambda>_.
     bindM (user_abort (mnemonic_get E)) (\<lambda>mnemonic.
     case bip39_mnemonic_to_seed E mnemonic of
       None \<Rightarrow> bindM (status (''Recovery words'' @ [CHR 0x0A] @ ''invalid'') False) (\<lambda>_. failM ErrGeneric)
     | Some seed \<Rightarrow>
         bindM (status (''Recovery words'' @ [CHR 0x0A] @ ''valid'') True) (\<lambda>_.
         bindM (enter_new_password E) (\<lambda>password.
         bindM (restore_seed E seed password) (\<lambda>_.
         bindM (u2f_counter_set E) (\<lambda>_.
         bindM (map_errM (\<lambda>_. ErrMemory) (memory_set_initialized E)) (\<lambda>_.
         bindM (unlock_new E password) (\<lambda>_.
         bindM (unlock_bip39 E) (\<lambda>_.
         returnM RespSuccess)))))))))"

definition reset_process :: "env \<Rightarrow> Response handler" where
  "reset_process E =
     bindM (map_errM (\<lambda>_. ErrGeneric) (confirm E (confirm_default\<lparr>cp_title := ''RESET'',
       cp_body := ''Proceed to'' @ [CHR 0x0A] @ ''factory reset?'', cp_longtouch := True\<rparr>))) (\<lambda>_.
     reset_reset E)"

section \<open>Backups\<close>

definition sdcard_process :: "env \<Rightarrow> i32 \<Rightarrow> Response handler" where
  "sdcard_process E action =
     bindM (getM (\<lambda>w. env_sd_inserted E (w_trace w))) (\<lambda>inserted.
     case sd_card_action_try_from action of
       None \<Rightarrow> returnM RespSuccess
     | Some action \<Rightarrow>
         if (action = InsertCard \<and> inserted) \<or> (action = RemoveCard \<and> \<not> inserted) then returnM RespSuccess
         else bindM (user_abort (sdcard E (action = InsertCard))) (\<lambda>_. returnM RespSuccess))"

definition backup_check :: "env \<Rightarrow> bool \<Rightarrow> Response handler" where
  "backup_check E silent =
     bindM (getM (\<lambda>w. env_sd_inserted E (w_trace w))) (\<lambda>inserted.
     bindM (guardM inserted ErrInvalidInput) (\<lambda>_.
     bindM (map_errM (\<lambda>_. ErrGeneric) (copy_seed E)) (\<lambda>seed.
     bindM (liftM (backup_id E seed)) (\<lambda>id.
     bindM (map_errM (\<lambda>_. ErrGeneric) (backup_load E id)) (\<lambda>(data, metadata).
     bindM (liftM (get_seed data)) (\<lambda>backup_seed.
     if seed \<noteq> backup_seed then
       bindM (if silent then returnM () else status (''Backup missing'' @ [CHR 0x0A] @ ''or invalid'') False) (\<lambda>_.
       failM ErrGeneric)
     else
       bindM (if silent then returnM ()
         else bindM (user_abort (confirm E (confirm_default\<lparr>cp_title := ''Name?'', cp_body := bm_name metadata,
             cp_scrollable := True, cp_accept_is_nextarrow := True\<rparr>))) (\<lambda>_.
           bindM (user_abort (confirm E (confirm_default\<lparr>cp_title := ''ID?'', cp_body := id, cp_scrollable := True\<rparr>))) (\<lambda>_.
           status ''Backup valid'' True))) (\<lambda>_.
       returnM (RespCheckBackup id))))))))"

definition backup_error_text :: "BackupError \<Rightarrow> string" where
  "backup_error_text e = (case e of BackupGeneric \<Rightarrow> ''Generic'' | Stale \<Rightarrow> ''Stale'' | SdList \<Rightarrow> ''SdList''
     | SdRead \<Rightarrow> ''SdRead'' | SdWrite \<Rightarrow> ''SdWrite'' | Check \<Rightarrow> ''Check'')"

text \<open>The birth date that goes into a backup: now for a new wallet, otherwise that of an existing backup.\<close>

definition backup_birthdate :: "env \<Rightarrow> bytes \<Rightarrow> bool \<Rightarrow> u32 \<Rightarrow> u32 handler" where
  "backup_birthdate E seed initialized timestamp =
     (if \<not> initialized
      then bindM (map_errM (\<lambda>_. ErrMemory) (memory_set_seed_birthdate E timestamp)) (\<lambda>_. returnM timestamp)
      else bindM (liftM (backup_id E seed)) (\<lambda>id.
        bindM (attempt (backup_load E id)) (\<lambda>r.
        returnM (case r of Inr (data, _) \<Rightarrow> bd_birthdate data | Inl _ \<Rightarrow> 0))))"

definition backup_create_process :: "env \<Rightarrow> CreateBackupRequest \<Rightarrow> Response handler" where
  "backup_create_process E request =
     bindM (guardM (- 43200 \<le> cbr_timezone_offset request \<and> cbr_timezone_offset request \<le> 50400)
       ErrInvalidInput) (\<lambda>_.
     bindM (user_abort (confirm E (confirm_default\<lparr>cp_title := ''Is today?'',
       cp_body := format_datetime E (cbr_timestamp request) (cbr_timezone_offset request) True\<rparr>))) (\<lambda>_.
     bindM (sdcard_process E 1) (\<lambda>_.
     bindM (getM w_initialized) (\<lambda>initialized.
     bindM (if initialized then map_errM from_unlock_error (unlock_keystore E ''Unlock device'' CanCancelYes)
       else returnM ()) (\<lambda>_.
     bindM (map_errM (\<lambda>_. ErrGeneric) (copy_seed E)) (\<lambda>seed.
     bindM (backup_birthdate E seed initialized (cbr_timestamp request)) (\<lambda>birthdate.
     bindM (getM w_device_name) (\<lambda>name.
     bindM (attempt (backup_create E seed name (cbr_timestamp request) birthdate)) (\<lambda>r.
     case r of
       Inr _ \<Rightarrow>
         bindM (attempt (memory_set_initialized E)) (\<lambda>_.
         bindM (status ''Backup created'' True) (\<lambda>_. returnM RespSuccess))
     | Inl err \<Rightarrow>
         bindM (status (''Backup not created'' @ [CHR 0x0A] @ ''Please contact'' @ [CHR 0x0A] @ ''support (''
           @ backup_error_text err @ '')'') False) (\<lambda>_. failM ErrGeneric))))))))))"

definition backup_info_step :: "env \<Rightarrow> string \<Rightarrow> BackupInfo list \<Rightarrow> (world, 'e, BackupInfo list) io" where
  "backup_info_step E dir info =
     bindM (attempt (backup_load E dir)) (\<lambda>r.
     returnM (case r of Inl _ \<Rightarrow> info
       | Inr (_, metadata) \<Rightarrow> info @ [\<lparr>bi_id = dir, bi_timestamp = bm_timestamp metadata, bi_name = bm_name metadata\<rparr>]))"

definition backup_list :: "env \<Rightarrow> Response handler" where
  "backup_list E =
     bindM (map_errM (\<lambda>_. ErrGeneric) (sd_list_dirs E)) (\<lambda>dirs.
     bindM (foldM (backup_info_step E) dirs []) (\<lambda>info.
     returnM (RespListBackups info)))"

section \<open>Other requests\<close>

fun split_words :: "string \<Rightarrow> string list" where
  "split_words [] = [[]]"
| "split_words (c # s) = (if c = CHR '' '' then [] # split_words s
     else (case split_words s of w # ws \<Rightarrow> (c # w) # ws | [] \<Rightarrow> [[c]]))"

definition show_mnemonic_process :: "env \<Rightarrow> Response handler" where
  "show_mnemonic_process E =
     bindM (getM w_initialized) (\<lambda>initialized.
     bindM (if initialized then map_errM from_unlock_error (unlock_keystore E ''Unlock device'' CanCancelYes)
       else returnM ()) (\<lambda>_.
     bindM (map_errM (\<lambda>_. ErrGeneric) (get_bip39_mnemonic E)) (\<lambda>mnemonic_sentence.
     bindM (user_abort (confirm E (confirm_default\<lparr>cp_title := ''Warning'',
       cp_body := ''DO NOT share your'' @ [CHR 0x0A] @ ''recovery words with'' @ [CHR 0x0A] @ ''anyone!'',
       cp_accept_is_nextarrow := True\<rparr>))) (\<lambda>_.
     bindM (user_abort (confirm E (confirm_default\<lparr>cp_title := recovery_title,
       cp_body := ''Please write down'' @ [CHR 0x0A] @ ''the following words'', cp_accept_is_nextarrow := True\<rparr>))) (\<lambda>_.
     bindM (user_abort (show_and_confirm_mnemonic E (split_words mnemonic_sentence))) (\<lambda>_.
     bindM (map_errM (\<lambda>_. ErrMemory) (memory_set_initialized E)) (\<lambda>_.
     bindM (status ''Backup created'' True) (\<lambda>_.
     returnM RespSuccess))))))))"

definition set_mnemonic_passphrase_enabled_process :: "env \<Rightarrow> bool \<Rightarrow> Response handler" where
  "set_mnemonic_passphrase_enabled_process E enabled =
     bindM (user_abort (confirm E (confirm_default\<lparr>cp_title := (if enabled then ''Enable'' else ''Disable''),
       cp_body := ''Optional'' @ [CHR 0x0A] @ ''passphrase'', cp_longtouch := True\<rparr>))) (\<lambda>_.
     bindM (map_errM (\<lambda>_. ErrMemory) (memory_set_mnemonic_passphrase_enabled E enabled)) (\<lambda>_.
     returnM RespSuccess))"

definition set_device_name_process :: "env \<Rightarrow> string \<Rightarrow> Response handler" where
  "set_device_name_process E name =
     bindM (guardM (name_validate name 63) ErrInvalidInput) (\<lambda>_.
     bindM (user_abort (confirm E (confirm_default\<lparr>cp_title := ''Name'', cp_body := name, cp_scrollable := True\<rparr>))) (\<lambda>_.
     bindM (map_errM (\<lambda>_. ErrMemory) (memory_set_device_name E name)) (\<lambda>_.
     returnM RespSuccess)))"

text \<open>
  A restart sets flags for the bootloader and resets the microcontroller: it does not return, and the
  seeds held in RAM are gone.
\<close>

definition system_reboot :: "env \<Rightarrow> i32 \<Rightarrow> Response handler" where
  "system_reboot E purpose =
     bindM (user_abort (confirm E (confirm_default\<lparr>cp_body := (case purpose_try_from purpose of
         Some Upgrade \<Rightarrow> ''Proceed to upgrade?''
       | Some Settings \<Rightarrow> ''Go to'' @ [CHR 0x0A] @ ''startup settings?''
       | None \<Rightarrow> ''Reboot?'')\<rparr>))) (\<lambda>_.
     bindM (modifyM keystore_lock) (\<lambda>_. liftM Pending))"

definition device_info_process :: "env \<Rightarrow> Response handler" where
  "device_info_process E =
     bindM (readM (\<lambda>w. ok_or ErrGeneric (env_monotonic_remaining E (w_trace w)))) (\<lambda>remaining.
     bindM (liftM (ok_or ErrGeneric (env_securechip_model E))) (\<lambda>model.
     getM (\<lambda>w. RespDeviceInfo \<lparr>di_name = w_device_name w, di_initialized = w_initialized w, di_version = env_version E,
       di_mnemonic_passphrase_enabled = w_passphrase_enabled w, di_monotonic_increments_remaining = remaining,
       di_securechip_model = model\<rparr>)))"

definition rootfingerprint_process :: "env \<Rightarrow> Response handler" where
  "rootfingerprint_process E =
     bindM (readM (\<lambda>w. to_generic (root_fingerprint E w))) (\<lambda>f. returnM (RespFingerprint f))"

definition electrum_process :: "env \<Rightarrow> keypath \<Rightarrow> Response handler" where
  "electrum_process E keypath =
     bindM (guardM (keypath = [4541509 + HARDENED, 1112098098 + HARDENED]) ErrInvalidInput) (\<lambda>_.
     bindM (readM (\<lambda>w. map_err (\<lambda>_. ErrInvalidInput) (keystore_get_xpub E w keypath))) (\<lambda>xpub.
     bindM (liftM (to_generic (xpub_serialize_str E xpub Xpub))) (\<lambda>key.
     returnM (RespElectrumEncryptionKey key))))"

section \<open>BIP-85\<close>

definition bip85_index :: "env \<Rightarrow> u32 handler" where
  "bip85_index E =
     bindM (user_abort (menu_pick E [''0'', ''1'', ''2'', ''3'', ''4'', ''More''] (Some ''Select index''))) (\<lambda>i.
     if i \<le> 4 then returnM (of_nat i)
     else if i = 5 then
       bindM (user_abort (enter E (input_default\<lparr>ip_title := ''Enter index'', ip_number_input := True,
         ip_longtouch := True\<rparr>) CanCancelYes [])) (\<lambda>number_string.
       case parse_u32 number_string of
         Some i \<Rightarrow> if i < HARDENED then returnM i
           else bindM (status ''Invalid index'' False) (\<lambda>_. failM ErrInvalidInput)
       | None \<Rightarrow> bindM (status ''Invalid index'' False) (\<lambda>_. failM ErrInvalidInput))
     else liftM Panic)"

definition num_words_of :: "TrinaryChoice \<Rightarrow> u32" where
  "num_words_of choice = (case choice of TRINARY_CHOICE_LEFT \<Rightarrow> 12 | TRINARY_CHOICE_MIDDLE \<Rightarrow> 18 | TRINARY_CHOICE_RIGHT \<Rightarrow> 24)"

definition bip85_process_bip39 :: "env \<Rightarrow> unit handler" where
  "bip85_process_bip39 E =
     bindM (user_abort (confirm E (confirm_default\<lparr>cp_title := ''BIP-85'',
       cp_body := ''Derive BIP-39'' @ [CHR 0x0A] @ ''mnemonic?'', cp_accept_is_nextarrow := True\<rparr>))) (\<lambda>_.
     bindM (user_abort (confirm E (confirm_default\<lparr>cp_title := ''BIP-85'',
       cp_body := ''This is an advanced feature. Proceed only if you know what you are doing.'',
       cp_scrollable := True, cp_accept_is_nextarrow := True\<rparr>))) (\<lambda>_.
     bindM (trinary_choose E ''How many words?'' ''12'' ''18'' ''24'') (\<lambda>choice.
     bindM (status (show_nat (unat (num_words_of choice)) @ '' words'') True) (\<lambda>_.
     bindM (bip85_index E) (\<lambda>i.
     bindM (status (''Index: '' @ show_nat (unat i)) True) (\<lambda>_.
     bindM (user_abort (confirm E (confirm_default\<lparr>cp_title := ''Keypath'',
       cp_body := ''m/83696968'' @ [CHR 0x27] @ ''/39'' @ [CHR 0x27] @ ''/0'' @ [CHR 0x27] @ ''/''
         @ show_nat (unat (num_words_of choice)) @ [CHR 0x27] @ ''/'' @ show_nat (unat i) @ [CHR 0x27],
       cp_scrollable := True, cp_longtouch := True\<rparr>))) (\<lambda>_.
     bindM (user_abort (confirm E (confirm_default\<lparr>
       cp_body := show_nat (unat (num_words_of choice)) @ '' word mnemonic'' @ [CHR 0x0A] @ ''follows'',
       cp_accept_is_nextarrow := True\<rparr>))) (\<lambda>_.
     bindM (readM (\<lambda>w. to_generic (bip85_bip39 E w (num_words_of choice) i))) (\<lambda>mnemonic.
     bindM (user_abort (show_and_confirm_mnemonic E (split_words mnemonic))) (\<lambda>_.
     status ''Finished'' True))))))))))"

definition bip85_process_ln :: "env \<Rightarrow> u32 \<Rightarrow> bytes handler" where
  "bip85_process_ln E account_number =
     bindM (guardM (account_number = 0) ErrInvalidInput) (\<lambda>_.
     bindM (user_abort (confirm E (confirm_default\<lparr>
       cp_body := ''Create'' @ [CHR 0x0A] @ ''Lightning wallet'' @ [CHR 0x0A] @ ''on host device?'', cp_longtouch := True\<rparr>))) (\<lambda>_.
     readM (\<lambda>w. to_generic (bip85_ln E w account_number))))"

fun bip85_process :: "env \<Rightarrow> Bip85App option \<Rightarrow> Response handler" where
  "bip85_process E None = failM ErrInvalidInput"
| "bip85_process E (Some Bip85Bip39) =
     bindM (bip85_process_bip39 E) (\<lambda>_. returnM (RespBip85 (Some Bip85RespBip39)))"
| "bip85_process E (Some (Bip85Ln account_number)) =
     bindM (bip85_process_ln E account_number) (\<lambda>entropy. returnM (RespBip85 (Some (Bip85RespLn entropy))))"

end
