(* ===== verification/Keystore_Safety.thy ===== *)
theory Keystore_Safety
  imports Device_Api
begin

text \<open>
  The state of the keystore and of the persistent memory: the invariant of the device, that the
  operations of \<open>Keystore\<close> keep it, and what unlocking does on every branch.
\<close>

section \<open>Weakest preconditions\<close>

text \<open>
  \<open>wp m B C D s\<close>: run in \<open>s\<close>, a value satisfies \<open>B\<close>, an error \<open>C\<close>, and a panic or an endless wait
  leaves a state satisfying \<open>D\<close>.
\<close>

definition wp :: "('s, 'e, 'a) io \<Rightarrow> ('a \<Rightarrow> 's \<Rightarrow> bool) \<Rightarrow> ('e \<Rightarrow> 's \<Rightarrow> bool) \<Rightarrow> ('s \<Rightarrow> bool) \<Rightarrow> 's \<Rightarrow> bool" where
  "wp m B C D s = (case m s of (Ok a, t) \<Rightarrow> B a t | (Err e, t) \<Rightarrow> C e t | (Panic, t) \<Rightarrow> D t | (Pending, t) \<Rightarrow> D t)"

named_theorems wps

lemma wp_return [wps]: "wp (returnM a) B C D s = B a s"
  by (simp add: wp_def returnM_def)

lemma wp_fail [wps]: "wp (failM e) B C D s = C e s"
  by (simp add: wp_def failM_def)

lemma wp_lift [wps]: "wp (liftM r) B C D s = (case r of Ok a \<Rightarrow> B a s | Err e \<Rightarrow> C e s | _ \<Rightarrow> D s)"
  by (simp add: wp_def liftM_def split: result.splits)

lemma wp_get [wps]: "wp (getM f) B C D s = B (f s) s"
  by (simp add: wp_def getM_def)

lemma wp_modify [wps]: "wp (modifyM f) B C D s = B () (f s)"
  by (simp add: wp_def modifyM_def)

lemma wp_emit [wps]: "wp (emit e) B C D w = B () (ext_trace w [e])"
  by (simp add: emit_def wps)

lemma wp_unwrap [wps]: "wp (unwrapM v) B C D w = (case v of Some a \<Rightarrow> B a w | None \<Rightarrow> D w)"
  by (simp add: unwrapM_def wps split: option.splits)

lemma wp_bind [wps]: "wp (bindM m f) B C D s = wp m (\<lambda>a. wp (f a) B C D) C D s"
  by (simp add: wp_def bindM_def split: prod.splits result.splits)

lemma wp_map_err [wps]: "wp (map_errM f m) B C D s = wp m B (\<lambda>e. C (f e)) D s"
  by (simp add: wp_def map_errM_def split: prod.splits result.splits)

lemma wp_attempt [wps]: "wp (attempt m) B C D w = wp m (\<lambda>a. B (Inr a)) (\<lambda>e. B (Inl e)) D w"
  by (simp add: wp_def attempt_def split: prod.splits result.splits)

lemma wp_if [wps]: "wp (if c then m else n) B C D s = (if c then wp m B C D s else wp n B C D s)"
  by simp

lemma wp_mono:
  assumes "wp m B C D s" "\<And>a t. B a t \<Longrightarrow> B' a t" "\<And>e t. C e t \<Longrightarrow> C' e t" "\<And>t. D t \<Longrightarrow> D' t"
  shows "wp m B' C' D' s"
  using assms unfolding wp_def by (auto split: prod.splits result.splits)

text \<open>A computation that only extends the trace keeps what does not depend on it.\<close>

lemma wp_emits:
  assumes "emits P m" "\<And>t. I (ext_trace w t)"
  shows "wp m (\<lambda>_. I) (\<lambda>_. I) I w"
proof -
  obtain r w' where run: "m w = (r, w')" by force
  with assms(1) obtain t where "w' = ext_trace w t" by (rule emitsD)
  with run assms(2) show ?thesis by (simp add: wp_def split: result.splits)
qed

section \<open>The invariant of the device\<close>

definition is_seed_of :: "env \<Rightarrow> world \<Rightarrow> bytes \<Rightarrow> bool" where
  "is_seed_of E w seed \<longleftrightarrow> w_seeded w \<and> validate_seed_length (length seed) \<and>
     (\<exists>password. env_aes_decrypt E (env_stretch E (w_salt_root w) (w_securechip_keys w) password)
        (w_encrypted_seed w) = Some seed)"

definition is_bip39_seed_of :: "env \<Rightarrow> bytes \<Rightarrow> bytes \<Rightarrow> bool" where
  "is_bip39_seed_of E seed b \<longleftrightarrow> (\<exists>mnemonic passphrase.
     env_bip39_from_bytes E seed = Some mnemonic \<and> env_bip39_to_seed E mnemonic passphrase = Some b)"

definition device_inv :: "env \<Rightarrow> world \<Rightarrow> bool" where
  "device_inv E w \<longleftrightarrow>
     (w_initialized w \<longrightarrow> w_seeded w) \<and>
     (\<forall>seed. w_seed w = Some seed \<longrightarrow> is_seed_of E w seed) \<and>
     (\<forall>b. w_bip39_seed w = Some b \<longrightarrow> (\<exists>seed. w_seed w = Some seed \<and> is_bip39_seed_of E seed b)) \<and>
     w_unlock_attempts w \<le> MAX_UNLOCK_ATTEMPTS \<and>
     length (w_noise_pubkeys w) = 5 \<and> length (w_device_name w) \<le> 63"

text \<open>It does not depend on the trace, the registered accounts or the SD card.\<close>

lemma device_inv_irrelevant [simp]:
  "device_inv E (w_trace_update f w) = device_inv E w"
  "device_inv E (w_multisigs_update g w) = device_inv E w"
  "device_inv E (w_sd_update h w) = device_inv E w"
  by (simp_all add: device_inv_def is_seed_of_def)

lemma device_inv_locked:
  "device_inv E w \<Longrightarrow> device_inv E (keystore_lock w)"
  by (simp add: device_inv_def keystore_lock_def)

text \<open>A locked device may get other keys, another salt and another encrypted seed.\<close>

definition locked_inv :: "env \<Rightarrow> world \<Rightarrow> bool" where
  "locked_inv E w \<longleftrightarrow> device_inv E w \<and> w_seed w = None \<and> w_bip39_seed w = None"

lemma locked_inv_trace [simp]: "locked_inv E (w_trace_update f w) = locked_inv E w"
  by (simp add: locked_inv_def)

lemma locked_inv_lock: "device_inv E w \<Longrightarrow> locked_inv E (keystore_lock w)"
  using device_inv_locked [of E w] by (simp add: locked_inv_def) (simp add: keystore_lock_def)

lemma locked_inv_device: "locked_inv E w \<Longrightarrow> device_inv E w"
  by (simp add: locked_inv_def)

lemma locked_inv_updates:
  assumes "locked_inv E w"
  shows "locked_inv E (w\<lparr>w_securechip_keys := n\<rparr>)"
    and "locked_inv E (w\<lparr>w_salt_root := s, w_noise_private_key := k\<rparr>)"
    and "locked_inv E (w\<lparr>w_encrypted_seed := c, w_seeded := True\<rparr>)"
    and "locked_inv E (w\<lparr>w_unlock_attempts := 0\<rparr>)"
    and "locked_inv E (erase_chunk_1 w)" and "locked_inv E (erase_chunk_2 w)"
  using assms by (simp_all add: locked_inv_def device_inv_def erase_chunk_1_def erase_chunk_2_def
      MEMORY_DEFAULT_DEVICE_NAME_def)

section \<open>Operations that keep the invariant\<close>

definition keeps :: "(world \<Rightarrow> bool) \<Rightarrow> (world, 'e, 'a) io \<Rightarrow> bool" where
  "keeps I m \<longleftrightarrow> (\<forall>w. I w \<longrightarrow> wp m (\<lambda>_. I) (\<lambda>_. I) I w)"

lemma keepsI: "(\<And>w. I w \<Longrightarrow> wp m (\<lambda>_. I) (\<lambda>_. I) I w) \<Longrightarrow> keeps I m"
  by (simp add: keeps_def)

lemma keepsD: "keeps I m \<Longrightarrow> I w \<Longrightarrow> wp m (\<lambda>_. I) (\<lambda>_. I) I w"
  by (simp add: keeps_def)

lemma wp_keeps:
  assumes "keeps I m" "I w" "\<And>a t. I t \<Longrightarrow> B a t" "\<And>e t. I t \<Longrightarrow> C e t" "\<And>t. I t \<Longrightarrow> D t"
  shows "wp m B C D w"
  using keepsD [OF assms(1,2)] assms(3-) by (rule wp_mono)

lemma keeps_emits: "emits P m \<Longrightarrow> (\<And>w t. I w \<Longrightarrow> I (ext_trace w t)) \<Longrightarrow> keeps I m"
  by (intro keepsI wp_emits)

named_theorems keeps_rules

lemma keeps_bind [keeps_rules]:
  assumes "keeps I m" "\<And>a. keeps I (f a)" shows "keeps I (bindM m f)"
  unfolding wps by (intro keepsI) (auto simp: wps intro: wp_keeps [OF assms(1)] keepsD [OF assms(2)])

lemma keeps_if [keeps_rules]: "keeps I m \<Longrightarrow> keeps I n \<Longrightarrow> keeps I (if c then m else n)"
  by simp

lemma keeps_map_err [keeps_rules]: "keeps I m \<Longrightarrow> keeps I (map_errM f m)"
  by (simp add: keeps_def wps)

lemma keeps_attempt [keeps_rules]: "keeps I m \<Longrightarrow> keeps I (attempt m)"
  by (simp add: keeps_def wps)

lemma keeps_pure [keeps_rules]:
  "keeps I (returnM a)" "keeps I (failM e)" "keeps I (liftM r)" "keeps I (getM f)" "keeps I (unwrapM v)"
  by (simp_all add: keeps_def wps split: result.splits option.splits)

lemma keeps_read [keeps_rules]: "keeps I (readM f)"
  by (simp add: keeps_def wp_def readM_def split: result.splits)

lemma keeps_guard [keeps_rules]: "keeps I (guardM c e)"
  by (simp add: guardM_def keeps_pure)

lemma keeps_foldM [keeps_rules]: "(\<And>i acc. keeps I (f i acc)) \<Longrightarrow> keeps I (foldM f xs acc)"
  by (induction xs arbitrary: acc) (simp_all add: keeps_pure keeps_bind)

lemma keeps_retry [keeps_rules]: "keeps I m \<Longrightarrow> keeps I (retry n m)"
  by (induction n) (auto intro!: keeps_rules)

lemma keeps_loopM [keeps_rules]:
  assumes body: "\<And>st. keeps I (body st)" shows "keeps I (loopM body st)"
proof (rule keepsI)
  fix w assume w: "I w"
  have step: "I (snd (body st v))" if "I v" for st v
    using keepsD [OF body that, of st] by (simp add: wp_def split: prod.splits result.splits)
  obtain r w' where run: "loopM body st w = (r, w')" by force
  have "I w'"
  proof (rule loopM_rule [where I = "\<lambda>_. I", OF run w])
    show "I s'" if "I s" "body st1 s = (Ok (Inl st'), s')" for st1 s st' s'
      using step [OF that(1), of st1] that(2) by simp
    show "I w'" if "w' = w" using that w by simp
    show "I w'" if "I s'" "body st' s' = (r', w')" for st' s' r' using step [OF that(1), of st'] that(2) by simp
  qed
  with run show "wp (loopM body st) (\<lambda>_. I) (\<lambda>_. I) I w" by (simp add: wp_def split: result.splits)
qed

lemma keeps_modify: "(\<And>w. I w \<Longrightarrow> I (f w)) \<Longrightarrow> keeps I (modifyM f)"
  by (simp add: keeps_def wps)

lemma keeps_write_chunk:
  assumes "\<And>w. I w \<Longrightarrow> I (f w)" "\<And>w e. I w \<Longrightarrow> I (ext_trace w [e])"
  shows "keeps I (write_chunk E f)"
  using assms by (auto intro!: keepsI simp: write_chunk_def wps)

lemma emits_securechip [emits_rules]: "(\<And>r. P (EvSecurechip r)) \<Longrightarrow> emits P (securechip_call E)"
  unfolding securechip_call_def by (intro emits_rules)

lemma emits_securechip_kdf [emits_rules]: "(\<And>r. P (EvSecurechip r)) \<Longrightarrow> emits P (securechip_kdf E)"
  unfolding securechip_kdf_def by (intro emits_rules)

lemma quiet_stretch [quiet_rules]: "quiet (stretch_password E password)" "quiet (stretch_retained_key E)"
  unfolding stretch_password_def stretch_retained_key_def by (intro emits_rules; simp)+

lemma emits_attempt [emits_rules]:
  assumes "emits P m" shows "emits P (attempt m)"
proof (rule emitsI)
  fix w r w'
  assume "attempt m w = (r, w')"
  then have "m w = (fst (m w), w')" by (auto simp: attempt_def split: prod.splits result.splits)
  with assms show "\<exists>t. w' = ext_trace w t \<and> list_all P t" by (blast elim: emitsD)
qed

lemma quiet_decrypt [quiet_rules]: "quiet (get_and_decrypt_seed E password)"
  unfolding get_and_decrypt_seed_def
  by (intro emits_rules quiet_rules) (auto split: option.splits intro!: emits_rules)

lemma quiet_copy_seed [quiet_rules]: "quiet (copy_seed E)"
  unfolding copy_seed_def by (intro emits_rules) (auto split: option.splits intro!: emits_rules quiet_rules)

lemma quiet_verify_seed [quiet_rules]: "quiet (verify_seed E password seed)"
  unfolding verify_seed_def by (intro emits_rules quiet_rules)

lemmas keeps_quiet = keeps_emits [of "\<lambda>e. \<not> signs e"]

lemma keeps_inv_quiet: "quiet m \<Longrightarrow> keeps (device_inv E) m" "quiet m \<Longrightarrow> keeps (locked_inv E) m"
  by (simp_all add: keeps_quiet)

lemma keeps_memory_reset [keeps_rules]: "keeps (locked_inv E) (memory_reset_hww E)"
  unfolding memory_reset_hww_def foldM.simps
  by (intro keeps_rules keeps_write_chunk keeps_inv_quiet quiet_rules) (simp_all add: locked_inv_updates)

lemma keeps_update_keys [keeps_rules]: "keeps (locked_inv E) (securechip_update_keys E)"
  unfolding securechip_update_keys_def roll_key_def
  by (intro keeps_rules keeps_modify keeps_inv_quiet emits_rules) (simp_all add: locked_inv_updates)

lemma keeps_lock_first:
  assumes "keeps (locked_inv E) m" shows "keeps (device_inv E) (bindM (modifyM keystore_lock) (\<lambda>_. m))"
proof (rule keepsI)
  fix w assume "device_inv E w"
  then have "locked_inv E (keystore_lock w)" by (rule locked_inv_lock)
  then show "wp (bindM (modifyM keystore_lock) (\<lambda>_. m)) (\<lambda>_. device_inv E) (\<lambda>_. device_inv E) (device_inv E) w"
    unfolding wps by (rule wp_keeps [OF assms]) (simp_all add: locked_inv_device)
qed

lemma keeps_reset [keeps_rules]: "keeps (device_inv E) (reset_reset E)"
  unfolding reset_reset_def
  by (intro keeps_lock_first keeps_rules keeps_modify keeps_inv_quiet emits_rules) (simp_all add: locked_inv_updates)

lemma keeps_store [keeps_rules]: "keeps (device_inv E) (encrypt_and_store_seed E seed password)"
  unfolding encrypt_and_store_seed_def
  by (intro keeps_rules(1,2) keeps_pure keeps_lock_first)
    (intro keeps_rules keeps_write_chunk keeps_inv_quiet emits_rules quiet_rules; simp add: locked_inv_updates)+

lemma keeps_create [keeps_rules]: "keeps (device_inv E) (create_and_store_seed E password entropy)"
  unfolding create_and_store_seed_def by (intro keeps_rules keeps_inv_quiet quiet_rules)

text \<open>What a successful decryption says of the state, which only gained events.\<close>

lemma stretch_password_OkD:
  assumes "stretch_password E password w = (Ok secret, v)"
  shows "secret = env_stretch E (w_salt_root w) (w_securechip_keys w) password" "\<exists>t. v = ext_trace w t"
proof -
  show ext: "\<exists>t. v = ext_trace w t" using emitsD [OF quiet_stretch(1) assms] by blast
  have "secret = env_stretch E (w_salt_root w) (w_securechip_keys v) password"
    using assms by (auto simp: stretch_password_def runs split: if_splits)
  with ext show "secret = env_stretch E (w_salt_root w) (w_securechip_keys w) password" by auto
qed

lemma decrypt_OkD:
  assumes "get_and_decrypt_seed E password w = (Ok (Some seed), v)"
  shows "is_seed_of E w seed"
proof -
  from assms obtain secret u where u: "stretch_password E password w = (Ok secret, u)" and w: "w_seeded w"
    and d: "env_aes_decrypt E secret (w_encrypted_seed u) = Some seed" "validate_seed_length (length seed)"
    by (auto simp: get_and_decrypt_seed_def runs split: if_splits option.splits)
  from stretch_password_OkD [OF u] w d show ?thesis by (auto simp: is_seed_of_def)
qed

text \<open>The weakest precondition of a computation that only extends the trace.\<close>

lemma wp_quietI:
  assumes "quiet m" "\<And>a t. m w = (Ok a, ext_trace w t) \<Longrightarrow> B a (ext_trace w t)"
    "\<And>e t. m w = (Err e, ext_trace w t) \<Longrightarrow> C e (ext_trace w t)" "\<And>t. D (ext_trace w t)"
  shows "wp m B C D w"
proof -
  obtain r v where run: "m w = (r, v)" by force
  with assms(1) obtain t where "v = ext_trace w t" by (rule emitsD)
  with run assms(2-) show ?thesis by (auto simp: wp_def split: result.splits)
qed

lemma device_inv_retain:
  "device_inv E w \<Longrightarrow> w_seed w = None \<Longrightarrow> is_seed_of E w seed \<Longrightarrow> device_inv E (w\<lparr>w_seed := Some seed\<rparr>)"
  by (auto simp: device_inv_def is_seed_of_def)

lemma device_inv_attempts:
  "device_inv E w \<Longrightarrow> n \<le> MAX_UNLOCK_ATTEMPTS \<Longrightarrow> device_inv E (w\<lparr>w_unlock_attempts := n\<rparr>)"
  by (auto simp: device_inv_def is_seed_of_def)

lemma is_seed_of_irrelevant [simp]:
  "is_seed_of E (w_trace_update f w) = is_seed_of E w"
  "is_seed_of E (w_unlock_attempts_update g w) = is_seed_of E w"
  by (simp_all add: is_seed_of_def fun_eq_iff)

lemma wp_retain:
  assumes "device_inv E w" "w_seed w = None" "is_seed_of E w seed"
  shows "wp (retain_seed E seed) (\<lambda>_. device_inv E) (\<lambda>_. device_inv E) (device_inv E) w"
proof -
  have "wp (stretch_retained_key E) (\<lambda>_ v. device_inv E (v\<lparr>w_seed := Some seed\<rparr>)) (\<lambda>_. device_inv E) (device_inv E)
      (ext_trace w t)" for t
    by (rule wp_quietI [OF quiet_stretch(2)]) (use assms in \<open>simp_all add: device_inv_retain\<close>)
  then show ?thesis
    unfolding retain_seed_def wps
    by (intro wp_quietI [OF quiet_random]) (use assms in simp_all)
qed

lemma wp_check_or_retain:
  assumes "device_inv E w" "is_seed_of E w seed"
  shows "wp (check_or_retain E seed) (\<lambda>_. device_inv E) (\<lambda>_. device_inv E) (device_inv E) w"
proof (cases "w_seed w = None")
  case True
  with assms show ?thesis by (simp add: check_or_retain_def wps wp_retain)
next
  case False
  then show ?thesis
    by (simp add: check_or_retain_def wps del: not_None_eq)
      (rule wp_quietI [OF quiet_copy_seed]; use assms in \<open>simp add: wps\<close>)
qed

lemma keeps_unlock_result [keeps_rules]: "keeps (device_inv E) (unlock_result E correct)"
  unfolding unlock_result_def by (intro keeps_rules)

lemma keeps_unlock [keeps_rules]: "keeps (device_inv E) (keystore_unlock E password)"
proof (rule keepsI)
  fix w assume inv: "device_inv E w"
  let ?I = "device_inv E"
  let ?v = "w\<lparr>w_unlock_attempts := w_unlock_attempts w + 1\<rparr>"
  have finish: "wp (bindM (check_or_retain E seed) (\<lambda>_.
      bindM (modifyM (\<lambda>w. w\<lparr>w_unlock_attempts := 0\<rparr>)) (\<lambda>_. unlock_result E True))) (\<lambda>_. ?I) (\<lambda>_. ?I) ?I u"
    if "?I u" "is_seed_of E u seed" for u seed
    unfolding wps using wp_check_or_retain [OF that]
    by (rule wp_mono) (simp_all add: keepsD [OF keeps_unlock_result] device_inv_attempts)
  show "wp (keystore_unlock E password) (\<lambda>_. ?I) (\<lambda>_. ?I) ?I w"
  proof (cases "w_seeded w \<and> w_unlock_attempts w < MAX_UNLOCK_ATTEMPTS")
    case True
    then have v: "?I ?v" using inv by (simp add: device_inv_attempts)
    have "wp (get_and_decrypt_seed E password) (\<lambda>r. wp (case r of None \<Rightarrow> unlock_result E False | Some seed \<Rightarrow>
        bindM (check_or_retain E seed) (\<lambda>_. bindM (modifyM (\<lambda>w. w\<lparr>w_unlock_attempts := 0\<rparr>)) (\<lambda>_. unlock_result E True)))
          (\<lambda>_. ?I) (\<lambda>_. ?I) ?I) (\<lambda>_. ?I) ?I ?v"
      by (rule wp_quietI [OF quiet_decrypt])
        (use v in \<open>auto split: option.splits intro!: finish keepsD [OF keeps_unlock_result] dest!: decrypt_OkD\<close>)
    with True show ?thesis by (simp add: keystore_unlock_def wps)
  next
    case False
    with inv show ?thesis by (auto simp: keystore_unlock_def wps intro: keepsD [OF keeps_reset])
  qed
qed

lemma keeps_unlock_bip39 [keeps_rules]: "keeps (device_inv E) (keystore_unlock_bip39 E passphrase)"
proof (rule keepsI)
  fix w assume inv: "device_inv E w"
  let ?I = "device_inv E"
  have retain: "wp (retain_bip39_seed E b) (\<lambda>_. ?I) (\<lambda>_. ?I) ?I u"
    if "?I u" "w_seed u = Some seed" "is_bip39_seed_of E seed b" for u seed b
  proof -
    have set: "?I (v\<lparr>w_bip39_seed := Some b\<rparr>)" if "?I v" "w_seed v = Some seed" for v
      using that \<open>is_bip39_seed_of E seed b\<close> by (auto simp: device_inv_def is_seed_of_def)
    have "wp (stretch_retained_key E) (\<lambda>_ v. ?I (v\<lparr>w_bip39_seed := Some b\<rparr>)) (\<lambda>_. ?I) ?I (ext_trace u t)" for t
      by (rule wp_quietI [OF quiet_stretch(2)]) (use that set in simp_all)
    then show ?thesis unfolding retain_bip39_seed_def wps
      by (intro wp_quietI [OF quiet_random]) (use that in simp_all)
  qed
  show "wp (keystore_unlock_bip39 E passphrase) (\<lambda>_. ?I) (\<lambda>_. ?I) ?I w"
    unfolding keystore_unlock_bip39_def wps
    by (rule wp_quietI [OF quiet_copy_seed])
      (use inv in \<open>auto simp: copy_seed_def runs is_bip39_seed_of_def intro!: retain split: result.splits option.splits
        elim: ok_or.elims\<close>)
qed

section \<open>Unlocking, branch by branch\<close>

definition chip_ok :: "env \<Rightarrow> bool" where
  "chip_ok E \<longleftrightarrow> (\<forall>tr. env_securechip_error E tr = 0)"

lemma securechip_kdf_ok: "chip_ok E \<Longrightarrow> securechip_kdf E w = (Ok (), ext_trace w [EvSecurechip 0])"
  by (simp add: chip_ok_def securechip_kdf_def securechip_call_def bindM_def getM_def emit_def modifyM_def returnM_def)

lemma stretch_password_ok:
  assumes "chip_ok E" "w_salt_root w \<noteq> erased"
  shows "stretch_password E password w = (Ok (env_stretch E (w_salt_root w) (w_securechip_keys w) password),
     ext_trace w (replicate 3 (EvSecurechip 0)))"
  using assms
  by (simp add: stretch_password_def bindM_def getM_def map_errM_def securechip_kdf_ok KDF_NUM_ITERATIONS_def
      returnM_def numeral_2_eq_2 numeral_3_eq_3)

lemma stretch_retained_ok:
  "chip_ok E \<Longrightarrow> w_salt_root w \<noteq> erased \<Longrightarrow> stretch_retained_key E w = (Ok (), ext_trace w [EvSecurechip 0])"
  by (simp add: stretch_retained_key_def bindM_def getM_def map_errM_def securechip_kdf_ok)

text \<open>The seed a password decrypts.\<close>

definition seed_for :: "env \<Rightarrow> world \<Rightarrow> string \<Rightarrow> bytes option" where
  "seed_for E w password =
     env_aes_decrypt E (env_stretch E (w_salt_root w) (w_securechip_keys w) password) (w_encrypted_seed w)"

lemma seed_for_irrelevant [simp]: "seed_for E (w_unlock_attempts_update f w) password = seed_for E w password"
  by (simp add: seed_for_def)

lemma w_seed_same: "w_seed w = Some seed \<Longrightarrow> ext_trace w t\<lparr>w_seed := Some seed\<rparr> = ext_trace w t"
  by (cases w) simp

lemma decrypt_ok:
  assumes "chip_ok E" "w_salt_root w \<noteq> erased" "w_seeded w" "49 \<le> length (w_encrypted_seed w)"
  shows "get_and_decrypt_seed E password w =
     (case seed_for E w password of
        None \<Rightarrow> Ok None
      | Some seed \<Rightarrow> if validate_seed_length (length seed) then Ok (Some seed) else Err SeedSize,
      ext_trace w (replicate 3 (EvSecurechip 0)))"
  using assms
  by (simp add: get_and_decrypt_seed_def bindM_def getM_def stretch_password_ok seed_for_def returnM_def failM_def
      not_less split: option.splits)

lemma check_or_retain_ok:
  assumes "chip_ok E" "w_salt_root w \<noteq> erased"
  shows "\<exists>t. check_or_retain E seed w =
     (if w_seed w = None \<or> w_seed w = Some seed then (Ok (), ext_trace w t\<lparr>w_seed := Some seed\<rparr>)
      else (Panic, ext_trace w t))"
proof (cases "w_seed w")
  case None
  then have "check_or_retain E seed w = retain_seed E seed w"
    by (simp add: check_or_retain_def bindM_def getM_def)
  also have "\<dots> = (Ok (), ext_trace w [EvRandom (env_random_32 E (w_trace w)), EvSecurechip 0]\<lparr>w_seed := Some seed\<rparr>)"
    using assms by (simp add: retain_seed_def random_32_bytes_def bindM_def getM_def emit_def modifyM_def returnM_def
        stretch_retained_ok)
  finally show ?thesis using None by auto
next
  case (Some s)
  then have "copy_seed E w = (Ok s, ext_trace w [EvSecurechip 0])"
    using assms by (simp add: copy_seed_def bindM_def getM_def map_errM_def stretch_retained_ok returnM_def)
  with Some show ?thesis
    by (auto simp: check_or_retain_def bindM_def getM_def attempt_def unwrapM_def liftM_def w_seed_same)
qed

text \<open>The factory reset does not return, and where it completes nothing of the wallet is left.\<close>

definition wiped :: "world \<Rightarrow> bool" where
  "wiped w \<longleftrightarrow> \<not> w_seeded w \<and> \<not> w_initialized w \<and> w_encrypted_seed w = [] \<and> w_unlock_attempts w = 0"

definition flash_ok :: "env \<Rightarrow> bool" where
  "flash_ok E \<longleftrightarrow> (\<forall>tr. env_flash_ok E tr)"

lemma securechip_call_ok: "chip_ok E \<Longrightarrow> securechip_call E w = (Ok 0, ext_trace w [EvSecurechip 0])"
  by (simp add: chip_ok_def securechip_call_def bindM_def getM_def emit_def modifyM_def returnM_def)

lemma write_chunk_ok: "flash_ok E \<Longrightarrow> write_chunk E f w = (Ok (), f (ext_trace w [EvFlash True]))"
  by (simp add: flash_ok_def write_chunk_def bindM_def getM_def emit_def modifyM_def)

lemma reset_ok:
  assumes "chip_ok E" "flash_ok E"
  shows "\<exists>v. reset_reset E w = (Pending, v) \<and> wiped v \<and> w_seed v = None \<and> w_bip39_seed v = None"
  using assms
  by (simp add: reset_reset_def bindM_def modifyM_def keystore_lock_def eval_nat_numeral securechip_update_keys_def roll_key_def
      securechip_call_ok returnM_def unwrapM_def liftM_def attempt_def memory_reset_hww_def write_chunk_ok
      random_32_bytes_def getM_def emit_def erase_chunk_1_def erase_chunk_2_def wiped_def)

definition unlock_outcome :: "env \<Rightarrow> string \<Rightarrow> world \<Rightarrow> (KeystoreError, unit) result \<Rightarrow> world \<Rightarrow> bool" where
  "unlock_outcome E password w r w' =
     (let n = w_unlock_attempts w + 1 in
      case seed_for E w password of
        None \<Rightarrow>
          if n < MAX_UNLOCK_ATTEMPTS
          then r = Err (IncorrectPassword (MAX_UNLOCK_ATTEMPTS - n)) \<and> w_unlock_attempts w' = n \<and> w_seed w' = w_seed w
          else r = Pending \<and> wiped w' \<and> w_seed w' = None \<and> w_bip39_seed w' = None
      | Some seed \<Rightarrow>
          if \<not> validate_seed_length (length seed)
          then r = Err SeedSize \<and> w_unlock_attempts w' = n \<and> w_seed w' = w_seed w
          else if w_seed w = None \<or> w_seed w = Some seed
          then r = Ok () \<and> w_seed w' = Some seed \<and> w_unlock_attempts w' = 0
          else r = Panic \<and> w_seed w' = w_seed w)"

text \<open>
  C37: With a working secure chip and flash, unlocking a seeded device does exactly this. A wrong
  password is counted and the error tells how many attempts remain; the last wrong attempt wipes the
  device and never returns; the right password retains the seed it decrypts and resets the count; a
  decrypted seed of an impossible length is an error; and a device that holds another seed halts.
\<close>

theorem keystore_unlock_branches:
  assumes "chip_ok E" "flash_ok E" "w_salt_root w \<noteq> erased" "w_seeded w" "49 \<le> length (w_encrypted_seed w)"
    "w_unlock_attempts w < MAX_UNLOCK_ATTEMPTS" "keystore_unlock E password w = (r, w')"
  shows "unlock_outcome E password w r w'"
proof -
  let ?u = "w\<lparr>w_unlock_attempts := w_unlock_attempts w + 1\<rparr>"
  let ?v = "ext_trace ?u (replicate 3 (EvSecurechip 0))"
  have run: "bindM (get_and_decrypt_seed E password) (\<lambda>r. case r of
      None \<Rightarrow> unlock_result E False
    | Some seed \<Rightarrow> bindM (check_or_retain E seed) (\<lambda>_.
        bindM (modifyM (\<lambda>w. w\<lparr>w_unlock_attempts := 0\<rparr>)) (\<lambda>_. unlock_result E True))) ?u = (r, w')"
    using assms by (simp add: keystore_unlock_def bindM_def getM_def modifyM_def)
  have decr: "get_and_decrypt_seed E password ?u = (case seed_for E w password of None \<Rightarrow> Ok None
      | Some seed \<Rightarrow> if validate_seed_length (length seed) then Ok (Some seed) else Err SeedSize, ?v)"
    using decrypt_ok [of E ?u password] assms by simp
  show ?thesis
  proof (cases "seed_for E w password")
    case None
    have "\<exists>u. reset_reset E ?v = (Pending :: (KeystoreError, unit) result, u) \<and> wiped u \<and> w_seed u = None
        \<and> w_bip39_seed u = None"
      by (rule reset_ok [OF assms(1,2)])
    with None run decr assms(6) show ?thesis
      by (auto simp: bindM_def unlock_result_def getM_def failM_def unlock_outcome_def Let_def split: if_splits)
  next
    case (Some seed)
    obtain t where "check_or_retain E seed ?v =
      (if w_seed w = None \<or> w_seed w = Some seed then (Ok (), ext_trace ?v t\<lparr>w_seed := Some seed\<rparr>)
       else (Panic, ext_trace ?v t))"
      using check_or_retain_ok [of E ?v seed] assms by auto
    with Some run decr assms(6) show ?thesis
      by (auto simp: bindM_def unlock_result_def getM_def modifyM_def returnM_def unlock_outcome_def Let_def
          MAX_UNLOCK_ATTEMPTS_def split: if_splits)
  qed
qed

text \<open>A locked device whose seed is stored under the password ''pw''.\<close>

definition sample_locked :: world where
  "sample_locked = sample_world\<lparr>w_seed := None, w_bip39_seed := None, w_noise_pubkeys := replicate 5 erased,
     w_unlock_attempts := 9, w_encrypted_seed :=
       env_aes_encrypt sample_env [] (env_stretch sample_env (replicate 32 7) 0 ''pw'') (replicate 16 9)\<rparr>"

theorem keystore_unlock_branches_witness:
  "unlock_outcome sample_env ''pw'' sample_locked (fst (keystore_unlock sample_env ''pw'' sample_locked))
     (snd (keystore_unlock sample_env ''pw'' sample_locked)) \<and>
   unlock_outcome sample_env ''no'' sample_locked (fst (keystore_unlock sample_env ''no'' sample_locked))
     (snd (keystore_unlock sample_env ''no'' sample_locked)) \<and>
   seed_for sample_env sample_locked ''pw'' = Some (replicate 16 9) \<and> seed_for sample_env sample_locked ''no'' = None"
proof -
  have s: "w_salt_root sample_locked \<noteq> erased" "w_seeded sample_locked" "49 \<le> length (w_encrypted_seed sample_locked)"
    "w_unlock_attempts sample_locked < MAX_UNLOCK_ATTEMPTS"
    "seed_for sample_env sample_locked ''pw'' = Some (replicate 16 9)" "seed_for sample_env sample_locked ''no'' = None"
    by code_simp+
  have e: "chip_ok sample_env" "flash_ok sample_env" by (simp_all add: chip_ok_def flash_ok_def sample_env_def)
  show ?thesis using s e keystore_unlock_branches [of sample_env sample_locked] by simp
qed

end
