(* ===== verification/Btc_Payload.thy ===== *)
theory Btc_Payload
  imports Btc_Policies
begin

text \<open>
  Amounts, output payloads, addresses and output scripts (\<open>hww/api/bitcoin/common.rs\<close>,
  \<open>hww/api/bitcoin/script_configs.rs\<close>).
\<close>

section \<open>Amounts\<close>

definition amount_format :: "BtcCoin \<Rightarrow> FormatUnit \<Rightarrow> (nat \<times> string) option" where
  "amount_format coin format_unit = (case (coin, format_unit) of
      (Btc, UnitDefault) \<Rightarrow> Some (8, ''BTC'') | (Btc, UnitSat) \<Rightarrow> Some (0, ''sat'')
    | (Tbtc, UnitDefault) \<Rightarrow> Some (8, ''TBTC'') | (Tbtc, UnitSat) \<Rightarrow> Some (0, ''tsat'')
    | (Ltc, UnitDefault) \<Rightarrow> Some (8, ''LTC'') | (Ltc, _) \<Rightarrow> None
    | (Tltc, UnitDefault) \<Rightarrow> Some (8, ''TLTC'') | (Tltc, _) \<Rightarrow> None)"

definition format_amount :: "Params \<Rightarrow> FormatUnit \<Rightarrow> u64 \<Rightarrow> (Error, string) result" where
  "format_amount params format_unit satoshi =
     bindR (ok_or ErrInvalidInput (amount_format (par_coin params) format_unit)) (\<lambda>(decimals, unit_name).
     Ok ((if format_unit = UnitDefault then decimal_format_no_trim (unat satoshi) decimals
          else decimal_format (unat satoshi) decimals) @ '' '' @ unit_name))"

section \<open>Validated script configs\<close>

datatype ValidatedScriptConfig =
    VSimpleType SimpleType
  | VMultisig Multisig
  | VPolicy ParsedPolicy

record ValidatedScriptConfigWithKeypath =
  vsc_keypath :: keypath
  vsc_config :: ValidatedScriptConfig

section \<open>Payloads\<close>

definition HASH160_LEN :: nat where "HASH160_LEN = 20"
definition SHA256_LEN :: nat where "SHA256_LEN = 32"

record Payload =
  pl_data :: bytes
  pl_output_type :: BtcOutputType

definition pk_script :: "Params \<Rightarrow> Payload \<Rightarrow> (Error, bytes) result" where
  "pk_script params p =
     (let payload = pl_data p in
      case pl_output_type p of
        OutUnknown \<Rightarrow> Err ErrInvalidInput
      | OutP2pkh \<Rightarrow>
          if length payload \<noteq> HASH160_LEN then Err ErrGeneric
          else Ok (push_data [OP_DUP, OP_HASH160] payload @ [OP_EQUALVERIFY, OP_CHECKSIG])
      | OutP2sh \<Rightarrow>
          if length payload \<noteq> HASH160_LEN then Err ErrGeneric
          else Ok (push_data [OP_HASH160] payload @ [OP_EQUAL])
      | OutP2wpkh \<Rightarrow>
          if length payload \<noteq> HASH160_LEN then Err ErrGeneric
          else Ok (push_data [OP_0] payload)
      | OutP2wsh \<Rightarrow>
          if length payload \<noteq> SHA256_LEN then Err ErrGeneric
          else Ok (push_data [OP_0] payload)
      | OutP2tr \<Rightarrow>
          if \<not> par_taproot_support params then Err ErrInvalidInput
          else if length payload \<noteq> 32 then Err ErrGeneric
          else Ok (push_data [OP_1] payload))"

definition encode_segwit_addr :: "env \<Rightarrow> string \<Rightarrow> nat \<Rightarrow> bytes \<Rightarrow> (unit, string) result" where
  "encode_segwit_addr E hrp witness_version witness_program =
     (if witness_version \<in> {0, 1} then ok_or () (env_segwit_encode E hrp witness_version witness_program)
      else Err ())"

definition address :: "env \<Rightarrow> Params \<Rightarrow> Payload \<Rightarrow> (unit, string) result" where
  "address E params p =
     (let payload = pl_data p in
      case pl_output_type p of
        OutUnknown \<Rightarrow> Err ()
      | OutP2pkh \<Rightarrow>
          if length payload \<noteq> HASH160_LEN then Err ()
          else Ok (env_base58check E (par_base58_version_p2pkh params # payload))
      | OutP2sh \<Rightarrow>
          if length payload \<noteq> HASH160_LEN then Err ()
          else Ok (env_base58check E (par_base58_version_p2sh params # payload))
      | OutP2wpkh \<Rightarrow>
          if length payload \<noteq> HASH160_LEN then Err ()
          else encode_segwit_addr E (par_bech32_hrp params) 0 payload
      | OutP2wsh \<Rightarrow>
          if length payload \<noteq> SHA256_LEN then Err ()
          else encode_segwit_addr E (par_bech32_hrp params) 0 payload
      | OutP2tr \<Rightarrow>
          if \<not> par_taproot_support params \<or> length payload \<noteq> 32 then Err ()
          else encode_segwit_addr E (par_bech32_hrp params) 1 payload)"

text \<open>Computations that use the xpub cache have it as their state.\<close>

type_synonym 'a cached = "(Bip32XpubCache, Error, 'a) io"

definition cached_xpub :: "env \<Rightarrow> world \<Rightarrow> keypath \<Rightarrow> XPub cached" where
  "cached_xpub E w keypath = map_errM (\<lambda>_. ErrGeneric) (get_xpub E w keypath)"

definition payload_p2wpkh :: "env \<Rightarrow> world \<Rightarrow> keypath \<Rightarrow> Payload cached" where
  "payload_p2wpkh E w keypath =
     bindM (cached_xpub E w keypath) (\<lambda>x.
     returnM \<lparr>pl_data = pubkey_hash160 E x, pl_output_type = OutP2wpkh\<rparr>)"

fun payload_from_simple :: "env \<Rightarrow> world \<Rightarrow> Params \<Rightarrow> SimpleType \<Rightarrow> keypath \<Rightarrow> Payload cached" where
  "payload_from_simple E w params P2wpkh keypath = payload_p2wpkh E w keypath"
| "payload_from_simple E w params P2wpkhP2sh keypath =
     bindM (payload_p2wpkh E w keypath) (\<lambda>p.
     bindM (liftM (pk_script params p)) (\<lambda>pkscript_p2wpkh.
     returnM \<lparr>pl_data = env_hash160 E pkscript_p2wpkh, pl_output_type = OutP2sh\<rparr>))"
| "payload_from_simple E w params P2tr keypath =
     (if par_taproot_support params then
        bindM (cached_xpub E w keypath) (\<lambda>x.
        bindM (liftM (to_generic (schnorr_bip86_pubkey E x))) (\<lambda>pk.
        returnM \<lparr>pl_data = pk, pl_output_type = OutP2tr\<rparr>))
      else failM ErrInvalidInput)"

definition payload_from_multisig :: "env \<Rightarrow> Params \<Rightarrow> Multisig \<Rightarrow> u32 \<Rightarrow> u32 \<Rightarrow> (Error, Payload) result" where
  "payload_from_multisig E params multisig keypath_change keypath_address =
     bindR (ok_or ErrInvalidInput (script_type_try_from (ms_script_type multisig))) (\<lambda>script_type.
     bindR (multisig_pkscript E multisig keypath_change keypath_address) (\<lambda>script.
     let payload_p2wsh = \<lparr>pl_data = env_sha256 E script, pl_output_type = OutP2wsh\<rparr> in
     case script_type of
       P2wsh \<Rightarrow> Ok payload_p2wsh
     | P2wshP2sh \<Rightarrow>
         bindR (pk_script params payload_p2wsh) (\<lambda>pkscript_p2wsh.
         Ok \<lparr>pl_data = env_hash160 E pkscript_p2wsh, pl_output_type = OutP2sh\<rparr>)))"

definition payload_from_policy :: "env \<Rightarrow> ParsedPolicy \<Rightarrow> keypath \<Rightarrow> (Error, Payload) result" where
  "payload_from_policy E policy keypath =
     bindR (derive_at_keypath E policy keypath) (\<lambda>witness_script.
     Ok \<lparr>pl_data = env_sha256 E witness_script, pl_output_type = OutP2wsh\<rparr>)"

text \<open>
  \<open>keypath[keypath.len() - 2]\<close>: the subtraction wraps when the path is shorter, and the index then
  panics.
\<close>

definition index_from_end :: "'a list \<Rightarrow> nat \<Rightarrow> ('e, 'a) result" where
  "index_from_end xs k = (if k \<le> length xs \<and> 0 < k then Ok (xs ! (length xs - k)) else Panic)"

definition payload_from ::
  "env \<Rightarrow> world \<Rightarrow> Params \<Rightarrow> keypath \<Rightarrow> ValidatedScriptConfigWithKeypath \<Rightarrow> Payload cached" where
  "payload_from E w params keypath script_config_account =
     (case vsc_config script_config_account of
        VSimpleType simple_type \<Rightarrow> payload_from_simple E w params simple_type keypath
      | VMultisig multisig \<Rightarrow>
          bindM (liftM (index_from_end keypath 2)) (\<lambda>change.
          bindM (liftM (index_from_end keypath 1)) (\<lambda>addr.
          liftM (payload_from_multisig E params multisig change addr)))
      | VPolicy policy \<Rightarrow> liftM (payload_from_policy E policy keypath))"

section \<open>Laws\<close>


lemma format_amount_inj:
  assumes "format_amount p u a = Ok s" "format_amount p u b = Ok s"
  shows "a = b"
proof -
  obtain d n where f: "amount_format (par_coin p) u = Some (d, n)"
    using assms(1) by (auto simp: format_amount_def elim!: ok_or.elims)
  let ?g = "\<lambda>v. if u = UnitDefault then decimal_format_no_trim v d else decimal_format v d"
  have "?g (unat a) = ?g (unat b)" using assms f by (auto simp: format_amount_def split: if_splits)
  then have "unat a = unat b" using decimal_format_roundtrip [of d] by (metis option.inject)
  then show ?thesis by (simp add: word_unat_eq_iff)
qed

lemma push_data_len20: "length p = 20 \<Longrightarrow> push_data pre p = pre @ 20 # p"
  and push_data_len32: "length p = 32 \<Longrightarrow> push_data pre p = pre @ 32 # p"
  by (simp_all add: push_data_def serialize_varint_def)

text \<open>
  C16: Output scripts are standard and unambiguous: the script of a payload has the form its type
  prescribes, and two payloads with the same script are equal. What is hashed into a transaction
  therefore determines the payload whose address was shown.
\<close>

theorem pk_script_injective:
  assumes "pk_script params p = Ok s" "pk_script params p' = Ok s"
  shows "p = p'"
  using assms
  by (auto simp: pk_script_def Let_def HASH160_LEN_def SHA256_LEN_def push_data_len20 push_data_len32
      OP_0_def OP_1_def OP_DUP_def OP_HASH160_def OP_EQUAL_def OP_EQUALVERIFY_def OP_CHECKSIG_def
      split: BtcOutputType.splits if_splits intro!: Payload.equality)

theorem pk_script_injective_witness:
  "pk_script PARAMS_BTC \<lparr>pl_data = replicate 20 1, pl_output_type = OutP2wpkh\<rparr> \<noteq>
   pk_script PARAMS_BTC \<lparr>pl_data = replicate 20 2, pl_output_type = OutP2wpkh\<rparr>"
proof
  let ?p = "\<lparr>pl_data = replicate 20 1, pl_output_type = OutP2wpkh\<rparr> :: Payload"
  let ?q = "\<lparr>pl_data = replicate 20 2, pl_output_type = OutP2wpkh\<rparr> :: Payload"
  assume eq: "pk_script PARAMS_BTC ?p = pk_script PARAMS_BTC ?q"
  obtain s where s: "pk_script PARAMS_BTC ?p = Ok s"
    by (simp add: pk_script_def HASH160_LEN_def)
  from pk_script_injective [OF s eq [symmetric, unfolded s]] show False
    by (simp add: replicate_eq_replicate)
qed

section \<open>Payloads do not depend on the trace\<close>

lemma cached_xpub_trace [simp]: "cached_xpub E (w\<lparr>w_trace := t\<rparr>) = cached_xpub E w"
proof -
  have "get_xpub E (w\<lparr>w_trace := t\<rparr>) = get_xpub E w" by (simp add: fun_eq_iff get_xpub_def)
  then show ?thesis by (intro ext) (simp add: cached_xpub_def)
qed

lemma payload_from_simple_trace [simp]:
  "payload_from_simple E (w\<lparr>w_trace := t\<rparr>) p s k = payload_from_simple E w p s k"
  by (cases s) (simp_all add: payload_p2wpkh_def)

lemma payload_from_trace [simp]: "payload_from E (w\<lparr>w_trace := t\<rparr>) = payload_from E w"
  by (simp add: fun_eq_iff payload_from_def split: ValidatedScriptConfig.splits)

end
