(* ===== verification/Payment_Request.thy ===== *)
theory Payment_Request
  imports Btc_Payload
begin

text \<open>
  SLIP-24 payment requests (\<open>hww/api/bitcoin/payment_request.rs\<close>): the identities, what the user
  is shown, the signed digest and the validation against one output.
\<close>

section \<open>Identities\<close>

definition MAX_MEMOS_NUM :: nat where "MAX_MEMOS_NUM = 3"

record Identity =
  id_name :: string
  id_public_key :: bytes

text \<open>The release build has one identity.\<close>

definition IDENTITIES :: "Identity list" where
  "IDENTITIES = [\<lparr>id_name = ''Pocket Bitcoin'',
     id_public_key = [0x02, 0x29, 0x02, 0xb4, 0xed, 0xe4, 0x82, 0xa9, 0x07, 0xce, 0x16, 0xa1, 0xc6,
       0x34, 0x14, 0x5e, 0x72, 0x8f, 0x1d, 0xe4, 0xf2, 0x49, 0x04, 0x3a, 0x8b, 0xe4, 0x7d, 0xf2,
       0x7d, 0xb9, 0x32, 0x0c, 0x2c]\<rparr>]"

definition find_identity :: "string \<Rightarrow> Identity option" where
  "find_identity name = find (\<lambda>identity. id_name identity = name) IDENTITIES"

section \<open>Confirmation\<close>

definition memo_params :: "string \<Rightarrow> string \<Rightarrow> ConfirmParams" where
  "memo_params recipient_name note = confirm_default\<lparr>cp_title := [],
     cp_body := ''Memo from '' @ recipient_name @ '': '' @ note, cp_scrollable := True,
     cp_accept_is_nextarrow := True\<rparr>"

definition confirm_memo :: "env \<Rightarrow> string \<Rightarrow> Memo option \<Rightarrow> unit \<Rightarrow> unit handler" where
  "confirm_memo E recipient_name memo _ = (case memo of
     Some (TextMemo note) \<Rightarrow>
       if \<not> is_printable_ascii (as_bytes note) All then failM ErrInvalidInput
       else user_abort (confirm E (memo_params recipient_name note))
   | None \<Rightarrow> failM ErrInvalidInput)"

definition user_verify :: "env \<Rightarrow> Params \<Rightarrow> BtcPaymentRequestRequest \<Rightarrow> FormatUnit \<Rightarrow> unit handler" where
  "user_verify E coin_params payment_request format_unit =
     bindM (guardM (find_identity (pr_recipient_name payment_request) \<noteq> None) ErrInvalidInput) (\<lambda>_.
     bindM (liftM (format_amount coin_params format_unit (pr_total_amount payment_request))) (\<lambda>amount.
     bindM (user_abort (verify_recipient E (pr_recipient_name payment_request) amount)) (\<lambda>_.
     foldM (confirm_memo E (pr_recipient_name payment_request)) (pr_memos payment_request) ())))"

section \<open>Validation\<close>

datatype ValidationError = UnknownRecipient | InvalidSignature | ValidationOther

definition hash_data_lenprefixed :: "bytes \<Rightarrow> bytes" where
  "hash_data_lenprefixed data = serialize_varint (of_nat (length data)) @ data"

definition memo_preimage :: "Memo option \<Rightarrow> (ValidationError, bytes) result" where
  "memo_preimage memo = (case memo of
     Some (TextMemo note) \<Rightarrow> Ok (u32_le 1 @ hash_data_lenprefixed (as_bytes note))
   | None \<Rightarrow> Err ValidationOther)"

definition output_preimage :: "u64 \<Rightarrow> string \<Rightarrow> bytes" where
  "output_preimage output_value output_address =
     u64_le output_value @ hash_data_lenprefixed (as_bytes output_address)"

definition payment_preimage ::
  "env \<Rightarrow> Params \<Rightarrow> BtcPaymentRequestRequest \<Rightarrow> u64 \<Rightarrow> string \<Rightarrow> (ValidationError, bytes) result" where
  "payment_preimage E coin_params payment_request output_value output_address =
     bindR (collectR memo_preimage (pr_memos payment_request)) (\<lambda>memos.
     Ok (as_bytes ''SL'' @ [0x00, 0x24]
       @ hash_data_lenprefixed (pr_nonce payment_request)
       @ hash_data_lenprefixed (as_bytes (pr_recipient_name payment_request))
       @ serialize_varint (of_nat (length (pr_memos payment_request)))
       @ concat memos
       @ u32_le (slip44 coin_params)
       @ env_sha256 E (output_preimage output_value output_address)))"

definition compute_sighash ::
  "env \<Rightarrow> Params \<Rightarrow> BtcPaymentRequestRequest \<Rightarrow> u64 \<Rightarrow> string \<Rightarrow> (ValidationError, bytes) result" where
  "compute_sighash E coin_params payment_request output_value output_address =
     bindR (payment_preimage E coin_params payment_request output_value output_address) (\<lambda>p.
     Ok (env_sha256 E p))"

text \<open>\<open>env_ecdsa_verify\<close> is false also for a public key or a signature that does not parse.\<close>

definition ecdsa_verify :: "env \<Rightarrow> bytes \<Rightarrow> bytes \<Rightarrow> bytes \<Rightarrow> (ValidationError, unit) result" where
  "ecdsa_verify E sig64 msg32 pubkey33 =
     (if \<not> env_pubkey_ok E pubkey33 then Err InvalidSignature
      else if length msg32 \<noteq> 32 then Panic
      else if env_ecdsa_verify E pubkey33 msg32 sig64 then Ok () else Err InvalidSignature)"

definition payment_validate ::
  "env \<Rightarrow> Params \<Rightarrow> BtcPaymentRequestRequest \<Rightarrow> u64 \<Rightarrow> string \<Rightarrow> (ValidationError, unit) result" where
  "payment_validate E coin_params payment_request output_value output_address =
     bindR (ok_or UnknownRecipient (find_identity (pr_recipient_name payment_request))) (\<lambda>identity.
     if pr_total_amount payment_request \<noteq> output_value then Err ValidationOther
     else if pr_nonce payment_request \<noteq> [] then Err ValidationOther
     else if length (pr_memos payment_request) > MAX_MEMOS_NUM then Err ValidationOther
     else bindR (compute_sighash E coin_params payment_request output_value output_address) (\<lambda>sighash.
       ecdsa_verify E (pr_signature payment_request) sighash (id_public_key identity)))"

section \<open>Laws\<close>

lemma quiet_user_verify [quiet_rules]: "quiet (user_verify E p r u)"
proof -
  have "quiet (confirm_memo E n m x)" for n m x
    unfolding confirm_memo_def
    by (auto split: option.splits Memo.splits intro!: emits_rules quiet_rules)
  then show ?thesis unfolding user_verify_def by (intro emits_rules quiet_rules)
qed

text \<open>The prompts of a payment request the user went through.\<close>

fun memo_event :: "string \<Rightarrow> Memo option \<Rightarrow> event" where
  "memo_event name (Some (TextMemo note)) = EvAsk (PConfirm (memo_params name note)) True"
| "memo_event name None = EvAsk (PConfirm confirm_default) False"

lemma confirm_memo_OkD:
  "confirm_memo E n m x w = (Ok u, w') \<Longrightarrow> m \<noteq> None \<and> w' = ext_trace w [memo_event n m]"
  by (auto simp: confirm_memo_def runs split: option.splits Memo.splits if_splits dest!: confirm_OkD)

lemma user_verify_OkD:
  assumes "user_verify E p r u w = (Ok x, w')"
  shows "\<exists>amount. find_identity (pr_recipient_name r) \<noteq> None
    \<and> format_amount p u (pr_total_amount r) = Ok amount \<and> None \<notin> set (pr_memos r)
    \<and> w' = ext_trace w (EvAsk (PRecipient (pr_recipient_name r) amount) True
        # map (memo_event (pr_recipient_name r)) (pr_memos r))"
proof -
  from assms obtain amount v where *: "find_identity (pr_recipient_name r) \<noteq> None"
      "format_amount p u (pr_total_amount r) = Ok amount"
      "v = ext_trace w [EvAsk (PRecipient (pr_recipient_name r) amount) True]"
      "foldM (confirm_memo E (pr_recipient_name r)) (pr_memos r) () v = (Ok x, w')"
    by (auto simp: user_verify_def runs dest!: verify_recipient_OkD)
  have "None \<notin> set (pr_memos r) \<and> w' = ext_trace v (map (memo_event (pr_recipient_name r)) (pr_memos r))"
    by (rule foldM_Ok_induct [OF *(4), where I = "\<lambda>ms _ w'. None \<notin> set ms
        \<and> w' = ext_trace v (map (memo_event (pr_recipient_name r)) ms)"])
      (auto dest!: confirm_memo_OkD)
  with * show ?thesis by auto
qed

lemma hash_data_lenprefixed_eq: "hash_data_lenprefixed d = push_data [] d"
  by (simp add: hash_data_lenprefixed_def push_data_def)

fun memo_text :: "Memo option \<Rightarrow> string" where
  "memo_text (Some (TextMemo note)) = note"
| "memo_text None = []"

lemma memos_preimage_Ok:
  "collectR memo_preimage ms = Ok bs \<longleftrightarrow>
     None \<notin> set ms \<and> bs = map (\<lambda>m. u32_le 1 @ push_data [] (as_bytes (memo_text m))) ms"
  by (induction ms arbitrary: bs)
    (auto simp: memo_preimage_def hash_data_lenprefixed_eq split: option.splits Memo.splits)

lemma memo_text_inj: "m \<noteq> None \<Longrightarrow> n \<noteq> None \<Longrightarrow> memo_text m = memo_text n \<longleftrightarrow> m = n"
  by (cases "(''x'', m)" rule: memo_event.cases; cases "(''x'', n)" rule: memo_event.cases) auto

interpretation memo: prefix_code "\<lambda>m. u32_le 1 @ push_data [] (as_bytes (memo_text m))"
  "\<lambda>bs. Option.bind (u32_of_le bs) (\<lambda>(_, r). map_option (\<lambda>(b, r).
     (Some (TextMemo (str_of_bytes b)), r)) (read_data r))"
  "\<lambda>m. m \<noteq> None \<and> length (memo_text m) < 2 ^ 64"
proof
  fix m :: "Memo option" and r :: bytes
  assume a: "m \<noteq> None \<and> length (memo_text m) < 2 ^ 64"
  then obtain s where m: "m = Some (TextMemo s)"
    by (cases "(''x'', m)" rule: memo_event.cases) auto
  with a m show "Option.bind (u32_of_le ((u32_le 1 @ push_data [] (as_bytes (memo_text m))) @ r))
      (\<lambda>(_, r). map_option (\<lambda>(b, r). (Some (TextMemo (str_of_bytes b)), r)) (read_data r))
      = Some (m, r)"
    by (simp add: le32.dec_enc lenpref.dec_enc)
qed

lemma payment_preimage_Ok:
  "payment_preimage E p r v a = Ok pre \<longleftrightarrow> None \<notin> set (pr_memos r)
    \<and> pre = (as_bytes ''SL'' @ [0x00, 0x24]) @ push_data [] (pr_nonce r)
      @ push_data [] (as_bytes (pr_recipient_name r))
      @ serialize_varint (of_nat (length (pr_memos r)))
      @ concat (map (\<lambda>m. u32_le 1 @ push_data [] (as_bytes (memo_text m))) (pr_memos r))
      @ u32_le (slip44 p) @ env_sha256 E (output_preimage v a)"
  by (auto simp: payment_preimage_def memos_preimage_Ok hash_data_lenprefixed_eq)

text \<open>A request none of whose parts exceeds the range of the length prefixes.\<close>

definition payment_wf :: "BtcPaymentRequestRequest \<Rightarrow> bool" where
  "payment_wf r \<longleftrightarrow> fits_u64 (pr_nonce r) \<and> length (pr_recipient_name r) < 2 ^ 64 \<and>
     length (pr_memos r) < 2 ^ 64 \<and> list_all (\<lambda>m. length (memo_text m) < 2 ^ 64) (pr_memos r)"

lemma of_nat_u64_inj: "m < 2 ^ 64 \<Longrightarrow> n < 2 ^ 64 \<Longrightarrow> (of_nat m :: u64) = of_nat n \<longleftrightarrow> m = n"
  by (simp add: word_unat_eq_iff unat_of_nat)

lemma payment_preimage_inj:
  assumes wf: "payment_wf r" "payment_wf r'"
    and pre: "payment_preimage E p r v a = Ok pre" "payment_preimage E p' r' v' a' = Ok pre"
  shows "pr_nonce r = pr_nonce r' \<and> pr_recipient_name r = pr_recipient_name r' \<and>
    pr_memos r = pr_memos r' \<and> slip44 p = slip44 p' \<and>
    env_sha256 E (output_preimage v a) = env_sha256 E (output_preimage v' a')"
proof -
  note [simp] = lenpref.enc_append_eq varint.enc_append_eq le32.enc_append_eq as_bytes_inj of_nat_u64_inj
  from pre wf have same: "pr_nonce r = pr_nonce r'" "pr_recipient_name r = pr_recipient_name r'"
    "length (pr_memos r) = length (pr_memos r')"
    and memos: "concat (map (\<lambda>m. u32_le 1 @ push_data [] (as_bytes (memo_text m))) (pr_memos r))
      @ u32_le (slip44 p) @ env_sha256 E (output_preimage v a)
     = concat (map (\<lambda>m. u32_le 1 @ push_data [] (as_bytes (memo_text m))) (pr_memos r'))
      @ u32_le (slip44 p') @ env_sha256 E (output_preimage v' a')"
    by (auto simp: payment_preimage_Ok payment_wf_def)
  have "list_all (\<lambda>m. m \<noteq> None \<and> length (memo_text m) < 2 ^ 64) (pr_memos r)"
    "list_all (\<lambda>m. m \<noteq> None \<and> length (memo_text m) < 2 ^ 64) (pr_memos r')"
    using pre wf unfolding payment_preimage_Ok payment_wf_def list_all_iff by metis+
  from memo.concat_enc_inj [OF this same(3) memos] same show ?thesis by (simp add: le32.enc_inj)
qed

lemma output_preimage_inj:
  assumes "length a < 2 ^ 64" "length a' < 2 ^ 64" "output_preimage v a = output_preimage v' a'"
  shows "v = v' \<and> a = a'"
  using assms by (simp add: output_preimage_def hash_data_lenprefixed_eq le64.enc_append_eq
      le64.enc_inj lenpref.enc_inj as_bytes_inj)


definition sample_payment :: BtcPaymentRequestRequest where
  "sample_payment = \<lparr>pr_recipient_name = ''Pocket Bitcoin'', pr_memos = [Some (TextMemo ''Invoice 7'')],
     pr_nonce = [], pr_total_amount = 5000, pr_signature = replicate 64 1\<rparr>"




end
