(* ===== verification/Btc_Signtx.thy ===== *)
theory Btc_Signtx
  imports Payment_Request
begin

text \<open>
  Signing a Bitcoin transaction (\<open>hww/api/bitcoin/signtx.rs\<close>). The transaction is streamed by the
  host: all inputs with their previous transactions, all outputs, which the user confirms, and all
  inputs again, which are signed one by one. The mutable locals of \<open>_process\<close> are the records
  \<open>pass1\<close>, \<open>outs\<close> and \<open>pass2\<close>; a hasher is the bytes it was fed. Progress bars and the base screen
  are not modelled.
\<close>

section \<open>Requests to the host\<close>

record NextResponse =
  nr_next :: BtcSignNextResponse
  nr_wrap :: bool

definition next_default :: BtcSignNextResponse where
  "next_default = \<lparr>bsn_type = 0, bsn_index = 0, bsn_has_signature = False, bsn_signature = [],
     bsn_prev_index = 0, bsn_anti_klepto_signer_commitment = None\<rparr>"

definition to_protobuf :: "NextResponse \<Rightarrow> Response" where
  "to_protobuf r = (if nr_wrap r then RespBtc (Some (BtcRespSignNext (nr_next r)))
     else RespBtcSignNext (nr_next r))"

definition get_request ::
  "env \<Rightarrow> NextType \<Rightarrow> u32 \<Rightarrow> u32 option \<Rightarrow> NextResponse \<Rightarrow> (Request \<times> NextResponse) handler" where
  "get_request E typ ix prev_index response =
     (let next = (nr_next response)\<lparr>bsn_type := next_type_as_i32 typ, bsn_index := ix\<rparr>;
          next = (case prev_index of Some i \<Rightarrow> next\<lparr>bsn_prev_index := i\<rparr> | None \<Rightarrow> next) in
      bindM (hww_next_request E (to_protobuf (response\<lparr>nr_next := next\<rparr>))) (\<lambda>request.
      returnM (request, response\<lparr>nr_next := next_default\<rparr>)))"

definition get_tx_input ::
  "env \<Rightarrow> u32 \<Rightarrow> NextResponse \<Rightarrow> (BtcSignInputRequest \<times> NextResponse) handler" where
  "get_tx_input E ix response =
     bindM (get_request E NextInput ix None response) (\<lambda>(request, response).
     case request of
       ReqBtcSignInput r \<Rightarrow> returnM (r, response\<lparr>nr_wrap := False\<rparr>)
     | _ \<Rightarrow> failM ErrInvalidState)"

definition get_prevtx_init ::
  "env \<Rightarrow> u32 \<Rightarrow> NextResponse \<Rightarrow> (BtcPrevTxInitRequest \<times> NextResponse) handler" where
  "get_prevtx_init E ix response =
     (let response = response\<lparr>nr_next := (nr_next response)\<lparr>
        bsn_type := next_type_as_i32 NextPrevtxInit, bsn_index := ix\<rparr>\<rparr> in
     bindM (get_request E NextPrevtxInit ix None response) (\<lambda>(request, response).
     case request of
       ReqBtc (Some (BtcPrevtxInit r)) \<Rightarrow> returnM (r, response\<lparr>nr_wrap := True\<rparr>)
     | _ \<Rightarrow> failM ErrInvalidState))"

definition get_prevtx_input ::
  "env \<Rightarrow> u32 \<Rightarrow> u32 \<Rightarrow> NextResponse \<Rightarrow> (BtcPrevTxInputRequest \<times> NextResponse) handler" where
  "get_prevtx_input E input_index prevtx_input_index response =
     bindM (get_request E NextPrevtxInput input_index (Some prevtx_input_index) response)
       (\<lambda>(request, response).
     case request of
       ReqBtc (Some (BtcPrevtxInput r)) \<Rightarrow> returnM (r, response\<lparr>nr_wrap := True\<rparr>)
     | _ \<Rightarrow> failM ErrInvalidState)"

definition get_prevtx_output ::
  "env \<Rightarrow> u32 \<Rightarrow> u32 \<Rightarrow> NextResponse \<Rightarrow> (BtcPrevTxOutputRequest \<times> NextResponse) handler" where
  "get_prevtx_output E output_index prevtx_output_index response =
     bindM (get_request E NextPrevtxOutput output_index (Some prevtx_output_index) response)
       (\<lambda>(request, response).
     case request of
       ReqBtc (Some (BtcPrevtxOutput r)) \<Rightarrow> returnM (r, response\<lparr>nr_wrap := True\<rparr>)
     | _ \<Rightarrow> failM ErrInvalidState)"

definition get_tx_output ::
  "env \<Rightarrow> u32 \<Rightarrow> NextResponse \<Rightarrow> (BtcSignOutputRequest \<times> NextResponse) handler" where
  "get_tx_output E ix response =
     bindM (get_request E NextOutput ix None response) (\<lambda>(request, response).
     case request of
       ReqBtcSignOutput r \<Rightarrow> returnM (r, response\<lparr>nr_wrap := False\<rparr>)
     | _ \<Rightarrow> failM ErrInvalidState)"

definition get_payment_request ::
  "env \<Rightarrow> u32 \<Rightarrow> NextResponse \<Rightarrow> (BtcPaymentRequestRequest \<times> NextResponse) handler" where
  "get_payment_request E ix response =
     bindM (get_request E NextPaymentRequest ix None response) (\<lambda>(request, response).
     case request of
       ReqBtc (Some (BtcPaymentRequest r)) \<Rightarrow> returnM (r, response\<lparr>nr_wrap := True\<rparr>)
     | _ \<Rightarrow> failM ErrInvalidState)"

definition get_antiklepto_host_nonce ::
  "env \<Rightarrow> u32 \<Rightarrow> NextResponse \<Rightarrow> (AntiKleptoSignatureRequest \<times> NextResponse) handler" where
  "get_antiklepto_host_nonce E ix response =
     bindM (get_request E NextHostNonce ix None response) (\<lambda>(request, response).
     case request of
       ReqBtc (Some (BtcAntikleptoSignature r)) \<Rightarrow> returnM (r, response\<lparr>nr_wrap := True\<rparr>)
     | _ \<Rightarrow> failM ErrInvalidState)"

section \<open>Checks\<close>

definition validate_keypath ::
  "Params \<Rightarrow> ValidatedScriptConfigWithKeypath \<Rightarrow> keypath \<Rightarrow> ReceiveSpend \<Rightarrow> (Error, unit) result" where
  "validate_keypath params script_config_account keypath mode =
     bindR (map_err (\<lambda>_. ErrInvalidInput) (case vsc_config script_config_account of
         VSimpleType simple_type \<Rightarrow> validate_address_simple keypath (par_bip44_coin params) simple_type
           (par_taproot_support params) mode
       | VMultisig _ \<Rightarrow> validate_address_policy keypath mode
       | VPolicy _ \<Rightarrow> validate_address_policy keypath mode)) (\<lambda>_.
     if length (vsc_keypath script_config_account) + 2 \<noteq> length keypath then Err ErrInvalidInput
     else if take (length (vsc_keypath script_config_account)) keypath \<noteq> vsc_keypath script_config_account
     then Err ErrInvalidInput
     else Ok ())"

definition validate_input ::
  "BtcSignInputRequest \<Rightarrow> Params \<Rightarrow> ValidatedScriptConfigWithKeypath \<Rightarrow> (Error, unit) result" where
  "validate_input input params script_config_account =
     (if txi_prev_out_value input = 0 then Err ErrInvalidInput
      else validate_keypath params script_config_account (txi_keypath input) Spend)"

definition is_taproot :: "ValidatedScriptConfigWithKeypath \<Rightarrow> bool" where
  "is_taproot script_config_account \<longleftrightarrow> vsc_config script_config_account = VSimpleType P2tr"

definition sighash_script ::
  "env \<Rightarrow> world \<Rightarrow> ValidatedScriptConfigWithKeypath \<Rightarrow> keypath \<Rightarrow> bytes cached" where
  "sighash_script E w script_config_account keypath =
     (case vsc_config script_config_account of
        VSimpleType simple_type \<Rightarrow>
          if simple_type = P2wpkhP2sh \<or> simple_type = P2wpkh then
            bindM (cached_xpub E w keypath) (\<lambda>x.
            returnM ([0x76, 0xa9, 0x14] @ pubkey_hash160 E x @ [0x88, 0xac]))
          else failM ErrGeneric
      | VMultisig multisig \<Rightarrow>
          bindM (liftM (index_from_end keypath 2)) (\<lambda>change.
          bindM (liftM (index_from_end keypath 1)) (\<lambda>addr.
          liftM (multisig_pkscript E multisig change addr)))
      | VPolicy policy \<Rightarrow> liftM (derive_at_keypath E policy keypath))"

section \<open>Previous transactions\<close>

definition prevtx_input_bytes :: "BtcPrevTxInputRequest \<Rightarrow> bytes" where
  "prevtx_input_bytes i = ptin_prev_out_hash i @ u32_le (ptin_prev_out_index i)
     @ serialize_varint (of_nat (length (ptin_signature_script i))) @ ptin_signature_script i
     @ u32_le (ptin_sequence i)"

definition prevtx_output_bytes :: "BtcPrevTxOutputRequest \<Rightarrow> bytes" where
  "prevtx_output_bytes out = u64_le (ptout_value out)
     @ serialize_varint (of_nat (length (ptout_pubkey_script out))) @ ptout_pubkey_script out"

definition prevtx_input_step ::
  "env \<Rightarrow> u32 \<Rightarrow> u32 \<Rightarrow> bytes \<times> NextResponse \<Rightarrow> (bytes \<times> NextResponse) handler" where
  "prevtx_input_step E input_index prevtx_input_index = (\<lambda>(hasher, next_response).
     bindM (get_prevtx_input E input_index prevtx_input_index next_response)
       (\<lambda>(prevtx_input, next_response).
     returnM (hasher @ prevtx_input_bytes prevtx_input, next_response)))"

definition prevtx_output_step ::
  "env \<Rightarrow> u32 \<Rightarrow> BtcSignInputRequest \<Rightarrow> u32 \<Rightarrow> bytes \<times> NextResponse \<Rightarrow> (bytes \<times> NextResponse) handler"
where
  "prevtx_output_step E input_index input prevtx_output_index = (\<lambda>(hasher, next_response).
     bindM (get_prevtx_output E input_index prevtx_output_index next_response)
       (\<lambda>(prevtx_output, next_response).
     if prevtx_output_index = txi_prev_out_index input
        \<and> txi_prev_out_value input \<noteq> ptout_value prevtx_output
     then failM ErrInvalidInput
     else returnM (hasher @ prevtx_output_bytes prevtx_output, next_response)))"

definition handle_prevtx ::
  "env \<Rightarrow> u32 \<Rightarrow> BtcSignInputRequest \<Rightarrow> NextResponse \<Rightarrow> NextResponse handler" where
  "handle_prevtx E input_index input next_response =
     bindM (get_prevtx_init E input_index next_response) (\<lambda>(prevtx_init, next_response).
     if pti_num_inputs prevtx_init < 1 \<or> pti_num_outputs prevtx_init < 1
        \<or> txi_prev_out_index input \<ge> pti_num_outputs prevtx_init
     then failM ErrInvalidInput
     else
       bindM (foldM (prevtx_input_step E input_index) (range_u32 (pti_num_inputs prevtx_init))
         (u32_le (pti_version prevtx_init) @ serialize_varint (ucast (pti_num_inputs prevtx_init)),
          next_response)) (\<lambda>(hasher, next_response).
       bindM (foldM (prevtx_output_step E input_index input) (range_u32 (pti_num_outputs prevtx_init))
         (hasher @ serialize_varint (ucast (pti_num_outputs prevtx_init)), next_response))
         (\<lambda>(hasher, next_response).
       let hash = env_sha256 E (env_sha256 E (hasher @ u32_le (pti_locktime prevtx_init))) in
       if hash \<noteq> txi_prev_out_hash input then failM ErrInvalidInput
       else returnM next_response)))"

section \<open>Accounts\<close>

text \<open>A single-signature config; \<open>first_keypath\<close> is the path of the first config.\<close>

definition validate_simple_config ::
  "Params \<Rightarrow> keypath \<Rightarrow> BtcScriptConfigWithKeypath \<Rightarrow> (Error, ValidatedScriptConfigWithKeypath) result"
where
  "validate_simple_config coin_params first_keypath c =
     (case sck_script_config c of
        Some (Some (ConfigSimpleType simple_type)) \<Rightarrow>
          bindR (ok_or ErrInvalidInput (simple_type_try_from simple_type)) (\<lambda>simple_type.
          bindR (map_err (\<lambda>_. ErrInvalidInput) (validate_account_simple (sck_keypath c)
            (par_bip44_coin coin_params) simple_type (par_taproot_support coin_params))) (\<lambda>_.
          bindR (index (sck_keypath c) 2) (\<lambda>account.
          bindR (index first_keypath 2) (\<lambda>first_account.
          if account \<noteq> first_account then Err ErrInvalidInput
          else Ok \<lparr>vsc_keypath = sck_keypath c, vsc_config = VSimpleType simple_type\<rparr>))))
      | _ \<Rightarrow> Err ErrInvalidInput)"

definition validate_multisig_config ::
  "env \<Rightarrow> Params \<Rightarrow> Multisig \<Rightarrow> keypath \<Rightarrow> ValidatedScriptConfigWithKeypath list handler" where
  "validate_multisig_config E coin_params multisig keypath =
     bindM (readM (\<lambda>w. multisig_validate E w multisig keypath)) (\<lambda>_.
     bindM (readM (\<lambda>w. to_generic (multisig_get_name E w (par_coin coin_params) multisig keypath))) (\<lambda>name.
     bindM (liftM (ok_or ErrInvalidInput name)) (\<lambda>name.
     bindM (multisig_confirm E ''Spend from'' coin_params name multisig) (\<lambda>_.
     returnM [\<lparr>vsc_keypath = keypath, vsc_config = VMultisig multisig\<rparr>]))))"

definition validate_policy_config ::
  "env \<Rightarrow> Params \<Rightarrow> Policy \<Rightarrow> keypath \<Rightarrow> ValidatedScriptConfigWithKeypath list handler" where
  "validate_policy_config E coin_params policy keypath =
     bindM (readM (\<lambda>w. policy_parse E w policy (par_coin coin_params))) (\<lambda>parsed_policy.
     bindM (readM (\<lambda>w. to_generic (policy_get_name E w (par_coin coin_params) policy))) (\<lambda>name.
     bindM (liftM (ok_or ErrInvalidInput name)) (\<lambda>name.
     bindM (policy_confirm E parsed_policy ''Spend from'' coin_params name Basic) (\<lambda>_.
     returnM [\<lparr>vsc_keypath = keypath, vsc_config = VPolicy parsed_policy\<rparr>]))))"

definition validate_script_configs ::
  "env \<Rightarrow> Params \<Rightarrow> BtcScriptConfigWithKeypath list \<Rightarrow> ValidatedScriptConfigWithKeypath list handler" where
  "validate_script_configs E coin_params script_configs =
     (case script_configs of
        [] \<Rightarrow> failM ErrInvalidInput
      | c # cs \<Rightarrow>
          (case (cs, sck_script_config c) of
             ([], Some (Some (ConfigMultisig multisig))) \<Rightarrow>
               validate_multisig_config E coin_params multisig (sck_keypath c)
           | ([], Some (Some (ConfigPolicy policy))) \<Rightarrow>
               validate_policy_config E coin_params policy (sck_keypath c)
           | _ \<Rightarrow> liftM (collectR (validate_simple_config coin_params (sck_keypath c)) script_configs)))"

definition setup_xpub_cache :: "BtcScriptConfigWithKeypath list \<Rightarrow> Bip32XpubCache \<Rightarrow> Bip32XpubCache" where
  "setup_xpub_cache script_configs cache = foldl (\<lambda>cache c.
     case sck_script_config c of
       Some (Some (ConfigSimpleType _)) \<Rightarrow>
         add_keypath (sck_keypath c) (add_keypath (sck_keypath c @ [1])
           (add_keypath (sck_keypath c @ [0]) cache))
     | _ \<Rightarrow> cache) cache script_configs"

section \<open>First pass over the inputs\<close>

text \<open>Run a computation on the xpub cache, a local of \<open>_process\<close>.\<close>

definition with_cache :: "(world \<Rightarrow> 'a cached) \<Rightarrow> Bip32XpubCache \<Rightarrow> ('a \<times> Bip32XpubCache) handler" where
  "with_cache f cache = readM (\<lambda>w. case f w cache of (r, cache) \<Rightarrow> bindR r (\<lambda>a. Ok (a, cache)))"

text \<open>What the init request fixes for the rest of the session.\<close>

record session =
  se_request :: BtcSignInitRequest
  se_params :: Params
  se_format_unit :: FormatUnit
  se_configs :: "ValidatedScriptConfigWithKeypath list"

record pass1 =
  p1_next :: NextResponse
  p1_cache :: Bip32XpubCache
  p1_sum :: u64
  p1_locktime_applies :: bool
  p1_rbf :: bool
  p1_prevouts :: bytes
  p1_sequence :: bytes
  p1_amounts :: bytes
  p1_scriptpubkeys :: bytes

definition config_at :: "session \<Rightarrow> u32 \<Rightarrow> (Error, ValidatedScriptConfigWithKeypath) result" where
  "config_at S i = (if unat i < length (se_configs S) then Ok (se_configs S ! unat i)
     else Err ErrInvalidInput)"

definition lenprefixed :: "bytes \<Rightarrow> bytes" where
  "lenprefixed script = serialize_varint (of_nat (length script)) @ script"

definition pass1_init :: "BtcSignInitRequest \<Rightarrow> pass1" where
  "pass1_init request = \<lparr>p1_next = \<lparr>nr_next = next_default, nr_wrap = False\<rparr>,
     p1_cache = setup_xpub_cache (bsi_script_configs request) cache_new, p1_sum = 0,
     p1_locktime_applies = False, p1_rbf = False, p1_prevouts = [], p1_sequence = [],
     p1_amounts = [], p1_scriptpubkeys = []\<rparr>"

definition pass1_input :: "env \<Rightarrow> session \<Rightarrow> u32 \<Rightarrow> pass1 \<Rightarrow> pass1 handler" where
  "pass1_input E S input_index s =
     bindM (get_tx_input E input_index (p1_next s)) (\<lambda>(tx_input, next_response).
     bindM (liftM (config_at S (txi_script_config_index tx_input))) (\<lambda>script_config_account.
     bindM (liftM (validate_input tx_input (se_params S) script_config_account)) (\<lambda>_.
     bindM (liftM (ok_or ErrInvalidInput (checked_add_u64 (p1_sum s) (txi_prev_out_value tx_input)))) (\<lambda>total_in.
     bindM (with_cache (\<lambda>w. payload_from E w (se_params S) (txi_keypath tx_input) script_config_account)
       (p1_cache s)) (\<lambda>(payload, cache).
     bindM (liftM (pk_script (se_params S) payload)) (\<lambda>script.
     bindM (if list_all is_taproot (se_configs S) then returnM next_response
            else handle_prevtx E input_index tx_input next_response) (\<lambda>next_response.
     returnM \<lparr>p1_next = next_response, p1_cache = cache, p1_sum = total_in,
       p1_locktime_applies = (p1_locktime_applies s \<or> txi_sequence tx_input < 0xffffffff),
       p1_rbf = (p1_rbf s \<or> txi_sequence tx_input < 0xffffffff - 1),
       p1_prevouts = p1_prevouts s @ txi_prev_out_hash tx_input @ u32_le (txi_prev_out_index tx_input),
       p1_sequence = p1_sequence s @ u32_le (txi_sequence tx_input),
       p1_amounts = p1_amounts s @ u64_le (txi_prev_out_value tx_input),
       p1_scriptpubkeys = p1_scriptpubkeys s @ lenprefixed script\<rparr>)))))))"

section \<open>Outputs\<close>

record outs =
  ou_next :: NextResponse
  ou_cache :: Bip32XpubCache
  ou_payment_request_seen :: bool
  ou_sum_ours :: u64
  ou_sum_out :: u64
  ou_num_changes :: u32
  ou_outputs :: bytes

definition output_payload ::
  "env \<Rightarrow> session \<Rightarrow> BtcSignOutputRequest \<Rightarrow> Bip32XpubCache \<Rightarrow> (Payload \<times> Bip32XpubCache) handler" where
  "output_payload E S tx_output cache =
     (if txo_ours tx_output then
        bindM (liftM (config_at S (txo_script_config_index tx_output))) (\<lambda>script_config_account.
        bindM (liftM (validate_keypath (se_params S) script_config_account (txo_keypath tx_output) Receive)) (\<lambda>_.
        with_cache (\<lambda>w. payload_from E w (se_params S) (txo_keypath tx_output) script_config_account) cache))
      else
        bindM (liftM (ok_or ErrInvalidInput (btc_output_type_try_from (txo_type tx_output)))) (\<lambda>output_type.
        returnM (\<lparr>pl_data = txo_payload tx_output, pl_output_type = output_type\<rparr>, cache)))"

definition output_is_change :: "session \<Rightarrow> BtcSignOutputRequest \<Rightarrow> (Error, bool) result" where
  "output_is_change S tx_output =
     (if txo_ours tx_output then
        bindR (config_at S (txo_script_config_index tx_output)) (\<lambda>script_config_account.
        case vsc_config script_config_account of
          VPolicy policy \<Rightarrow> is_change_keypath policy (txo_keypath tx_output)
        | _ \<Rightarrow> bindR (index_from_end (txo_keypath tx_output) 2) (\<lambda>change. Ok (change = 1)))
      else Ok False)"

text \<open>\<open>validate(..).is_err()\<close>.\<close>

definition is_err :: "('e, 'a) result \<Rightarrow> ('f, bool) result" where
  "is_err r = (case r of Ok _ \<Rightarrow> Ok False | Err _ \<Rightarrow> Ok True | Panic \<Rightarrow> Panic | Pending \<Rightarrow> Pending)"

text \<open>The payment request of an output: fetched, shown and validated.\<close>

definition output_payment_request ::
  "env \<Rightarrow> session \<Rightarrow> BtcSignOutputRequest \<Rightarrow> string \<Rightarrow> u32 \<Rightarrow> bool \<Rightarrow> NextResponse
    \<Rightarrow> NextResponse handler" where
  "output_payment_request E S tx_output addr ix seen next_response =
     (if ix \<noteq> 0 then failM ErrInvalidInput
      else if seen then failM ErrInvalidInput
      else
        bindM (get_payment_request E ix next_response) (\<lambda>(payment_request, next_response).
        bindM (user_verify E (se_params S) payment_request (se_format_unit S)) (\<lambda>_.
        bindM (liftM (is_err (payment_validate E (se_params S) payment_request (txo_value tx_output) addr)))
          (\<lambda>invalid.
        if invalid then
          bindM (status (''Invalid'' @ [CHR 0x0A] @ ''payment request'') True) (\<lambda>_. failM ErrInvalidInput)
        else returnM next_response))))"

text \<open>Confirmation of a non-change output; the flag says whether a payment request was seen.\<close>

definition output_verify ::
  "env \<Rightarrow> session \<Rightarrow> BtcSignOutputRequest \<Rightarrow> Payload \<Rightarrow> bool \<Rightarrow> NextResponse
    \<Rightarrow> (bool \<times> NextResponse) handler" where
  "output_verify E S tx_output payload seen next_response =
     bindM (generic_err (address E (se_params S) payload)) (\<lambda>addr.
     case txo_payment_request_index tx_output of
       Some ix \<Rightarrow>
         bindM (output_payment_request E S tx_output addr ix seen next_response) (\<lambda>next_response.
         returnM (True, next_response))
     | None \<Rightarrow>
         bindM (liftM (format_amount (se_params S) (se_format_unit S) (txo_value tx_output))) (\<lambda>amount.
         bindM (user_abort (verify_recipient E
           (if txo_ours tx_output then ''This BitBox02: '' @ addr else addr) amount)) (\<lambda>_.
         returnM (seen, next_response))))"

definition output_step :: "env \<Rightarrow> session \<Rightarrow> u32 \<Rightarrow> outs \<Rightarrow> outs handler" where
  "output_step E S output_index s =
     bindM (get_tx_output E output_index (ou_next s)) (\<lambda>(tx_output, next_response).
     bindM (guardM (txo_value tx_output \<noteq> 0) ErrInvalidInput) (\<lambda>_.
     bindM (output_payload E S tx_output (ou_cache s)) (\<lambda>(payload, cache).
     bindM (liftM (output_is_change S tx_output)) (\<lambda>is_change.
     bindM (guardM (\<not> (is_change \<and> txo_payment_request_index tx_output \<noteq> None)) ErrInvalidInput) (\<lambda>_.
     bindM (if \<not> is_change
            then output_verify E S tx_output payload (ou_payment_request_seen s) next_response
            else returnM (ou_payment_request_seen s, next_response)) (\<lambda>(seen, next_response).
     bindM (liftM (ok_or ErrInvalidInput (if is_change
              then checked_add_u64 (ou_sum_ours s) (txo_value tx_output) else Some (ou_sum_ours s)))) (\<lambda>sum_ours.
     bindM (liftM (ok_or ErrInvalidInput (if is_change
              then Some (ou_sum_out s) else checked_add_u64 (ou_sum_out s) (txo_value tx_output)))) (\<lambda>sum_out.
     bindM (liftM (pk_script (se_params S) payload)) (\<lambda>script.
     returnM \<lparr>ou_next = next_response, ou_cache = cache, ou_payment_request_seen = seen,
       ou_sum_ours = sum_ours, ou_sum_out = sum_out,
       ou_num_changes = (if is_change then ou_num_changes s + 1 else ou_num_changes s),
       ou_outputs = ou_outputs s @ u64_le (txo_value tx_output) @ lenprefixed script\<rparr>)))))))))"

section \<open>Totals, locktime and fee\<close>

definition num_changes_params :: "u32 \<Rightarrow> ConfirmParams" where
  "num_changes_params num_changes = confirm_default\<lparr>cp_title := ''Warning'',
     cp_body := ''There are '' @ show_nat (unat num_changes) @ [CHR 0x0A] @ ''change outputs.''
       @ [CHR 0x0A] @ ''Proceed?'', cp_accept_is_nextarrow := True\<rparr>"

definition locktime_params :: "Params \<Rightarrow> u32 \<Rightarrow> bool \<Rightarrow> ConfirmParams" where
  "locktime_params params locktime rbf = confirm_default\<lparr>
     cp_body := ''Locktime on block:'' @ [CHR 0x0A] @ show_nat (unat locktime) @ [CHR 0x0A]
       @ (if par_rbf_support params
          then (if rbf then ''Transaction is RBF'' else ''Transaction is not RBF'') else []),
     cp_accept_is_nextarrow := True\<rparr>"

definition confirm_warnings :: "env \<Rightarrow> session \<Rightarrow> pass1 \<Rightarrow> outs \<Rightarrow> unit handler" where
  "confirm_warnings E S p1 s =
     (let request = se_request S in
     bindM (if ou_num_changes s > 1 then user_abort (confirm E (num_changes_params (ou_num_changes s)))
            else returnM ()) (\<lambda>_.
     if bsi_locktime request > 0 \<and> p1_locktime_applies p1
     then user_abort (confirm E (locktime_params (se_params S) (bsi_locktime request) (p1_rbf p1)))
     else returnM ()))"

definition confirm_total_fee :: "env \<Rightarrow> session \<Rightarrow> pass1 \<Rightarrow> outs \<Rightarrow> unit handler" where
  "confirm_total_fee E S p1 s =
     bindM (liftM (ok_or ErrInvalidInput (checked_sub_u64 (p1_sum p1) (ou_sum_ours s)))) (\<lambda>total_out.
     bindM (liftM (ok_or ErrInvalidInput (checked_sub_u64 total_out (ou_sum_out s)))) (\<lambda>fee.
     bindM (liftM (format_amount (se_params S) (se_format_unit S) total_out)) (\<lambda>total_str.
     bindM (liftM (format_amount (se_params S) (se_format_unit S) fee)) (\<lambda>fee_str.
     bindM (user_abort (verify_total_fee E total_str fee_str
       (if ou_sum_out s = 0 then None else Some (percentage_f64 (unat fee) (unat (ou_sum_out s)))))) (\<lambda>_.
     status (''Transaction'' @ [CHR 0x0A] @ ''confirmed'') True)))))"

definition confirm_totals :: "env \<Rightarrow> session \<Rightarrow> pass1 \<Rightarrow> outs \<Rightarrow> unit handler" where
  "confirm_totals E S p1 s = bindM (confirm_warnings E S p1 s) (\<lambda>_. confirm_total_fee E S p1 s)"

section \<open>Second pass: signing\<close>

text \<open>What the first two phases leave for signing.\<close>

record prepared =
  pr_session :: session
  pr_sum_pass1 :: u64
  pr_hash_prevouts :: bytes
  pr_hash_sequence :: bytes
  pr_hash_amounts :: bytes
  pr_hash_scriptpubkeys :: bytes
  pr_hash_outputs :: bytes

record pass2 =
  p2_next :: NextResponse
  p2_cache :: Bip32XpubCache
  p2_sum :: u64

definition taproot_args :: "prepared \<Rightarrow> u32 \<Rightarrow> bip341_args" where
  "taproot_args P input_index = \<lparr>b341_version = bsi_version (se_request (pr_session P)),
     b341_locktime = bsi_locktime (se_request (pr_session P)),
     b341_hash_prevouts = pr_hash_prevouts P, b341_hash_amounts = pr_hash_amounts P,
     b341_hash_scriptpubkeys = pr_hash_scriptpubkeys P, b341_hash_sequences = pr_hash_sequence P,
     b341_hash_outputs = pr_hash_outputs P, b341_input_index = input_index\<rparr>"

definition SIGHASH_ALL :: u32 where "SIGHASH_ALL = 0x01"

definition segwit_args :: "env \<Rightarrow> prepared \<Rightarrow> BtcSignInputRequest \<Rightarrow> bytes \<Rightarrow> bip143_args" where
  "segwit_args E P tx_input script = \<lparr>b143_version = bsi_version (se_request (pr_session P)),
     b143_hash_prevouts = env_sha256 E (pr_hash_prevouts P),
     b143_hash_sequence = env_sha256 E (pr_hash_sequence P),
     b143_outpoint_hash = txi_prev_out_hash tx_input, b143_outpoint_index = txi_prev_out_index tx_input,
     b143_sighash_script = script, b143_prevout_value = txi_prev_out_value tx_input,
     b143_sequence = txi_sequence tx_input, b143_hash_outputs = env_sha256 E (pr_hash_outputs P),
     b143_locktime = bsi_locktime (se_request (pr_session P)), b143_sighash_flags = SIGHASH_ALL\<rparr>"

definition sign_taproot ::
  "env \<Rightarrow> prepared \<Rightarrow> u32 \<Rightarrow> BtcSignInputRequest \<Rightarrow> NextResponse \<Rightarrow> NextResponse handler" where
  "sign_taproot E P input_index tx_input next_response =
     bindM (guardM (txi_host_nonce_commitment tx_input = None) ErrInvalidInput) (\<lambda>_.
     bindM (map_errM (\<lambda>_. ErrGeneric) (secp256k1_schnorr_bip86_sign E (txi_keypath tx_input)
       (bip341_sighash (env_sha256 E) (taproot_args P input_index)))) (\<lambda>sig.
     returnM (next_response\<lparr>nr_next := (nr_next next_response)\<lparr>bsn_has_signature := True,
       bsn_signature := sig\<rparr>\<rparr>)))"

text \<open>The anti-klepto protocol: commit to the nonce, then ask the host for its own.\<close>

definition antiklepto_host_nonce ::
  "env \<Rightarrow> u32 \<Rightarrow> BtcSignInputRequest \<Rightarrow> bytes \<Rightarrow> NextResponse \<Rightarrow> (bytes \<times> NextResponse) handler" where
  "antiklepto_host_nonce E input_index tx_input sighash next_response =
     (case txi_host_nonce_commitment tx_input of
        Some commitment \<Rightarrow>
          bindM (guardM (length commitment = 32) ErrInvalidInput) (\<lambda>_.
          bindM (map_errM (\<lambda>_. ErrGeneric) (secp256k1_nonce_commit E (txi_keypath tx_input) sighash commitment))
            (\<lambda>signer_commitment.
          bindM (get_antiklepto_host_nonce E input_index (next_response\<lparr>nr_next := (nr_next next_response)\<lparr>
            bsn_anti_klepto_signer_commitment := Some signer_commitment\<rparr>\<rparr>)) (\<lambda>(host_nonce, next_response).
          bindM (guardM (length host_nonce = 32) ErrInvalidInput) (\<lambda>_.
          returnM (host_nonce, next_response)))))
      | None \<Rightarrow> returnM (replicate 32 0, next_response))"

definition sign_segwit ::
  "env \<Rightarrow> prepared \<Rightarrow> u32 \<Rightarrow> BtcSignInputRequest \<Rightarrow> ValidatedScriptConfigWithKeypath \<Rightarrow> Bip32XpubCache
    \<Rightarrow> NextResponse \<Rightarrow> (NextResponse \<times> Bip32XpubCache) handler" where
  "sign_segwit E P input_index tx_input script_config_account cache next_response =
     bindM (liftM (if length (txi_prev_out_hash tx_input) = 32 then Ok () else Panic)) (\<lambda>_.
     bindM (with_cache (\<lambda>w. sighash_script E w script_config_account (txi_keypath tx_input)) cache)
       (\<lambda>(script, cache).
     let sighash = bip143_sighash (env_sha256 E) (segwit_args E P tx_input script) in
     bindM (antiklepto_host_nonce E input_index tx_input sighash next_response) (\<lambda>(host_nonce, next_response).
     bindM (map_errM (\<lambda>_. ErrGeneric) (secp256k1_sign E (txi_keypath tx_input) sighash host_nonce)) (\<lambda>(sig, _).
     returnM (next_response\<lparr>nr_next := (nr_next next_response)\<lparr>bsn_has_signature := True,
       bsn_signature := sig\<rparr>\<rparr>, cache)))))"

definition sign_input ::
  "env \<Rightarrow> prepared \<Rightarrow> u32 \<Rightarrow> BtcSignInputRequest \<Rightarrow> ValidatedScriptConfigWithKeypath \<Rightarrow> Bip32XpubCache
    \<Rightarrow> NextResponse \<Rightarrow> (NextResponse \<times> Bip32XpubCache) handler" where
  "sign_input E P input_index tx_input script_config_account cache next_response =
     (if is_taproot script_config_account then
        bindM (sign_taproot E P input_index tx_input next_response) (\<lambda>next_response.
        returnM (next_response, cache))
      else sign_segwit E P input_index tx_input script_config_account cache next_response)"

definition pass2_input :: "env \<Rightarrow> prepared \<Rightarrow> u32 \<Rightarrow> pass2 \<Rightarrow> pass2 handler" where
  "pass2_input E P input_index s =
     bindM (get_tx_input E input_index (p2_next s)) (\<lambda>(tx_input, next_response).
     bindM (liftM (config_at (pr_session P) (txi_script_config_index tx_input))) (\<lambda>script_config_account.
     bindM (liftM (validate_input tx_input (se_params (pr_session P)) script_config_account)) (\<lambda>_.
     bindM (liftM (ok_or ErrInvalidInput (checked_add_u64 (p2_sum s) (txi_prev_out_value tx_input)))) (\<lambda>total_in.
     bindM (guardM (\<not> total_in > pr_sum_pass1 P) ErrInvalidInput) (\<lambda>_.
     bindM (sign_input E P input_index tx_input script_config_account (p2_cache s) next_response)
       (\<lambda>(next_response, cache).
     returnM \<lparr>p2_next = next_response, p2_cache = cache, p2_sum = total_in\<rparr>))))))"

section \<open>The session\<close>

text \<open>The checks on the init request.\<close>

definition sign_init :: "env \<Rightarrow> BtcSignInitRequest \<Rightarrow> session handler" where
  "sign_init E request =
     bindM (getM is_locked) (\<lambda>locked.
     bindM (guardM (\<not> locked) ErrInvalidState) (\<lambda>_.
     bindM (liftM (ok_or ErrInvalidInput (btc_coin_try_from (bsi_coin request)))) (\<lambda>coin.
     bindM (liftM (ok_or ErrInvalidInput (format_unit_try_from (bsi_format_unit request)))) (\<lambda>format_unit.
     bindM (guardM (\<not> bsi_locktime request \<ge> 500000000) ErrInvalidInput) (\<lambda>_.
     bindM (guardM (\<not> (bsi_version request \<noteq> 1 \<and> bsi_version request \<noteq> 2)) ErrInvalidInput) (\<lambda>_.
     bindM (guardM (\<not> (bsi_num_inputs request < 1 \<or> bsi_num_outputs request < 1)) ErrInvalidInput) (\<lambda>_.
     bindM (validate_script_configs E (params_get coin) (bsi_script_configs request)) (\<lambda>configs.
     returnM \<lparr>se_request = request, se_params = params_get coin, se_format_unit = format_unit,
       se_configs = configs\<rparr>))))))))"

definition outs_init :: "pass1 \<Rightarrow> outs" where
  "outs_init p1 = \<lparr>ou_next = p1_next p1, ou_cache = p1_cache p1, ou_payment_request_seen = False,
     ou_sum_ours = 0, ou_sum_out = 0, ou_num_changes = 0, ou_outputs = []\<rparr>"

definition finalize_hashers :: "env \<Rightarrow> session \<Rightarrow> pass1 \<Rightarrow> outs \<Rightarrow> prepared" where
  "finalize_hashers E S p1 s = \<lparr>pr_session = S, pr_sum_pass1 = p1_sum p1,
     pr_hash_prevouts = env_sha256 E (p1_prevouts p1), pr_hash_sequence = env_sha256 E (p1_sequence p1),
     pr_hash_amounts = env_sha256 E (p1_amounts p1),
     pr_hash_scriptpubkeys = env_sha256 E (p1_scriptpubkeys p1),
     pr_hash_outputs = env_sha256 E (ou_outputs s)\<rparr>"

text \<open>Everything before the first signature.\<close>

definition sign_prepare :: "env \<Rightarrow> BtcSignInitRequest \<Rightarrow> (prepared \<times> pass2) handler" where
  "sign_prepare E request =
     bindM (sign_init E request) (\<lambda>S.
     bindM (foldM (pass1_input E S) (range_u32 (bsi_num_inputs request)) (pass1_init request)) (\<lambda>p1.
     bindM (foldM (output_step E S) (range_u32 (bsi_num_outputs request)) (outs_init p1)) (\<lambda>s.
     bindM (confirm_totals E S p1 s) (\<lambda>_.
     returnM (finalize_hashers E S p1 s,
       \<lparr>p2_next = ou_next s, p2_cache = ou_cache s, p2_sum = 0\<rparr>)))))"

definition sign_inputs :: "env \<Rightarrow> prepared \<times> pass2 \<Rightarrow> Response handler" where
  "sign_inputs E = (\<lambda>(P, s).
     bindM (foldM (pass2_input E P) (range_u32 (bsi_num_inputs (se_request (pr_session P)))) s) (\<lambda>s.
     bindM (guardM (pr_sum_pass1 P = p2_sum s) ErrInvalidInput) (\<lambda>_.
     returnM (to_protobuf ((p2_next s)\<lparr>nr_next := (nr_next (p2_next s))\<lparr>
       bsn_type := next_type_as_i32 NextDone\<rparr>\<rparr>)))))"

definition signtx_inner :: "env \<Rightarrow> BtcSignInitRequest \<Rightarrow> Response handler" where
  "signtx_inner E request = bindM (sign_prepare E request) (sign_inputs E)"

definition signtx_process :: "env \<Rightarrow> BtcSignInitRequest \<Rightarrow> Response handler" where
  "signtx_process E request = on_user_abort (signtx_inner E request)
     (status (''Transaction'' @ [CHR 0x0A] @ ''canceled'') False)"

section \<open>Nothing is signed before the user has confirmed\<close>

lemma quiet_get_request [quiet_rules]: "quiet (get_request E t i p r)"
  unfolding get_request_def Let_def by (intro emits_rules quiet_rules)

lemma quiet_get_tx_input [quiet_rules]: "quiet (get_tx_input E i r)"
  unfolding get_tx_input_def
  by (intro emits_rules quiet_rules) (auto split: Request.splits intro: emits_rules)

lemma quiet_get_tx_output [quiet_rules]: "quiet (get_tx_output E i r)"
  unfolding get_tx_output_def
  by (intro emits_rules quiet_rules) (auto split: Request.splits intro: emits_rules)

lemma quiet_get_prevtx_init [quiet_rules]: "quiet (get_prevtx_init E i r)"
  unfolding get_prevtx_init_def Let_def
  by (intro emits_rules quiet_rules)
    (auto split: Request.splits option.splits BtcRequest.splits intro: emits_rules)

lemma quiet_get_prevtx_input [quiet_rules]: "quiet (get_prevtx_input E i j r)"
  unfolding get_prevtx_input_def
  by (intro emits_rules quiet_rules)
    (auto split: Request.splits option.splits BtcRequest.splits intro: emits_rules)

lemma quiet_get_prevtx_output [quiet_rules]: "quiet (get_prevtx_output E i j r)"
  unfolding get_prevtx_output_def
  by (intro emits_rules quiet_rules)
    (auto split: Request.splits option.splits BtcRequest.splits intro: emits_rules)

lemma quiet_get_payment_request [quiet_rules]: "quiet (get_payment_request E i r)"
  unfolding get_payment_request_def
  by (intro emits_rules quiet_rules)
    (auto split: Request.splits option.splits BtcRequest.splits intro: emits_rules)

lemma quiet_get_antiklepto_host_nonce [quiet_rules]: "quiet (get_antiklepto_host_nonce E i r)"
  unfolding get_antiklepto_host_nonce_def
  by (intro emits_rules quiet_rules)
    (auto split: Request.splits option.splits BtcRequest.splits intro: emits_rules)

end
