(* ===== verification/Btc_Signtx_Safety.thy ===== *)
theory Btc_Signtx_Safety
  imports Btc_Signtx
begin

text \<open>
  What signing a Bitcoin transaction guarantees: nothing is signed before the user has accepted
  every output that does not go back to the wallet and the total and fee, and what is signed is the
  transaction with exactly these outputs.
\<close>

section \<open>The preparation signs nothing\<close>

lemma quiet_with_cache [quiet_rules]: "quiet (with_cache f c)"
  unfolding with_cache_def by (rule emits_read)

lemma quiet_handle_prevtx [quiet_rules]: "quiet (handle_prevtx E i x r)"
proof -
  have "quiet (prevtx_input_step E i j a)" for j a
    unfolding prevtx_input_step_def
    by (cases a) (auto intro!: emits_rules quiet_rules split: prod.splits)
  moreover have "quiet (prevtx_output_step E i x j a)" for j a
    unfolding prevtx_output_step_def
    by (cases a) (auto intro!: emits_rules quiet_rules split: prod.splits)
  ultimately show ?thesis
    unfolding handle_prevtx_def Let_def
    by (auto intro!: emits_rules quiet_rules split: prod.splits)
qed

lemma quiet_pass1_input [quiet_rules]: "quiet (pass1_input E S i s)"
  unfolding pass1_input_def by (auto intro!: emits_rules quiet_rules split: prod.splits)

lemma quiet_validate_script_configs [quiet_rules]: "quiet (validate_script_configs E p cs)"
  unfolding validate_script_configs_def validate_multisig_config_def validate_policy_config_def
  by (auto intro!: emits_rules quiet_rules split: list.splits option.splits Config.splits)

lemma quiet_sign_init [quiet_rules]: "quiet (sign_init E r)"
  unfolding sign_init_def by (intro emits_rules quiet_rules)

lemma quiet_output_payload [quiet_rules]: "quiet (output_payload E S out c)"
  unfolding output_payload_def by (intro emits_rules quiet_rules)

lemma quiet_output_verify [quiet_rules]: "quiet (output_verify E S out p seen r)"
  unfolding output_verify_def output_payment_request_def
  by (auto intro!: emits_rules quiet_rules split: option.splits)

lemma quiet_output_step [quiet_rules]: "quiet (output_step E S i s)"
  unfolding output_step_def by (auto intro!: emits_rules quiet_rules split: prod.splits)

lemma quiet_confirm_warnings [quiet_rules]: "quiet (confirm_warnings E S p s)"
  unfolding confirm_warnings_def Let_def by (intro emits_rules quiet_rules)

lemma quiet_confirm_totals [quiet_rules]: "quiet (confirm_totals E S p s)"
  unfolding confirm_totals_def confirm_total_fee_def by (intro emits_rules quiet_rules)

lemma quiet_sign_prepare [quiet_rules]: "quiet (sign_prepare E r)"
  unfolding sign_prepare_def by (intro emits_rules quiet_rules)

section \<open>The cache does not matter\<close>

text \<open>
  Scripts and payloads computed through a correct cache are those computed from the keystore alone,
  i.e. with an empty cache.
\<close>

lemma sighash_script_trace [simp]: "sighash_script E (w\<lparr>w_trace := t\<rparr>) = sighash_script E w"
  by (simp add: fun_eq_iff sighash_script_def split: ValidatedScriptConfig.splits)

lemma cache_ok_trace [simp]: "cache_ok E (w\<lparr>w_trace := t\<rparr>) = cache_ok E w"
  by (simp add: fun_eq_iff cache_ok_def)

definition cache_free :: "env \<Rightarrow> world \<Rightarrow> 'a cached \<Rightarrow> bool" where
  "cache_free E w m \<longleftrightarrow> (\<forall>c a c'. cache_ok E w c \<longrightarrow> m c = (Ok a, c') \<longrightarrow>
     cache_ok E w c' \<and> m cache_new = (Ok a, cache_new))"

named_theorems cache_free_rules

lemma cache_free_xpub [cache_free_rules]: "bip32_lawful E \<Longrightarrow> cache_free E w (cached_xpub E w kp)"
proof -
  assume E: "bip32_lawful E"
  have new: "get_xpub E w kp cache_new = (keystore_get_xpub E w kp, cache_new)"
    by (simp add: get_xpub_def cache_get_xpub.simps cache_new_def)
  show ?thesis unfolding cache_free_def cached_xpub_def map_errM_Ok_iff new
    using get_xpub_refines [OF E] by blast
qed

lemma cache_free_bind [cache_free_rules]:
  "cache_free E w m \<Longrightarrow> (\<And>a. cache_free E w (f a)) \<Longrightarrow> cache_free E w (bindM m f)"
  unfolding cache_free_def bindM_Ok_iff by blast

lemma cache_free_return [cache_free_rules]: "cache_free E w (returnM a)"
  by (simp add: cache_free_def returnM_def)

lemma cache_free_lift [cache_free_rules]: "cache_free E w (liftM r)"
  by (simp add: cache_free_def liftM_def)

lemma cache_free_fail [cache_free_rules]: "cache_free E w (failM r)"
  by (simp add: cache_free_def failM_def)

lemma cache_free_payload_from [cache_free_rules]:
  assumes "bip32_lawful E" shows "cache_free E w (payload_from E w p kp a)"
proof -
  have "cache_free E w (payload_from_simple E w p s kp)" for s
    using assms by (cases s) (auto simp: payload_p2wpkh_def intro!: cache_free_rules)
  then show ?thesis
    unfolding payload_from_def
    by (auto intro!: cache_free_rules split: ValidatedScriptConfig.splits)
qed

lemma cache_free_sighash_script [cache_free_rules]:
  "bip32_lawful E \<Longrightarrow> cache_free E w (sighash_script E w a kp)"
  unfolding sighash_script_def by (auto intro!: cache_free_rules split: ValidatedScriptConfig.splits)

lemma with_cache_OkD:
  assumes "with_cache f c w = (Ok (a, c'), w')" "cache_free E w (f w)" "cache_ok E w c"
  shows "cache_ok E w c' \<and> fst (f w cache_new) = Ok a \<and> w' = w"
proof -
  obtain r d where f: "f w c = (r, d)" by force
  with assms(1) have "f w c = (Ok a, c')" "w' = w" by (auto simp: with_cache_def readM_Ok_iff)
  with assms(2,3) show ?thesis unfolding cache_free_def by fastforce
qed

section \<open>What the user has confirmed\<close>

text \<open>An output with its payload, as streamed by the host.\<close>

type_synonym txout = "BtcSignOutputRequest \<times> Payload"

text \<open>
  Change: the payload is the one the keystore has for a path of the account that is marked as
  change.
\<close>

definition is_change_output :: "env \<Rightarrow> world \<Rightarrow> session \<Rightarrow> txout \<Rightarrow> bool" where
  "is_change_output E w S = (\<lambda>(out, payload). txo_ours out \<and> output_is_change S out = Ok True \<and>
     (\<exists>account. config_at S (txo_script_config_index out) = Ok account \<and>
        validate_keypath (se_params S) account (txo_keypath out) Receive = Ok () \<and>
        fst (payload_from E w (se_params S) (txo_keypath out) account cache_new) = Ok payload))"

text \<open>
  The accepted prompts of any other output: its address and amount, or the merchant's name, the
  amount and the memos of a payment request that is valid for this address and amount.
\<close>

definition shown :: "env \<Rightarrow> session \<Rightarrow> txout \<Rightarrow> trace \<Rightarrow> bool" where
  "shown E S = (\<lambda>(out, payload) events. \<exists>addr. address E (se_params S) payload = Ok addr \<and>
     (case txo_payment_request_index out of
        None \<Rightarrow> \<exists>amount. format_amount (se_params S) (se_format_unit S) (txo_value out) = Ok amount \<and>
          events = [EvAsk (PRecipient (if txo_ours out then ''This BitBox02: '' @ addr else addr) amount) True]
      | Some _ \<Rightarrow> \<exists>r amount. payment_validate E (se_params S) r (txo_value out) addr = Ok () \<and>
          format_amount (se_params S) (se_format_unit S) (txo_value out) = Ok amount \<and>
          events = EvAsk (PRecipient (pr_recipient_name r) amount) True
            # map (memo_event (pr_recipient_name r)) (pr_memos r)))"

inductive confirmed :: "env \<Rightarrow> world \<Rightarrow> session \<Rightarrow> txout list \<Rightarrow> trace \<Rightarrow> bool" for E w S where
  start: "confirmed E w S [] []"
| other: "confirmed E w S outs t \<Longrightarrow> confirmed E w S outs (t @ u)"
| change: "confirmed E w S outs t \<Longrightarrow> is_change_output E w S out \<Longrightarrow> confirmed E w S (outs @ [out]) t"
| recipient: "confirmed E w S outs t \<Longrightarrow> shown E S out u \<Longrightarrow> confirmed E w S (outs @ [out]) (t @ u)"

definition txout_bytes :: "session \<Rightarrow> txout \<Rightarrow> bytes" where
  "txout_bytes S = (\<lambda>(out, payload). u64_le (txo_value out)
     @ (case pk_script (se_params S) payload of Ok script \<Rightarrow> lenprefixed script | _ \<Rightarrow> []))"

definition sum_values :: "txout list \<Rightarrow> nat" where
  "sum_values outs = sum_list (map (\<lambda>(out, _). unat (txo_value out)) outs)"

definition changes :: "session \<Rightarrow> txout list \<Rightarrow> txout list" where
  "changes S outs = filter (\<lambda>(out, _). output_is_change S out = Ok True) outs"

text \<open>The invariant of the loop over the outputs.\<close>

definition outs_inv :: "env \<Rightarrow> world \<Rightarrow> session \<Rightarrow> nat \<Rightarrow> outs \<Rightarrow> world \<Rightarrow> bool" where
  "outs_inv E w S n s w' \<longleftrightarrow> (\<exists>os t. w' = ext_trace w t \<and> confirmed E w S os t \<and> length os = n \<and>
     cache_ok E w (ou_cache s) \<and> ou_outputs s = concat (map (txout_bytes S) os) \<and>
     list_all (\<lambda>(out, payload). is_ok (pk_script (se_params S) payload) \<and> txo_value out \<noteq> 0) os \<and>
     unat (ou_sum_ours s) = sum_values (changes S os) \<and>
     unat (ou_sum_ours s) + unat (ou_sum_out s) = sum_values os)"

lemma output_payload_OkD:
  assumes "output_payload E S out c w = (Ok (p, c'), w')" "bip32_lawful E" "cache_ok E w c"
  shows "w' = w \<and> cache_ok E w c' \<and> (txo_ours out \<longrightarrow>
    (\<exists>account. config_at S (txo_script_config_index out) = Ok account \<and>
        validate_keypath (se_params S) account (txo_keypath out) Receive = Ok () \<and>
        fst (payload_from E w (se_params S) (txo_keypath out) account cache_new) = Ok p))"
proof (cases "txo_ours out")
  case True
  with assms(1) obtain account where *: "config_at S (txo_script_config_index out) = Ok account"
      "validate_keypath (se_params S) account (txo_keypath out) Receive = Ok ()"
      "with_cache (\<lambda>w. payload_from E w (se_params S) (txo_keypath out) account) c w = (Ok (p, c'), w')"
    by (auto simp: output_payload_def runs)
  from with_cache_OkD [OF *(3) cache_free_payload_from [OF assms(2)] assms(3)] * show ?thesis by blast
next
  case False
  with assms show ?thesis by (auto simp: output_payload_def runs)
qed

lemma is_err_False [simp]: "is_err r = Ok False \<longleftrightarrow> (\<exists>a. r = Ok a)"
  by (cases r) (simp_all add: is_err_def)

lemma payment_validate_amount: "payment_validate E p r v a = Ok () \<Longrightarrow> pr_total_amount r = v"
  by (auto simp: payment_validate_def split: if_splits)

lemma output_verify_OkD:
  assumes "output_verify E S out p seen r w = (Ok x, w')"
  shows "\<exists>t u. w' = ext_trace w (t @ u) \<and> shown E S (out, p) u"
proof -
  from assms obtain addr where addr: "address E (se_params S) p = Ok addr"
    by (auto simp: output_verify_def generic_err_def runs)
  show ?thesis
  proof (cases "txo_payment_request_index out")
    case None
    with assms addr obtain amount where
      "format_amount (se_params S) (se_format_unit S) (txo_value out) = Ok amount"
      "w' = ext_trace w [EvAsk (PRecipient
         (if txo_ours out then ''This BitBox02: '' @ addr else addr) amount) True]"
      by (auto simp: output_verify_def generic_err_def runs dest!: verify_recipient_OkD)
    with None addr show ?thesis
      by (intro exI [of _ "[]"] exI [of _ "[EvAsk (PRecipient
         (if txo_ours out then ''This BitBox02: '' @ addr else addr) amount) True]"])
        (simp add: shown_def)
  next
    case (Some ix)
    with assms addr obtain pr v r' v' y where
      pr: "get_payment_request E ix r w = (Ok (pr, r'), v)"
        "user_verify E (se_params S) pr (se_format_unit S) v = (Ok y, v')" "w' = v'"
        "payment_validate E (se_params S) pr (txo_value out) addr = Ok ()"
      by (auto simp: output_verify_def output_payment_request_def generic_err_def runs split: if_splits)
    from quiet_get_payment_request pr(1) obtain t where "v = ext_trace w t" by (rule emitsD)
    moreover from user_verify_OkD [OF pr(2)] obtain amount where
      "format_amount (se_params S) (se_format_unit S) (txo_value out) = Ok amount"
      "v' = ext_trace v (EvAsk (PRecipient (pr_recipient_name pr) amount) True
        # map (memo_event (pr_recipient_name pr)) (pr_memos pr))"
      unfolding payment_validate_amount [OF pr(4)] by blast
    ultimately show ?thesis using pr(3,4) addr Some
      by (intro exI [of _ t] exI [of _ "EvAsk (PRecipient (pr_recipient_name pr) amount) True
        # map (memo_event (pr_recipient_name pr)) (pr_memos pr)"]) (auto simp: shown_def)
  qed
qed

lemma changes_snoc [simp]: "changes S (os @ [(out, p)]) =
    changes S os @ (if output_is_change S out = Ok True then [(out, p)] else [])"
  by (simp add: changes_def)

lemma sum_values_snoc [simp]: "sum_values (os @ [(out, p)]) = sum_values os + unat (txo_value out)"
  "sum_values [] = 0"
  by (simp_all add: sum_values_def)

lemma output_step_inv:
  assumes run: "output_step E S i s v = (Ok s', v')" and inv: "outs_inv E w S n s v"
    and E: "bip32_lawful E"
  shows "outs_inv E w S (Suc n) s' v'"
proof -
  from inv obtain os t where *: "v = ext_trace w t" "confirmed E w S os t" "length os = n"
    "cache_ok E w (ou_cache s)" "ou_outputs s = concat (map (txout_bytes S) os)"
    "list_all (\<lambda>(out, payload). is_ok (pk_script (se_params S) payload) \<and> txo_value out \<noteq> 0) os"
    "unat (ou_sum_ours s) = sum_values (changes S os)"
    "unat (ou_sum_ours s) + unat (ou_sum_out s) = sum_values os"
    unfolding outs_inv_def by blast
  from run obtain out r v1 p c v2 ch seen' r2 v3 ours others script where
    1: "get_tx_output E i (ou_next s) v = (Ok (out, r), v1)" and
    2: "output_payload E S out (ou_cache s) v1 = (Ok (p, c), v2)" and
    3: "output_is_change S out = Ok ch" and
    4: "(if \<not> ch then output_verify E S out p (ou_payment_request_seen s) r
         else returnM (ou_payment_request_seen s, r)) v2 = (Ok (seen', r2), v3)" and
    5: "(if ch then checked_add_u64 (ou_sum_ours s) (txo_value out) else Some (ou_sum_ours s)) = Some ours"
       "(if ch then Some (ou_sum_out s) else checked_add_u64 (ou_sum_out s) (txo_value out)) = Some others"
       "pk_script (se_params S) p = Ok script" "txo_value out \<noteq> 0" and
    6: "v' = v3" "ou_cache s' = c" "ou_sum_ours s' = ours" "ou_sum_out s' = others"
       "ou_outputs s' = ou_outputs s @ u64_le (txo_value out) @ lenprefixed script"
    unfolding output_step_def by (auto simp: runs split: prod.splits)
  from quiet_get_tx_output 1 obtain t1 where t1: "v1 = ext_trace v t1" by (rule emitsD)
  have ok: "cache_ok E v1 (ou_cache s)" using * t1 by simp
  from output_payload_OkD [OF 2 E ok] t1 * have p: "v2 = v1" "cache_ok E w c"
    "txo_ours out \<longrightarrow> (\<exists>account. config_at S (txo_script_config_index out) = Ok account \<and>
        validate_keypath (se_params S) account (txo_keypath out) Receive = Ok () \<and>
        fst (payload_from E w (se_params S) (txo_keypath out) account cache_new) = Ok p)"
    by simp_all
  have conf: "confirmed E w S os (t @ t1)" using * by (intro confirmed.other)
  have "\<exists>t'. v3 = ext_trace w t' \<and> confirmed E w S (os @ [(out, p)]) t'"
  proof (cases ch)
    case True
    then have "txo_ours out" using 3 by (auto simp: output_is_change_def split: if_splits)
    with True 3 p have "is_change_output E w S (out, p)" by (simp add: is_change_output_def)
    with conf have "confirmed E w S (os @ [(out, p)]) (t @ t1)" by (rule confirmed.change)
    with True 4 p t1 * show ?thesis by (auto simp: runs)
  next
    case False
    with 4 have "output_verify E S out p (ou_payment_request_seen s) r v2 = (Ok (seen', r2), v3)" by simp
    from output_verify_OkD [OF this] obtain t2 u where u: "v3 = ext_trace v2 (t2 @ u)" "shown E S (out, p) u"
      by blast
    have "confirmed E w S (os @ [(out, p)]) ((t @ t1 @ t2) @ u)"
      using confirmed.recipient [OF confirmed.other [OF conf, of t2] u(2)] by simp
    with u p t1 * show ?thesis by auto
  qed
  moreover have "unat ours = sum_values (changes S (os @ [(out, p)]))
      \<and> unat ours + unat others = sum_values (os @ [(out, p)])"
    using 3 5(1,2) *(7,8) by (cases ch) (auto dest!: checked_add_u64_SomeD)
  moreover have "txout_bytes S (out, p) = u64_le (txo_value out) @ lenprefixed script"
    using 5 by (simp add: txout_bytes_def)
  ultimately show ?thesis
    unfolding outs_inv_def
    using 5 6 * p by (auto simp: is_ok_def intro!: exI [of _ "os @ [(out, p)]"])
qed

section \<open>Previous transactions are what they claim to be\<close>

definition prevtx_bytes ::
  "BtcPrevTxInitRequest \<Rightarrow> BtcPrevTxInputRequest list \<Rightarrow> BtcPrevTxOutputRequest list \<Rightarrow> bytes" where
  "prevtx_bytes init ins os = u32_le (pti_version init)
     @ serialize_varint (of_nat (length ins)) @ concat (map prevtx_input_bytes ins)
     @ serialize_varint (of_nat (length os)) @ concat (map prevtx_output_bytes os)
     @ u32_le (pti_locktime init)"

text \<open>The input spends an existing output of the claimed value.\<close>

definition prevtx_verified :: "env \<Rightarrow> BtcSignInputRequest \<Rightarrow> bool" where
  "prevtx_verified E input \<longleftrightarrow> (\<exists>init ins os. ins \<noteq> [] \<and> unat (txi_prev_out_index input) < length os \<and>
     ptout_value (os ! unat (txi_prev_out_index input)) = txi_prev_out_value input \<and>
     env_sha256 E (env_sha256 E (prevtx_bytes init ins os)) = txi_prev_out_hash input)"

lemma range_u32_split:
  assumes "range_u32 n = pre @ i # rest"
  shows "unat i = length pre \<and> length pre < unat n"
proof -
  have len: "length pre < unat n" using arg_cong [OF assms, of length] by simp
  have "i = range_u32 n ! length pre" using assms by simp
  also have "\<dots> = of_nat (length pre)" using len by (simp add: range_u32_def)
  finally have "unat i = length pre" using len unsigned_less [of n, where ?'a = nat]
    by (simp add: unat_of_nat)
  with len show ?thesis by simp
qed

lemma prevtx_inputs_OkD:
  assumes "foldM (prevtx_input_step E i) xs (h, r) w = (Ok (h', r'), w')"
  shows "\<exists>ins t. w' = ext_trace w t \<and> length ins = length xs \<and> h' = h @ concat (map prevtx_input_bytes ins)"
proof -
  let ?I = "\<lambda>(pre :: u32 list) (h' :: bytes, r' :: NextResponse) w'. \<exists>ins t. w' = ext_trace w t \<and> length ins = length pre
    \<and> h' = h @ concat (map prevtx_input_bytes ins)"
  have "?I xs (h', r') w'"
  proof (rule foldM_Ok_induct [OF assms, where I = ?I])
    show "?I [] (h, r) w" by (auto intro: exI [of _ "[]"])
  next
    fix pre j rest acc v acc' v'
    assume "?I pre acc v" and step: "prevtx_input_step E i j acc v = (Ok acc', v')"
    then obtain ins t where I: "v = ext_trace w t" "length ins = length pre"
      "fst acc = h @ concat (map prevtx_input_bytes ins)" by auto
    from step obtain x r1 where x: "get_prevtx_input E i j (snd acc) v = (Ok (x, r1), v')"
      "acc' = (fst acc @ prevtx_input_bytes x, r1)"
      by (cases acc) (auto simp: prevtx_input_step_def runs)
    from quiet_get_prevtx_input x(1) obtain u where "v' = ext_trace v u" by (rule emitsD)
    with I x(2) show "?I (pre @ [j]) acc' v'"
      by (auto intro!: exI [of _ "ins @ [x]"])
  qed
  then show ?thesis by simp
qed

lemma prevtx_outputs_OkD:
  assumes "foldM (prevtx_output_step E i x) (range_u32 n) (h, r) w = (Ok (h', r'), w')"
  shows "\<exists>os t. w' = ext_trace w t \<and> length os = unat n \<and> h' = h @ concat (map prevtx_output_bytes os)
    \<and> (unat (txi_prev_out_index x) < length os \<longrightarrow>
        ptout_value (os ! unat (txi_prev_out_index x)) = txi_prev_out_value x)"
proof -
  let ?I = "\<lambda>(pre :: u32 list) (h' :: bytes, r' :: NextResponse) w'. \<exists>os t. w' = ext_trace w t \<and> length os = length pre
    \<and> h' = h @ concat (map prevtx_output_bytes os) \<and> (unat (txi_prev_out_index x) < length os \<longrightarrow>
        ptout_value (os ! unat (txi_prev_out_index x)) = txi_prev_out_value x)"
  have "?I (range_u32 n) (h', r') w'"
  proof (rule foldM_Ok_induct [OF assms, where I = ?I])
    show "?I [] (h, r) w" by (auto intro: exI [of _ "[]"])
  next
    fix pre j rest acc v acc' v'
    assume split: "range_u32 n = pre @ j # rest" and "?I pre acc v"
      and step: "prevtx_output_step E i x j acc v = (Ok acc', v')"
    then obtain os t where I: "v = ext_trace w t" "length os = length pre"
      "fst acc = h @ concat (map prevtx_output_bytes os)"
      "unat (txi_prev_out_index x) < length os \<longrightarrow>
        ptout_value (os ! unat (txi_prev_out_index x)) = txi_prev_out_value x" by auto
    from step obtain out r1 where out: "get_prevtx_output E i j (snd acc) v = (Ok (out, r1), v')"
      "acc' = (fst acc @ prevtx_output_bytes out, r1)"
      "j = txi_prev_out_index x \<longrightarrow> txi_prev_out_value x = ptout_value out"
      by (cases acc) (auto simp: prevtx_output_step_def runs split: if_splits)
    from quiet_get_prevtx_output out(1) obtain u where "v' = ext_trace v u" by (rule emitsD)
    moreover have "j = txi_prev_out_index x \<longleftrightarrow> unat (txi_prev_out_index x) = length os"
      using range_u32_split [OF split] I(2) by (metis word_unat_eq_iff)
    ultimately show "?I (pre @ [j]) acc' v'"
      using I out(2,3) by (auto simp: nth_append less_Suc_eq intro!: exI [of _ "os @ [out]"])
  qed
  then show ?thesis by simp
qed

lemma handle_prevtx_OkD:
  assumes "handle_prevtx E i x r w = (Ok r', w')"
  shows "prevtx_verified E x \<and> (\<exists>t. w' = ext_trace w t)"
proof -
  from assms obtain init r1 w1 h1 r2 w2 h2 r3 where
    1: "get_prevtx_init E i r w = (Ok (init, r1), w1)" and
    2: "\<not> (pti_num_inputs init < 1 \<or> pti_num_outputs init < 1
         \<or> txi_prev_out_index x \<ge> pti_num_outputs init)" and
    3: "foldM (prevtx_input_step E i) (range_u32 (pti_num_inputs init))
         (u32_le (pti_version init) @ serialize_varint (ucast (pti_num_inputs init)), r1) w1 = (Ok (h1, r2), w2)" and
    4: "foldM (prevtx_output_step E i x) (range_u32 (pti_num_outputs init))
         (h1 @ serialize_varint (ucast (pti_num_outputs init)), r2) w2 = (Ok (h2, r3), w')" and
    5: "env_sha256 E (env_sha256 E (h2 @ u32_le (pti_locktime init))) = txi_prev_out_hash x"
    unfolding handle_prevtx_def Let_def by (auto simp: runs split: if_splits prod.splits)
  from quiet_get_prevtx_init 1 obtain t where t: "w1 = ext_trace w t" by (rule emitsD)
  from prevtx_inputs_OkD [OF 3] obtain ins t1 where ins: "w2 = ext_trace w1 t1"
    "length ins = unat (pti_num_inputs init)"
    "h1 = (u32_le (pti_version init) @ serialize_varint (ucast (pti_num_inputs init)))
      @ concat (map prevtx_input_bytes ins)" by auto
  from prevtx_outputs_OkD [OF 4] obtain os t2 where os: "w' = ext_trace w2 t2"
    "length os = unat (pti_num_outputs init)"
    "h2 = (h1 @ serialize_varint (ucast (pti_num_outputs init))) @ concat (map prevtx_output_bytes os)"
    "unat (txi_prev_out_index x) < length os \<longrightarrow>
        ptout_value (os ! unat (txi_prev_out_index x)) = txi_prev_out_value x" by blast
  have "(of_nat (length ins) :: u64) = ucast (pti_num_inputs init)"
    "(of_nat (length os) :: u64) = ucast (pti_num_outputs init)"
    unfolding ins(2) os(2) by simp_all
  then have "h2 @ u32_le (pti_locktime init) = prevtx_bytes init ins os"
    unfolding os(3) ins(3) prevtx_bytes_def by simp
  moreover from 2 have "ins \<noteq> []" "unat (txi_prev_out_index x) < length os"
    using ins(2) os(2) by (auto simp: word_less_nat_alt word_le_nat_alt)
  ultimately have "prevtx_verified E x"
    unfolding prevtx_verified_def using 5 os(4) by (intro exI [of _ init] exI [of _ ins] exI [of _ os]) simp
  with t ins(1) os(1) show ?thesis by auto
qed

section \<open>The first pass\<close>

definition outpoint_bytes :: "BtcSignInputRequest \<Rightarrow> bytes" where
  "outpoint_bytes x = txi_prev_out_hash x @ u32_le (txi_prev_out_index x)"

definition sum_inputs :: "BtcSignInputRequest list \<Rightarrow> nat" where
  "sum_inputs ins = sum_list (map (\<lambda>x. unat (txi_prev_out_value x)) ins)"

text \<open>The input belongs to an account of the session, and \<open>script\<close> is its output script there.\<close>

definition our_input :: "env \<Rightarrow> world \<Rightarrow> session \<Rightarrow> BtcSignInputRequest \<Rightarrow> bytes \<Rightarrow> bool" where
  "our_input E w S x script \<longleftrightarrow> (\<exists>account payload. config_at S (txi_script_config_index x) = Ok account \<and>
     validate_input x (se_params S) account = Ok () \<and>
     fst (payload_from E w (se_params S) (txi_keypath x) account cache_new) = Ok payload \<and>
     pk_script (se_params S) payload = Ok script)"

definition pass1_inv :: "env \<Rightarrow> world \<Rightarrow> session \<Rightarrow> nat \<Rightarrow> pass1 \<Rightarrow> world \<Rightarrow> bool" where
  "pass1_inv E w S n s w' \<longleftrightarrow> (\<exists>ins scripts t. w' = ext_trace w t \<and> length ins = n \<and>
     cache_ok E w (p1_cache s) \<and> unat (p1_sum s) = sum_inputs ins \<and>
     p1_prevouts s = concat (map outpoint_bytes ins) \<and>
     p1_sequence s = concat (map (\<lambda>x. u32_le (txi_sequence x)) ins) \<and>
     p1_amounts s = concat (map (\<lambda>x. u64_le (txi_prev_out_value x)) ins) \<and>
     p1_scriptpubkeys s = concat (map lenprefixed scripts) \<and> list_all2 (our_input E w S) ins scripts \<and>
     (\<not> list_all is_taproot (se_configs S) \<longrightarrow> list_all (prevtx_verified E) ins))"

lemma pass1_step_inv:
  assumes run: "pass1_input E S i s v = (Ok s', v')" and inv: "pass1_inv E w S n s v"
    and E: "bip32_lawful E"
  shows "pass1_inv E w S (Suc n) s' v'"
proof -
  from inv obtain ins scripts t where *: "v = ext_trace w t" "length ins = n"
     "cache_ok E w (p1_cache s)" "unat (p1_sum s) = sum_inputs ins"
     "p1_prevouts s = concat (map outpoint_bytes ins)"
     "p1_sequence s = concat (map (\<lambda>x. u32_le (txi_sequence x)) ins)"
     "p1_amounts s = concat (map (\<lambda>x. u64_le (txi_prev_out_value x)) ins)"
     "p1_scriptpubkeys s = concat (map lenprefixed scripts)" "list_all2 (our_input E w S) ins scripts"
     "\<not> list_all is_taproot (se_configs S) \<longrightarrow> list_all (prevtx_verified E) ins"
    unfolding pass1_inv_def by blast
  let ?tap = "list_all is_taproot (se_configs S)"
  from run obtain x r v1 account total p c v2 script r' where
    1: "get_tx_input E i (p1_next s) v = (Ok (x, r), v1)" and
    2: "config_at S (txi_script_config_index x) = Ok account" "validate_input x (se_params S) account = Ok ()"
       "checked_add_u64 (p1_sum s) (txi_prev_out_value x) = Some total" and
    3: "with_cache (\<lambda>w. payload_from E w (se_params S) (txi_keypath x) account) (p1_cache s) v1 = (Ok (p, c), v2)" and
    4: "pk_script (se_params S) p = Ok script" and
    5: "(if ?tap then returnM r else handle_prevtx E i x r) v2 = (Ok r', v')" and
    6: "p1_cache s' = c" "p1_sum s' = total" "p1_prevouts s' = p1_prevouts s @ outpoint_bytes x"
       "p1_sequence s' = p1_sequence s @ u32_le (txi_sequence x)"
       "p1_amounts s' = p1_amounts s @ u64_le (txi_prev_out_value x)"
       "p1_scriptpubkeys s' = p1_scriptpubkeys s @ lenprefixed script"
    unfolding pass1_input_def outpoint_bytes_def by (auto simp: runs split: prod.splits)
  from quiet_get_tx_input 1 obtain t1 where t1: "v1 = ext_trace v t1" by (rule emitsD)
  have "cache_ok E v1 (p1_cache s)" using * t1 by simp
  from with_cache_OkD [OF 3 cache_free_payload_from [OF E] this] * t1
  have c: "cache_ok E w c" "fst (payload_from E w (se_params S) (txi_keypath x) account cache_new) = Ok p"
    "v2 = v1" by simp_all
  from 5 have "(\<not> ?tap \<longrightarrow> prevtx_verified E x) \<and> (\<exists>t. v' = ext_trace v2 t)"
    by (cases ?tap) (auto simp: runs intro: exI [of _ "[]"] dest!: handle_prevtx_OkD)
  then obtain t2 where t2: "v' = ext_trace w ((t @ t1) @ t2)" and prev: "\<not> ?tap \<longrightarrow> prevtx_verified E x"
    using * t1 c by auto
  have "our_input E w S x script" unfolding our_input_def using 2 4 c by blast
  then have "list_all2 (our_input E w S) (ins @ [x]) (scripts @ [script])"
    using * by (simp add: list_all2_appendI)
  moreover have "unat total = sum_inputs (ins @ [x])"
    using checked_add_u64_SomeD [OF 2(3)] * by (simp add: sum_inputs_def)
  ultimately show ?thesis
    unfolding pass1_inv_def using 6 * c t2 prev
    by (intro exI [of _ "ins @ [x]"] exI [of _ "scripts @ [script]"] exI [of _ "(t @ t1) @ t2"]) simp
qed

section \<open>Approval\<close>

text \<open>
  The transaction \<open>(ins, os)\<close> behind the hashes of a prepared session was approved in the trace
  \<open>t\<close>: every output is change or was shown and accepted, and the total and the fee of exactly these
  inputs and outputs were shown and accepted. The inputs are ours, and unless all accounts are
  taproot each spends an existing output of the claimed value.
\<close>

definition fee_percentage :: "session \<Rightarrow> txout list \<Rightarrow> u64 \<Rightarrow> f64 option" where
  "fee_percentage S os fee = (let sent = sum_values os - sum_values (changes S os) in
     if sent = 0 then None else Some (percentage_f64 (unat fee) sent))"

definition approved :: "env \<Rightarrow> world \<Rightarrow> prepared \<Rightarrow> trace \<Rightarrow> bool" where
  "approved E w P t \<longleftrightarrow> (let S = pr_session P in \<exists>ins scripts os t1 t2 total_out fee total_str fee_str.
     length ins = unat (bsi_num_inputs (se_request S)) \<and>
     length os = unat (bsi_num_outputs (se_request S)) \<and>
     list_all2 (our_input E w S) ins scripts \<and>
     (\<not> list_all is_taproot (se_configs S) \<longrightarrow> list_all (prevtx_verified E) ins) \<and>
     t = t1 @ fee_events total_str fee_str (fee_percentage S os fee) @ t2 \<and> confirmed E w S os t1 \<and>
     format_amount (se_params S) (se_format_unit S) total_out = Ok total_str \<and>
     format_amount (se_params S) (se_format_unit S) fee = Ok fee_str \<and>
     sum_inputs ins = unat total_out + sum_values (changes S os) \<and>
     sum_inputs ins = unat fee + sum_values os \<and>
     unat (pr_sum_pass1 P) = sum_inputs ins \<and>
     pr_hash_prevouts P = env_sha256 E (concat (map outpoint_bytes ins)) \<and>
     pr_hash_sequence P = env_sha256 E (concat (map (\<lambda>x. u32_le (txi_sequence x)) ins)) \<and>
     pr_hash_amounts P = env_sha256 E (concat (map (\<lambda>x. u64_le (txi_prev_out_value x)) ins)) \<and>
     pr_hash_scriptpubkeys P = env_sha256 E (concat (map lenprefixed scripts)) \<and>
     pr_hash_outputs P = env_sha256 E (concat (map (txout_bytes S) os)))"

lemma approved_append: "approved E w P t \<Longrightarrow> approved E w P (t @ u)"
  unfolding approved_def Let_def by (metis append.assoc)

lemma confirm_totals_OkD:
  assumes "confirm_totals E S p1 s w = (Ok (), w')"
  shows "\<exists>t1 t2 total_out fee total_str fee_str. checked_sub_u64 (p1_sum p1) (ou_sum_ours s) = Some total_out \<and>
    checked_sub_u64 total_out (ou_sum_out s) = Some fee \<and>
    format_amount (se_params S) (se_format_unit S) total_out = Ok total_str \<and>
    format_amount (se_params S) (se_format_unit S) fee = Ok fee_str \<and>
    w' = ext_trace w (t1 @ fee_events total_str fee_str (if ou_sum_out s = 0 then None
      else Some (percentage_f64 (unat fee) (unat (ou_sum_out s)))) @ t2)"
proof -
  from assms obtain w1 where 1: "confirm_warnings E S p1 s w = (Ok (), w1)"
    and rest: "confirm_total_fee E S p1 s w1 = (Ok (), w')"
    unfolding confirm_totals_def by (auto simp: runs)
  from rest obtain total_out fee where
    2: "checked_sub_u64 (p1_sum p1) (ou_sum_ours s) = Some total_out"
    "checked_sub_u64 total_out (ou_sum_out s) = Some fee"
    unfolding confirm_total_fee_def by (auto simp: runs)
  with rest obtain total_str fee_str w2 where
    str: "format_amount (se_params S) (se_format_unit S) total_out = Ok total_str"
    "format_amount (se_params S) (se_format_unit S) fee = Ok fee_str" and
    3: "verify_total_fee E total_str fee_str (if ou_sum_out s = 0 then None
      else Some (percentage_f64 (unat fee) (unat (ou_sum_out s)))) w1 = (Ok (), w2)" and
    4: "(status (''Transaction'' @ [CHR 0x0A] @ ''confirmed'') True :: unit handler) w2 = (Ok (), w')"
    unfolding confirm_total_fee_def by (auto simp: runs split del: if_split)
  from quiet_confirm_warnings 1 obtain u1 where "w1 = ext_trace w u1" by (rule emitsD)
  moreover from quiet_status 4 obtain u2 where "w' = ext_trace w2 u2" by (rule emitsD)
  ultimately show ?thesis
    using 2 str verify_total_fee_OkD [OF 3]
    by (intro exI [of _ u1] exI [of _ u2] exI [of _ total_out] exI [of _ fee] exI [of _ total_str]
        exI [of _ fee_str]) simp
qed

lemma sign_init_OkD: "sign_init E request w = (Ok S, w') \<Longrightarrow> se_request S = request"
  unfolding sign_init_def by (auto simp: runs)

lemma cache_ok_setup: "cache_ok E w c \<Longrightarrow> cache_ok E w (setup_xpub_cache cs c)"
  unfolding setup_xpub_cache_def
  by (induction cs arbitrary: c) (auto split: option.splits Config.splits)

lemma loop_inv:
  assumes "foldM f (range_u32 n) a v = (Ok b, v')" and "I 0 a v"
    and "\<And>k i acc u acc' u'. I k acc u \<Longrightarrow> f i acc u = (Ok acc', u') \<Longrightarrow> I (Suc k) acc' u'"
  shows "I (unat n) b v'"
  using foldM_Ok_induct [OF assms(1), where I = "\<lambda>pre. I (length pre)"] assms(2,3) by fastforce

lemma pass1_loop_inv:
  assumes "foldM (pass1_input E S) (range_u32 n) (pass1_init request) (ext_trace w t) = (Ok p1, v)"
    and E: "bip32_lawful E"
  shows "pass1_inv E w S (unat n) p1 v"
proof (rule loop_inv [OF assms(1), where I = "pass1_inv E w S"])
  show "pass1_inv E w S 0 (pass1_init request) (ext_trace w t)"
    unfolding pass1_inv_def using cache_ok_setup [OF cache_ok_new]
    by (intro exI [of _ "[]"] exI [of _ t]) (simp add: pass1_init_def sum_inputs_def)
qed (rule pass1_step_inv [OF _ _ E])

lemma outs_loop_inv:
  assumes "foldM (output_step E S) (range_u32 n) (outs_init p1) v = (Ok s, v')"
    and "pass1_inv E w S m p1 v" and E: "bip32_lawful E"
  shows "outs_inv E w S (unat n) s v'"
proof (rule loop_inv [OF assms(1), where I = "outs_inv E w S"])
  from assms(2) obtain t where "v = ext_trace w t" "cache_ok E w (p1_cache p1)"
    unfolding pass1_inv_def by blast
  then show "outs_inv E w S 0 (outs_init p1) v"
    unfolding outs_inv_def using confirmed.other [OF confirmed.start, of E w S t]
    by (intro exI [of _ "[]"] exI [of _ t]) (simp add: changes_def outs_init_def)
qed (rule output_step_inv [OF _ _ E])

lemma fee_percentage_eq:
  assumes "unat ours = sum_values (changes S os)" "unat ours + unat (others :: u64) = sum_values os"
  shows "fee_percentage S os fee = (if others = 0 then None
      else Some (percentage_f64 (unat fee) (unat others)))"
proof -
  have "sum_values os - sum_values (changes S os) = unat others" using assms by simp
  then show ?thesis by (simp add: fee_percentage_def unat_eq_zero)
qed

lemma approvedI:
  assumes p1: "pass1_inv E w S (unat (bsi_num_inputs (se_request S))) p1 v"
    and s: "outs_inv E w S (unat (bsi_num_outputs (se_request S))) s v'"
    and run: "confirm_totals E S p1 s v' = (Ok (), w')"
  shows "\<exists>t. w' = ext_trace w t \<and> approved E w (finalize_hashers E S p1 s) t"
proof -
  from p1 obtain ins scripts where ins: "length ins = unat (bsi_num_inputs (se_request S))"
     "unat (p1_sum p1) = sum_inputs ins"
     "p1_prevouts p1 = concat (map outpoint_bytes ins)"
     "p1_sequence p1 = concat (map (\<lambda>x. u32_le (txi_sequence x)) ins)"
     "p1_amounts p1 = concat (map (\<lambda>x. u64_le (txi_prev_out_value x)) ins)"
     "p1_scriptpubkeys p1 = concat (map lenprefixed scripts)" "list_all2 (our_input E w S) ins scripts"
     "\<not> list_all is_taproot (se_configs S) \<longrightarrow> list_all (prevtx_verified E) ins"
    unfolding pass1_inv_def by blast
  from s obtain os u where os: "v' = ext_trace w u" "confirmed E w S os u"
     "length os = unat (bsi_num_outputs (se_request S))"
     "ou_outputs s = concat (map (txout_bytes S) os)"
     "unat (ou_sum_ours s) = sum_values (changes S os)"
     "unat (ou_sum_ours s) + unat (ou_sum_out s) = sum_values os"
    unfolding outs_inv_def by blast
  from confirm_totals_OkD [OF run] obtain t1 t2 total_out fee total_str fee_str where
    tot: "checked_sub_u64 (p1_sum p1) (ou_sum_ours s) = Some total_out"
    "checked_sub_u64 total_out (ou_sum_out s) = Some fee"
    "format_amount (se_params S) (se_format_unit S) total_out = Ok total_str"
    "format_amount (se_params S) (se_format_unit S) fee = Ok fee_str"
    "w' = ext_trace v' (t1 @ fee_events total_str fee_str (fee_percentage S os fee) @ t2)"
    unfolding fee_percentage_eq [OF os(5,6), symmetric] by blast
  have "sum_inputs ins = unat total_out + sum_values (changes S os)"
    "sum_inputs ins = unat fee + sum_values os"
    using checked_sub_u64_SomeD [OF tot(1)] checked_sub_u64_SomeD [OF tot(2)] ins(2) os(5,6) by arith+
  then have "approved E w (finalize_hashers E S p1 s)
      ((u @ t1) @ fee_events total_str fee_str (fee_percentage S os fee) @ t2)"
    unfolding approved_def Let_def finalize_hashers_def prepared.simps
    using ins os tot confirmed.other [OF os(2), of t1]
    by (intro exI [of _ ins] exI [of _ scripts] exI [of _ os] exI [of _ "u @ t1"] exI [of _ t2]
        exI [of _ total_out] exI [of _ fee] exI [of _ total_str] exI [of _ fee_str]) simp
  with os(1) tot(5) show ?thesis by auto
qed

lemma sign_prepare_OkD:
  assumes run: "sign_prepare E request w = (Ok (P, s2), w')" and E: "bip32_lawful E"
  shows "se_request (pr_session P) = request \<and> cache_ok E w (p2_cache s2)
    \<and> (\<exists>t. w' = ext_trace w t \<and> approved E w P t)"
proof -
  from run obtain S v1 p1 v2 s v3 where
    1: "sign_init E request w = (Ok S, v1)" and
    2: "foldM (pass1_input E S) (range_u32 (bsi_num_inputs request)) (pass1_init request) v1 = (Ok p1, v2)" and
    3: "foldM (output_step E S) (range_u32 (bsi_num_outputs request)) (outs_init p1) v2 = (Ok s, v3)" and
    4: "confirm_totals E S p1 s v3 = (Ok (), w')" and
    5: "P = finalize_hashers E S p1 s" "p2_cache s2 = ou_cache s"
    unfolding sign_prepare_def by (auto simp: runs)
  have S: "se_request S = request" by (rule sign_init_OkD [OF 1])
  from quiet_sign_init 1 obtain t where "v1 = ext_trace w t" by (rule emitsD)
  with 2 have p1: "pass1_inv E w S (unat (bsi_num_inputs (se_request S))) p1 v2"
    using pass1_loop_inv [OF _ E] unfolding S by blast
  from outs_loop_inv [OF 3 this E] have s: "outs_inv E w S (unat (bsi_num_outputs (se_request S))) s v3"
    unfolding S .
  have "cache_ok E w (ou_cache s)" using s unfolding outs_inv_def by blast
  with approvedI [OF p1 s 4] 5 S show ?thesis by (simp add: finalize_hashers_def)
qed

section \<open>What is signed\<close>

text \<open>
  A use of the private key that signs for an input of an account of the session, with the digests
  of the prepared session: Schnorr on the BIP341 hash for taproot, ECDSA on the BIP143 hash, with
  the script the account has at the input's path, for the others.
\<close>

definition signed_as :: "env \<Rightarrow> world \<Rightarrow> prepared \<Rightarrow> event \<Rightarrow> bool" where
  "signed_as E w P e \<longleftrightarrow> (\<exists>x account. config_at (pr_session P) (txi_script_config_index x) = Ok account \<and>
     validate_input x (se_params (pr_session P)) account = Ok () \<and>
     txi_prev_out_value x \<le> pr_sum_pass1 P \<and>
     (if is_taproot account
      then \<exists>i. e = EvSchnorrSign (txi_keypath x) (bip341_sighash (env_sha256 E) (taproot_args P i))
      else \<exists>script nonce. length (txi_prev_out_hash x) = 32 \<and>
        fst (sighash_script E w account (txi_keypath x) cache_new) = Ok script \<and>
        e = EvSign (txi_keypath x) (bip143_sighash (env_sha256 E) (segwit_args E P x script)) nonce))"

lemma yields_quiet: "quiet m \<Longrightarrow> yields w (\<lambda>e. signs e \<longrightarrow> A e) (\<lambda>_. True) m"
  by (rule yields_emits, erule emits_mono) simp

lemma yields_with_cache:
  assumes "cache_free E w (f w)" "\<And>t. f (ext_trace w t) = f w" "cache_ok E w c"
  shows "yields w P (\<lambda>(a, c'). cache_ok E w c' \<and> fst (f w cache_new) = Ok a) (with_cache f c)"
  unfolding with_cache_def
proof (rule yields_weaken [OF yields_read])
  fix ac :: "'a \<times> Bip32XpubCache"
  assume a: "(case f w c of (r, cache) \<Rightarrow> bindR r (\<lambda>a. Ok (a, cache))) = Ok ac"
  obtain r d where f: "f w c = (r, d)" by force
  with a have "f w c = (Ok (fst ac), snd ac)" by auto
  with assms(1,3) show "case ac of (a, c') \<Rightarrow> cache_ok E w c' \<and> fst (f w cache_new) = Ok a"
    unfolding cache_free_def by (cases ac) fastforce
qed (use assms(2) in simp)

lemma yields_sign_taproot:
  assumes "config_at (pr_session P) (txi_script_config_index x) = Ok account"
    "validate_input x (se_params (pr_session P)) account = Ok ()" "txi_prev_out_value x \<le> pr_sum_pass1 P"
    "is_taproot account"
  shows "yields w (\<lambda>e. signs e \<longrightarrow> signed_as E w P e) (\<lambda>_. True) (sign_taproot E P i x r)"
proof -
  have "signed_as E w P (EvSchnorrSign (txi_keypath x) (bip341_sighash (env_sha256 E) (taproot_args P i)))"
    unfolding signed_as_def using assms by (intro exI [of _ x] exI [of _ account]) auto
  then show ?thesis
    unfolding sign_taproot_def
    by (intro yields_rules yields_emits emits_rules emits_schnorr_sign) simp_all
qed

lemma quiet_antiklepto_host_nonce [quiet_rules]: "quiet (antiklepto_host_nonce E i x h r)"
  unfolding antiklepto_host_nonce_def
  by (auto intro!: emits_rules quiet_rules split: option.splits prod.splits)

lemma yields_sign_segwit:
  assumes "config_at (pr_session P) (txi_script_config_index x) = Ok account"
    "validate_input x (se_params (pr_session P)) account = Ok ()" "txi_prev_out_value x \<le> pr_sum_pass1 P"
    "\<not> is_taproot account" "bip32_lawful E" "cache_ok E w c"
  shows "yields w (\<lambda>e. signs e \<longrightarrow> signed_as E w P e) (\<lambda>(_, c'). cache_ok E w c')
    (sign_segwit E P i x account c r)"
proof -
  have ok: "signed_as E w P (EvSign (txi_keypath x)
      (bip143_sighash (env_sha256 E) (segwit_args E P x script)) nonce)"
    if "length (txi_prev_out_hash x) = 32"
      "fst (sighash_script E w account (txi_keypath x) cache_new) = Ok script" for script nonce
    unfolding signed_as_def using assms that by (intro exI [of _ x] exI [of _ account]) auto
  have sign: "yields w (\<lambda>e. signs e \<longrightarrow> signed_as E w P e) (\<lambda>(_, c'). cache_ok E w c')
      (let sighash = bip143_sighash (env_sha256 E) (segwit_args E P x script) in
       bindM (antiklepto_host_nonce E i x sighash r) (\<lambda>(host_nonce, next_response).
       bindM (map_errM (\<lambda>_. ErrGeneric) (secp256k1_sign E (txi_keypath x) sighash host_nonce)) (\<lambda>(sig, _).
       returnM (next_response\<lparr>nr_next := (nr_next next_response)\<lparr>bsn_has_signature := True,
         bsn_signature := sig\<rparr>\<rparr>, c'))))"
    if "length (txi_prev_out_hash x) = 32" "cache_ok E w c'"
      "fst (sighash_script E w account (txi_keypath x) cache_new) = Ok script" for script c'
    unfolding Let_def split_def using that(2) ok [OF that(1,3)]
    by (intro yields_bind [OF yields_quiet [OF quiet_antiklepto_host_nonce]]
        yields_bind [OF yields_emits] yields_rules emits_rules emits_secp256k1_sign) auto
  show ?thesis
    unfolding sign_segwit_def
    apply (rule yields_bind [OF yields_lift])
    apply (rule yields_bind [OF yields_with_cache])
       apply (rule cache_free_sighash_script [OF assms(5)])
      apply simp
     apply (rule assms(6))
    apply (auto intro: sign split: if_splits)
    done
qed

lemma checked_add_u64_le: "checked_add_u64 a b = Some c \<Longrightarrow> \<not> d < c \<Longrightarrow> b \<le> d"
  by (auto simp: word_le_nat_alt word_less_nat_alt dest!: checked_add_u64_SomeD)

lemma yields_sign_input:
  assumes "config_at (pr_session P) (txi_script_config_index x) = Ok account"
    "validate_input x (se_params (pr_session P)) account = Ok ()" "txi_prev_out_value x \<le> pr_sum_pass1 P"
    and E: "bip32_lawful E" and c: "cache_ok E w c"
  shows "yields w (\<lambda>e. signs e \<longrightarrow> signed_as E w P e) (\<lambda>(_, c'). cache_ok E w c')
    (sign_input E P i x account c r)"
proof (cases "is_taproot account")
  case True
  show ?thesis
    unfolding sign_input_def using True c
    by (simp add: yields_bind [OF yields_sign_taproot [OF assms(1-3) True]] yields_return)
next
  case False
  then show ?thesis unfolding sign_input_def by (simp add: yields_sign_segwit assms)
qed

lemma yields_pass2_input:
  assumes E: "bip32_lawful E" and c: "cache_ok E w (p2_cache s)"
  shows "yields w (\<lambda>e. signs e \<longrightarrow> signed_as E w P e) (\<lambda>s'. cache_ok E w (p2_cache s'))
    (pass2_input E P i s)"
  unfolding pass2_input_def split_def
  by (intro yields_bind [OF yields_quiet [OF quiet_get_tx_input]] yields_bind [OF yields_lift]
      yields_bind [OF yields_guard] yields_bind [OF yields_sign_input [OF _ _ _ E c]] yields_return)
    (auto intro: checked_add_u64_le)

lemma yields_sign_inputs:
  assumes "bip32_lawful E" "cache_ok E w (p2_cache s)"
  shows "yields w (\<lambda>e. signs e \<longrightarrow> signed_as E w P e) (\<lambda>_. True) (sign_inputs E (P, s))"
proof -
  have "yields w (\<lambda>e. signs e \<longrightarrow> signed_as E w P e) (\<lambda>s'. cache_ok E w (p2_cache s'))
      (foldM (pass2_input E P) xs s)" for xs
    by (rule yields_foldM [where I = "\<lambda>s. cache_ok E w (p2_cache s)"])
      (use assms in \<open>auto intro: yields_pass2_input\<close>)
  then show ?thesis
    unfolding sign_inputs_def prod.case
    by (rule yields_bind) (intro yields_bind [OF yields_guard] yields_return TrueI)
qed

text \<open>
  C1: however the signing of a transaction ends, every use of a private key in it comes after the
  user approved the transaction and signs for exactly that transaction. At the time of the
  signature, the trace contains the accepted prompts of every output that is not change to the
  wallet's own keys (address and amount, or a validated payment request) and of the total and the
  fee of all inputs and outputs; the digests signed are those of these inputs and outputs; and the
  key is the one of an input of an account that was checked.
\<close>

theorem signtx_signs_what_was_approved:
  assumes E: "bip32_lawful E" and run: "signtx_process E request w = (r, w')"
    and "w_trace w' = w_trace w @ t @ e # u" and e: "signs e"
  shows "\<exists>P. se_request (pr_session P) = request \<and> approved E w P t \<and> signed_as E w P e"
proof -
  have "\<exists>a q v. sign_prepare E request w = (Ok a, ext_trace w q) \<and> t = q @ v \<and> signed_as E w (fst a) e"
  proof (rule signature_after)
    show "on_user_abort (bindM (sign_prepare E request) (sign_inputs E))
        (status (''Transaction'' @ [CHR 0x0A] @ ''canceled'') False) w = (r, w')"
      using run unfolding signtx_process_def signtx_inner_def .
    fix a q
    assume "sign_prepare E request w = (Ok a, ext_trace w q)"
    then have "cache_ok E w (p2_cache (snd a))" using sign_prepare_OkD [OF _ E] by (cases a) auto
    then show "yields w (\<lambda>e. signs e \<longrightarrow> signed_as E w (fst a) e) (\<lambda>_. True) (sign_inputs E a)"
      using yields_sign_inputs [OF E, of w "snd a" "fst a"] by simp
  qed (use assms in \<open>auto intro: quiet_rules\<close>)
  then obtain P s2 q v where *: "sign_prepare E request w = (Ok (P, s2), ext_trace w q)" "t = q @ v"
    "signed_as E w P e" by auto
  from sign_prepare_OkD [OF *(1) E] obtain t' where "se_request (pr_session P) = request"
    "ext_trace w q = ext_trace w t'" "approved E w P t'" by blast
  moreover from this(2) have "t' = q" using arg_cong [of _ _ w_trace] by fastforce
  ultimately show ?thesis using * approved_append by blast
qed

section \<open>Every input is signed\<close>

text \<open>The number of signatures in a trace.\<close>

definition signatures :: "trace \<Rightarrow> nat" where
  "signatures t = length (filter signs t)"

lemma signatures_append [simp]: "signatures (t @ u) = signatures t + signatures u"
  by (simp add: signatures_def)

lemma quiet_signatures:
  assumes "quiet m" "m w = (r, w')" obtains t where "w' = ext_trace w t" "signatures t = 0"
  using assms by (rule emitsD) (use that in \<open>auto simp: signatures_def list_all_iff filter_empty_conv\<close>)

lemma sign_segwit_signs:
  assumes "sign_segwit E P i x account c r v = (Ok (r', c'), w')"
  shows "\<exists>t. w' = ext_trace v t \<and> signatures t = 1"
proof -
  from assms obtain script c1 where
    s: "with_cache (\<lambda>w. sighash_script E w account (txi_keypath x)) c v = (Ok (script, c1), v)"
    by (auto simp: sign_segwit_def with_cache_def runs Let_def split: prod.splits)
  let ?h = "bip143_sighash (env_sha256 E) (segwit_args E P x script)"
  from assms s obtain nonce r1 v1 sig where a: "antiklepto_host_nonce E i x ?h r v = (Ok (nonce, r1), v1)"
    and g: "secp256k1_sign E (txi_keypath x) ?h nonce v1 = (Ok sig, w')"
    by (auto simp: sign_segwit_def runs Let_def split: prod.splits)
  from quiet_antiklepto_host_nonce a obtain u where "v1 = ext_trace v u" "signatures u = 0"
    by (rule quiet_signatures)
  moreover from g have "w' = ext_trace v1 [EvSign (txi_keypath x) ?h nonce]"
    by (auto simp: secp256k1_sign_def runs)
  ultimately show ?thesis
    by (intro exI [of _ "u @ [EvSign (txi_keypath x) ?h nonce]"]) (simp add: signatures_def)
qed

lemma pass2_input_signs:
  assumes "pass2_input E P i s w = (Ok s', w')"
  shows "\<exists>t. w' = ext_trace w t \<and> signatures t = 1"
proof -
  from assms obtain x r v account r' c' where 1: "get_tx_input E i (p2_next s) w = (Ok (x, r), v)"
    and 2: "sign_input E P i x account (p2_cache s) r v = (Ok (r', c'), w')"
    unfolding pass2_input_def by (auto simp: runs split: prod.splits)
  from quiet_get_tx_input 1 obtain t where t: "v = ext_trace w t" "signatures t = 0"
    by (rule quiet_signatures)
  have "\<exists>u. w' = ext_trace v u \<and> signatures u = 1"
  proof (cases "is_taproot account")
    case True
    with 2 have "sign_taproot E P i x r v = (Ok r', w')" by (auto simp: sign_input_def runs)
    then show ?thesis
      by (auto simp: sign_taproot_def secp256k1_schnorr_bip86_sign_def random_32_bytes_def runs signatures_def)
  next
    case False
    with 2 show ?thesis by (intro sign_segwit_signs) (simp add: sign_input_def)
  qed
  with t show ?thesis by auto
qed

lemma sign_inputs_signs:
  assumes "sign_inputs E (P, s) w = (Ok resp, w')"
  shows "\<exists>t. w' = ext_trace w t \<and> signatures t = unat (bsi_num_inputs (se_request (pr_session P)))"
proof -
  from assms obtain s' where
    "foldM (pass2_input E P) (range_u32 (bsi_num_inputs (se_request (pr_session P)))) s w = (Ok s', w')"
    by (auto simp: sign_inputs_def runs)
  then show ?thesis
  proof (rule loop_inv [where I = "\<lambda>n _ w'. \<exists>t. w' = ext_trace w t \<and> signatures t = n"])
    show "\<exists>t. w = ext_trace w t \<and> signatures t = 0" by (intro exI [of _ "[]"]) (simp add: signatures_def)
  next
    fix k i acc u acc' u'
    assume "\<exists>t. u = ext_trace w t \<and> signatures t = k" "pass2_input E P i acc u = (Ok acc', u')"
    with pass2_input_signs obtain t t' where "u' = ext_trace w (t @ t')" "signatures (t @ t') = Suc k"
      by (force simp: signatures_append)
    then show "\<exists>t. u' = ext_trace w t \<and> signatures t = Suc k" by blast
  qed
qed


text \<open>
  C3: an input whose previous transaction was streamed spends an existing output of the claimed
  value: the double SHA-256 hash of a transaction with at least one input, whose output at the
  claimed index has the claimed value, is the claimed transaction hash.
\<close>

theorem handle_prevtx_sound:
  assumes "handle_prevtx E input_index input next_response w = (Ok next_response', w')"
  shows "prevtx_verified E input"
  using handle_prevtx_OkD [OF assms] by blast

section \<open>A concrete session\<close>

text \<open>A taproot account with one input of 110 satoshi that pays 100 satoshi to an address.\<close>

definition sample_prevtx :: "BtcPrevTxInitRequest \<times> BtcPrevTxInputRequest \<times> BtcPrevTxOutputRequest" where
  "sample_prevtx = (\<lparr>pti_version = 1, pti_num_inputs = 1, pti_num_outputs = 1, pti_locktime = 0\<rparr>,
     \<lparr>ptin_prev_out_hash = replicate 32 3, ptin_prev_out_index = 0, ptin_signature_script = [], ptin_sequence = 0\<rparr>,
     \<lparr>ptout_value = 110, ptout_pubkey_script = [1, 2]\<rparr>)"

definition sample_input :: BtcSignInputRequest where
  "sample_input = \<lparr>txi_prev_out_hash = (case sample_prevtx of (init, i, out) \<Rightarrow> prevtx_bytes init [i] [out]),
     txi_prev_out_index = 0, txi_prev_out_value = 110, txi_sequence = 1,
     txi_keypath = [86 + HARDENED, 0 + HARDENED, 0 + HARDENED, 0, 0],
     txi_script_config_index = 0, txi_host_nonce_commitment = None\<rparr>"

definition sample_output :: BtcSignOutputRequest where
  "sample_output = \<lparr>txo_ours = False, txo_type = 3, txo_value = 100, txo_payload = replicate 20 1,
     txo_keypath = [], txo_script_config_index = 0, txo_payment_request_index = None\<rparr>"

definition sample_sign_request :: BtcSignInitRequest where
  "sample_sign_request = \<lparr>bsi_coin = 0,
     bsi_script_configs = [\<lparr>sck_script_config = Some (Some (ConfigSimpleType 2)),
       sck_keypath = [86 + HARDENED, 0 + HARDENED, 0 + HARDENED]\<rparr>],
     bsi_version = 2, bsi_num_inputs = 1, bsi_num_outputs = 1, bsi_locktime = 0, bsi_format_unit = 0\<rparr>"

definition sample_answer :: "i32 \<Rightarrow> (Error, Request) result" where
  "sample_answer t = (case sample_prevtx of (init, i, out) \<Rightarrow>
     if t = 0 then Ok (ReqBtcSignInput sample_input) else if t = 1 then Ok (ReqBtcSignOutput sample_output)
     else if t = 3 then Ok (ReqBtc (Some (BtcPrevtxInit init)))
     else if t = 4 then Ok (ReqBtc (Some (BtcPrevtxInput i)))
     else if t = 5 then Ok (ReqBtc (Some (BtcPrevtxOutput out))) else Err ErrInvalidInput)"

definition sample_host :: "trace \<Rightarrow> (Error, Request) result" where
  "sample_host tr = (case last tr of
     EvSend (RespBtcSignNext n) \<Rightarrow> sample_answer (bsn_type n)
   | EvSend (RespBtc (Some (BtcRespSignNext n))) \<Rightarrow> sample_answer (bsn_type n)
   | _ \<Rightarrow> Err ErrInvalidInput)"

definition sample_sign_env :: env where
  "sample_sign_env = sample_env\<lparr>env_host_next := sample_host\<rparr>"

lemma bip32_lawful_sign_env: "bip32_lawful sample_sign_env"
  using bip32_lawful_sample by (simp add: bip32_lawful_def sample_sign_env_def)

lemma sample_session_runs:
  "case signtx_process sample_sign_env sample_sign_request sample_world of (r, w') \<Rightarrow>
     is_ok r \<and> list_ex signs (w_trace w')"
  by code_simp

theorem signtx_signs_what_was_approved_witness:
  "\<exists>P t e. se_request (pr_session P) = sample_sign_request \<and> approved sample_sign_env sample_world P t
    \<and> signed_as sample_sign_env sample_world P e \<and> signs e"
proof -
  obtain r w' where run: "signtx_process sample_sign_env sample_sign_request sample_world = (r, w')" by force
  with sample_session_runs have "list_ex signs (w_trace w')" by simp
  then obtain e where "e \<in> set (w_trace w')" and e: "signs e" by (auto simp: list_ex_iff)
  then obtain t u where "w_trace w' = t @ e # u" by (meson split_list)
  then have "w_trace w' = w_trace sample_world @ t @ e # u" by (simp add: sample_world_def)
  from signtx_signs_what_was_approved [OF bip32_lawful_sign_env run this e] e show ?thesis by blast
qed


theorem handle_prevtx_sound_witness: "prevtx_verified sample_sign_env sample_input"
proof -
  let ?r = "\<lparr>nr_next = next_default, nr_wrap = False\<rparr>"
  obtain r w' where run: "handle_prevtx sample_sign_env 0 sample_input ?r sample_world = (r, w')" by force
  have "is_ok (fst (handle_prevtx sample_sign_env 0 sample_input ?r sample_world))" by code_simp
  with run obtain n where "r = Ok n" by (auto simp: is_ok_def split: result.splits)
  with run show ?thesis by (auto intro: handle_prevtx_sound)
qed

end
