(* ===== verification/Verify_Message.thy ===== *)
theory Verify_Message
  imports World Btc_Policies
begin

text \<open>
  Showing a message before it is signed (\<open>workflow/verify_message.rs\<close>): printable messages line by
  line, others in hexadecimal.
\<close>

section \<open>Model\<close>

text \<open>\<open>str::split\<close> at a character.\<close>

fun split_at_char :: "char \<Rightarrow> string \<Rightarrow> string list" where
  "split_at_char c [] = [[]]"
| "split_at_char c (x # xs) = (if x = c then [] # split_at_char c xs
     else (case split_at_char c xs of [] \<Rightarrow> [[x]] | l # ls \<Rightarrow> (x # l) # ls))"

definition message_pages :: "bytes \<Rightarrow> string list" where
  "message_pages msg = filter (\<lambda>line. line \<noteq> []) (split_at_char (CHR 0x0A) (str_of_bytes msg))"

definition page_params :: "nat \<Rightarrow> nat \<Rightarrow> string \<Rightarrow> ConfirmParams" where
  "page_params num i page = (let is_last = (i = num - 1) in
     confirm_default\<lparr>
       cp_title := (if num = 1 then ''Sign message'' else ''Sign '' @ show_nat (i + 1) @ ''/'' @ show_nat num),
       cp_body := page, cp_scrollable := True, cp_accept_is_nextarrow := \<not> is_last,
       cp_longtouch := is_last\<rparr>)"

definition hex_params :: "bytes \<Rightarrow> ConfirmParams" where
  "hex_params msg = confirm_default\<lparr>cp_title := ''Sign message'' @ [CHR 0x0A] @ ''data (hex)'',
     cp_body := hex_encode msg, cp_scrollable := True, cp_display_size := length msg,
     cp_longtouch := True\<rparr>"

definition verify_message :: "env \<Rightarrow> bytes \<Rightarrow> unit handler" where
  "verify_message E msg =
     (if is_printable_ascii msg AllNewline then
        (let pages = message_pages msg in
         if pages = [] then failM ErrInvalidInput
         else foldM (\<lambda>(i, page) _. user_abort (confirm E (page_params (length pages) i page)))
           (enumerate 0 pages) ())
      else user_abort (confirm E (hex_params msg)))"

section \<open>What the user accepts\<close>

definition ask_accepted :: "ConfirmParams \<Rightarrow> event" where
  "ask_accepted p = EvAsk (PConfirm p) True"

definition message_prompts :: "bytes \<Rightarrow> ConfirmParams list" where
  "message_prompts msg =
     (if is_printable_ascii msg AllNewline
      then map (\<lambda>(i, page). page_params (length (message_pages msg)) i page) (enumerate 0 (message_pages msg))
      else [hex_params msg])"

lemma confirm_all_OkD:
  "foldM (\<lambda>i _. user_abort (confirm E (f i))) xs () w = (Ok a, w') \<Longrightarrow>
     w' = ext_trace w (map (\<lambda>i. EvAsk (PConfirm (f i)) True) xs)"
proof (induction xs arbitrary: w)
  case (Cons x xs)
  then obtain v where 1: "confirm E (f x) w = (Ok (), v)"
    and 2: "foldM (\<lambda>i _. user_abort (confirm E (f i))) xs () v = (Ok a, w')" by (auto simp: runs)
  from Cons.IH [OF 2] confirm_OkD [OF 1] show ?case by simp
qed (simp add: runs)

lemma verify_message_OkD:
  assumes "verify_message E msg w = (Ok a, w')"
  shows "w' = ext_trace w (map (\<lambda>p. EvAsk (PConfirm p) True) (message_prompts msg))"
    and "message_prompts msg \<noteq> []"
proof -
  show "w' = ext_trace w (map (\<lambda>p. EvAsk (PConfirm p) True) (message_prompts msg))"
  proof (cases "is_printable_ascii msg AllNewline")
    case True
    have fold: "(\<lambda>(i, page) _. user_abort (confirm E (page_params n i page)))
        = (\<lambda>ip _. user_abort (confirm E (case ip of (i, page) \<Rightarrow> page_params n i page)))" for n
      by (auto simp: fun_eq_iff)
    from assms True have "foldM (\<lambda>ip _. user_abort (confirm E (case ip of (i, page) \<Rightarrow>
        page_params (length (message_pages msg)) i page))) (enumerate 0 (message_pages msg)) () w = (Ok a, w')"
      by (auto simp: verify_message_def Let_def runs fold split: if_splits)
    from confirm_all_OkD [OF this] True show ?thesis
      by (simp add: message_prompts_def case_prod_beta' o_def)
  qed (use assms in \<open>auto simp: verify_message_def message_prompts_def runs dest!: confirm_OkD\<close>)
  show "message_prompts msg \<noteq> []"
    using assms by (auto simp: verify_message_def message_prompts_def Let_def runs enumerate_eq_zip split: if_splits)
qed

lemma quiet_verify_message [quiet_rules]: "quiet (verify_message E msg)"
  unfolding verify_message_def Let_def by (intro emits_rules quiet_rules) (auto intro: quiet_rules)

text \<open>
  A label shows its text, up to \<open>MAX_LABEL_SIZE\<close> characters; a longer one ends in dots
  (\<open>label.c\<close>). What the user sees of a message are the labels of its prompts.
\<close>

definition label_text :: "string \<Rightarrow> string" where
  "label_text s = (if length s \<le> MAX_LABEL_SIZE then s else take MAX_LABEL_SIZE s @ ''...'')"

definition message_screens :: "bytes \<Rightarrow> (string \<times> string) list" where
  "message_screens msg = map (\<lambda>p. (label_text (cp_title p), label_text (cp_body p))) (message_prompts msg)"

definition message_fits :: "bytes \<Rightarrow> bool" where
  "message_fits msg \<longleftrightarrow> list_all (\<lambda>p. length (cp_title p) \<le> MAX_LABEL_SIZE
     \<and> length (cp_body p) \<le> MAX_LABEL_SIZE) (message_prompts msg)"

lemma hex_digit_inj: "i < 16 \<Longrightarrow> j < 16 \<Longrightarrow> hex_digit i = hex_digit j \<Longrightarrow> i = j"
proof -
  assume *: "i < 16" "j < 16" "hex_digit i = hex_digit j"
  have "(of_char (hex_digit n) :: nat) = (if n < 10 then 48 + n else 87 + n)" if "n < 16" for n
    using that by (simp add: of_char_of)
  from this [OF *(1)] this [OF *(2)] show "i = j"
    unfolding *(3) by (auto split: if_splits simp del: hex_digit.simps)
qed

lemma hex_encode_inj: "hex_encode x = hex_encode y \<Longrightarrow> x = y"
proof (induction x arbitrary: y)
  case Nil
  then show ?case by (cases y) (auto simp: hex_encode_def)
next
  case (Cons a x)
  then obtain b z where y: "y = b # z" by (cases y) (auto simp: hex_encode_def)
  with Cons.prems have d: "hex_digit (unat a div 16) = hex_digit (unat b div 16)"
    "hex_digit (unat a mod 16) = hex_digit (unat b mod 16)" and "hex_encode x = hex_encode z"
    by (simp_all add: hex_encode_def del: hex_digit.simps)
  have "unat a < 256" "unat b < 256"
    using unsigned_less [of a, where ?'a = nat] unsigned_less [of b, where ?'a = nat] by simp_all
  then have "unat a div 16 = unat b div 16" by (intro hex_digit_inj [OF _ _ d(1)]) simp_all
  moreover have "unat a mod 16 = unat b mod 16" by (rule hex_digit_inj [OF _ _ d(2)]) simp_all
  ultimately have "unat a = unat b" by (metis div_mult_mod_eq)
  with Cons.IH [OF \<open>hex_encode x = hex_encode z\<close>] y show ?case by (simp add: word_unat_eq_iff)
qed



text \<open>
  A longer message is cut: of binary data only the first 320 bytes are shown, so two different
  messages may look the same.
\<close>

lemma length_hex_encode: "length (hex_encode m) = 2 * length m"
  by (induction m) (simp_all add: hex_encode_def)

lemma hex_encode_append: "hex_encode (m @ n) = hex_encode m @ hex_encode n"
  by (simp add: hex_encode_def)

lemma binary_message_screens_cut:
  assumes "length m = 320" "length y = length z" "\<not> is_printable_ascii m AllNewline" "y \<noteq> []"
  shows "message_screens (m @ y) = message_screens (m @ z)"
proof -
  from assms(2,4) have "z \<noteq> []" by auto
  with assms show ?thesis
    by (auto simp: message_screens_def message_prompts_def hex_params_def label_text_def is_printable_ascii_def
        hex_encode_append length_hex_encode MAX_LABEL_SIZE_def Suc_le_eq)
qed

end
