(* ===== verification/Btc_Handlers.thy ===== *)
theory Btc_Handlers
  imports Btc_Signtx Verify_Message Workflows
begin

text \<open>
  The Bitcoin API besides transaction signing (\<open>hww/api/bitcoin.rs\<close>, \<open>bitcoin/registration.rs\<close> and
  \<open>bitcoin/signmsg.rs\<close>): public keys and addresses, registration of multisig accounts and policies,
  message signing.
\<close>

section \<open>Shared steps\<close>

definition next_request_btc :: "env \<Rightarrow> BtcResponse \<Rightarrow> BtcRequest handler" where
  "next_request_btc E response =
     bindM (hww_next_request E (RespBtc (Some response))) (\<lambda>request.
     case request of ReqBtc (Some r) \<Rightarrow> returnM r | _ \<Rightarrow> failM ErrInvalidState)"

definition antiklepto_get_host_nonce :: "env \<Rightarrow> bytes \<Rightarrow> bytes handler" where
  "antiklepto_get_host_nonce E signer_nonce_commitment =
     bindM (next_request_btc E (BtcRespAntikleptoSignerCommitment signer_nonce_commitment)) (\<lambda>request.
     case request of
       BtcAntikleptoSignature host_nonce \<Rightarrow>
         bindM (guardM (length host_nonce = 32) ErrInvalidInput) (\<lambda>_. returnM host_nonce)
     | _ \<Rightarrow> failM ErrInvalidState)"

text \<open>An edition of the firmware is the set of its cargo features.\<close>

record edition =
  app_bitcoin :: bool
  app_litecoin :: bool
  app_ethereum :: bool
  app_cardano :: bool

definition coin_enabled :: "edition \<Rightarrow> BtcCoin \<Rightarrow> (Error, unit) result" where
  "coin_enabled ed coin =
     (if app_bitcoin ed \<and> (coin = Btc \<or> coin = Tbtc) then Ok ()
      else if app_litecoin ed \<and> (coin = Ltc \<or> coin = Tltc) then Ok ()
      else Err ErrDisabled)"

section \<open>Public keys and addresses\<close>

definition unusual_params :: "bool \<Rightarrow> keypath \<Rightarrow> ConfirmParams" where
  "unusual_params display keypath = confirm_default\<lparr>
     cp_title := (if display then ''xpub'' else ''Export xpub''),
     cp_body := ''Warning: unusual keypath '' @ keypath_to_string keypath
       @ ''. Proceed only if you know what you are doing.'',
     cp_scrollable := True, cp_longtouch := True\<rparr>"

definition xpub_title :: "Params \<Rightarrow> bool \<Rightarrow> keypath \<Rightarrow> (Error, string) result" where
  "xpub_title params is_unusual keypath =
     (if is_unusual then Ok []
      else if keypath = [45 + HARDENED]
      then Ok (par_name params @ [CHR 0x0A] @ ''at'' @ [CHR 0x0A] @ keypath_to_string keypath)
      else bindR (index keypath 2) (\<lambda>account.
        Ok (par_name params @ [CHR 0x0A] @ ''account #'' @ show_nat (unat (account - HARDENED + 1)))))"

definition show_params :: "string \<Rightarrow> string \<Rightarrow> ConfirmParams" where
  "show_params title body = confirm_default\<lparr>cp_title := title, cp_body := body, cp_scrollable := True\<rparr>"

definition btc_xpub :: "env \<Rightarrow> BtcCoin \<Rightarrow> XPubType \<Rightarrow> keypath \<Rightarrow> bool \<Rightarrow> Response handler" where
  "btc_xpub E coin xpub_type keypath display =
     (let params = params_get coin in
     bindM (liftM (is_err (validate_xpub keypath (par_bip44_coin params) (par_taproot_support params))))
       (\<lambda>is_unusual.
     bindM (if is_unusual then user_abort (confirm E (unusual_params display keypath)) else returnM ()) (\<lambda>_.
     bindM (readM (\<lambda>w. map_err (\<lambda>_. ErrInvalidInput) (keystore_get_xpub E w keypath))) (\<lambda>key.
     bindM (liftM (to_generic (xpub_serialize_str E key xpub_type))) (\<lambda>xpub.
     bindM (if display
            then bindM (liftM (xpub_title params is_unusual keypath)) (\<lambda>title.
              user_abort (confirm E (show_params title xpub)))
            else returnM ()) (\<lambda>_.
     returnM (RespPub xpub)))))))"

definition derive_address_simple ::
  "env \<Rightarrow> world \<Rightarrow> BtcCoin \<Rightarrow> SimpleType \<Rightarrow> keypath \<Rightarrow> (Error, string) result" where
  "derive_address_simple E w coin simple_type keypath =
     (let coin_params = params_get coin in
      bindR (map_err (\<lambda>_. ErrInvalidInput) (validate_address_simple keypath
        (par_bip44_coin coin_params) simple_type (par_taproot_support coin_params) Receive)) (\<lambda>_.
      bindR (fst (payload_from_simple E w coin_params simple_type keypath cache_new)) (\<lambda>payload.
      to_generic (address E coin_params payload))))"

definition address_simple :: "env \<Rightarrow> BtcCoin \<Rightarrow> SimpleType \<Rightarrow> keypath \<Rightarrow> bool \<Rightarrow> Response handler" where
  "address_simple E coin simple_type keypath display =
     bindM (readM (\<lambda>w. derive_address_simple E w coin simple_type keypath)) (\<lambda>addr.
     bindM (if display then user_abort (confirm E (show_params (par_name (params_get coin)) addr))
            else returnM ()) (\<lambda>_.
     returnM (RespPub addr)))"

definition address_multisig :: "env \<Rightarrow> BtcCoin \<Rightarrow> Multisig \<Rightarrow> keypath \<Rightarrow> bool \<Rightarrow> Response handler" where
  "address_multisig E coin multisig keypath display =
     (let coin_params = params_get coin; account_keypath = take (length keypath - 2) keypath in
     bindM (liftM (map_err (\<lambda>_. ErrInvalidInput) (validate_address_policy keypath Receive))) (\<lambda>_.
     bindM (readM (\<lambda>w. multisig_validate E w multisig account_keypath)) (\<lambda>_.
     bindM (readM (\<lambda>w. to_generic (multisig_get_name E w coin multisig account_keypath))) (\<lambda>maybe.
     bindM (liftM (ok_or ErrInvalidInput maybe)) (\<lambda>name.
     bindM (if display then multisig_confirm E ''Receive to'' coin_params name multisig
            else returnM ()) (\<lambda>_.
     bindM (liftM (index_from_end keypath 2)) (\<lambda>change.
     bindM (liftM (index_from_end keypath 1)) (\<lambda>ix.
     bindM (liftM (payload_from_multisig E coin_params multisig change ix)) (\<lambda>payload.
     bindM (generic_err (address E coin_params payload)) (\<lambda>addr.
     bindM (if display then user_abort (confirm E (show_params ''Receive to'' addr)) else returnM ()) (\<lambda>_.
     returnM (RespPub addr))))))))))))"

definition address_policy :: "env \<Rightarrow> BtcCoin \<Rightarrow> Policy \<Rightarrow> keypath \<Rightarrow> bool \<Rightarrow> Response handler" where
  "address_policy E coin policy keypath display =
     (let coin_params = params_get coin in
     bindM (liftM (map_err (\<lambda>_. ErrInvalidInput) (validate_address_policy keypath Receive))) (\<lambda>_.
     bindM (readM (\<lambda>w. policy_parse E w policy coin)) (\<lambda>parsed.
     bindM (readM (\<lambda>w. to_generic (policy_get_name E w coin policy))) (\<lambda>maybe.
     bindM (liftM (ok_or ErrInvalidInput maybe)) (\<lambda>name.
     bindM (if display then policy_confirm E parsed ''Receive to'' coin_params name Basic
            else returnM ()) (\<lambda>_.
     bindM (liftM (payload_from_policy E parsed keypath)) (\<lambda>payload.
     bindM (generic_err (address E coin_params payload)) (\<lambda>addr.
     bindM (if display then user_abort (confirm E (show_params ''Receive to'' addr)) else returnM ()) (\<lambda>_.
     returnM (RespPub addr))))))))))"

definition btc_process_pub :: "env \<Rightarrow> edition \<Rightarrow> BtcPubRequest \<Rightarrow> Response handler" where
  "btc_process_pub E ed request =
     bindM (liftM (ok_or ErrInvalidInput (btc_coin_try_from (bpr_coin request)))) (\<lambda>coin.
     bindM (liftM (coin_enabled ed coin)) (\<lambda>_.
     case bpr_output request of
       Some (OutputXpubType t) \<Rightarrow>
         bindM (liftM (ok_or ErrInvalidInput (xpub_type_try_from t))) (\<lambda>xpub_type.
         btc_xpub E coin xpub_type (bpr_keypath request) (bpr_display request))
     | Some (OutputScriptConfig (Some (ConfigSimpleType t))) \<Rightarrow>
         bindM (liftM (ok_or ErrInvalidInput (simple_type_try_from t))) (\<lambda>simple_type.
         address_simple E coin simple_type (bpr_keypath request) (bpr_display request))
     | Some (OutputScriptConfig (Some (ConfigMultisig multisig))) \<Rightarrow>
         address_multisig E coin multisig (bpr_keypath request) (bpr_display request)
     | Some (OutputScriptConfig (Some (ConfigPolicy policy))) \<Rightarrow>
         address_policy E coin policy (bpr_keypath request) (bpr_display request)
     | _ \<Rightarrow> failM ErrInvalidInput))"

section \<open>Registration\<close>

definition process_is_script_config_registered ::
  "env \<Rightarrow> BtcIsScriptConfigRegisteredRequest \<Rightarrow> BtcResponse handler" where
  "process_is_script_config_registered E request =
     (case request of
       None \<Rightarrow> failM ErrInvalidInput
     | Some reg \<Rightarrow> (case reg_script_config reg of
         Some (Some (ConfigMultisig multisig)) \<Rightarrow>
           bindM (liftM (ok_or ErrInvalidInput (btc_coin_try_from (reg_coin reg)))) (\<lambda>coin.
           bindM (readM (\<lambda>w. to_generic (multisig_get_name E w coin multisig (reg_keypath reg)))) (\<lambda>name.
           returnM (BtcRespIsScriptConfigRegistered (name \<noteq> None))))
       | Some (Some (ConfigPolicy policy)) \<Rightarrow>
           bindM (liftM (ok_or ErrInvalidInput (btc_coin_try_from (reg_coin reg)))) (\<lambda>coin.
           bindM (readM (\<lambda>w. to_generic (policy_get_name E w coin policy))) (\<lambda>name.
           returnM (BtcRespIsScriptConfigRegistered (name \<noteq> None))))
       | _ \<Rightarrow> failM ErrInvalidInput))"

definition registration_get_name :: "env \<Rightarrow> BtcRegisterScriptConfigRequest \<Rightarrow> string handler" where
  "registration_get_name E request =
     bindM (if rsc_name request = [] then
         bindM (user_abort (confirm E (confirm_default\<lparr>cp_title := ''Register'',
           cp_body := ''Please name this'' @ [CHR 0x0A] @ ''account'', cp_accept_is_nextarrow := True\<rparr>))) (\<lambda>_.
         bindM (user_abort (enter E (input_default\<lparr>ip_title := ''Enter account name'',
           ip_longtouch := True\<rparr>) CanCancelYes [])) (\<lambda>name.
         liftM (truncate_str name MULTISIG_NAME_MAX_LEN)))
       else returnM (rsc_name request)) (\<lambda>name.
     bindM (guardM (name_validate name MULTISIG_NAME_MAX_LEN) ErrInvalidInput) (\<lambda>_. returnM name))"

fun from_memory_error :: "MemoryError \<Rightarrow> Error" where
  "from_memory_error MEMORY_ERR_DUPLICATE_NAME = ErrDuplicate"
| "from_memory_error _ = ErrGeneric"

definition register_multisig ::
  "env \<Rightarrow> BtcRegisterScriptConfigRequest \<Rightarrow> i32 \<Rightarrow> Multisig \<Rightarrow> keypath \<Rightarrow> BtcResponse handler" where
  "register_multisig E request c multisig keypath =
     bindM (liftM (ok_or ErrInvalidInput (btc_coin_try_from c))) (\<lambda>coin.
     bindM (registration_get_name E request) (\<lambda>name.
     bindM (readM (\<lambda>w. multisig_validate E w multisig keypath)) (\<lambda>_.
     bindM (liftM (ok_or ErrInvalidInput (reg_xpub_type_try_from (rsc_xpub_type request)))) (\<lambda>xpub_type.
     bindM (multisig_confirm_extended E ''Register'' (params_get coin) name multisig xpub_type keypath) (\<lambda>_.
     bindM (generic_err (multisig_get_hash E coin multisig SortYes keypath)) (\<lambda>hash.
     bindM (map_errM from_memory_error (multisig_set_by_hash E hash name)) (\<lambda>_.
     bindM (status (''Multisig account'' @ [CHR 0x0A] @ ''registered'') True) (\<lambda>_.
     returnM BtcRespSuccess))))))))"

definition register_policy ::
  "env \<Rightarrow> BtcRegisterScriptConfigRequest \<Rightarrow> i32 \<Rightarrow> Policy \<Rightarrow> BtcResponse handler" where
  "register_policy E request c policy =
     bindM (liftM (ok_or ErrInvalidInput (btc_coin_try_from c))) (\<lambda>coin.
     bindM (registration_get_name E request) (\<lambda>name.
     bindM (readM (\<lambda>w. policy_parse E w policy coin)) (\<lambda>parsed.
     bindM (policy_confirm E parsed ''Register'' (params_get coin) name Advanced) (\<lambda>_.
     bindM (generic_err (policy_get_hash E coin policy)) (\<lambda>hash.
     bindM (map_errM from_memory_error (multisig_set_by_hash E hash name)) (\<lambda>_.
     bindM (status (''Policy'' @ [CHR 0x0A] @ ''registered'') True) (\<lambda>_.
     returnM BtcRespSuccess)))))))"

definition process_register_script_config ::
  "env \<Rightarrow> BtcRegisterScriptConfigRequest \<Rightarrow> BtcResponse handler" where
  "process_register_script_config E request =
     (case rsc_registration request of
       None \<Rightarrow> failM ErrInvalidInput
     | Some reg \<Rightarrow> (case reg_script_config reg of
         Some (Some (ConfigMultisig multisig)) \<Rightarrow>
           register_multisig E request (reg_coin reg) multisig (reg_keypath reg)
       | Some (Some (ConfigPolicy policy)) \<Rightarrow> register_policy E request (reg_coin reg) policy
       | _ \<Rightarrow> failM ErrInvalidInput))"

section \<open>Message signing\<close>

definition MAX_MESSAGE_SIZE :: nat where "MAX_MESSAGE_SIZE = 1024"

definition coin_params_of :: "BtcCoin \<Rightarrow> ConfirmParams" where
  "coin_params_of coin = confirm_default\<lparr>cp_title := ''Sign message'',
     cp_body := ''Coin: '' @ par_name (params_get coin), cp_accept_is_nextarrow := True\<rparr>"

definition address_params :: "string \<Rightarrow> ConfirmParams" where
  "address_params addr = confirm_default\<lparr>cp_title := ''Address'', cp_body := addr, cp_scrollable := True,
     cp_accept_is_nextarrow := True\<rparr>"

text \<open>The checks and prompts before the signature; they leave the key path to sign at.\<close>

definition signmsg_prepare :: "env \<Rightarrow> BtcSignMessageRequest \<Rightarrow> keypath handler" where
  "signmsg_prepare E request =
     bindM (liftM (ok_or ErrInvalidInput (btc_coin_try_from (bsm_coin request)))) (\<lambda>coin.
     bindM (guardM (coin = Btc) ErrInvalidInput) (\<lambda>_.
     bindM (liftM (case bsm_script_config request of
         Some sck \<Rightarrow> (case sck_script_config sck of
           Some (Some (ConfigSimpleType t)) \<Rightarrow>
             bindR (ok_or ErrInvalidInput (simple_type_try_from t)) (\<lambda>simple_type.
             Ok (sck_keypath sck, simple_type))
         | _ \<Rightarrow> Err ErrInvalidInput)
       | None \<Rightarrow> Err ErrInvalidInput)) (\<lambda>(keypath, simple_type).
     bindM (guardM (simple_type \<noteq> P2tr) ErrInvalidInput) (\<lambda>_.
     bindM (guardM (length (bsm_msg request) \<le> MAX_MESSAGE_SIZE) ErrInvalidInput) (\<lambda>_.
     bindM (readM (\<lambda>w. derive_address_simple E w coin simple_type keypath)) (\<lambda>addr.
     bindM (user_abort (confirm E (coin_params_of coin))) (\<lambda>_.
     bindM (user_abort (confirm E (address_params addr))) (\<lambda>_.
     bindM (verify_message E (bsm_msg request)) (\<lambda>_.
     returnM keypath)))))))))"

definition btc_message_preimage :: "bytes \<Rightarrow> bytes" where
  "btc_message_preimage msg =
     0x18 # as_bytes (''Bitcoin Signed Message:'' @ [CHR 0x0A])
       @ serialize_varint (of_nat (length msg)) @ msg"

definition btc_message_hash :: "env \<Rightarrow> bytes \<Rightarrow> bytes" where
  "btc_message_hash E msg = env_sha256 E (env_sha256 E (btc_message_preimage msg))"

text \<open>
  The host's nonce: the anti-klepto exchange if the host sent a commitment, zeros otherwise.
\<close>

definition signmsg_host_nonce ::
  "env \<Rightarrow> AntiKleptoHostNonceCommitment option \<Rightarrow> keypath \<Rightarrow> bytes \<Rightarrow> bytes handler" where
  "signmsg_host_nonce E host_nonce_commitment keypath sighash =
     (case host_nonce_commitment of
       Some commitment \<Rightarrow>
         bindM (guardM (length commitment = 32) ErrInvalidInput) (\<lambda>_.
         bindM (map_errM (\<lambda>_. ErrGeneric) (secp256k1_nonce_commit E keypath sighash commitment)) (\<lambda>sc.
         antiklepto_get_host_nonce E sc))
     | None \<Rightarrow> returnM (replicate 32 0))"

definition signmsg_sign :: "env \<Rightarrow> BtcSignMessageRequest \<Rightarrow> keypath \<Rightarrow> BtcResponse handler" where
  "signmsg_sign E request keypath =
     (let sighash = btc_message_hash E (bsm_msg request) in
     bindM (signmsg_host_nonce E (bsm_host_nonce_commitment request) keypath sighash) (\<lambda>host_nonce.
     bindM (map_errM (\<lambda>_. ErrGeneric) (secp256k1_sign E keypath sighash host_nonce)) (\<lambda>(signature, recid).
     returnM (BtcRespSignMessage (signature @ [recid])))))"

definition signmsg_process :: "env \<Rightarrow> BtcSignMessageRequest \<Rightarrow> BtcResponse handler" where
  "signmsg_process E request = bindM (signmsg_prepare E request) (signmsg_sign E request)"

section \<open>Dispatch\<close>

fun btc_process_api :: "env \<Rightarrow> BtcRequest \<Rightarrow> BtcResponse handler" where
  "btc_process_api E (BtcIsScriptConfigRegistered request) = process_is_script_config_registered E request"
| "btc_process_api E (BtcRegisterScriptConfig request) = process_register_script_config E request"
| "btc_process_api E (BtcSignMessage request) = signmsg_process E request"
| "btc_process_api E (BtcPrevtxInit _) = failM ErrInvalidState"
| "btc_process_api E (BtcPrevtxInput _) = failM ErrInvalidState"
| "btc_process_api E (BtcPrevtxOutput _) = failM ErrInvalidState"
| "btc_process_api E (BtcAntikleptoSignature _) = failM ErrInvalidState"
| "btc_process_api E (BtcPaymentRequest _) = failM ErrInvalidState"

end
