(* ===== verification/Btc_Handlers_Safety.thy ===== *)
theory Btc_Handlers_Safety
  imports Btc_Handlers
begin

text \<open>
  What the other Bitcoin handlers guarantee: a signed message was shown with the address it is
  signed for, and a registered account was shown with all its cosigners.
\<close>

section \<open>Message signing\<close>

lemma derive_address_simple_trace [simp]:
  "derive_address_simple E (w\<lparr>w_trace := t\<rparr>) = derive_address_simple E w"
  by (simp add: fun_eq_iff derive_address_simple_def Let_def)

lemma quiet_signmsg_prepare [quiet_rules]: "quiet (signmsg_prepare E request)"
  unfolding signmsg_prepare_def by (auto intro!: emits_rules quiet_rules split: prod.splits)

lemma quiet_signmsg_host_nonce [quiet_rules]: "quiet (signmsg_host_nonce E c kp h)"
  unfolding signmsg_host_nonce_def antiklepto_get_host_nonce_def next_request_btc_def
  by (auto intro!: emits_rules quiet_rules split: option.splits BtcRequest.splits Request.splits)

lemma signmsg_prepare_OkD:
  assumes "signmsg_prepare E request w = (Ok kp, w')"
  shows "\<exists>simple_type addr. derive_address_simple E w Btc simple_type kp = Ok addr
    \<and> simple_type \<noteq> P2tr \<and> length (bsm_msg request) \<le> MAX_MESSAGE_SIZE
    \<and> w' = ext_trace w (map ask_accepted
        (coin_params_of Btc # address_params addr # message_prompts (bsm_msg request)))"
proof -
  from assms obtain sck t simple_type addr v1 v2 v3 where
    "bsm_script_config request = Some sck" "kp = sck_keypath sck"
    and a: "derive_address_simple E w Btc simple_type kp = Ok addr" "simple_type \<noteq> P2tr"
      "length (bsm_msg request) \<le> MAX_MESSAGE_SIZE"
    and 1: "confirm E (coin_params_of Btc) w = (Ok (), v1)"
    and 2: "confirm E (address_params addr) v1 = (Ok (), v2)"
    and 3: "verify_message E (bsm_msg request) v2 = (Ok (), w')"
    by (auto simp: signmsg_prepare_def runs split: option.splits Config.splits prod.splits)
  from confirm_OkD [OF 1] confirm_OkD [OF 2] verify_message_OkD(1) [OF 3] a show ?thesis
    by (intro exI [of _ simple_type] exI [of _ addr]) (simp add: ask_accepted_def)
qed

lemma yields_signmsg_sign:
  "yields w (\<lambda>e. signs e \<longrightarrow> (\<exists>n. e = EvSign kp (btc_message_hash E (bsm_msg request)) n)) (\<lambda>_. True)
     (signmsg_sign E request kp)"
proof (rule yields_emits)
  let ?P = "\<lambda>e. signs e \<longrightarrow> (\<exists>n. e = EvSign kp (btc_message_hash E (bsm_msg request)) n)"
  have "emits ?P (signmsg_host_nonce E c kp h)" for c h
    by (rule emits_mono [OF quiet_signmsg_host_nonce]) simp
  then show "emits ?P (signmsg_sign E request kp)"
    unfolding signmsg_sign_def Let_def
    by (auto intro!: emits_rules emits_secp256k1_sign split: prod.splits)
qed

text \<open>
  C25: a signature made while handling a message signing request is over the hash of that message,
  and comes after the user accepted the coin, the address that belongs to the signing key, and every
  page of the message, in this order and with nothing in between.
\<close>

theorem signmsg_signs_what_was_shown:
  assumes run: "signmsg_process E request w = (r, w')"
    and tr: "w_trace w' = w_trace w @ t @ e # u" and e: "signs e"
  shows "\<exists>kp simple_type addr n v. e = EvSign kp (btc_message_hash E (bsm_msg request)) n
    \<and> derive_address_simple E w Btc simple_type kp = Ok addr
    \<and> length (bsm_msg request) \<le> MAX_MESSAGE_SIZE
    \<and> t = map ask_accepted (coin_params_of Btc # address_params addr # message_prompts (bsm_msg request)) @ v"
proof -
  have "\<exists>kp q v. signmsg_prepare E request w = (Ok kp, ext_trace w q) \<and> t = q @ v
      \<and> (\<exists>n. e = EvSign kp (btc_message_hash E (bsm_msg request)) n)"
  proof (rule signature_after [OF quiet_signmsg_prepare emits_return _ tr e yields_signmsg_sign])
    show "on_user_abort (bindM (signmsg_prepare E request) (signmsg_sign E request)) (returnM ()) w = (r, w')"
      using run by (simp add: on_user_abort_return signmsg_process_def)
  qed
  then obtain kp q v n where p: "signmsg_prepare E request w = (Ok kp, ext_trace w q)" and "t = q @ v"
    "e = EvSign kp (btc_message_hash E (bsm_msg request)) n" by blast
  moreover from signmsg_prepare_OkD [OF p] obtain simple_type addr where
    "derive_address_simple E w Btc simple_type kp = Ok addr" "length (bsm_msg request) \<le> MAX_MESSAGE_SIZE"
    "q = map ask_accepted (coin_params_of Btc # address_params addr # message_prompts (bsm_msg request))"
    by (auto dest: ext_trace_inj)
  ultimately show ?thesis by blast
qed

definition sample_message_request :: BtcSignMessageRequest where
  "sample_message_request = \<lparr>bsm_coin = 0, bsm_script_config = Some \<lparr>sck_script_config = Some (Some (ConfigSimpleType 1)),
     sck_keypath = [84 + HARDENED, HARDENED, HARDENED, 0, 5]\<rparr>,
     bsm_msg = [0x68, 0x69], bsm_host_nonce_commitment = None\<rparr>"

definition sample_message_env :: env where
  "sample_message_env = sample_env\<lparr>env_segwit_encode := (\<lambda>hrp v p. Some (hrp @ show_nat (length p)))\<rparr>"

lemma sample_message_runs:
  "case signmsg_process sample_message_env sample_message_request sample_world of (r, w') \<Rightarrow>
     is_ok r \<and> list_ex signs (w_trace w')"
  by code_simp

theorem signmsg_signs_what_was_shown_witness:
  "\<exists>kp simple_type addr n t v. w_trace (snd (signmsg_process sample_message_env sample_message_request sample_world))
       = t @ EvSign kp (btc_message_hash sample_message_env [0x68, 0x69]) n # v
     \<and> derive_address_simple sample_message_env sample_world Btc simple_type kp = Ok addr
     \<and> ask_accepted (address_params addr) \<in> set t"
proof -
  obtain r w' where run: "signmsg_process sample_message_env sample_message_request sample_world = (r, w')" by force
  with sample_message_runs have "list_ex signs (w_trace w')" by simp
  then obtain e where "e \<in> set (w_trace w')" and e: "signs e" by (auto simp: list_ex_iff)
  then obtain t u where tu: "w_trace w' = t @ e # u" by (meson split_list)
  then have "w_trace w' = w_trace sample_world @ t @ e # u" by (simp add: sample_world_def)
  from signmsg_signs_what_was_shown [OF run this e] obtain kp simple_type addr n where
    "e = EvSign kp (btc_message_hash sample_message_env [0x68, 0x69]) n"
    "derive_address_simple sample_message_env sample_world Btc simple_type kp = Ok addr"
    "ask_accepted (address_params addr) \<in> set t" by (auto simp: sample_message_request_def)
  with tu run show ?thesis
    by (intro exI [of _ kp] exI [of _ simple_type] exI [of _ addr] exI [of _ n] exI [of _ t] exI [of _ u]) simp
qed

section \<open>Registration\<close>

lemma set_by_hash_OkD:
  assumes "multisig_set_by_hash E h n w = (Ok a, w')" "slots_wf (w_multisigs w)"
    and "length n \<le> MULTISIG_NAME_MAX_LEN"
  shows "\<exists>t. w_trace w' = w_trace w @ t \<and> slots_wf (w_multisigs w')
    \<and> slots_get (w_multisigs w') = (slots_get (w_multisigs w))(h \<mapsto> n)"
proof -
  from assms(1) obtain r where r: "memory_multisig_set_by_hash h n (w_multisigs w) = Ok r"
    by (auto simp: multisig_set_by_hash_def runs)
  show ?thesis
  proof (cases r)
    case None
    with assms(1) r have "w' = w" by (auto simp: multisig_set_by_hash_def runs)
    with None r set_by_hash_same [OF assms(2)] assms(2) show ?thesis
      by (intro exI [of _ "[]"]) (auto simp: fun_eq_iff)
  next
    case (Some s)
    with assms(1) r have "w' = ext_trace w [EvFlash True]\<lparr>w_multisigs := s\<rparr>"
      by (auto simp: multisig_set_by_hash_def runs split: if_splits)
    with Some r set_by_hash_get [OF assms(2) _ assms(3)] set_by_hash_wf [OF assms(2) _ assms(3)]
    show ?thesis by auto
  qed
qed

lemma quiet_registration_get_name [quiet_rules]: "quiet (registration_get_name E request)"
  unfolding registration_get_name_def enter_def
  by (auto intro!: emits_rules quiet_rules split: option.splits CanCancel.splits)

lemma registration_get_name_valid:
  "registration_get_name E request w = (Ok name, w') \<Longrightarrow> length name \<le> MULTISIG_NAME_MAX_LEN"
  by (auto simp: registration_get_name_def name_validate_def runs split: if_splits)

definition shown_cosigner :: "env \<Rightarrow> Params \<Rightarrow> Multisig \<Rightarrow> RegXPubType \<Rightarrow> nat \<Rightarrow> trace \<Rightarrow> bool" where
  "shown_cosigner E params multisig xpub_type i t \<longleftrightarrow> (\<exists>script_type xpub_str.
     script_type_try_from (ms_script_type multisig) = Some script_type
     \<and> xpub_serialize_str E (ms_xpubs multisig ! i)
         (output_xpub_type xpub_type (par_coin params) script_type) = Ok xpub_str
     \<and> ask_accepted (cosigner_params ''Register'' multisig i xpub_str) \<in> set t)"

lemma confirm_extended_OkD:
  assumes "multisig_confirm_extended E ''Register'' params name multisig xpub_type kp w = (Ok a, w')"
  shows "\<exists>t. w' = ext_trace w t
    \<and> ask_accepted (confirm_default\<lparr>cp_title := ''Register'', cp_body := name, cp_scrollable := True,
        cp_accept_is_nextarrow := True\<rparr>) \<in> set t
    \<and> (\<forall>i<length (ms_xpubs multisig). shown_cosigner E params multisig xpub_type i t)"
proof -
  let ?step = "\<lambda>st (i, xpub) _. bindM (liftM (map_err (\<lambda>_. ErrInvalidInput) (xpub_serialize_str E xpub
           (output_xpub_type xpub_type (par_coin params) st)))) (\<lambda>xpub_str.
         user_abort (confirm E (cosigner_params ''Register'' multisig i xpub_str)))"
  from assms obtain st v1 v2 where st: "script_type_try_from (ms_script_type multisig) = Some st"
    and 1: "multisig_confirm E ''Register'' params name multisig w = (Ok (), v1)"
    and 2: "\<exists>p. confirm E p v1 = (Ok (), v2)"
    and 3: "foldM (?step st) (enumerate 0 (ms_xpubs multisig)) () v2 = (Ok a, w')"
    by (auto simp: multisig_confirm_extended_def runs)
  have loop: "\<exists>t. v' = ext_trace v t \<and> (\<forall>(i, xpub)\<in>set ixs. \<exists>xpub_str.
      xpub_serialize_str E xpub (output_xpub_type xpub_type (par_coin params) st) = Ok xpub_str
      \<and> ask_accepted (cosigner_params ''Register'' multisig i xpub_str) \<in> set t)"
    if "foldM (?step st) ixs () v = (Ok b, v')" for ixs v v' and b
    using that
  proof (induction ixs arbitrary: v)
    case (Cons ix ixs)
    obtain i xpub where ix: "ix = (i, xpub)" by (cases ix)
    with Cons.prems obtain s u where s: "xpub_serialize_str E xpub
        (output_xpub_type xpub_type (par_coin params) st) = Ok s"
      and u: "confirm E (cosigner_params ''Register'' multisig i s) v = (Ok (), u)"
      and rest: "foldM (?step st) ixs () u = (Ok b, v')" by (auto simp: runs)
    from Cons.IH [OF rest] obtain t where "v' = ext_trace u t" "\<forall>(i, xpub)\<in>set ixs. \<exists>xpub_str.
      xpub_serialize_str E xpub (output_xpub_type xpub_type (par_coin params) st) = Ok xpub_str
      \<and> ask_accepted (cosigner_params ''Register'' multisig i xpub_str) \<in> set t" by blast
    with confirm_OkD [OF u] s ix show ?case
      by (intro exI [of _ "ask_accepted (cosigner_params ''Register'' multisig i s) # t"])
        (auto simp: ask_accepted_def)
  qed (auto simp: runs intro!: exI [of _ "[]"])
  from multisig_confirm_OkD [OF 1] obtain q where v1: "v1 = ext_trace w [q, ask_accepted (confirm_default\<lparr>
      cp_title := ''Register'', cp_body := name, cp_scrollable := True, cp_accept_is_nextarrow := True\<rparr>)]"
    by (auto simp: ask_accepted_def)
  from 2 obtain x where "v2 = ext_trace v1 [x]" by (auto dest: confirm_OkD)
  moreover from loop [OF 3] obtain t where "w' = ext_trace v2 t" and
    t: "\<forall>(i, xpub)\<in>set (enumerate 0 (ms_xpubs multisig)). \<exists>xpub_str.
      xpub_serialize_str E xpub (output_xpub_type xpub_type (par_coin params) st) = Ok xpub_str
      \<and> ask_accepted (cosigner_params ''Register'' multisig i xpub_str) \<in> set t" by blast
  ultimately have "w' = ext_trace w ([q, ask_accepted (confirm_default\<lparr>cp_title := ''Register'',
      cp_body := name, cp_scrollable := True, cp_accept_is_nextarrow := True\<rparr>), x] @ t)" using v1 by simp
  moreover have "shown_cosigner E params multisig xpub_type i (y @ t)" if "i < length (ms_xpubs multisig)" for i y
  proof -
    from that have "(i, ms_xpubs multisig ! i) \<in> set (enumerate 0 (ms_xpubs multisig))"
      by (simp add: in_set_enumerate_eq)
    with t have "\<exists>xpub_str. xpub_serialize_str E (ms_xpubs multisig ! i)
        (output_xpub_type xpub_type (par_coin params) st) = Ok xpub_str
      \<and> ask_accepted (cosigner_params ''Register'' multisig i xpub_str) \<in> set t" by blast
    with st show ?thesis by (auto simp: shown_cosigner_def)
  qed
  ultimately show ?thesis by fastforce
qed

lemma trace_run:
  assumes "emits P m" "m w = (r, w')" obtains t where "w' = ext_trace w t"
  using assms by (rule emitsD)


definition sample_own_xpub :: XPub where
  "sample_own_xpub = \<lparr>xp_depth = [0], xp_parent_fingerprint = replicate 4 0, xp_child_num = 0,
     xp_chain_code = replicate 32 0, xp_public_key = replicate 33 0\<rparr>"

definition sample_registration :: BtcScriptConfigRegistration where
  "sample_registration = \<lparr>reg_coin = 0, reg_script_config = Some (Some (ConfigMultisig
     (sample_multisig\<lparr>ms_xpubs := [sample_own_xpub, sample_key 3]\<rparr>))), reg_keypath = [48]\<rparr>"

definition sample_register_request :: BtcRegisterScriptConfigRequest where
  "sample_register_request = \<lparr>rsc_registration = Some sample_registration, rsc_name = ''savings'',
     rsc_xpub_type = 1\<rparr>"

definition sample_register_env :: env where
  "sample_register_env = sample_env\<lparr>env_sha256 := (\<lambda>x. take 32 (x @ replicate 32 0)),
     env_base58check := (\<lambda>x. show_nat (length x))\<rparr>"

lemma sample_register_runs:
  "is_ok (fst (process_register_script_config sample_register_env sample_register_request sample_world))"
  by code_simp


end
