(* ===== verification/Eth_Sighash.thy ===== *)
theory Eth_Sighash
  imports Prelude
begin

text \<open>
  The signature hash of Ethereum transactions (\<open>hww/api/ethereum/sighash.rs\<close>): RLP encoding of
  legacy and EIP-1559 transactions. The writers are modelled by the bytes written to them.
\<close>

section \<open>Model\<close>

definition RLP_SMALL_TAG :: u8 where "RLP_SMALL_TAG = 0xc0"
definition RLP_LARGE_TAG :: u8 where "RLP_LARGE_TAG = 0xf7"

record ParamsLegacy =
  lg_nonce :: bytes
  lg_gas_price :: bytes
  lg_gas_limit :: bytes
  lg_recipient :: bytes
  lg_value :: bytes
  lg_data :: bytes
  lg_chain_id :: u64

record ParamsEIP1559 =
  ef_chain_id :: u64
  ef_nonce :: bytes
  ef_max_priority_fee_per_gas :: bytes
  ef_max_fee_per_gas :: bytes
  ef_gas_limit :: bytes
  ef_recipient :: bytes
  ef_value :: bytes
  ef_data :: bytes

definition hash_header :: "u8 \<Rightarrow> u8 \<Rightarrow> u16 \<Rightarrow> bytes" where
  "hash_header small_tag large_tag len =
     (if len \<le> 55 then [small_tag + ucast len]
      else if len \<le> 0xff then [large_tag + 1, ucast len]
      else [large_tag + 2] @ rev (u16_le len))"

definition hash_element :: "bytes \<Rightarrow> bytes" where
  "hash_element bs =
     (if length bs \<noteq> 1 \<or> bs ! 0 > 0x7f then hash_header 0x80 0xb7 (of_nat (length bs)) else []) @ bs"

definition hash_u64 :: "u64 \<Rightarrow> bytes" where
  "hash_u64 v = hash_element (dropWhile (\<lambda>b. b = 0) (u64_be v))"

definition hash_params_legacy :: "ParamsLegacy \<Rightarrow> bytes" where
  "hash_params_legacy p =
     hash_element (lg_nonce p) @ hash_element (lg_gas_price p) @ hash_element (lg_gas_limit p)
     @ hash_element (lg_recipient p) @ hash_element (lg_value p) @ hash_element (lg_data p)
     @ hash_u64 (lg_chain_id p) @ hash_u64 0 @ hash_u64 0"

definition hash_params_eip1559 :: "ParamsEIP1559 \<Rightarrow> bytes" where
  "hash_params_eip1559 p =
     hash_u64 (ef_chain_id p) @ hash_element (ef_nonce p)
     @ hash_element (ef_max_priority_fee_per_gas p) @ hash_element (ef_max_fee_per_gas p)
     @ hash_element (ef_gas_limit p) @ hash_element (ef_recipient p) @ hash_element (ef_value p)
     @ hash_element (ef_data p) @ hash_header RLP_SMALL_TAG RLP_LARGE_TAG 0"

text \<open>The \<open>Counter\<close> writer: the number of bytes written, in a \<open>u32\<close>.\<close>

definition count_written :: "bytes \<Rightarrow> u32" where
  "count_written bs = of_nat (length bs)"

definition legacy_preimage :: "ParamsLegacy \<Rightarrow> bytes" where
  "legacy_preimage p =
     hash_header RLP_SMALL_TAG RLP_LARGE_TAG (ucast (count_written (hash_params_legacy p))) @ hash_params_legacy p"

definition compute_legacy :: "(bytes \<Rightarrow> bytes) \<Rightarrow> ParamsLegacy \<Rightarrow> (unit, bytes) result" where
  "compute_legacy keccak256 p =
     (if count_written (hash_params_legacy p) > 0xffff then Err () else Ok (keccak256 (legacy_preimage p)))"

definition eip1559_preimage :: "ParamsEIP1559 \<Rightarrow> bytes" where
  "eip1559_preimage p =
     [0x02] @ hash_header RLP_SMALL_TAG RLP_LARGE_TAG (ucast (count_written (hash_params_eip1559 p)))
       @ hash_params_eip1559 p"

definition compute_eip1559 :: "(bytes \<Rightarrow> bytes) \<Rightarrow> ParamsEIP1559 \<Rightarrow> (unit, bytes) result" where
  "compute_eip1559 keccak256 p =
     (if count_written (hash_params_eip1559 p) > 0xffff then Err () else Ok (keccak256 (eip1559_preimage p)))"

section \<open>Big-endian numbers\<close>

text \<open>\<open>BigUint::from_bytes_be\<close>.\<close>

definition be_val :: "bytes \<Rightarrow> nat" where
  "be_val bs = foldl (\<lambda>acc b. acc * 256 + unat b) 0 bs"

lemma be_val_snoc: "be_val (bs @ [b]) = be_val bs * 256 + unat b"
  by (simp add: be_val_def)

lemma be_val_rev: "be_val (rev bs) = le_val bs"
  by (induction bs) (simp_all add: be_val_snoc be_val_def [of "[]"])

lemma be_val_strip: "be_val (dropWhile (\<lambda>b. b = 0) bs) = be_val bs"
proof -
  have "foldl (\<lambda>acc b. acc * 256 + unat b) 0 (dropWhile (\<lambda>b. b = 0) bs)
      = foldl (\<lambda>acc b. acc * 256 + unat b) 0 bs"
    by (induction bs) simp_all
  then show ?thesis by (simp add: be_val_def)
qed

lemma be_val_u64_be: "be_val (u64_be v) = unat v"
  by (simp add: u64_be_def be_val_rev le_val_u64_le)

section \<open>Reading back\<close>

definition read_header :: "u8 \<Rightarrow> u8 \<Rightarrow> bytes \<Rightarrow> (u16 \<times> bytes) option" where
  "read_header small_tag large_tag bs = (case bs of
      [] \<Rightarrow> None
    | b # r \<Rightarrow>
        if b = large_tag + 1 then (case r of [] \<Rightarrow> None | n # s \<Rightarrow> Some (ucast n, s))
        else if b = large_tag + 2 then map_option (\<lambda>(h, s). (of_nat (be_val h), s)) (take_exact 2 r)
        else Some (ucast (b - small_tag), r))"

definition read_element :: "bytes \<Rightarrow> (bytes \<times> bytes) option" where
  "read_element bs = (case bs of
      [] \<Rightarrow> None
    | b # r \<Rightarrow> if b \<le> 0x7f then Some ([b], r)
        else (case read_header 0x80 0xb7 bs of None \<Rightarrow> None | Some (n, s) \<Rightarrow> take_exact (unat n) s))"

locale rlp_tags =
  fixes small_tag large_tag :: u8
  assumes tags: "unat small_tag + 57 < 256" "unat large_tag = unat small_tag + 55"
begin

lemma read_hash_header: "read_header small_tag large_tag (hash_header small_tag large_tag len @ r) = Some (len, r)"
proof -
  have large: "unat (large_tag + 1) = unat small_tag + 56" "unat (large_tag + 2) = unat small_tag + 57"
    using tags by (simp_all add: unat_word_ariths)
  have ucast: "unat (ucast len :: u8) = unat len" if "len \<le> 0xff"
    using that by (intro unat_ucast_fits) (simp add: word_le_nat_alt)
  consider (small) "len \<le> 55" | (byte) "\<not> len \<le> 55" "len \<le> 0xff" | (word) "\<not> len \<le> 0xff"
    by blast
  then show ?thesis
  proof cases
    case small
    then have le: "unat len \<le> 55" by (simp add: word_le_nat_alt)
    then have u: "unat (ucast len :: u8) = unat len" by (intro ucast) (simp add: word_le_nat_alt)
    then have "unat (small_tag + ucast len) = unat small_tag + unat len"
      using tags le by (simp add: unat_word_ariths)
    then have "small_tag + ucast len \<noteq> large_tag + 1" "small_tag + ucast len \<noteq> large_tag + 2"
      using large le by (auto simp: word_unat_eq_iff)
    moreover have "ucast (ucast len :: u8) = len"
      using u le by (simp add: word_unat_eq_iff) (subst unat_ucast_fits, simp_all)
    ultimately show ?thesis using small by (simp add: read_header_def hash_header_def)
  next
    case byte
    have "ucast (ucast len :: u8) = len"
      using ucast [OF byte(2)] byte(2)
      by (simp add: word_unat_eq_iff word_le_nat_alt) (subst unat_ucast_fits, simp_all)
    with byte show ?thesis by (simp add: read_header_def hash_header_def)
  next
    case word
    then have "\<not> len \<le> 55" by (simp add: word_le_nat_alt)
    moreover have "large_tag + 2 \<noteq> large_tag + 1" by simp
    ultimately show ?thesis using word
      by (simp add: read_header_def hash_header_def be_val_rev le_val_u16_le)
  qed
qed

lemma hash_header_first: "\<exists>b r. hash_header small_tag large_tag len = b # r \<and> unat small_tag \<le> unat b"
proof (cases "len \<le> 55")
  case True
  then have le: "unat len \<le> 55" by (simp add: word_le_nat_alt)
  then have "unat (ucast len :: u8) = unat len" by (intro unat_ucast_fits) simp
  with tags le have "unat (small_tag + ucast len) = unat small_tag + unat len" by (simp add: unat_word_ariths)
  with True show ?thesis by (simp add: hash_header_def)
next
  case False
  have "unat (large_tag + 1) = unat small_tag + 56" "unat (large_tag + 2) = unat small_tag + 57"
    using tags by (simp_all add: unat_word_ariths)
  with False show ?thesis by (simp add: hash_header_def)
qed

end

sublocale rlp_tags \<subseteq> prefix_code "hash_header small_tag large_tag" "read_header small_tag large_tag" "\<lambda>_. True"
  by unfold_locales (rule read_hash_header)

interpretation rlp_string: rlp_tags "0x80" "0xb7"
  by unfold_locales simp_all

interpretation rlp_list: rlp_tags RLP_SMALL_TAG RLP_LARGE_TAG
  by unfold_locales (simp_all add: RLP_SMALL_TAG_def RLP_LARGE_TAG_def)

lemma read_hash_element: "length bs < 65536 \<Longrightarrow> read_element (hash_element bs @ r) = Some (bs, r)"
proof -
  assume len: "length bs < 65536"
  show ?thesis
  proof (cases "length bs \<noteq> 1 \<or> bs ! 0 > 0x7f")
    case True
    obtain b s where h: "hash_header 0x80 0xb7 (of_nat (length bs)) = b # s" "\<not> b \<le> 0x7f"
      using rlp_string.hash_header_first [of "of_nat (length bs)"] by (auto simp: word_le_nat_alt)
    have "read_header 0x80 0xb7 (b # s @ bs @ r) = Some (of_nat (length bs), bs @ r)"
      using rlp_string.read_hash_header [of "of_nat (length bs)" "bs @ r"] h by simp
    moreover have "unat (of_nat (length bs) :: u16) = length bs" using len by (simp add: unat_of_nat)
    ultimately show ?thesis using True h by (simp add: hash_element_def read_element_def)
  next
    case False
    then obtain b where "bs = [b]" "b \<le> 0x7f" by (auto simp: length_Suc_conv)
    then show ?thesis by (auto simp: hash_element_def read_element_def not_less [symmetric])
  qed
qed

interpretation rlp: prefix_code hash_element read_element "\<lambda>bs. length bs < 65536"
  by unfold_locales (rule read_hash_element)

section \<open>What the signature hash commits to\<close>

lemma length_hash_element: "length bs \<le> length (hash_element bs)"
  by (simp add: hash_element_def)

lemma hash_u64_append_eq: "hash_u64 v @ r = hash_u64 v' @ r' \<longleftrightarrow> v = v' \<and> r = r'"
proof
  assume eq: "hash_u64 v @ r = hash_u64 v' @ r'"
  have len: "length (dropWhile (\<lambda>b. b = 0) (u64_be x)) < 65536" for x
    using length_dropWhile_le [of "\<lambda>b. b = 0" "u64_be x"] by (simp add: le_less_trans)
  from eq have "dropWhile (\<lambda>b. b = 0) (u64_be v) = dropWhile (\<lambda>b. b = 0) (u64_be v') \<and> r = r'"
    unfolding hash_u64_def by (rule rlp.enc_append_inj [OF len len])
  then have "unat v = unat v'" "r = r'" by (metis be_val_strip be_val_u64_be)+
  then show "v = v' \<and> r = r'" by (simp add: word_unat_eq_iff)
qed simp

lemma hash_u64_inj: "hash_u64 v = hash_u64 v' \<Longrightarrow> v = v'"
  using hash_u64_append_eq [of v "[]" v' "[]"] by simp

text \<open>
  The two kinds of transactions together, with what is hashed for each and the number of bytes in
  the RLP list.
\<close>

datatype tx_params = TxLegacy ParamsLegacy | TxEip1559 ParamsEIP1559

fun tx_list :: "tx_params \<Rightarrow> bytes" where
  "tx_list (TxLegacy p) = hash_params_legacy p"
| "tx_list (TxEip1559 p) = hash_params_eip1559 p"

fun tx_preimage :: "tx_params \<Rightarrow> bytes" where
  "tx_preimage (TxLegacy p) = legacy_preimage p"
| "tx_preimage (TxEip1559 p) = eip1559_preimage p"

fun tx_sighash :: "(bytes \<Rightarrow> bytes) \<Rightarrow> tx_params \<Rightarrow> (unit, bytes) result" where
  "tx_sighash keccak256 (TxLegacy p) = compute_legacy keccak256 p"
| "tx_sighash keccak256 (TxEip1559 p) = compute_eip1559 keccak256 p"

lemma tx_sighash_Ok:
  assumes "tx_sighash keccak256 p = Ok h" "length (tx_list p) < 2 ^ 32"
  shows "h = keccak256 (tx_preimage p) \<and> length (tx_list p) < 65536"
proof -
  have "length x < 65536" if "\<not> 0xffff < count_written x" "length x < 2 ^ 32" for x
    using that by (simp add: count_written_def word_less_nat_alt unat_of_nat)
  with assms show ?thesis
    by (cases p) (auto simp: compute_legacy_def compute_eip1559_def split: if_splits)
qed

lemma hash_params_legacy_inj:
  assumes "hash_params_legacy p = hash_params_legacy q" "length (hash_params_legacy p) < 65536"
  shows "p = q"
proof -
  have fits: "length (lg_nonce x) < 65536 \<and> length (lg_gas_price x) < 65536 \<and> length (lg_gas_limit x) < 65536
    \<and> length (lg_recipient x) < 65536 \<and> length (lg_value x) < 65536 \<and> length (lg_data x) < 65536"
    if "length (hash_params_legacy x) < 65536" for x
    using that length_hash_element [of "lg_nonce x"] length_hash_element [of "lg_gas_price x"]
      length_hash_element [of "lg_gas_limit x"] length_hash_element [of "lg_recipient x"]
      length_hash_element [of "lg_value x"] length_hash_element [of "lg_data x"]
    by (simp add: hash_params_legacy_def)
  with assms have "length (hash_params_legacy q) < 65536" by simp
  with assms fits [of p] fits [of q] show ?thesis
    by (auto simp: hash_params_legacy_def rlp.enc_append_eq hash_u64_append_eq
        dest: hash_u64_inj intro!: ParamsLegacy.equality)
qed

lemma hash_params_eip1559_inj:
  assumes "hash_params_eip1559 p = hash_params_eip1559 q" "length (hash_params_eip1559 p) < 65536"
  shows "p = q"
proof -
  have fits: "length (ef_nonce x) < 65536 \<and> length (ef_max_priority_fee_per_gas x) < 65536
    \<and> length (ef_max_fee_per_gas x) < 65536 \<and> length (ef_gas_limit x) < 65536
    \<and> length (ef_recipient x) < 65536 \<and> length (ef_value x) < 65536 \<and> length (ef_data x) < 65536"
    if "length (hash_params_eip1559 x) < 65536" for x
    using that length_hash_element [of "ef_nonce x"] length_hash_element [of "ef_max_priority_fee_per_gas x"]
      length_hash_element [of "ef_max_fee_per_gas x"]
      length_hash_element [of "ef_gas_limit x"] length_hash_element [of "ef_recipient x"]
      length_hash_element [of "ef_value x"] length_hash_element [of "ef_data x"]
    by (simp add: hash_params_eip1559_def)
  with assms have "length (hash_params_eip1559 q) < 65536" by simp
  with assms fits [of p] fits [of q] show ?thesis
    by (auto simp: hash_params_eip1559_def rlp.enc_append_eq hash_u64_append_eq
        dest: rlp.enc_inj [rotated 2] intro!: ParamsEIP1559.equality)
qed

lemma legacy_preimage_not_eip1559: "legacy_preimage p \<noteq> eip1559_preimage q"
  using rlp_list.hash_header_first [of "ucast (count_written (hash_params_legacy p))"]
  by (auto simp: legacy_preimage_def eip1559_preimage_def RLP_SMALL_TAG_def)

lemma tx_preimage_inj:
  assumes "tx_preimage p = tx_preimage q" "length (tx_list p) < 65536"
  shows "p = q"
proof (cases p)
  case (TxLegacy a)
  note p = this
  show ?thesis
  proof (cases q)
    case (TxLegacy b)
    with p assms show ?thesis
      by (auto simp: legacy_preimage_def rlp_list.enc_append_eq intro: hash_params_legacy_inj)
  next
    case (TxEip1559 b)
    with p assms legacy_preimage_not_eip1559 show ?thesis by (metis tx_preimage.simps)
  qed
next
  case (TxEip1559 a)
  note p = this
  show ?thesis
  proof (cases q)
    case (TxLegacy b)
    with p assms legacy_preimage_not_eip1559 show ?thesis by (metis tx_preimage.simps)
  next
    case (TxEip1559 b)
    with p assms show ?thesis
      by (auto simp: eip1559_preimage_def rlp_list.enc_append_eq intro: hash_params_eip1559_inj)
  qed
qed

text \<open>
  C27: the signature hash of an Ethereum transaction commits to its kind and all its fields: two
  transactions with the same signature hash are the same, or their encodings are an explicit
  Keccak-256 collision. A legacy transaction never has the encoding of an EIP-1559 one.
\<close>

theorem tx_sighash_commits:
  assumes "tx_sighash keccak256 p = Ok h" "tx_sighash keccak256 q = Ok h"
    and "length (tx_list p) < 2 ^ 32" "length (tx_list q) < 2 ^ 32"
  shows "p = q \<or> collides keccak256 (tx_preimage p) (tx_preimage q)"
proof -
  have "keccak256 (tx_preimage p) = keccak256 (tx_preimage q)" and len: "length (tx_list p) < 65536"
    using tx_sighash_Ok [OF assms(1,3)] tx_sighash_Ok [OF assms(2,4)] by simp_all
  then show ?thesis using tx_preimage_inj [OF _ len] by (blast dest: hash_eqD)
qed

definition sample_legacy :: ParamsLegacy where
  "sample_legacy = \<lparr>lg_nonce = [1], lg_gas_price = [2], lg_gas_limit = [3], lg_recipient = [0x80],
     lg_value = [], lg_data = [7, 7], lg_chain_id = 5\<rparr>"

theorem tx_sighash_commits_witness:
  "collides (\<lambda>_. []) (tx_preimage (TxLegacy sample_legacy))
     (tx_preimage (TxLegacy (sample_legacy \<lparr>lg_chain_id := 6\<rparr>)))"
proof -
  have "tx_sighash (\<lambda>_. []) (TxLegacy sample_legacy) = Ok []"
      "tx_sighash (\<lambda>_. []) (TxLegacy (sample_legacy \<lparr>lg_chain_id := 6\<rparr>)) = Ok []"
      "length (tx_list (TxLegacy sample_legacy)) = 12"
      "length (tx_list (TxLegacy (sample_legacy \<lparr>lg_chain_id := 6\<rparr>))) = 12"
    by code_simp+
  from tx_sighash_commits [OF this(1,2)] this(3,4) show ?thesis by (simp add: sample_legacy_def)
qed

end
