(* ===== verification/Eth_Erc20.thy ===== *)
theory Eth_Erc20
  imports Prelude "HOL-Library.List_Lexorder" "HOL-Library.Product_Lexorder"
begin

text \<open>
  The tokens the device knows by name (\<open>erc20_params\<close>): the tables the build script
  \<open>erc20_params/build.rs\<close> makes of the list of tokens, and the look-up by contract address in
  \<open>erc20_params/src/lib.rs\<close>. The look-up is shown to find exactly the tokens of the list.
\<close>

section \<open>Model\<close>

record Token =
  tk_unit :: string
  tk_contract_address :: bytes
  tk_decimals :: nat

text \<open>A table lists the contract addresses and units of the tokens with one number of decimals.\<close>

type_synonym erc20_table = "(bytes \<times> string) list"

definition token_key :: "Token \<Rightarrow> nat \<times> nat" where
  "token_key t = (tk_decimals t, length (tk_unit t))"

text \<open>
  One table per number of decimals and length of the unit, in the order of a \<open>BTreeMap\<close>; in a table
  the tokens are sorted by address. The build fails on a unit whose length is not a \<open>u8\<close>.
\<close>

definition grouped_tokens :: "Token list \<Rightarrow> (nat \<times> nat) \<Rightarrow> Token list" where
  "grouped_tokens tokens k = sort_key tk_contract_address (filter (\<lambda>t. token_key t = k) tokens)"

definition build_tables :: "Token list \<Rightarrow> (nat \<times> erc20_table) list option" where
  "build_tables tokens =
     (if list_all (\<lambda>t. length (tk_unit t) < 256) tokens
      then Some (map (\<lambda>k. (fst k, map (\<lambda>t. (tk_contract_address t, tk_unit t)) (grouped_tokens tokens k)))
        (sort (remdups (map token_key tokens))))
      else None)"

text \<open>\<open>slice::binary_search_by_key\<close> of the standard library, the index found.\<close>

function binary_search :: "bytes \<Rightarrow> erc20_table \<Rightarrow> nat \<Rightarrow> nat \<Rightarrow> nat option" where
  "binary_search key xs left right =
     (if left < right then
        let mid = left + (right - left) div 2 in
        if fst (xs ! mid) < key then binary_search key xs (mid + 1) right
        else if fst (xs ! mid) > key then binary_search key xs left mid
        else Some mid
      else None)"
  by pat_completeness auto
termination
  by (relation "measure (\<lambda>(key, xs, left, right). right - left)") (auto simp: Let_def)

record Erc20Params =
  erc_unit :: string
  erc_contract_address :: bytes
  erc_decimals :: nat

definition erc20_get :: "(nat \<times> erc20_table) list \<Rightarrow> u64 \<Rightarrow> bytes \<Rightarrow> Erc20Params option" where
  "erc20_get tables chain_id contract_address =
     (if chain_id \<noteq> 1 then None
      else foldr (\<lambda>(decimals, params) rest.
        case binary_search contract_address params 0 (length params) of
          Some idx \<Rightarrow> Some \<lparr>erc_unit = snd (params ! idx), erc_contract_address = fst (params ! idx),
            erc_decimals = decimals\<rparr>
        | None \<Rightarrow> rest) tables None)"

section \<open>The search finds what is there\<close>

declare binary_search.simps [simp del]

lemma binary_search_Some:
  "binary_search key xs l r = Some i \<Longrightarrow> r \<le> length xs \<Longrightarrow> i < length xs \<and> fst (xs ! i) = key"
proof (induction key xs l r rule: binary_search.induct)
  case (1 key xs l r)
  define mid where "mid = l + (r - l) div 2"
  from "1.prems" show ?case
    by (subst (asm) binary_search.simps)
      (use "1.IH" [OF _ mid_def] in \<open>auto simp: mid_def Let_def split: if_splits\<close>)
qed

lemma binary_search_complete:
  assumes "sorted (map fst xs)"
  shows "l \<le> j \<Longrightarrow> j < r \<Longrightarrow> r \<le> length xs \<Longrightarrow> fst (xs ! j) = key \<Longrightarrow> binary_search key xs l r \<noteq> None"
  using assms
proof (induction key xs l r rule: binary_search.induct)
  case (1 key xs l r)
  define mid where "mid = l + (r - l) div 2"
  have mid: "mid < length xs" "l < r" using "1.prems" by (auto simp: mid_def)
  have mono: "fst (xs ! a) \<le> fst (xs ! b)" if "a \<le> b" "b < length xs" for a b
    using sorted_nth_mono [OF "1.prems"(5), of a b] that by simp
  consider (less) "fst (xs ! mid) < key" | (greater) "fst (xs ! mid) > key" | (equal) "fst (xs ! mid) = key"
    by fastforce
  then show ?case
  proof cases
    case less
    have "mid + 1 \<le> j" using less mono [of j mid] mid "1.prems"(4) by (fastforce simp: not_less_eq_eq [symmetric])
    with less mid "1.IH"(1) [OF _ mid_def] "1.prems" show ?thesis
      by (subst binary_search.simps) (simp add: Let_def mid_def)
  next
    case greater
    have "j < mid" using greater mono [of mid j] "1.prems"(2-4) by fastforce
    moreover have "\<not> fst (xs ! mid) < key" using greater by simp
    ultimately show ?thesis using greater mid "1.IH"(2) [OF _ mid_def] "1.prems"
      by (subst binary_search.simps) (simp add: Let_def mid_def)
  next
    case equal
    with mid show ?thesis by (subst binary_search.simps) (simp add: Let_def mid_def)
  qed
qed

definition table_find :: "bytes \<Rightarrow> nat \<times> erc20_table \<Rightarrow> Erc20Params option" where
  "table_find a = (\<lambda>(decimals, params). map_option (\<lambda>idx. \<lparr>erc_unit = snd (params ! idx),
     erc_contract_address = fst (params ! idx), erc_decimals = decimals\<rparr>)
     (binary_search a params 0 (length params)))"

lemma erc20_get_cases:
  "erc20_get tables chain_id a = Some p \<Longrightarrow> chain_id = 1 \<and> (\<exists>T \<in> set tables. table_find a T = Some p)"
  "erc20_get tables 1 a = None \<Longrightarrow> T \<in> set tables \<Longrightarrow> table_find a T = None"
proof -
  let ?f = "\<lambda>(decimals, params) rest.
        case binary_search a params 0 (length params) of
          Some idx \<Rightarrow> Some \<lparr>erc_unit = snd (params ! idx), erc_contract_address = fst (params ! idx),
            erc_decimals = decimals\<rparr>
        | None \<Rightarrow> rest"
  have "foldr ?f tables None = Some p \<Longrightarrow> \<exists>T \<in> set tables. table_find a T = Some p"
    by (induction tables) (auto simp: table_find_def split: option.splits)
  then show "erc20_get tables chain_id a = Some p \<Longrightarrow> chain_id = 1 \<and> (\<exists>T \<in> set tables. table_find a T = Some p)"
    by (auto simp: erc20_get_def split: if_splits)
  have "foldr ?f tables None = None \<Longrightarrow> T \<in> set tables \<Longrightarrow> table_find a T = None"
    by (induction tables) (auto simp: table_find_def split: option.splits)
  then show "erc20_get tables 1 a = None \<Longrightarrow> T \<in> set tables \<Longrightarrow> table_find a T = None"
    by (simp add: erc20_get_def)
qed

text \<open>What the look-up answers for a token of the list.\<close>

definition token_params :: "Token \<Rightarrow> Erc20Params" where
  "token_params t = \<lparr>erc_unit = tk_unit t, erc_contract_address = tk_contract_address t, erc_decimals = tk_decimals t\<rparr>"

lemma table_find_Some:
  assumes "build_tables tokens = Some tables" "T \<in> set tables" "table_find a T = Some p"
  shows "\<exists>t \<in> set tokens. tk_contract_address t = a \<and> p = token_params t"
proof -
  have "T \<in> (\<lambda>k. (fst k, map (\<lambda>t. (tk_contract_address t, tk_unit t)) (grouped_tokens tokens k)))
      ` token_key ` set tokens"
    using assms(1,2) by (auto simp: build_tables_def split: if_splits)
  then obtain k where
    T': "T = (fst k, map (\<lambda>t. (tk_contract_address t, tk_unit t)) (grouped_tokens tokens k))"
    by blast
  define params where params: "params = map (\<lambda>t. (tk_contract_address t, tk_unit t)) (grouped_tokens tokens k)"
  have T: "T = (fst k, params)" using T' by (simp add: params)
  from assms(3) obtain i where i: "binary_search a params 0 (length params) = Some i"
    and p: "p = \<lparr>erc_unit = snd (params ! i), erc_contract_address = fst (params ! i), erc_decimals = fst k\<rparr>"
    by (auto simp: table_find_def T)
  have i: "i < length params" "fst (params ! i) = a" using binary_search_Some [OF i] by auto
  let ?t = "grouped_tokens tokens k ! i"
  have "?t \<in> set (grouped_tokens tokens k)" using i(1) by (simp add: params)
  then have t: "?t \<in> set tokens" "token_key ?t = k" by (simp_all add: grouped_tokens_def)
  then have "fst k = tk_decimals ?t" by (metis fst_conv token_key_def)
  with t i show ?thesis by (intro bexI [of _ ?t]) (simp_all add: p params token_params_def)
qed

lemma table_find_complete:
  assumes "build_tables tokens = Some tables" "t \<in> set tokens"
  shows "\<exists>T \<in> set tables. table_find (tk_contract_address t) T \<noteq> None"
proof -
  let ?g = "grouped_tokens tokens (token_key t)"
  let ?params = "map (\<lambda>t. (tk_contract_address t, tk_unit t)) ?g"
  have "t \<in> set ?g" using assms(2) by (simp add: grouped_tokens_def)
  then obtain j where "j < length ?g" "?g ! j = t" by (auto simp: in_set_conv_nth)
  moreover have "sorted (map fst ?params)" by (simp add: grouped_tokens_def comp_def)
  ultimately have "binary_search (tk_contract_address t) ?params 0 (length ?params) \<noteq> None"
    using binary_search_complete [of ?params 0 j "length ?params"] by simp
  moreover have "(fst (token_key t), ?params) \<in> set tables"
    using assms by (auto simp: build_tables_def split: if_splits)
  ultimately show ?thesis by (auto simp: table_find_def intro!: bexI)
qed

text \<open>
  C31: with tables built from a list of tokens with different contract addresses, the look-up on
  Ethereum's main chain answers with the unit and the decimals of the token that has the address, if
  the list has one, and with nothing otherwise; on another chain it never answers.
\<close>

theorem erc20_get_correct:
  assumes "build_tables tokens = Some tables" "distinct (map tk_contract_address tokens)"
  shows "erc20_get tables chain_id a
    = (if chain_id = 1 then map_option token_params (find (\<lambda>t. tk_contract_address t = a) tokens) else None)"
proof (cases "chain_id = 1")
  case True
  show ?thesis
  proof (cases "find (\<lambda>t. tk_contract_address t = a) tokens")
    case None
    then have no: "tk_contract_address t \<noteq> a" if "t \<in> set tokens" for t using that by (auto simp: find_None_iff)
    have "erc20_get tables chain_id a \<noteq> Some p" for p
      using erc20_get_cases(1) [of tables chain_id a p] table_find_Some [OF assms(1), of _ a p] no by blast
    then have "erc20_get tables chain_id a = None" by (cases "erc20_get tables chain_id a") auto
    with None True show ?thesis by simp
  next
    case (Some t)
    then have t: "t \<in> set tokens" "tk_contract_address t = a" by (auto simp: find_Some_iff)
    have "erc20_get tables 1 a \<noteq> None"
      using table_find_complete [OF assms(1) t(1)] erc20_get_cases(2) [of tables a] t(2) by metis
    with True obtain p where p: "erc20_get tables chain_id a = Some p" by blast
    with erc20_get_cases(1) table_find_Some [OF assms(1)] obtain t' where
      "t' \<in> set tokens" "tk_contract_address t' = a" "p = token_params t'" by blast
    with t assms(2) have "p = token_params t" by (auto simp: distinct_map dest: inj_onD)
    with p Some True show ?thesis by simp
  qed
qed (simp add: erc20_get_def)

definition sample_tokens :: "Token list" where
  "sample_tokens = [\<lparr>tk_unit = ''FOO'', tk_contract_address = [2, 1], tk_decimals = 3\<rparr>,
     \<lparr>tk_unit = ''BA'', tk_contract_address = [7], tk_decimals = 1\<rparr>,
     \<lparr>tk_unit = ''BAZ'', tk_contract_address = [1, 9], tk_decimals = 3\<rparr>]"

theorem erc20_get_correct_witness:
  "\<exists>tables. build_tables sample_tokens = Some tables
     \<and> erc20_get tables 1 [1, 9] = Some \<lparr>erc_unit = ''BAZ'', erc_contract_address = [1, 9], erc_decimals = 3\<rparr>"
proof -
  obtain tables where t: "build_tables sample_tokens = Some tables" by (simp add: build_tables_def sample_tokens_def)
  moreover have "distinct (map tk_contract_address sample_tokens)" by (simp add: sample_tokens_def)
  ultimately show ?thesis using erc20_get_correct [of sample_tokens tables 1 "[1, 9]"]
    by (simp add: sample_tokens_def token_params_def)
qed

end
