(* ===== verification/Eth_Sign.thy ===== *)
theory Eth_Sign
  imports Eth_Sighash Eth_Erc20 Verify_Message
begin

text \<open>
  Ethereum requests (\<open>hww/api/ethereum.rs\<close> and \<open>hww/api/ethereum/\<close>): networks, key paths, addresses,
  amounts, public keys, transactions and messages. Keccak-256 and the token tables are parts of the
  environment; big integers are natural numbers.
\<close>

section \<open>Networks\<close>

record EthParams =
  ep_coin :: "EthCoin option"
  ep_bip44_coin :: u32
  ep_chain_id :: u64
  ep_name :: string
  ep_unit :: string

definition ETH_PARAMS :: "EthParams list" where
  "ETH_PARAMS = [
     \<lparr>ep_coin = Some Eth, ep_bip44_coin = 60 + HARDENED, ep_chain_id = 1, ep_name = ''Ethereum'', ep_unit = ''ETH''\<rparr>,
     \<lparr>ep_coin = None, ep_bip44_coin = 1 + HARDENED, ep_chain_id = 5, ep_name = ''Goerli'', ep_unit = ''GOETH''\<rparr>,
     \<lparr>ep_coin = None, ep_bip44_coin = 1 + HARDENED, ep_chain_id = 11155111, ep_name = ''Sepolia'', ep_unit = ''SEPETH''\<rparr>,
     \<lparr>ep_coin = None, ep_bip44_coin = 60 + HARDENED, ep_chain_id = 56, ep_name = ''Binance Smart Chain'', ep_unit = ''BNB''\<rparr>,
     \<lparr>ep_coin = None, ep_bip44_coin = 60 + HARDENED, ep_chain_id = 10, ep_name = ''Optimism'', ep_unit = ''OETH''\<rparr>,
     \<lparr>ep_coin = None, ep_bip44_coin = 60 + HARDENED, ep_chain_id = 137, ep_name = ''Polygon'', ep_unit = ''MATIC''\<rparr>,
     \<lparr>ep_coin = None, ep_bip44_coin = 60 + HARDENED, ep_chain_id = 250, ep_name = ''Fanton Opera'', ep_unit = ''FTM''\<rparr>,
     \<lparr>ep_coin = None, ep_bip44_coin = 60 + HARDENED, ep_chain_id = 42161, ep_name = ''Arbitrum One'', ep_unit = ''AETH''\<rparr>]"

definition eth_params_get :: "EthCoin option \<Rightarrow> u64 \<Rightarrow> EthParams option" where
  "eth_params_get coin chain_id = find (\<lambda>p.
     if chain_id > 0 then ep_chain_id p = chain_id
     else if coin \<noteq> None then ep_coin p = coin
     else False) ETH_PARAMS"

definition network_params :: "string \<Rightarrow> ConfirmParams" where
  "network_params body = confirm_default\<lparr>cp_title := ''Warning'', cp_body := body,
     cp_accept_is_nextarrow := True\<rparr>"

definition unknown_network_body :: "u64 \<Rightarrow> string" where
  "unknown_network_body chain_id = ''Unknown network'' @ [CHR 0x0A] @ ''with chain ID:'' @ [CHR 0x0A] @ show_nat (unat chain_id)"

definition recognize_network_body :: string where
  "recognize_network_body = ''Only proceed if'' @ [CHR 0x0A] @ ''you recognize'' @ [CHR 0x0A] @ ''this chain ID.''"

definition unknown_network :: "u64 \<Rightarrow> EthParams" where
  "unknown_network chain_id = \<lparr>ep_coin = None, ep_bip44_coin = 60 + HARDENED, ep_chain_id = chain_id,
     ep_name = ''UNKNOWN'', ep_unit = []\<rparr>"

definition get_and_warn_unknown :: "env \<Rightarrow> EthCoin option \<Rightarrow> u64 \<Rightarrow> EthParams handler" where
  "get_and_warn_unknown E coin chain_id = (case eth_params_get coin chain_id of
       Some params \<Rightarrow> returnM params
     | None \<Rightarrow>
         if chain_id = 0 then failM ErrInvalidInput
         else bindM (user_abort (confirm E (network_params (unknown_network_body chain_id)))) (\<lambda>_.
           bindM (user_abort (confirm E (network_params recognize_network_body))) (\<lambda>_.
           returnM (unknown_network chain_id))))"

section \<open>Key paths\<close>

definition ACCOUNT_MAX :: u32 where "ACCOUNT_MAX = 99"

definition unusual_keypath_params :: "string \<Rightarrow> keypath \<Rightarrow> ConfirmParams" where
  "unusual_keypath_params title keypath = confirm_default\<lparr>cp_title := title,
     cp_body := ''Warning: unusual keypath '' @ keypath_to_string keypath
       @ ''. Proceed only if you know what you are doing.'',
     cp_title_autowrap := True, cp_scrollable := True, cp_accept_is_nextarrow := True\<rparr>"

definition warn_unusual_keypath :: "env \<Rightarrow> EthParams \<Rightarrow> string \<Rightarrow> keypath \<Rightarrow> unit handler" where
  "warn_unusual_keypath E params title keypath =
     (if length keypath < 2 then failM ErrInvalidInput
      else if keypath ! 1 \<noteq> ep_bip44_coin params
      then user_abort (confirm E (unusual_keypath_params title keypath))
      else returnM ())"

definition is_valid_keypath_xpub :: "keypath \<Rightarrow> bool" where
  "is_valid_keypath_xpub keypath \<longleftrightarrow> length keypath = 4
     \<and> (take 4 keypath = [44 + HARDENED, 60 + HARDENED, 0 + HARDENED, 0]
       \<or> take 4 keypath = [44 + HARDENED, 1 + HARDENED, 0 + HARDENED, 0])"

definition is_valid_keypath_address :: "keypath \<Rightarrow> bool" where
  "is_valid_keypath_address keypath =
     (if length keypath \<noteq> 5 then False
      else if \<not> is_valid_keypath_xpub (take 4 keypath) then False
      else if keypath ! 4 > ACCOUNT_MAX then False
      else True)"

section \<open>Addresses and amounts\<close>

text \<open>The mixed-case checksum of an address: letters become capital where the hash has a high digit.\<close>

definition checksum_char :: "bytes \<Rightarrow> nat \<Rightarrow> char \<Rightarrow> char" where
  "checksum_char hash i e =
     (let b = hash ! (i div 2);
          hash_byte = (if i mod 2 = 0 then unat b div 16 else unat b mod 16)
      in if of_char e > (57 :: nat) \<and> hash_byte > 7 then char_of (of_char e - (32 :: nat)) else e)"

fun checksum_chars :: "bytes \<Rightarrow> nat \<Rightarrow> string \<Rightarrow> string" where
  "checksum_chars hash i [] = []"
| "checksum_chars hash i (e # hex) = checksum_char hash i e # checksum_chars hash (i + 1) hex"

definition from_pubkey_hash :: "env \<Rightarrow> bytes \<Rightarrow> string" where
  "from_pubkey_hash E recipient =
     ''0x'' @ checksum_chars (env_keccak256 E (as_bytes (hex_encode recipient))) 0 (hex_encode recipient)"

definition from_pubkey :: "env \<Rightarrow> bytes \<Rightarrow> string" where
  "from_pubkey E pubkey =
     (let hash = env_keccak256 E (drop 1 pubkey)
      in from_pubkey_hash E (drop (length hash - 20) hash))"

record Amount =
  am_unit :: string
  am_decimals :: nat
  am_value :: nat

definition TRUNCATE_SIZE :: nat where "TRUNCATE_SIZE = 13"

definition eth_amount_format :: "Amount \<Rightarrow> string" where
  "eth_amount_format a =
     (let v = decimal_format (am_value a) (am_decimals a) in
      if length v > TRUNCATE_SIZE then take TRUNCATE_SIZE v @ ''... '' @ am_unit a
      else v @ '' '' @ am_unit a)"

text \<open>
  \<open>BigUint::to_f64\<close>: the 64 most significant bits, rounded to a double and scaled. The numbers of an
  accepted transaction have at most 256 bits, so the result is finite.
\<close>

definition high_bits_to_u64 :: "nat \<Rightarrow> nat" where
  "high_bits_to_u64 v = v div 2 ^ (floorlog 2 v - 64)"

definition to_f64 :: "nat \<Rightarrow> f64" where
  "to_f64 v =
     (let mantissa = high_bits_to_u64 v; exponent = floorlog 2 v - floorlog 2 mantissa
      in if exponent > 1024 then PosInf else f64_mul (f64_of_nat mantissa) (Fin (2 ^ exponent)))"

definition calculate_percentage :: "nat \<Rightarrow> nat \<Rightarrow> f64 option" where
  "calculate_percentage fee amount =
     (if amount = 0 then None
      else Some (f64_div (f64_mul (Fin 100) (to_f64 fee)) (to_f64 amount)))"

section \<open>Host round trips\<close>

definition next_request_eth :: "env \<Rightarrow> EthResponse \<Rightarrow> EthRequest handler" where
  "next_request_eth E response =
     bindM (hww_next_request E (RespEth (Some response))) (\<lambda>request.
     case request of ReqEth (Some r) \<Rightarrow> returnM r | _ \<Rightarrow> failM ErrInvalidState)"

definition eth_antiklepto_get_host_nonce :: "env \<Rightarrow> bytes \<Rightarrow> bytes handler" where
  "eth_antiklepto_get_host_nonce E signer_nonce_commitment =
     bindM (next_request_eth E (EthRespAntikleptoSignerCommitment signer_nonce_commitment)) (\<lambda>request.
     case request of
       EthAntikleptoSignature host_nonce \<Rightarrow>
         bindM (guardM (length host_nonce = 32) ErrInvalidInput) (\<lambda>_. returnM host_nonce)
     | _ \<Rightarrow> failM ErrInvalidState)"

text \<open>
  The signature all three signing handlers end with: the anti-klepto exchange if the host sent a
  commitment, then the signature with its recovery id.
\<close>

definition eth_host_nonce ::
  "env \<Rightarrow> AntiKleptoHostNonceCommitment option \<Rightarrow> keypath \<Rightarrow> bytes \<Rightarrow> bytes handler" where
  "eth_host_nonce E host_nonce_commitment keypath sighash =
     (case host_nonce_commitment of
       Some commitment \<Rightarrow>
         bindM (guardM (length commitment = 32) ErrInvalidInput) (\<lambda>_.
         bindM (map_errM (\<lambda>_. ErrGeneric) (secp256k1_nonce_commit E keypath sighash commitment)) (\<lambda>sc.
         eth_antiklepto_get_host_nonce E sc))
     | None \<Rightarrow> returnM (replicate 32 0))"

definition eth_sign_hash ::
  "env \<Rightarrow> AntiKleptoHostNonceCommitment option \<Rightarrow> keypath \<Rightarrow> bytes \<Rightarrow> EthResponse handler" where
  "eth_sign_hash E host_nonce_commitment keypath sighash =
     bindM (eth_host_nonce E host_nonce_commitment keypath sighash) (\<lambda>host_nonce.
     bindM (map_errM (\<lambda>_. ErrGeneric) (secp256k1_sign E keypath sighash host_nonce)) (\<lambda>(signature, recid).
     returnM (EthRespSign (signature @ [recid]))))"

section \<open>Transactions\<close>

definition WEI_DECIMALS :: nat where "WEI_DECIMALS = 18"

datatype Transaction = Legacy EthSignRequest | Eip1559 EthSignEip1559Request

fun tx_nonce :: "Transaction \<Rightarrow> bytes" where
  "tx_nonce (Legacy legacy) = esr_nonce legacy"
| "tx_nonce (Eip1559 eip1559) = e1559_nonce eip1559"

fun tx_gas_limit :: "Transaction \<Rightarrow> bytes" where
  "tx_gas_limit (Legacy legacy) = esr_gas_limit legacy"
| "tx_gas_limit (Eip1559 eip1559) = e1559_gas_limit eip1559"

fun tx_recipient :: "Transaction \<Rightarrow> bytes" where
  "tx_recipient (Legacy legacy) = esr_recipient legacy"
| "tx_recipient (Eip1559 eip1559) = e1559_recipient eip1559"

fun tx_value :: "Transaction \<Rightarrow> bytes" where
  "tx_value (Legacy legacy) = esr_value legacy"
| "tx_value (Eip1559 eip1559) = e1559_value eip1559"

fun tx_data :: "Transaction \<Rightarrow> bytes" where
  "tx_data (Legacy legacy) = esr_data legacy"
| "tx_data (Eip1559 eip1559) = e1559_data eip1559"

fun tx_chain_id :: "Transaction \<Rightarrow> u64" where
  "tx_chain_id (Legacy legacy) = esr_chain_id legacy"
| "tx_chain_id (Eip1559 eip1559) = e1559_chain_id eip1559"

fun tx_keypath :: "Transaction \<Rightarrow> keypath" where
  "tx_keypath (Legacy legacy) = esr_keypath legacy"
| "tx_keypath (Eip1559 eip1559) = e1559_keypath eip1559"

fun tx_host_nonce_commitment :: "Transaction \<Rightarrow> AntiKleptoHostNonceCommitment option" where
  "tx_host_nonce_commitment (Legacy legacy) = esr_host_nonce_commitment legacy"
| "tx_host_nonce_commitment (Eip1559 eip1559) = e1559_host_nonce_commitment eip1559"

fun tx_coin :: "Transaction \<Rightarrow> (Error, EthCoin option) result" where
  "tx_coin (Legacy legacy) =
     bindR (ok_or ErrInvalidInput (eth_coin_try_from (esr_coin legacy))) (\<lambda>c. Ok (Some c))"
| "tx_coin (Eip1559 _) = Ok None"

definition parse_recipient :: "bytes \<Rightarrow> (Error, bytes) result" where
  "parse_recipient recipient = (if length recipient = 20 then Ok recipient else Err ErrInvalidInput)"

definition parse_erc20 :: "Transaction \<Rightarrow> (bytes \<times> nat) option" where
  "parse_erc20 request =
     (if tx_value request \<noteq> [] \<or> length (tx_data request) \<noteq> 68 then None
      else let method = slice 0 4 (tx_data request);
               recipient = slice 4 36 (tx_data request);
               value = slice 36 68 (tx_data request) in
           if method \<noteq> [0xa9, 0x05, 0x9c, 0xbb] then None
           else if take 12 recipient \<noteq> replicate 12 0 then None
           else if value = replicate 32 0 then None
           else Some (drop 12 recipient, be_val value))"

fun parse_fee :: "Transaction \<Rightarrow> EthParams \<Rightarrow> Amount" where
  "parse_fee (Legacy legacy) params =
     \<lparr>am_unit = ep_unit params, am_decimals = WEI_DECIMALS,
       am_value = be_val (esr_gas_price legacy) * be_val (esr_gas_limit legacy)\<rparr>"
| "parse_fee (Eip1559 eip1559) params =
     \<lparr>am_unit = ep_unit params, am_decimals = WEI_DECIMALS,
       am_value = be_val (e1559_max_fee_per_gas eip1559) * be_val (e1559_gas_limit eip1559)\<rparr>"

definition hash_legacy :: "env \<Rightarrow> u64 \<Rightarrow> EthSignRequest \<Rightarrow> (Error, bytes) result" where
  "hash_legacy E chain_id request = map_err (\<lambda>_. ErrInvalidInput) (compute_legacy (env_keccak256 E)
     \<lparr>lg_nonce = esr_nonce request, lg_gas_price = esr_gas_price request,
      lg_gas_limit = esr_gas_limit request, lg_recipient = esr_recipient request,
      lg_value = esr_value request, lg_data = esr_data request, lg_chain_id = chain_id\<rparr>)"

definition hash_eip1559 :: "env \<Rightarrow> EthSignEip1559Request \<Rightarrow> (Error, bytes) result" where
  "hash_eip1559 E request = map_err (\<lambda>_. ErrInvalidInput) (compute_eip1559 (env_keccak256 E)
     \<lparr>ef_chain_id = e1559_chain_id request, ef_nonce = e1559_nonce request,
      ef_max_priority_fee_per_gas = e1559_max_priority_fee_per_gas request,
      ef_max_fee_per_gas = e1559_max_fee_per_gas request, ef_gas_limit = e1559_gas_limit request,
      ef_recipient = e1559_recipient request, ef_value = e1559_value request,
      ef_data = e1559_data request\<rparr>)"

definition verify_erc20_transaction ::
  "env \<Rightarrow> Transaction \<Rightarrow> EthParams \<Rightarrow> bytes \<Rightarrow> nat \<Rightarrow> unit handler" where
  "verify_erc20_transaction E request params erc20_recipient erc20_value =
     bindM (liftM (parse_recipient (tx_recipient request))) (\<lambda>contract.
     let formatted_fee = eth_amount_format (parse_fee request params);
         recipient_address = from_pubkey_hash E erc20_recipient;
         (formatted_value, formatted_total) =
           (case erc20_get (env_erc20_tables E) (ep_chain_id params) contract of
             Some erc20_params \<Rightarrow>
               (let value = eth_amount_format \<lparr>am_unit = erc_unit erc20_params,
                   am_decimals = erc_decimals erc20_params, am_value = erc20_value\<rparr>
                in (value, value))
           | None \<Rightarrow> (''Unknown token'', ''Unknown amount'')) in
     bindM (user_abort (verify_recipient E recipient_address formatted_value)) (\<lambda>_.
     user_abort (verify_total_fee E formatted_total formatted_fee None)))"

definition contract_params :: "string \<Rightarrow> ConfirmParams" where
  "contract_params body = confirm_default\<lparr>cp_title := ''Unknown'' @ [CHR 0x0A] @ ''contract'',
     cp_body := body, cp_accept_is_nextarrow := True\<rparr>"

definition raw_data_body :: string where
  "raw_data_body = ''You will be shown'' @ [CHR 0x0A] @ ''the raw'' @ [CHR 0x0A] @ ''transaction data.''"

definition understand_data_body :: string where
  "understand_data_body = ''Only proceed if you'' @ [CHR 0x0A] @ ''understand exactly'' @ [CHR 0x0A]
     @ ''what the data means.''"

definition data_params :: "bytes \<Rightarrow> ConfirmParams" where
  "data_params data = confirm_default\<lparr>cp_title := ''Transaction'' @ [CHR 0x0A] @ ''data'',
     cp_body := hex_encode data, cp_scrollable := True, cp_display_size := length data,
     cp_accept_is_nextarrow := True\<rparr>"

text \<open>The local variables \<open>amount\<close>, \<open>total\<close> and \<open>percentage\<close>.\<close>

definition tx_amount :: "Transaction \<Rightarrow> EthParams \<Rightarrow> Amount" where
  "tx_amount request params =
     \<lparr>am_unit = ep_unit params, am_decimals = WEI_DECIMALS, am_value = be_val (tx_value request)\<rparr>"

definition tx_total :: "Transaction \<Rightarrow> EthParams \<Rightarrow> Amount" where
  "tx_total request params = \<lparr>am_unit = ep_unit params, am_decimals = WEI_DECIMALS,
     am_value = am_value (tx_amount request params) + am_value (parse_fee request params)\<rparr>"

definition tx_percentage :: "Transaction \<Rightarrow> EthParams \<Rightarrow> f64 option" where
  "tx_percentage request params =
     calculate_percentage (am_value (parse_fee request params)) (am_value (tx_amount request params))"

definition verify_standard_transaction :: "env \<Rightarrow> Transaction \<Rightarrow> EthParams \<Rightarrow> unit handler" where
  "verify_standard_transaction E request params =
     bindM (liftM (parse_recipient (tx_recipient request))) (\<lambda>recipient.
     bindM (if tx_data request \<noteq> [] then
         bindM (user_abort (confirm E (contract_params raw_data_body))) (\<lambda>_.
         bindM (user_abort (confirm E (contract_params understand_data_body))) (\<lambda>_.
         user_abort (confirm E (data_params (tx_data request)))))
       else returnM ()) (\<lambda>_.
     bindM (user_abort (verify_recipient E (from_pubkey_hash E recipient)
         (eth_amount_format (tx_amount request params)))) (\<lambda>_.
     user_abort (verify_total_fee E (eth_amount_format (tx_total request params))
         (eth_amount_format (parse_fee request params)) (tx_percentage request params)))))"

definition zero_prefixed :: "bytes \<Rightarrow> bool" where
  "zero_prefixed bs = (case bs of b # _ \<Rightarrow> b = 0 | [] \<Rightarrow> False)"

fun check_fee_fields :: "Transaction \<Rightarrow> (Error, unit) result" where
  "check_fee_fields (Legacy legacy) =
     (if zero_prefixed (esr_gas_price legacy) then Err ErrInvalidInput
      else if length (esr_gas_price legacy) > 16 then Err ErrInvalidInput
      else Ok ())"
| "check_fee_fields (Eip1559 eip1559) =
     (if zero_prefixed (e1559_max_priority_fee_per_gas eip1559) then Err ErrInvalidInput
      else if zero_prefixed (e1559_gas_limit eip1559) then Err ErrInvalidInput
      else if length (e1559_max_priority_fee_per_gas eip1559) > 16
        \<or> length (e1559_max_fee_per_gas eip1559) > 16 then Err ErrInvalidInput
      else Ok ())"

definition check_fields :: "Transaction \<Rightarrow> (Error, unit) result" where
  "check_fields request =
     (if length (tx_nonce request) > 16 \<or> length (tx_gas_limit request) > 16
         \<or> length (tx_value request) > 32 \<or> length (tx_data request) > 6144 then Err ErrInvalidInput
      else if zero_prefixed (tx_nonce request) then Err ErrInvalidInput
      else if zero_prefixed (tx_gas_limit request) then Err ErrInvalidInput
      else if zero_prefixed (tx_value request) then Err ErrInvalidInput
      else bindR (check_fee_fields request) (\<lambda>_.
        bindR (parse_recipient (tx_recipient request)) (\<lambda>recipient.
        if recipient = replicate 20 0 then Err ErrInvalidInput else Ok ())))"

definition verify_transaction :: "env \<Rightarrow> Transaction \<Rightarrow> EthParams \<Rightarrow> unit handler" where
  "verify_transaction E request params = (case parse_erc20 request of
       Some (erc20_recipient, erc20_value) \<Rightarrow> verify_erc20_transaction E request params erc20_recipient erc20_value
     | None \<Rightarrow> verify_standard_transaction E request params)"

text \<open>The checks and prompts before the signature; they leave the network.\<close>

definition eth_prepare :: "env \<Rightarrow> Transaction \<Rightarrow> EthParams handler" where
  "eth_prepare E request =
     bindM (liftM (tx_coin request)) (\<lambda>coin.
     bindM (get_and_warn_unknown E coin (tx_chain_id request)) (\<lambda>params.
     bindM (guardM (is_valid_keypath_address (tx_keypath request)) ErrInvalidInput) (\<lambda>_.
     bindM (warn_unusual_keypath E params (ep_name params) (tx_keypath request)) (\<lambda>_.
     bindM (liftM (check_fields request)) (\<lambda>_.
     bindM (on_user_abort (verify_transaction E request params)
         (status (''Transaction'' @ [CHR 0x0A] @ ''canceled'') False)) (\<lambda>_.
     bindM (status (''Transaction'' @ [CHR 0x0A] @ ''confirmed'') True) (\<lambda>_.
     returnM params)))))))"

fun eth_hash :: "env \<Rightarrow> Transaction \<Rightarrow> EthParams \<Rightarrow> (Error, bytes) result" where
  "eth_hash E (Legacy legacy) params = hash_legacy E (ep_chain_id params) legacy"
| "eth_hash E (Eip1559 eip1559) params = hash_eip1559 E eip1559"

definition eth_sign :: "env \<Rightarrow> Transaction \<Rightarrow> EthParams \<Rightarrow> EthResponse handler" where
  "eth_sign E request params =
     bindM (liftM (eth_hash E request params)) (\<lambda>hash.
     eth_sign_hash E (tx_host_nonce_commitment request) (tx_keypath request) hash)"

definition eth_sign_process :: "env \<Rightarrow> Transaction \<Rightarrow> EthResponse handler" where
  "eth_sign_process E request = bindM (eth_prepare E request) (eth_sign E request)"

section \<open>Public keys and messages\<close>

definition eth_title :: "EthParams \<Rightarrow> Erc20Params option \<Rightarrow> string" where
  "eth_title params erc20_params = (case erc20_params of
     Some p \<Rightarrow> ep_name params @ [CHR 0x0A] @ erc_unit p | None \<Rightarrow> ep_name params)"

definition eth_address_params :: "string \<Rightarrow> string \<Rightarrow> ConfirmParams" where
  "eth_address_params title addr = confirm_default\<lparr>cp_title := title, cp_title_autowrap := True,
     cp_body := addr, cp_scrollable := True\<rparr>"

definition eth_address_at :: "env \<Rightarrow> world \<Rightarrow> keypath \<Rightarrow> (Error, string) result" where
  "eth_address_at E w keypath =
     bindR (map_err (\<lambda>_. ErrInvalidInput) (keystore_get_xpub E w keypath)) (\<lambda>xpub.
     bindR (to_generic (pubkey_uncompressed E xpub)) (\<lambda>pubkey.
     Ok (from_pubkey E pubkey)))"

definition process_address :: "env \<Rightarrow> EthPubRequest \<Rightarrow> EthResponse handler" where
  "process_address E request =
     bindM (liftM (ok_or ErrInvalidInput (eth_coin_try_from (epr_coin request)))) (\<lambda>coin.
     bindM (get_and_warn_unknown E (Some coin) (epr_chain_id request)) (\<lambda>params.
     bindM (liftM (if epr_contract_address request = [] then Ok None
        else if length (epr_contract_address request) \<noteq> 20 then Err ErrInvalidInput
        else bindR (ok_or ErrInvalidInput
            (erc20_get (env_erc20_tables E) (ep_chain_id params) (epr_contract_address request))) (\<lambda>p. Ok (Some p)))) (\<lambda>erc20_params.
     bindM (guardM (is_valid_keypath_address (epr_keypath request)) ErrInvalidInput) (\<lambda>_.
     bindM (readM (\<lambda>w. eth_address_at E w (epr_keypath request))) (\<lambda>address.
     bindM (if epr_display request then
         bindM (warn_unusual_keypath E params (eth_title params erc20_params) (epr_keypath request)) (\<lambda>_.
         user_abort (confirm E (eth_address_params (eth_title params erc20_params) address)))
       else returnM ()) (\<lambda>_.
     returnM (EthRespPub address)))))))"

definition process_xpub :: "env \<Rightarrow> EthPubRequest \<Rightarrow> EthResponse handler" where
  "process_xpub E request =
     bindM (guardM (\<not> epr_display request) ErrInvalidInput) (\<lambda>_.
     bindM (guardM (is_valid_keypath_xpub (epr_keypath request)) ErrInvalidInput) (\<lambda>_.
     bindM (readM (\<lambda>w. map_err (\<lambda>_. ErrInvalidInput) (keystore_get_xpub E w (epr_keypath request)))) (\<lambda>xpub.
     bindM (liftM (to_generic (xpub_serialize_str E xpub Xpub))) (\<lambda>s.
     returnM (EthRespPub s)))))"

definition pubrequest_process :: "env \<Rightarrow> EthPubRequest \<Rightarrow> EthResponse handler" where
  "pubrequest_process E request =
     bindM (liftM (ok_or ErrInvalidInput (eth_output_type_try_from (epr_output_type request)))) (\<lambda>output_type.
     case output_type of
       EthOutAddress \<Rightarrow> process_address E request
     | EthOutXpub \<Rightarrow> process_xpub E request)"

definition eth_message_pub_request :: "EthSignMessageRequest \<Rightarrow> EthPubRequest" where
  "eth_message_pub_request request = \<lparr>epr_keypath = esm_keypath request, epr_coin = esm_coin request,
     epr_output_type = 0, epr_display = True, epr_contract_address = [], epr_chain_id = esm_chain_id request\<rparr>"

definition eth_signmsg_prepare :: "env \<Rightarrow> EthSignMessageRequest \<Rightarrow> unit handler" where
  "eth_signmsg_prepare E request =
     bindM (guardM (length (esm_msg request) \<le> 9999) ErrInvalidInput) (\<lambda>_.
     bindM (pubrequest_process E (eth_message_pub_request request)) (\<lambda>_.
     verify_message E (esm_msg request)))"

definition eth_message_preimage :: "bytes \<Rightarrow> bytes" where
  "eth_message_preimage msg =
     0x19 # as_bytes (''Ethereum Signed Message:'' @ [CHR 0x0A] @ show_nat (length msg)) @ msg"

definition eth_signmsg_process :: "env \<Rightarrow> EthSignMessageRequest \<Rightarrow> EthResponse handler" where
  "eth_signmsg_process E request =
     bindM (eth_signmsg_prepare E request) (\<lambda>_.
     eth_sign_hash E (esm_host_nonce_commitment request) (esm_keypath request)
       (env_keccak256 E (eth_message_preimage (esm_msg request))))"

end
