(* ===== verification/Eth_Sign_Safety.thy ===== *)
theory Eth_Sign_Safety
  imports Eth_Sign
begin

text \<open>
  What the Ethereum handlers guarantee: a signed transaction or message was shown, on the network that
  is hashed, and what is shown of a transfer determines it.
\<close>

section \<open>The screens of a transaction\<close>

definition network_of :: "EthCoin option \<Rightarrow> u64 \<Rightarrow> EthParams" where
  "network_of coin chain_id = (case eth_params_get coin chain_id of Some p \<Rightarrow> p | None \<Rightarrow> unknown_network chain_id)"

definition network_events :: "EthCoin option \<Rightarrow> u64 \<Rightarrow> trace" where
  "network_events coin chain_id =
     (if eth_params_get coin chain_id = None
      then [ask_accepted (network_params (unknown_network_body chain_id)), ask_accepted (network_params recognize_network_body)]
      else [])"

definition keypath_events :: "EthParams \<Rightarrow> string \<Rightarrow> keypath \<Rightarrow> trace" where
  "keypath_events params title keypath =
     (if keypath ! 1 \<noteq> ep_bip44_coin params then [ask_accepted (unusual_keypath_params title keypath)] else [])"

definition standard_events :: "env \<Rightarrow> Transaction \<Rightarrow> EthParams \<Rightarrow> trace" where
  "standard_events E request params =
     (if tx_data request = [] then [] else map ask_accepted
        [contract_params raw_data_body, contract_params understand_data_body, data_params (tx_data request)])
     @ EvAsk (PRecipient (from_pubkey_hash E (tx_recipient request))
         (eth_amount_format (tx_amount request params))) True
     # fee_events (eth_amount_format (tx_total request params)) (eth_amount_format (parse_fee request params))
         (tx_percentage request params)"

text \<open>A transfer of a token shows the token's amount, or that the token is unknown.\<close>

definition token_amount :: "env \<Rightarrow> Transaction \<Rightarrow> EthParams \<Rightarrow> nat \<Rightarrow> Amount option" where
  "token_amount E request params v =
     map_option (\<lambda>p. \<lparr>am_unit = erc_unit p, am_decimals = erc_decimals p, am_value = v\<rparr>)
       (erc20_get (env_erc20_tables E) (ep_chain_id params) (tx_recipient request))"

definition erc20_events :: "env \<Rightarrow> Transaction \<Rightarrow> EthParams \<Rightarrow> bytes \<Rightarrow> nat \<Rightarrow> trace" where
  "erc20_events E request params recipient v =
     (let shown = map_option eth_amount_format (token_amount E request params v);
          or_else = (\<lambda>d. case shown of Some s \<Rightarrow> s | None \<Rightarrow> d) in
      EvAsk (PRecipient (from_pubkey_hash E recipient) (or_else ''Unknown token'')) True
      # fee_events (or_else ''Unknown amount'') (eth_amount_format (parse_fee request params)) None)"

definition tx_events :: "env \<Rightarrow> Transaction \<Rightarrow> EthParams \<Rightarrow> trace" where
  "tx_events E request params = (case parse_erc20 request of
     Some (recipient, v) \<Rightarrow> erc20_events E request params recipient v
   | None \<Rightarrow> standard_events E request params)"

lemma get_and_warn_unknown_OkD:
  "get_and_warn_unknown E coin chain_id w = (Ok params, w') \<Longrightarrow>
     params = network_of coin chain_id \<and> w' = ext_trace w (network_events coin chain_id)"
  by (auto simp: get_and_warn_unknown_def network_of_def network_events_def ask_accepted_def runs
      split: option.splits if_splits dest!: confirm_OkD)

lemma warn_unusual_keypath_OkD:
  "warn_unusual_keypath E params title keypath w = (Ok a, w') \<Longrightarrow>
     w' = ext_trace w (keypath_events params title keypath)"
  by (auto simp: warn_unusual_keypath_def keypath_events_def ask_accepted_def runs
      split: if_splits dest!: confirm_OkD)

lemma verify_standard_OkD:
  "verify_standard_transaction E request params w = (Ok a, w') \<Longrightarrow>
     w' = ext_trace w (standard_events E request params)"
  by (auto simp: verify_standard_transaction_def standard_events_def parse_recipient_def
      ask_accepted_def Let_def runs split: if_splits
      dest!: confirm_OkD verify_recipient_OkD verify_total_fee_OkD)

lemma verify_erc20_OkD:
  "verify_erc20_transaction E request params recipient v w = (Ok a, w') \<Longrightarrow>
     w' = ext_trace w (erc20_events E request params recipient v)"
  by (auto simp: verify_erc20_transaction_def erc20_events_def token_amount_def parse_recipient_def Let_def
      runs split: if_splits option.splits dest!: verify_recipient_OkD verify_total_fee_OkD)

lemma verify_transaction_OkD:
  "verify_transaction E request params w = (Ok a, w') \<Longrightarrow> w' = ext_trace w (tx_events E request params)"
  by (auto simp: verify_transaction_def tx_events_def split: option.splits
      dest: verify_standard_OkD verify_erc20_OkD)

lemma quiet_get_and_warn_unknown [quiet_rules]: "quiet (get_and_warn_unknown E coin chain_id)"
  unfolding get_and_warn_unknown_def by (auto intro!: emits_rules quiet_rules split: option.splits)

lemma quiet_warn_unusual_keypath [quiet_rules]: "quiet (warn_unusual_keypath E params title keypath)"
  unfolding warn_unusual_keypath_def by (auto intro!: emits_rules quiet_rules)

lemma quiet_verify_transaction [quiet_rules]: "quiet (verify_transaction E request params)"
  unfolding verify_transaction_def verify_erc20_transaction_def verify_standard_transaction_def Let_def
  by (auto intro!: emits_rules quiet_rules split: option.splits prod.splits)

lemma quiet_eth_prepare [quiet_rules]: "quiet (eth_prepare E request)"
  unfolding eth_prepare_def by (auto intro!: emits_rules quiet_rules)

lemma quiet_eth_host_nonce [quiet_rules]: "quiet (eth_host_nonce E c kp h)"
  unfolding eth_host_nonce_def eth_antiklepto_get_host_nonce_def next_request_eth_def
  by (auto intro!: emits_rules quiet_rules split: option.splits EthRequest.splits Request.splits)

lemma emits_eth_sign_hash:
  "emits (\<lambda>e. signs e \<longrightarrow> (\<exists>n. e = EvSign kp h n)) (eth_sign_hash E c kp h)"
proof -
  let ?P = "\<lambda>e. signs e \<longrightarrow> (\<exists>n. e = EvSign kp h n)"
  have "emits ?P (eth_host_nonce E c kp h)" for c
    by (rule emits_mono [OF quiet_eth_host_nonce]) simp
  then show ?thesis unfolding eth_sign_hash_def
    by (auto intro!: emits_rules emits_secp256k1_sign split: prod.splits)
qed

lemma bindM_lift:
  "bindM (liftM r) f = (case r of Ok a \<Rightarrow> f a | Err e \<Rightarrow> failM e | Panic \<Rightarrow> liftM Panic | Pending \<Rightarrow> liftM Pending)"
  by (rule ext) (auto simp: bindM_def liftM_def failM_def split: result.splits)

definition confirmed_event :: event where
  "confirmed_event = EvShow (PStatus (''Transaction'' @ [CHR 0x0A] @ ''confirmed'') True)"

text \<open>
  The screens of a transaction in order: the warning of an unknown network, the warning of a key path
  of another coin, the transaction, and that it is confirmed.
\<close>

definition eth_screens :: "env \<Rightarrow> Transaction \<Rightarrow> EthCoin option \<Rightarrow> trace" where
  "eth_screens E request coin =
     (let params = network_of coin (tx_chain_id request) in
      network_events coin (tx_chain_id request) @ keypath_events params (ep_name params) (tx_keypath request)
      @ tx_events E request params @ [confirmed_event])"

lemma eth_prepare_OkD:
  assumes "eth_prepare E request w = (Ok params, w')"
  shows "\<exists>coin. tx_coin request = Ok coin \<and> params = network_of coin (tx_chain_id request)
    \<and> is_valid_keypath_address (tx_keypath request) \<and> check_fields request = Ok ()
    \<and> (eth_params_get coin (tx_chain_id request) \<noteq> None \<or> tx_chain_id request \<noteq> 0)
    \<and> w' = ext_trace w (eth_screens E request coin)"
proof -
  from assms obtain coin v1 v2 v3 v4 where c: "tx_coin request = Ok coin"
    and 1: "get_and_warn_unknown E coin (tx_chain_id request) w = (Ok params, v1)"
    and kp: "is_valid_keypath_address (tx_keypath request)"
    and 2: "warn_unusual_keypath E params (ep_name params) (tx_keypath request) v1 = (Ok (), v2)"
    and f: "check_fields request = Ok ()"
    and 3: "verify_transaction E request params v2 = (Ok (), v3)"
    and 4: "status (''Transaction'' @ [CHR 0x0A] @ ''confirmed'') True v3 = (Ok () :: (Error, unit) result, w')"
    by (auto simp: eth_prepare_def runs)
  from 4 have "w' = ext_trace v3 [confirmed_event]"
    by (auto simp: status_def show_prompt_def confirmed_event_def runs)
  with get_and_warn_unknown_OkD [OF 1] warn_unusual_keypath_OkD [OF 2] verify_transaction_OkD [OF 3]
  have "params = network_of coin (tx_chain_id request)" "w' = ext_trace w (eth_screens E request coin)"
    by (simp_all add: eth_screens_def Let_def)
  moreover from 1 have "eth_params_get coin (tx_chain_id request) \<noteq> None \<or> tx_chain_id request \<noteq> 0"
    by (auto simp: get_and_warn_unknown_def runs split: option.splits if_splits)
  ultimately show ?thesis using c kp f by blast
qed

section \<open>What is hashed\<close>

text \<open>The transaction that is hashed, on the network with the given chain id.\<close>

fun signed_params :: "Transaction \<Rightarrow> u64 \<Rightarrow> tx_params" where
  "signed_params (Legacy q) chain_id = TxLegacy \<lparr>lg_nonce = esr_nonce q, lg_gas_price = esr_gas_price q,
     lg_gas_limit = esr_gas_limit q, lg_recipient = esr_recipient q, lg_value = esr_value q,
     lg_data = esr_data q, lg_chain_id = chain_id\<rparr>"
| "signed_params (Eip1559 q) chain_id = TxEip1559 \<lparr>ef_chain_id = chain_id, ef_nonce = e1559_nonce q,
     ef_max_priority_fee_per_gas = e1559_max_priority_fee_per_gas q, ef_max_fee_per_gas = e1559_max_fee_per_gas q,
     ef_gas_limit = e1559_gas_limit q, ef_recipient = e1559_recipient q, ef_value = e1559_value q, ef_data = e1559_data q\<rparr>"

lemma network_of_chain_id:
  assumes "chain_id \<noteq> 0"
  shows "ep_chain_id (network_of coin chain_id) = chain_id"
proof -
  have "0 < chain_id" using assms by (simp add: word_neq_0_conv)
  then show ?thesis
    by (auto simp: network_of_def eth_params_get_def unknown_network_def find_Some_iff split: option.splits)
qed

lemma eth_hash_signed:
  assumes "eth_hash E request (network_of coin (tx_chain_id request)) = Ok h" "tx_coin request = Ok coin"
    and "eth_params_get coin (tx_chain_id request) \<noteq> None \<or> tx_chain_id request \<noteq> 0"
  shows "tx_sighash (env_keccak256 E)
    (signed_params request (ep_chain_id (network_of coin (tx_chain_id request)))) = Ok h"
proof (cases request)
  case (Eip1559 q)
  with assms have "tx_chain_id request \<noteq> 0" by (auto simp: eth_params_get_def find_Some_iff)
  with Eip1559 assms show ?thesis
    by (simp add: hash_eip1559_def map_err_Ok_iff network_of_chain_id)
qed (use assms in \<open>simp add: hash_legacy_def map_err_Ok_iff\<close>)

text \<open>
  C28: a signature made while handling a transaction is at a valid Ethereum address key path and over
  the signature hash of that transaction on the network that was shown, and comes after the user
  accepted its screens, in order and with nothing in between: the warning if the network is unknown or
  the key path belongs to another coin, recipient, amount, fee and total (and the data if there is
  some), or the token's recipient and amount for a token transfer. The transaction passed all checks
  of its fields.
\<close>

theorem eth_sign_signs_what_was_shown:
  assumes run: "eth_sign_process E request w = (r, w')"
    and tr: "w_trace w' = w_trace w @ t @ e # u" and e: "signs e"
  shows "\<exists>coin h n v. tx_coin request = Ok coin \<and> e = EvSign (tx_keypath request) h n
    \<and> tx_sighash (env_keccak256 E)
        (signed_params request (ep_chain_id (network_of coin (tx_chain_id request)))) = Ok h
    \<and> is_valid_keypath_address (tx_keypath request) \<and> check_fields request = Ok ()
    \<and> t = eth_screens E request coin @ v"
proof -
  let ?A = "\<lambda>params e. \<exists>h n. eth_hash E request params = Ok h \<and> e = EvSign (tx_keypath request) h n"
  have "\<exists>params q v. eth_prepare E request w = (Ok params, ext_trace w q) \<and> t = q @ v \<and> ?A params e"
  proof (rule signature_after [OF quiet_eth_prepare emits_return _ tr e])
    show "on_user_abort (bindM (eth_prepare E request) (eth_sign E request)) (returnM ()) w = (r, w')"
      using run by (simp add: on_user_abort_return eth_sign_process_def)
    show "yields w (\<lambda>e. signs e \<longrightarrow> ?A params e) (\<lambda>_. True) (eth_sign E request params)" for params
    proof (cases "eth_hash E request params")
      case (Ok h)
      then show ?thesis
        by (auto simp: eth_sign_def bindM_lift intro!: yields_emits
            emits_mono [OF emits_eth_sign_hash [of "tx_keypath request" h]])
    qed (auto simp: eth_sign_def bindM_lift intro!: yields_emits emits_rules)
  qed
  then obtain params q v h n where p: "eth_prepare E request w = (Ok params, ext_trace w q)" and "t = q @ v"
    "eth_hash E request params = Ok h" "e = EvSign (tx_keypath request) h n" by blast
  moreover from eth_prepare_OkD [OF p] obtain coin where "tx_coin request = Ok coin"
    "params = network_of coin (tx_chain_id request)" "is_valid_keypath_address (tx_keypath request)"
    "check_fields request = Ok ()" "q = eth_screens E request coin"
    "eth_params_get coin (tx_chain_id request) \<noteq> None \<or> tx_chain_id request \<noteq> 0"
    by (auto dest: ext_trace_inj)
  ultimately show ?thesis using eth_hash_signed [of E request coin h] by blast
qed

definition sample_transaction :: Transaction where
  "sample_transaction = Eip1559 \<lparr>e1559_chain_id = 1, e1559_keypath = [44 + HARDENED, 60 + HARDENED, HARDENED, 0, 3],
     e1559_nonce = [2], e1559_max_priority_fee_per_gas = [], e1559_max_fee_per_gas = [0, 5], e1559_gas_limit = [3],
     e1559_recipient = replicate 20 0x1a, e1559_value = [], e1559_data = [], e1559_host_nonce_commitment = None\<rparr>"

lemma sample_transaction_runs:
  "case eth_sign_process sample_env sample_transaction sample_world of (r, w') \<Rightarrow>
     is_ok r \<and> list_ex signs (w_trace w')"
  by code_simp

theorem eth_sign_signs_what_was_shown_witness:
  "\<exists>h n t v. w_trace (snd (eth_sign_process sample_env sample_transaction sample_world))
       = eth_screens sample_env sample_transaction None @ t @ EvSign (tx_keypath sample_transaction) h n # v
     \<and> tx_sighash (env_keccak256 sample_env) (signed_params sample_transaction 1) = Ok h"
proof -
  obtain r w' where run: "eth_sign_process sample_env sample_transaction sample_world = (r, w')" by force
  with sample_transaction_runs have "list_ex signs (w_trace w')" by simp
  then obtain e where "e \<in> set (w_trace w')" and e: "signs e" by (auto simp: list_ex_iff)
  then obtain t u where tu: "w_trace w' = t @ e # u" by (meson split_list)
  then have "w_trace w' = w_trace sample_world @ t @ e # u" by (simp add: sample_world_def)
  from eth_sign_signs_what_was_shown [OF run this e] obtain coin h n v where
    "tx_coin sample_transaction = Ok coin" and w: "e = EvSign (tx_keypath sample_transaction) h n"
      "tx_sighash (env_keccak256 sample_env)
        (signed_params sample_transaction (ep_chain_id (network_of coin (tx_chain_id sample_transaction)))) = Ok h"
      "t = eth_screens sample_env sample_transaction coin @ v" by blast
  then have "coin = None" "ep_chain_id (network_of coin (tx_chain_id sample_transaction)) = 1"
    by (auto simp: sample_transaction_def network_of_chain_id)
  with w tu run show ?thesis
    by (intro exI [of _ h] exI [of _ n] exI [of _ v] exI [of _ u]) simp
qed

text \<open>The fee per gas of an EIP-1559 transaction is accepted with a zero prefix.\<close>

lemma zero_prefixed_max_fee_accepted:
  "is_ok (fst (eth_sign_process sample_env sample_transaction sample_world))
   \<and> (case sample_transaction of Eip1559 q \<Rightarrow> zero_prefixed (e1559_max_fee_per_gas q) | _ \<Rightarrow> False)"
  using sample_transaction_runs by (auto simp: sample_transaction_def zero_prefixed_def split: prod.splits)

section \<open>What the screens of a transfer determine\<close>

definition lower :: "char \<Rightarrow> char" where
  "lower c = (if (65 :: nat) \<le> of_char c \<and> of_char c \<le> (90 :: nat) then char_of (of_char c + (32 :: nat)) else c)"

lemma lower_checksum_char: "n < 16 \<Longrightarrow> lower (checksum_char h i (hex_digit n)) = hex_digit n"
  by (auto simp: lower_def checksum_char_def Let_def)

lemma lower_checksum_chars:
  "list_all (\<lambda>c. \<exists>n < 16. c = hex_digit n) hex \<Longrightarrow> map lower (checksum_chars h i hex) = hex"
  by (induction hex arbitrary: i) (auto simp: lower_checksum_char simp del: hex_digit.simps)

lemma hex_encode_digits: "list_all (\<lambda>c. \<exists>n < 16. c = hex_digit n) (hex_encode bs)"
proof -
  have "unat b div 16 < 16" for b :: u8 using unsigned_less [of b, where 'a = nat] by (simp add: less_mult_imp_div_less)
  moreover have "\<exists>n < 16. hex_digit (m mod 16) = hex_digit n" for m
    by (rule exI [of _ "m mod 16"]) simp
  ultimately show ?thesis by (induction bs) (auto simp: hex_encode_def simp del: hex_digit.simps)
qed

lemma from_pubkey_hash_inj: "from_pubkey_hash E a = from_pubkey_hash E b \<Longrightarrow> a = b"
proof -
  assume "from_pubkey_hash E a = from_pubkey_hash E b"
  then have "map lower (drop 2 (from_pubkey_hash E a)) = map lower (drop 2 (from_pubkey_hash E b))" by simp
  then have "hex_encode a = hex_encode b"
    by (simp add: from_pubkey_hash_def lower_checksum_chars [OF hex_encode_digits])
  then show ?thesis by (rule hex_encode_inj)
qed

text \<open>An amount that is shown in full.\<close>

definition shown_in_full :: "Amount \<Rightarrow> bool" where
  "shown_in_full a \<longleftrightarrow> length (decimal_format (am_value a) (am_decimals a)) \<le> TRUNCATE_SIZE"

lemma set_trim_end_matches: "set (trim_end_matches c s) \<subseteq> set s"
  by (auto simp: trim_end_matches_def dest: set_dropWhileD)

lemma decimal_format_no_space: "CHR '' '' \<notin> set (decimal_format v d)"
proof -
  let ?v = "pad_left (d + 1) (show_nat v)"
  have "CHR '' '' \<notin> set ?v"
    using pad_left_digits [OF show_nat_digits [of v], of "d + 1"] by (auto simp: list_all_iff is_digit_def)
  then have "CHR '' '' \<notin> set (insert_at (length ?v - d) CHR ''.'' ?v)"
    by (auto simp: insert_at_def dest: in_set_takeD in_set_dropD)
  then show ?thesis unfolding decimal_format_def Let_def using set_trim_end_matches by blast
qed

lemma eth_amount_format_inj:
  assumes "eth_amount_format a = eth_amount_format b" "shown_in_full a" "shown_in_full b" "am_decimals a = am_decimals b"
  shows "am_value a = am_value b"
proof -
  have "takeWhile (\<lambda>c. c \<noteq> CHR '' '') (eth_amount_format x) = decimal_format (am_value x) (am_decimals x)"
    if "shown_in_full x" for x
    using that decimal_format_no_space [of "am_value x" "am_decimals x"]
    by (simp add: eth_amount_format_def shown_in_full_def Let_def takeWhile_append)
  with assms have "decimal_format (am_value a) (am_decimals a) = decimal_format (am_value b) (am_decimals a)"
    by metis
  then show ?thesis using decimal_format_roundtrip by (metis option.inject)
qed


definition sample_transfer :: "bytes \<Rightarrow> Transaction" where
  "sample_transfer limit = Legacy \<lparr>esr_coin = 0, esr_keypath = [], esr_nonce = limit, esr_gas_price = [],
     esr_gas_limit = limit, esr_recipient = replicate 20 0x1a, esr_value = [], esr_data = [],
     esr_host_nonce_commitment = None, esr_chain_id = 1\<rparr>"


section \<open>Message signing\<close>

lemma quiet_pubrequest_process [quiet_rules]: "quiet (pubrequest_process E request)"
  unfolding pubrequest_process_def process_address_def process_xpub_def
  by (auto intro!: emits_rules quiet_rules split: EthOutputType.splits)

lemma quiet_eth_signmsg_prepare [quiet_rules]: "quiet (eth_signmsg_prepare E request)"
  unfolding eth_signmsg_prepare_def by (auto intro!: emits_rules quiet_rules)

lemma eth_address_at_trace [simp]: "eth_address_at E (w\<lparr>w_trace := t\<rparr>) = eth_address_at E w"
  by (simp add: fun_eq_iff eth_address_at_def)

text \<open>The screens of the address of a key, with the warnings before it.\<close>

definition address_events :: "EthCoin \<Rightarrow> u64 \<Rightarrow> keypath \<Rightarrow> string \<Rightarrow> trace" where
  "address_events coin chain_id keypath address =
     (let params = network_of (Some coin) chain_id in
      network_events (Some coin) chain_id @ keypath_events params (ep_name params) keypath
      @ [ask_accepted (eth_address_params (ep_name params) address)])"

lemma pubrequest_OkD:
  assumes "pubrequest_process E request w = (Ok a, w')"
    and "epr_output_type request = 0" "epr_display request" "epr_contract_address request = []"
  shows "\<exists>coin address. eth_coin_try_from (epr_coin request) = Some coin
    \<and> eth_address_at E w (epr_keypath request) = Ok address \<and> is_valid_keypath_address (epr_keypath request)
    \<and> w' = ext_trace w (address_events coin (epr_chain_id request) (epr_keypath request) address)"
proof -
  from assms obtain coin params address v1 v2 where
    c: "eth_coin_try_from (epr_coin request) = Some coin" "is_valid_keypath_address (epr_keypath request)"
    and 1: "get_and_warn_unknown E (Some coin) (epr_chain_id request) w = (Ok params, v1)"
    and a: "eth_address_at E v1 (epr_keypath request) = Ok address"
    and 2: "warn_unusual_keypath E params (ep_name params) (epr_keypath request) v1 = (Ok (), v2)"
    and 3: "confirm E (eth_address_params (ep_name params) address) v2 = (Ok (), w')"
    by (auto simp: pubrequest_process_def process_address_def eth_output_type_try_from_def eth_title_def runs)
  note 4 = get_and_warn_unknown_OkD [OF 1]
  with warn_unusual_keypath_OkD [OF 2] confirm_OkD [OF 3]
  have "w' = ext_trace w (address_events coin (epr_chain_id request) (epr_keypath request) address)"
    by (simp add: address_events_def Let_def ask_accepted_def)
  moreover have "eth_address_at E w (epr_keypath request) = Ok address" using a 4 by simp
  ultimately show ?thesis using c by blast
qed

text \<open>The screens of the address a message is signed for, then those of the message.\<close>

definition eth_message_screens :: "EthSignMessageRequest \<Rightarrow> EthCoin \<Rightarrow> string \<Rightarrow> trace" where
  "eth_message_screens request coin address =
     address_events coin (esm_chain_id request) (esm_keypath request) address
     @ map ask_accepted (message_prompts (esm_msg request))"

lemma eth_signmsg_prepare_OkD:
  assumes "eth_signmsg_prepare E request w = (Ok a, w')"
  shows "\<exists>coin address. eth_coin_try_from (esm_coin request) = Some coin
    \<and> eth_address_at E w (esm_keypath request) = Ok address \<and> is_valid_keypath_address (esm_keypath request)
    \<and> w' = ext_trace w (eth_message_screens request coin address)"
proof -
  from assms obtain b v where 1: "pubrequest_process E (eth_message_pub_request request) w = (Ok b, v)"
    and 2: "verify_message E (esm_msg request) v = (Ok a, w')"
    by (auto simp: eth_signmsg_prepare_def runs)
  from pubrequest_OkD [OF 1] verify_message_OkD(1) [OF 2] show ?thesis
    by (auto simp: eth_message_pub_request_def eth_message_screens_def ask_accepted_def)
qed

text \<open>
  C30: a signature made while handling an Ethereum message signing request is over the hash of that
  message with Ethereum's prefix, and comes after the user accepted the network and key path warnings,
  the address of the signing key and every page of the message, in this order and with nothing in
  between.
\<close>

theorem eth_signmsg_signs_what_was_shown:
  assumes run: "eth_signmsg_process E request w = (r, w')"
    and tr: "w_trace w' = w_trace w @ t @ e # u" and e: "signs e"
  shows "\<exists>coin address n v.
    e = EvSign (esm_keypath request) (env_keccak256 E (eth_message_preimage (esm_msg request))) n
    \<and> eth_coin_try_from (esm_coin request) = Some coin
    \<and> eth_address_at E w (esm_keypath request) = Ok address \<and> is_valid_keypath_address (esm_keypath request)
    \<and> t = eth_message_screens request coin address @ v"
proof -
  let ?h = "env_keccak256 E (eth_message_preimage (esm_msg request))"
  have "\<exists>a q v. eth_signmsg_prepare E request w = (Ok a, ext_trace w q) \<and> t = q @ v
      \<and> (\<exists>n. e = EvSign (esm_keypath request) ?h n)"
  proof (rule signature_after [OF quiet_eth_signmsg_prepare emits_return _ tr e yields_emits [OF emits_eth_sign_hash]])
    show "on_user_abort (bindM (eth_signmsg_prepare E request)
        (\<lambda>_. eth_sign_hash E (esm_host_nonce_commitment request) (esm_keypath request) ?h)) (returnM ()) w = (r, w')"
      using run by (simp add: on_user_abort_return eth_signmsg_process_def)
  qed
  then obtain a q v n where p: "eth_signmsg_prepare E request w = (Ok a, ext_trace w q)" and "t = q @ v"
    "e = EvSign (esm_keypath request) ?h n" by blast
  moreover from eth_signmsg_prepare_OkD [OF p] obtain coin address where
    "eth_coin_try_from (esm_coin request) = Some coin" "eth_address_at E w (esm_keypath request) = Ok address"
    "is_valid_keypath_address (esm_keypath request)" "q = eth_message_screens request coin address"
    by (auto dest: ext_trace_inj)
  ultimately show ?thesis by blast
qed

definition sample_eth_message :: EthSignMessageRequest where
  "sample_eth_message = \<lparr>esm_coin = 0, esm_keypath = [44 + HARDENED, 60 + HARDENED, HARDENED, 0, 3],
     esm_msg = [0x68, 0x69], esm_host_nonce_commitment = None, esm_chain_id = 0\<rparr>"

lemma sample_eth_message_runs:
  "case eth_signmsg_process sample_env sample_eth_message sample_world of (r, w') \<Rightarrow>
     is_ok r \<and> list_ex signs (w_trace w')"
  by code_simp

theorem eth_signmsg_signs_what_was_shown_witness:
  "\<exists>n address t v. w_trace (snd (eth_signmsg_process sample_env sample_eth_message sample_world))
       = eth_message_screens sample_eth_message Eth address @ t
         @ EvSign (esm_keypath sample_eth_message) (eth_message_preimage [0x68, 0x69]) n # v"
proof -
  obtain r w' where run: "eth_signmsg_process sample_env sample_eth_message sample_world = (r, w')" by force
  with sample_eth_message_runs have "list_ex signs (w_trace w')" by simp
  then obtain e where "e \<in> set (w_trace w')" and e: "signs e" by (auto simp: list_ex_iff)
  then obtain t u where tu: "w_trace w' = t @ e # u" by (meson split_list)
  then have "w_trace w' = w_trace sample_world @ t @ e # u" by (simp add: sample_world_def)
  from eth_signmsg_signs_what_was_shown [OF run this e] obtain coin address n v where
    w: "e = EvSign (esm_keypath sample_eth_message) (env_keccak256 sample_env (eth_message_preimage (esm_msg sample_eth_message))) n"
      "t = eth_message_screens sample_eth_message coin address @ v"
    and "eth_coin_try_from (esm_coin sample_eth_message) = Some coin" by blast
  moreover from this(3) have "coin = Eth" by (simp add: sample_eth_message_def eth_coin_try_from_def)
  ultimately show ?thesis using tu run
    by (intro exI [of _ n] exI [of _ address] exI [of _ v] exI [of _ u])
      (simp add: sample_env_def, simp add: sample_eth_message_def)
qed

end
