(* ===== verification/Eth_Typed.thy ===== *)
theory Eth_Typed
  imports Eth_Sign_Safety
begin

text \<open>
  Signing of structured data, EIP-712 (\<open>hww/api/ethereum/sign_typed_msg.rs\<close>). The host sends the
  types; the device walks over them and asks the host for one value after the other. The recursion
  over struct types is bounded by the types only if no struct contains itself, so its depth is a
  parameter (\<open>fuel\<close>) of the definitions; running out of it is the result \<open>Pending\<close>.
\<close>

section \<open>Types\<close>

definition DOMAIN_TYPE_NAME :: string where "DOMAIN_TYPE_NAME = ''EIP712Domain''"

definition get_type :: "StructType list \<Rightarrow> string \<Rightarrow> StructType option" where
  "get_type types name = find (\<lambda>t. st_name t = name) types"

text \<open>The element type below all array types; \<open>DataType::Array\<close> is 7, \<open>DataType::Struct\<close> is 8.\<close>

fun strip_arrays :: "MemberType \<Rightarrow> (Error, MemberType) result" where
  "strip_arrays (MemberType ty sz struct_name array_type) =
     (if ty = 7 then (case array_type of None \<Rightarrow> Err ErrInvalidInput | Some t \<Rightarrow> strip_arrays t)
      else Ok (MemberType ty sz struct_name array_type))"

fun transitive_members ::
  "(string \<Rightarrow> string list \<Rightarrow> (Error, string list) result) \<Rightarrow> Member list \<Rightarrow> string list
     \<Rightarrow> (Error, string list) result" where
  "transitive_members rec [] result = Ok result"
| "transitive_members rec (member # members) result =
     bindR (ok_or ErrInvalidInput (mem_type member)) (\<lambda>t.
     bindR (strip_arrays t) (\<lambda>member_type.
     bindR (if mt_type member_type = 8 then rec (mt_struct_name member_type) result else Ok result) (\<lambda>result.
     transitive_members rec members result)))"

fun transitive_rec :: "nat \<Rightarrow> StructType list \<Rightarrow> string \<Rightarrow> string list \<Rightarrow> (Error, string list) result" where
  "transitive_rec 0 types name result = Pending"
| "transitive_rec (Suc fuel) types name result =
     bindR (ok_or ErrInvalidInput (get_type types name)) (\<lambda>typ.
     if name \<in> set result then Ok result
     else transitive_members (transitive_rec fuel types) (st_members typ) (result @ [name]))"

text \<open>Every call but the innermost pushed another declared name, so this depth is never exceeded.\<close>

definition get_transitive_types :: "StructType list \<Rightarrow> string \<Rightarrow> (Error, string list) result" where
  "get_transitive_types types name = transitive_rec (length types + 1) types name []"

fun format_member_type :: "MemberType \<Rightarrow> (Error, string) result" where
  "format_member_type (MemberType ty sz struct_name array_type) =
     bindR (ok_or ErrInvalidInput (data_type_try_from ty)) (\<lambda>t. case t of
       DtUnknown \<Rightarrow> Err ErrInvalidInput
     | DtBytes \<Rightarrow> if sz = 0 then Ok ''bytes''
         else if sz \<ge> 1 \<and> sz \<le> 32 then Ok (''bytes'' @ show_nat (unat sz))
         else Err ErrInvalidInput
     | DtUint \<Rightarrow> if sz < 1 \<or> sz > 32 then Err ErrInvalidInput else Ok (''uint'' @ show_nat (unat (sz * 8)))
     | DtInt \<Rightarrow> if sz < 1 \<or> sz > 32 then Err ErrInvalidInput else Ok (''int'' @ show_nat (unat (sz * 8)))
     | DtBool \<Rightarrow> Ok ''bool''
     | DtAddress \<Rightarrow> Ok ''address''
     | DtString \<Rightarrow> Ok ''string''
     | DtArray \<Rightarrow> (case array_type of
           None \<Rightarrow> Err ErrInvalidInput
         | Some a \<Rightarrow> bindR (format_member_type a) (\<lambda>name.
             Ok (if sz = 0 then name @ ''[]'' else name @ ''['' @ show_nat (unat sz) @ '']'')))
     | DtStruct \<Rightarrow> if struct_name = [] then Err ErrInvalidInput else Ok struct_name)"

definition format_member :: "Member \<Rightarrow> (Error, string) result" where
  "format_member member =
     bindR (ok_or ErrInvalidInput (mem_type member)) (\<lambda>t.
     bindR (format_member_type t) (\<lambda>s. Ok (s @ '' '' @ mem_name member)))"

definition encode_one_type :: "StructType list \<Rightarrow> string \<Rightarrow> (Error, string) result" where
  "encode_one_type types name =
     bindR (ok_or ErrInvalidInput (get_type types name)) (\<lambda>typ.
     bindR (collectR format_member (st_members typ)) (\<lambda>params.
     Ok (name @ ''('' @ join '','' params @ '')'')))"

definition encode_type :: "StructType list \<Rightarrow> string \<Rightarrow> (Error, string) result" where
  "encode_type types name =
     bindR (get_transitive_types types name) (\<lambda>transitive_types.
     bindR (collectR (encode_one_type types)
       (take 1 transitive_types @ sort_key as_bytes (drop 1 transitive_types))) (\<lambda>encoded.
     Ok (concat encoded)))"

definition type_hash :: "env \<Rightarrow> StructType list \<Rightarrow> string \<Rightarrow> (Error, bytes) result" where
  "type_hash E types name = bindR (encode_type types name) (\<lambda>encoded. Ok (env_keccak256 E (as_bytes encoded)))"

section \<open>Values\<close>

definition leftpad32 :: "bytes \<Rightarrow> bool \<Rightarrow> (Error, bytes) result" where
  "leftpad32 v sgn_ext =
     (if length v > 32 then Err ErrInvalidInput
      else Ok (replicate (32 - length v) (if sgn_ext \<and> v \<noteq> [] \<and> bit (v ! 0) 7 then 0xff else 0) @ v))"

definition rightpad32 :: "bytes \<Rightarrow> (Error, bytes) result" where
  "rightpad32 v = (if length v > 32 then Err ErrInvalidInput else Ok (v @ replicate (32 - length v) 0))"

text \<open>\<open>hex::decode\<close> and the decimal form of a big-endian two's complement number.\<close>

definition hex_val :: "u8 \<Rightarrow> u8 option" where
  "hex_val b = (if 0x30 \<le> b \<and> b \<le> 0x39 then Some (b - 0x30)
     else if 0x61 \<le> b \<and> b \<le> 0x66 then Some (b - 0x57)
     else if 0x41 \<le> b \<and> b \<le> 0x46 then Some (b - 0x37) else None)"

fun hex_decode :: "bytes \<Rightarrow> bytes option" where
  "hex_decode [] = Some []"
| "hex_decode [b] = None"
| "hex_decode (a # b # bs) = (case (hex_val a, hex_val b, hex_decode bs) of
     (Some x, Some y, Some r) \<Rightarrow> Some ((x * 16 + y) # r) | _ \<Rightarrow> None)"

definition signed_be_val :: "bytes \<Rightarrow> int" where
  "signed_be_val v = (if v \<noteq> [] \<and> bit (v ! 0) 7 then int (be_val v) - 2 ^ (8 * length v) else int (be_val v))"

definition show_int :: "int \<Rightarrow> string" where
  "show_int i = (if i < 0 then CHR ''-'' # show_nat (nat (- i)) else show_nat (nat i))"

definition encode_value :: "env \<Rightarrow> MemberType \<Rightarrow> bytes \<Rightarrow> (Error, bytes \<times> string) result" where
  "encode_value E typ value =
     bindR (ok_or ErrInvalidInput (data_type_try_from (mt_type typ))) (\<lambda>t. case t of
       DtUnknown \<Rightarrow> Err ErrInvalidInput
     | DtBytes \<Rightarrow>
         bindR (if mt_size typ > 0 then
             (if length value \<noteq> unat (mt_size typ) then Err ErrInvalidInput else rightpad32 value)
           else Ok (env_keccak256 E value)) (\<lambda>encoded.
         Ok (encoded, ''0x'' @ hex_encode value))
     | DtUint \<Rightarrow>
         if length value > unat (mt_size typ) then Err ErrInvalidInput
         else bindR (leftpad32 value False) (\<lambda>encoded. Ok (encoded, show_nat (be_val value)))
     | DtInt \<Rightarrow>
         if length value > unat (mt_size typ) then Err ErrInvalidInput
         else bindR (leftpad32 value True) (\<lambda>encoded. Ok (encoded, show_int (signed_be_val value)))
     | DtBool \<Rightarrow>
         if value \<noteq> [0] \<and> value \<noteq> [1] then Err ErrInvalidInput
         else bindR (leftpad32 value False) (\<lambda>encoded. Ok (encoded, if value = [0] then ''false'' else ''true''))
     | DtAddress \<Rightarrow> (case value of
           a # b # rest \<Rightarrow>
             if a = 0x30 \<and> (b = 0x78 \<or> b = 0x58) then
               bindR (ok_or ErrInvalidInput (hex_decode rest)) (\<lambda>address.
               bindR (leftpad32 address False) (\<lambda>encoded. Ok (encoded, str_of_bytes value)))
             else Err ErrInvalidInput
         | _ \<Rightarrow> Err ErrInvalidInput)
     | DtString \<Rightarrow>
         if \<not> is_printable_ascii value AllNewline then Err ErrInvalidInput
         else Ok (env_keccak256 E value, str_of_bytes value)
     | DtArray \<Rightarrow> Panic
     | DtStruct \<Rightarrow> Panic)"

section \<open>Prompts\<close>

fun confirm_title :: "RootObject \<Rightarrow> string" where
  "confirm_title RootUnknown = ''Unknown''"
| "confirm_title RootDomain = ''Domain''"
| "confirm_title RootMessage = ''Message''"

definition typed_params :: "RootObject \<Rightarrow> string option \<Rightarrow> string \<Rightarrow> ConfirmParams" where
  "typed_params root_object title_suffix body = confirm_default\<lparr>
     cp_title := confirm_title root_object @ (case title_suffix of None \<Rightarrow> [] | Some s \<Rightarrow> s),
     cp_body := body, cp_scrollable := True, cp_accept_is_nextarrow := True\<rparr>"

definition line_body :: "string list \<Rightarrow> nat \<Rightarrow> nat \<Rightarrow> string \<Rightarrow> string" where
  "line_body formatted_path num i line =
     join ''.'' formatted_path
     @ (if num > 1 then '', line '' @ show_nat (i + 1) @ ''/'' @ show_nat num else [])
     @ '': '' @ line"

definition array_body :: "string list \<Rightarrow> u32 \<Rightarrow> string" where
  "array_body formatted_path array_size =
     join ''.'' formatted_path @ '': ''
     @ (if array_size = 0 then ''(empty list)'' else ''list with '' @ show_nat (unat array_size) @ '' elements'')"

definition element_path :: "string list \<Rightarrow> u32 \<Rightarrow> u32 \<Rightarrow> string list" where
  "element_path formatted_path i array_size =
     butlast formatted_path
     @ [last formatted_path @ ''['' @ show_nat (unat (i + 1)) @ ''/'' @ show_nat (unat array_size) @ '']'']"

definition member_suffix :: "string option \<Rightarrow> nat \<Rightarrow> nat \<Rightarrow> string option" where
  "member_suffix title_suffix i num = (case title_suffix of
     Some s \<Rightarrow> Some s | None \<Rightarrow> Some ('' ('' @ show_nat (i + 1) @ ''/'' @ show_nat num @ '')''))"

section \<open>Hashing\<close>

definition get_value_from_host :: "env \<Rightarrow> RootObject \<Rightarrow> u32 list \<Rightarrow> bytes handler" where
  "get_value_from_host E root_object path =
     bindM (next_request_eth E (EthRespTypedMsgValue
       \<lparr>tmv_root_object = root_object_as_i32 root_object, tmv_path = path\<rparr>)) (\<lambda>request.
     case request of EthTypedMsgValue value \<Rightarrow> returnM value | _ \<Rightarrow> failM ErrInvalidInput)"

text \<open>A loop over the elements of a list with their indices.\<close>

fun for_each :: "(nat \<Rightarrow> 'i \<Rightarrow> 'acc \<Rightarrow> ('s, 'e, 'acc) io) \<Rightarrow> nat \<Rightarrow> 'i list \<Rightarrow> 'acc \<Rightarrow> ('s, 'e, 'acc) io" where
  "for_each f i [] acc = returnM acc"
| "for_each f i (x # xs) acc = bindM (f i x acc) (for_each f (i + 1) xs)"

definition encode_atom ::
  "env \<Rightarrow> RootObject \<Rightarrow> MemberType \<Rightarrow> u32 list \<Rightarrow> string list \<Rightarrow> string option \<Rightarrow> bytes handler" where
  "encode_atom E root_object member_type path formatted_path title_suffix =
     bindM (get_value_from_host E root_object path) (\<lambda>value.
     bindM (liftM (encode_value E member_type value)) (\<lambda>(value_encoded, value_formatted).
     bindM (for_each (\<lambda>i line _. user_abort (confirm E (typed_params root_object title_suffix
           (line_body formatted_path (length (split_at_char (CHR 0x0A) value_formatted)) i line))))
         0 (split_at_char (CHR 0x0A) value_formatted) ()) (\<lambda>_.
     returnM value_encoded)))"

definition get_array_size :: "env \<Rightarrow> RootObject \<Rightarrow> u32 \<Rightarrow> u32 list \<Rightarrow> u32 handler" where
  "get_array_size E root_object sz path =
     (if sz > 0 then returnM sz
      else bindM (get_value_from_host E root_object path) (\<lambda>array_size_encoded.
        bindM (guardM (length array_size_encoded = 4) ErrInvalidInput) (\<lambda>_.
        returnM (u32_from_be_bytes array_size_encoded))))"

text \<open>
  \<open>encode_member\<close> with \<open>hash_array\<close>; what it adds to the hasher is its result. \<open>hash\<close> is the
  recursive call of \<open>hash_struct\<close>.
\<close>

fun encode_member ::
  "env \<Rightarrow> (RootObject \<Rightarrow> string \<Rightarrow> u32 list \<Rightarrow> string list \<Rightarrow> string option \<Rightarrow> bytes handler)
     \<Rightarrow> RootObject \<Rightarrow> MemberType \<Rightarrow> u32 list \<Rightarrow> string list \<Rightarrow> string option \<Rightarrow> bytes handler" where
  "encode_member E hash root_object (MemberType ty sz struct_name array_type) path formatted_path title_suffix =
     (if ty = 8 then hash root_object struct_name path formatted_path title_suffix
      else if ty = 7 then
        bindM (get_array_size E root_object sz path) (\<lambda>array_size.
        case array_type of
          None \<Rightarrow> failM ErrInvalidInput
        | Some array_type \<Rightarrow>
          bindM (user_abort (confirm E (typed_params root_object title_suffix (array_body formatted_path array_size)))) (\<lambda>_.
          bindM (unwrapM (if formatted_path = [] then None else Some ())) (\<lambda>_.
          bindM (foldM (\<lambda>index data.
              bindM (encode_member E hash root_object array_type (path @ [index])
                (element_path formatted_path index array_size) title_suffix) (\<lambda>v. returnM (data @ v)))
            (range_u32 array_size) []) (\<lambda>data.
          returnM (env_keccak256 E data)))))
      else encode_atom E root_object (MemberType ty sz struct_name array_type) path formatted_path title_suffix)"

text \<open>The body of \<open>hash_struct\<close>, with its recursive calls as a parameter, and its iteration.\<close>

definition hash_step ::
  "env \<Rightarrow> StructType list \<Rightarrow> (RootObject \<Rightarrow> string \<Rightarrow> u32 list \<Rightarrow> string list \<Rightarrow> string option \<Rightarrow> bytes handler)
     \<Rightarrow> RootObject \<Rightarrow> string \<Rightarrow> u32 list \<Rightarrow> string list \<Rightarrow> string option \<Rightarrow> bytes handler" where
  "hash_step E types hash root_object struct_name path formatted_path title_suffix =
     bindM (liftM (type_hash E types struct_name)) (\<lambda>th.
     bindM (liftM (ok_or ErrInvalidInput (get_type types struct_name))) (\<lambda>typ.
     bindM (for_each (\<lambda>index member data.
         bindM (liftM (ok_or ErrInvalidInput (mem_type member))) (\<lambda>member_type.
         bindM (encode_member E hash root_object member_type (path @ [of_nat index])
             (formatted_path @ [mem_name member]) (member_suffix title_suffix index (length (st_members typ)))) (\<lambda>v.
         returnM (data @ v))))
       0 (st_members typ) th) (\<lambda>data.
     returnM (env_keccak256 E data))))"

fun hash_struct ::
  "env \<Rightarrow> StructType list \<Rightarrow> nat \<Rightarrow> RootObject \<Rightarrow> string \<Rightarrow> u32 list \<Rightarrow> string list \<Rightarrow> string option
     \<Rightarrow> bytes handler" where
  "hash_struct E types 0 root_object struct_name path formatted_path title_suffix = liftM Pending"
| "hash_struct E types (Suc fuel) root_object struct_name path formatted_path title_suffix =
     hash_step E types (hash_struct E types fuel) root_object struct_name path formatted_path title_suffix"

section \<open>The handler\<close>

definition validate_chain_id :: "env \<Rightarrow> EthSignTypedMessageRequest \<Rightarrow> unit handler" where
  "validate_chain_id E request =
     bindM (liftM (ok_or ErrInvalidInput (get_type (etm_types request) DOMAIN_TYPE_NAME))) (\<lambda>domain_type.
     case find_index (\<lambda>member. mem_name member = ''chainId'') (st_members domain_type) of
       None \<Rightarrow> returnM ()
     | Some chain_id_index \<Rightarrow>
         bindM (get_value_from_host E RootDomain [of_nat chain_id_index]) (\<lambda>encoded_value.
         guardM (int (be_val encoded_value) < 2 ^ 64 \<and> of_nat (be_val encoded_value) = etm_chain_id request) ErrInvalidInput))"

definition eip712_sighash :: "env \<Rightarrow> nat \<Rightarrow> StructType list \<Rightarrow> string \<Rightarrow> bytes handler" where
  "eip712_sighash E fuel types primary_type =
     bindM (hash_struct E types fuel RootDomain DOMAIN_TYPE_NAME [] [] None) (\<lambda>domain_separator.
     bindM (if primary_type \<noteq> DOMAIN_TYPE_NAME
       then hash_struct E types fuel RootMessage primary_type [] [] None else returnM []) (\<lambda>message_struct_hash.
     returnM (env_keccak256 E ([0x19, 0x01] @ domain_separator @ message_struct_hash))))"

definition typed_pub_request :: "EthSignTypedMessageRequest \<Rightarrow> EthPubRequest" where
  "typed_pub_request request = \<lparr>epr_keypath = etm_keypath request, epr_coin = 0, epr_output_type = 0,
     epr_display = True, epr_contract_address = [], epr_chain_id = etm_chain_id request\<rparr>"

definition sign_data_params :: ConfirmParams where
  "sign_data_params = confirm_default\<lparr>cp_body := ''Sign data?'', cp_longtouch := True\<rparr>"

definition typed_prepare :: "env \<Rightarrow> nat \<Rightarrow> EthSignTypedMessageRequest \<Rightarrow> bytes handler" where
  "typed_prepare E fuel request =
     bindM (validate_chain_id E request) (\<lambda>_.
     bindM (pubrequest_process E (typed_pub_request request)) (\<lambda>_.
     bindM (eip712_sighash E fuel (etm_types request) (etm_primary_type request)) (\<lambda>sighash.
     bindM (user_abort (confirm E sign_data_params)) (\<lambda>_.
     returnM sighash))))"

definition sign_typed_process :: "env \<Rightarrow> nat \<Rightarrow> EthSignTypedMessageRequest \<Rightarrow> EthResponse handler" where
  "sign_typed_process E fuel request =
     bindM (typed_prepare E fuel request) (\<lambda>sighash.
     case etm_host_nonce_commitment request of
       Some commitment \<Rightarrow> eth_sign_hash E (Some commitment) (etm_keypath request) sighash
     | None \<Rightarrow> failM ErrInvalidInput)"

section \<open>Dispatch\<close>

fun eth_process_api :: "env \<Rightarrow> nat \<Rightarrow> EthRequest \<Rightarrow> EthResponse handler" where
  "eth_process_api E fuel (EthPub request) = pubrequest_process E request"
| "eth_process_api E fuel (EthSignMsg request) = eth_signmsg_process E request"
| "eth_process_api E fuel (EthSign request) = eth_sign_process E (Legacy request)"
| "eth_process_api E fuel (EthSignEip1559 request) = eth_sign_process E (Eip1559 request)"
| "eth_process_api E fuel (EthAntikleptoSignature _) = failM ErrInvalidInput"
| "eth_process_api E fuel (EthSignTypedMsg request) = sign_typed_process E fuel request"
| "eth_process_api E fuel (EthTypedMsgValue _) = failM ErrInvalidInput"

end
