(* ===== verification/Eth_Typed_Safety.thy ===== *)
theory Eth_Typed_Safety
  imports Eth_Typed
begin

text \<open>
  What typed message signing guarantees. A typed value is a tree; its hash and the screens that show
  it are functions of the tree, without the host. The interactive code computes that hash and shows
  those screens for some tree. The walk over the types ends, and so does hashing if no struct type
  contains itself.
\<close>

section \<open>The walk over the types ends\<close>

definition extends_names :: "string set \<Rightarrow> string list \<Rightarrow> (Error, string list) result \<Rightarrow> bool" where
  "extends_names names result x = (case x of
       Ok r \<Rightarrow> distinct r \<and> set r \<subseteq> names \<and> (\<exists>s. r = result @ s)
     | Err _ \<Rightarrow> True | Panic \<Rightarrow> False | Pending \<Rightarrow> False)"

lemma strip_arrays_total: "\<exists>x. strip_arrays t = Ok x \<or> strip_arrays t = Err x'" if "x' = ErrInvalidInput" for x'
  using that by (induction t rule: strip_arrays.induct) (auto split: option.splits)

lemma transitive_members_extends:
  assumes "\<And>name result. distinct result \<Longrightarrow> set result \<subseteq> names \<Longrightarrow> n \<le> length result
      \<Longrightarrow> extends_names names result (rec name result)"
  shows "distinct result \<Longrightarrow> set result \<subseteq> names \<Longrightarrow> n \<le> length result
    \<Longrightarrow> extends_names names result (transitive_members rec ms result)"
proof (induction ms arbitrary: result)
  case Nil
  then show ?case by (simp add: extends_names_def)
next
  case (Cons m ms)
  show ?case
  proof (cases "mem_type m")
    case (Some t)
    consider "strip_arrays t = Err ErrInvalidInput" | u where "strip_arrays t = Ok u"
      using strip_arrays_total [OF refl, of t] by blast
    then show ?thesis
    proof cases
      case (2 u)
      let ?x = "if mt_type u = 8 then rec (mt_struct_name u) result else Ok result"
      have x: "extends_names names result ?x"
        using assms [OF Cons.prems] Cons.prems by (simp add: extends_names_def)
      show ?thesis
      proof (cases ?x)
        case (Ok r)
        with x obtain s where r: "distinct r" "set r \<subseteq> names" "r = result @ s" by (auto simp: extends_names_def)
        with Cons.prems Cons.IH [of r] have "extends_names names r (transitive_members rec ms r)" by simp
        then have "extends_names names result (transitive_members rec ms r)"
          using r(3) by (auto simp: extends_names_def split: result.splits)
        with Some 2 Ok show ?thesis by simp
      qed (use x Some 2 in \<open>auto simp: extends_names_def split: if_splits\<close>)
    qed (use Some in \<open>simp add: extends_names_def\<close>)
  qed (simp add: extends_names_def)
qed

lemma transitive_rec_extends:
  assumes "distinct result" "set result \<subseteq> st_name ` set types" "length types < fuel + length result"
  shows "extends_names (st_name ` set types) result (transitive_rec fuel types name result)"
  using assms
proof (induction fuel arbitrary: name result)
  case 0
  have "length result = card (set result)" using 0 by (simp add: distinct_card)
  also have "\<dots> \<le> card (st_name ` set types)" using 0 by (intro card_mono) simp_all
  also have "\<dots> \<le> length types" using card_image_le [of "set types" st_name] card_length [of types] by simp
  finally show ?case using 0 by simp
next
  case (Suc fuel)
  show ?case
  proof (cases "get_type types name")
    case (Some st)
    then have name: "name \<in> st_name ` set types" by (auto simp: get_type_def find_Some_iff)
    have "extends_names (st_name ` set types) (result @ [name])
        (transitive_members (transitive_rec fuel types) (st_members st) (result @ [name]))" if "name \<notin> set result"
      using Suc.prems name that
      by (intro transitive_members_extends [where n = "length (result @ [name])"] Suc.IH) auto
    with Some Suc.prems show ?thesis
      by (cases "name \<in> set result") (auto simp: extends_names_def split: result.splits)
  qed (simp add: extends_names_def)
qed

text \<open>
  C33: for every list of types the host sends, also with recursive types, the walk over the struct
  types reachable from a type ends; it fails or lists declared names without repetition.
\<close>

theorem get_transitive_types_terminates:
  "case get_transitive_types types name of
     Ok r \<Rightarrow> distinct r \<and> set r \<subseteq> st_name ` set types
   | Err _ \<Rightarrow> True | Panic \<Rightarrow> False | Pending \<Rightarrow> False"
  using transitive_rec_extends [of "[]" types "length types + 1" name]
  by (auto simp: get_transitive_types_def extends_names_def split: result.splits)

section \<open>Typed values\<close>

datatype tvalue = TAtom bytes | TArray "tvalue list" | TStruct "tvalue list"

definition atom_prompts :: "RootObject \<Rightarrow> string list \<Rightarrow> string option \<Rightarrow> string \<Rightarrow> ConfirmParams list" where
  "atom_prompts ro fp ts shown =
     (let lines = split_at_char (CHR 0x0A) shown in
      map (\<lambda>(i, line). typed_params ro ts (line_body fp (length lines) i line)) (enumerate 0 lines))"

text \<open>
  The encoding of a value as a member of some type at some path, with the screens that show it, in
  the order of the members and elements. The elements of an array and the members of a struct are
  given by their own encodings.
\<close>

type_synonym rendering = "(bytes \<times> ConfirmParams list) option"

type_synonym renderer = "MemberType \<Rightarrow> string list \<Rightarrow> string option \<Rightarrow> rendering"

definition add_rendering :: "rendering \<Rightarrow> rendering \<Rightarrow> rendering" where
  "add_rendering a b = (case (a, b) of
     (Some (data, ps), Some (data', ps')) \<Rightarrow> Some (data @ data', ps @ ps') | _ \<Rightarrow> None)"

fun value_elems :: "MemberType \<Rightarrow> string list \<Rightarrow> string option \<Rightarrow> u32 \<Rightarrow> u32 \<Rightarrow> renderer list \<Rightarrow> rendering" where
  "value_elems t fp ts i n [] = Some ([], [])"
| "value_elems t fp ts i n (v # vs) =
     add_rendering (v t (element_path fp i n) ts) (value_elems t fp ts (i + 1) n vs)"

fun value_members :: "Member list \<Rightarrow> string list \<Rightarrow> string option \<Rightarrow> nat \<Rightarrow> nat \<Rightarrow> renderer list \<Rightarrow> rendering" where
  "value_members [] fp ts i n vs = (if vs = [] then Some ([], []) else None)"
| "value_members (m # ms) fp ts i n [] = None"
| "value_members (m # ms) fp ts i n (v # vs) = (case mem_type m of
     None \<Rightarrow> None
   | Some t \<Rightarrow> add_rendering (v t (fp @ [mem_name m]) (member_suffix ts i n)) (value_members ms fp ts (i + 1) n vs))"

definition value_struct ::
  "env \<Rightarrow> StructType list \<Rightarrow> string \<Rightarrow> string list \<Rightarrow> string option \<Rightarrow> renderer list \<Rightarrow> rendering" where
  "value_struct E types name fp ts vs =
     (case (type_hash E types name, get_type types name) of
        (Ok th, Some st) \<Rightarrow> map_option (\<lambda>(data, ps). (env_keccak256 E (th @ data), ps))
          (value_members (st_members st) fp ts 0 (length (st_members st)) vs)
      | _ \<Rightarrow> None)"

definition value_array :: "env \<Rightarrow> RootObject \<Rightarrow> MemberType \<Rightarrow> string list \<Rightarrow> string option \<Rightarrow> renderer list \<Rightarrow> rendering" where
  "value_array E ro t fp ts vs =
     (if (mt_size t = 0 \<or> unat (mt_size t) = length vs) \<and> length vs < 2 ^ 32 then
        (case mt_array_type t of
           Some a \<Rightarrow> map_option (\<lambda>(data, ps). (env_keccak256 E data,
             typed_params ro ts (array_body fp (of_nat (length vs))) # ps))
             (value_elems a fp ts 0 (of_nat (length vs)) vs)
         | None \<Rightarrow> None)
      else None)"

primrec value_member :: "env \<Rightarrow> StructType list \<Rightarrow> RootObject \<Rightarrow> tvalue \<Rightarrow> renderer" where
  "value_member E types ro (TAtom v) = (\<lambda>t fp ts.
     if mt_type t = 7 \<or> mt_type t = 8 then None
     else (case encode_value E t v of
       Ok (encoded, shown) \<Rightarrow> Some (encoded, atom_prompts ro fp ts shown) | _ \<Rightarrow> None))"
| "value_member E types ro (TArray vs) = (\<lambda>t fp ts.
     if mt_type t = 7 then value_array E ro t fp ts (map (value_member E types ro) vs) else None)"
| "value_member E types ro (TStruct vs) = (\<lambda>t fp ts.
     if mt_type t = 8 then value_struct E types (mt_struct_name t) fp ts (map (value_member E types ro) vs) else None)"

section \<open>The interactive code shows and hashes a value\<close>

definition is_ask :: "event \<Rightarrow> bool" where
  "is_ask e = (case e of EvAsk _ _ \<Rightarrow> True | _ \<Rightarrow> False)"

text \<open>From one state to the other, only the trace grew, and the user accepted these prompts.\<close>

definition shown_between :: "world \<Rightarrow> world \<Rightarrow> ConfirmParams list \<Rightarrow> bool" where
  "shown_between w w' ps \<longleftrightarrow> (\<exists>t. w' = ext_trace w t \<and> filter is_ask t = map ask_accepted ps)"

lemma shown_between_refl: "shown_between w w []"
  unfolding shown_between_def by (rule exI [of _ "[]"]) simp

lemma shown_between_trans:
  assumes "shown_between w v ps" "shown_between v w' qs"
  shows "shown_between w w' (ps @ qs)"
proof -
  from assms obtain t u where "v = ext_trace w t" "w' = ext_trace v u"
    "filter is_ask t = map ask_accepted ps" "filter is_ask u = map ask_accepted qs"
    by (auto simp: shown_between_def)
  then show ?thesis unfolding shown_between_def by (intro exI [of _ "t @ u"]) simp
qed

lemma shown_between_confirm: "confirm E p w = (Ok a, w') \<Longrightarrow> shown_between w w' [p]"
  unfolding shown_between_def
  by (rule exI [of _ "[ask_accepted p]"]) (simp add: confirm_OkD ask_accepted_def is_ask_def)

lemma shown_between_host:
  assumes "get_value_from_host E ro path w = (Ok v, w')" shows "shown_between w w' []"
proof -
  from assms obtain r' q' u' where "next_request_eth E r' w = (Ok q', u')"
    and "(case q' of EthTypedMsgValue value \<Rightarrow> returnM value | _ \<Rightarrow> failM ErrInvalidInput) u' = (Ok v, w')"
    by (auto simp: get_value_from_host_def runs)
  then have "next_request_eth E r' w = (Ok q', w')" by (cases q') (auto simp: runs)
  then obtain r q u where 1: "hww_next_request E r w = (Ok q, u)"
    and 2: "(case q of ReqEth (Some r) \<Rightarrow> returnM r | _ \<Rightarrow> failM ErrInvalidState) u = (Ok q', w')"
    by (auto simp: next_request_eth_def runs)
  from 2 have "w' = u" by (auto simp: runs split: Request.splits option.splits)
  with 1 obtain a b where "w' = ext_trace w [EvSend a, EvRecv b]" by (auto simp: hww_next_request_def runs)
  then show ?thesis unfolding shown_between_def by (intro exI [of _ "[EvSend a, EvRecv b]"]) (simp add: is_ask_def)
qed

lemma confirm_each_OkD:
  "for_each (\<lambda>i line _. user_abort (confirm E (f i line))) i lines () w = (Ok a, w')
     \<Longrightarrow> shown_between w w' (map (\<lambda>(i, line). f i line) (enumerate i lines))"
proof (induction lines arbitrary: i w)
  case (Cons x xs)
  then obtain v where 1: "confirm E (f i x) w = (Ok (), v)"
    and 2: "for_each (\<lambda>i line _. user_abort (confirm E (f i line))) (i + 1) xs () v = (Ok a, w')"
    by (auto simp: runs)
  from shown_between_trans [OF shown_between_confirm [OF 1] Cons.IH [OF 2]] show ?case by simp
qed (simp add: runs shown_between_refl)

lemma encode_atom_OkD:
  assumes "encode_atom E ro t path fp ts w = (Ok h, w')"
  shows "\<exists>v shown. encode_value E t v = Ok (h, shown) \<and> shown_between w w' (atom_prompts ro fp ts shown)"
proof -
  from assms obtain v shown u where 1: "get_value_from_host E ro path w = (Ok v, u)"
    and e: "encode_value E t v = Ok (h, shown)"
    and 2: "for_each (\<lambda>i line _. user_abort (confirm E (typed_params ro ts
        (line_body fp (length (split_at_char (CHR 0x0A) shown)) i line)))) 0 (split_at_char (CHR 0x0A) shown) () u = (Ok (), w')"
    by (auto simp: encode_atom_def runs split: prod.splits)
  from shown_between_trans [OF shown_between_host [OF 1] confirm_each_OkD [OF 2]] e show ?thesis
    by (intro exI [of _ v] exI [of _ shown]) (simp add: atom_prompts_def Let_def)
qed

lemma elems_OkD:
  assumes step: "\<And>i w h w'. f (of_nat i) w = (Ok h, w')
      \<Longrightarrow> \<exists>v ps. R v t (element_path fp (of_nat i) n) ts = Some (h, ps) \<and> shown_between w w' ps"
  shows "foldM (\<lambda>i data. bindM (f i) (\<lambda>v. returnM (data @ v))) (map of_nat [k..<m]) acc w = (Ok d, w')
    \<Longrightarrow> \<exists>vs datas ps. d = acc @ datas \<and> length vs = m - k
      \<and> value_elems t fp ts (of_nat k) n (map R vs) = Some (datas, ps) \<and> shown_between w w' ps"
proof (induction "m - k" arbitrary: k acc w)
  case 0
  then show ?case by (auto simp: runs shown_between_refl intro!: exI [of _ "[]"])
next
  case (Suc l)
  then have "[k..<m] = k # [Suc k..<m]" by (simp add: upt_rec)
  with Suc.prems obtain h u where 1: "f (of_nat k) w = (Ok h, u)"
    and 2: "foldM (\<lambda>i data. bindM (f i) (\<lambda>v. returnM (data @ v))) (map of_nat [Suc k..<m]) (acc @ h) u = (Ok d, w')"
    by (auto simp: runs)
  from step [OF 1] obtain v ps where v: "R v t (element_path fp (of_nat k) n) ts = Some (h, ps)" "shown_between w u ps"
    by blast
  have "l = m - Suc k" using Suc.hyps(2) by simp
  from Suc.hyps(1) [OF this 2] obtain vs datas qs where vs: "d = (acc @ h) @ datas" "length vs = m - Suc k"
    "value_elems t fp ts (of_nat (Suc k)) n (map R vs) = Some (datas, qs)" "shown_between u w' qs" by blast
  have "value_elems t fp ts (of_nat k) n (map R (v # vs)) = Some (h @ datas, ps @ qs)"
    using v(1) vs(3) by (simp add: add_rendering_def add.commute)
  with vs Suc.hyps(2) shown_between_trans [OF v(2) vs(4)] show ?case
    by (intro exI [of _ "v # vs"] exI [of _ "h @ datas"] exI [of _ "ps @ qs"]) auto
qed

text \<open>A run of \<open>hash_struct\<close> is explained by values of the members.\<close>

definition struct_explained ::
  "env \<Rightarrow> StructType list \<Rightarrow> (RootObject \<Rightarrow> string \<Rightarrow> u32 list \<Rightarrow> string list \<Rightarrow> string option \<Rightarrow> bytes handler) \<Rightarrow> bool" where
  "struct_explained E types hash \<longleftrightarrow> (\<forall>ro name path fp ts w h w'. hash ro name path fp ts w = (Ok h, w') \<longrightarrow>
     (\<exists>vs ps. value_struct E types name fp ts (map (value_member E types ro) vs) = Some (h, ps) \<and> shown_between w w' ps))"

lemma get_array_size_OkD:
  "get_array_size E ro sz path w = (Ok n, w') \<Longrightarrow> shown_between w w' [] \<and> (sz = 0 \<or> n = sz)"
  by (auto simp: get_array_size_def runs shown_between_refl word_gt_0 split: if_splits dest: shown_between_host)

lemma encode_member_OkD:
  assumes "struct_explained E types hash"
  shows "encode_member E hash ro t path fp ts w = (Ok h, w') \<Longrightarrow>
    \<exists>v ps. value_member E types ro v t fp ts = Some (h, ps) \<and> shown_between w w' ps"
proof (induction t arbitrary: path fp w h w')
  case (MemberType ty sz name arr)
  consider (struct) "ty = 8" | (array) "ty = 7" | (atom) "ty \<noteq> 7" "ty \<noteq> 8" by blast
  then show ?case
  proof cases
    case struct
    with MemberType.prems have "hash ro name path fp ts w = (Ok h, w')" by simp
    with assms obtain vs ps where "value_struct E types name fp ts (map (value_member E types ro) vs) = Some (h, ps)"
      "shown_between w w' ps" unfolding struct_explained_def by blast
    with struct show ?thesis by (intro exI [of _ "TStruct vs"] exI [of _ ps]) simp
  next
    case array
    with MemberType.prems obtain n v1 v2 a d where 1: "get_array_size E ro sz path w = (Ok n, v1)" and a: "arr = Some a"
      and 2: "confirm E (typed_params ro ts (array_body fp n)) v1 = (Ok (), v2)"
      and 3: "foldM (\<lambda>i data. bindM (encode_member E hash ro a (path @ [i]) (element_path fp i n) ts) (\<lambda>v. returnM (data @ v)))
        (range_u32 n) [] v2 = (Ok d, w')" and h: "h = env_keccak256 E d"
      by (auto simp: runs split: option.splits)
    have "\<exists>v ps. value_member E types ro v a (element_path fp (of_nat i) n) ts = Some (h, ps) \<and> shown_between w w' ps"
      if "encode_member E hash ro a (path @ [of_nat i]) (element_path fp (of_nat i) n) ts w = (Ok h, w')" for i w h w'
      using MemberType.IH [OF _ that] a by simp
    from elems_OkD [where f = "\<lambda>i. encode_member E hash ro a (path @ [i]) (element_path fp i n) ts"
        and R = "value_member E types ro", OF this 3 [unfolded range_u32_def]]
    obtain vs ps where vs: "length vs = unat n" "shown_between v2 w' ps"
      "value_elems a fp ts 0 n (map (value_member E types ro) vs) = Some (d, ps)" by auto
    have len: "length vs < 2 ^ 32" using vs(1) unsigned_less [of n, where 'a = nat] by simp
    have n: "of_nat (length vs) = n" using vs(1) by simp
    have "shown_between w w' (typed_params ro ts (array_body fp n) # ps)"
      using shown_between_trans [OF _ shown_between_trans [OF shown_between_confirm [OF 2] vs(2)], of w "[]"]
        get_array_size_OkD [OF 1] by simp
    moreover have "sz = 0 \<or> unat sz = length vs" using get_array_size_OkD [OF 1] vs(1) by auto
    ultimately show ?thesis using array a h vs(3) len n
      by (intro exI [of _ "TArray vs"] exI [of _ "typed_params ro ts (array_body fp n) # ps"]) (simp add: value_array_def)
  next
    case atom
    with MemberType.prems have "encode_atom E ro (MemberType ty sz name arr) path fp ts w = (Ok h, w')" by simp
    from encode_atom_OkD [OF this] obtain v shown where
      "encode_value E (MemberType ty sz name arr) v = Ok (h, shown)" "shown_between w w' (atom_prompts ro fp ts shown)" by blast
    with atom show ?thesis by (intro exI [of _ "TAtom v"] exI [of _ "atom_prompts ro fp ts shown"]) simp
  qed
qed

lemma members_OkD:
  assumes "struct_explained E types hash"
  shows "for_each (\<lambda>i member data.
        bindM (liftM (ok_or ErrInvalidInput (mem_type member))) (\<lambda>t.
        bindM (encode_member E hash ro t (path @ [of_nat i]) (fp @ [mem_name member]) (member_suffix ts i n)) (\<lambda>v.
        returnM (data @ v)))) k ms acc w = (Ok d, w')
    \<Longrightarrow> \<exists>vs datas ps. d = acc @ datas
      \<and> value_members ms fp ts k n (map (value_member E types ro) vs) = Some (datas, ps) \<and> shown_between w w' ps"
proof (induction ms arbitrary: k acc w)
  case Nil
  then show ?case by (auto simp: runs shown_between_refl intro!: exI [of _ "[]"])
next
  case (Cons m ms)
  let ?f = "\<lambda>i member data.
        bindM (liftM (ok_or ErrInvalidInput (mem_type member))) (\<lambda>t.
        bindM (encode_member E hash ro t (path @ [of_nat i]) (fp @ [mem_name member]) (member_suffix ts i n)) (\<lambda>v.
        returnM (data @ v)))"
  from Cons.prems obtain t h u where t: "mem_type m = Some t"
    and 1: "encode_member E hash ro t (path @ [of_nat k]) (fp @ [mem_name m]) (member_suffix ts k n) w = (Ok h, u)"
    and 2: "for_each ?f (k + 1) ms (acc @ h) u = (Ok d, w')"
    by (auto simp: runs)
  from encode_member_OkD [OF assms 1] obtain v ps where
    v: "value_member E types ro v t (fp @ [mem_name m]) (member_suffix ts k n) = Some (h, ps)" "shown_between w u ps" by blast
  from Cons.IH [OF 2] obtain vs datas qs where vs: "d = (acc @ h) @ datas"
    "value_members ms fp ts (k + 1) n (map (value_member E types ro) vs) = Some (datas, qs)" "shown_between u w' qs" by blast
  from v(1) vs(2) t have "value_members (m # ms) fp ts k n (map (value_member E types ro) (v # vs)) = Some (h @ datas, ps @ qs)"
    by (simp add: add_rendering_def)
  with vs(1) shown_between_trans [OF v(2) vs(3)] show ?case
    by (intro exI [of _ "v # vs"] exI [of _ "h @ datas"] exI [of _ "ps @ qs"]) simp
qed

lemma hash_struct_explained: "struct_explained E types (hash_struct E types fuel)"
proof (induction fuel)
  case 0
  show ?case by (simp add: struct_explained_def runs)
next
  case (Suc fuel)
  show ?case unfolding struct_explained_def
  proof (intro allI impI)
    fix ro name path fp ts w h w'
    assume "hash_struct E types (Suc fuel) ro name path fp ts w = (Ok h, w')"
    then obtain th st d where a: "type_hash E types name = Ok th" "get_type types name = Some st" "h = env_keccak256 E d"
      and 1: "for_each (\<lambda>i member data.
        bindM (liftM (ok_or ErrInvalidInput (mem_type member))) (\<lambda>t.
        bindM (encode_member E (hash_struct E types fuel) ro t (path @ [of_nat i]) (fp @ [mem_name member])
          (member_suffix ts i (length (st_members st)))) (\<lambda>v.
        returnM (data @ v)))) 0 (st_members st) th w = (Ok d, w')"
      by (auto simp: hash_step_def runs)
    from members_OkD [OF Suc.IH 1] obtain vs datas ps where "d = th @ datas"
      "value_members (st_members st) fp ts 0 (length (st_members st)) (map (value_member E types ro) vs) = Some (datas, ps)"
      "shown_between w w' ps" by blast
    with a show "\<exists>vs ps. value_struct E types name fp ts (map (value_member E types ro) vs) = Some (h, ps)
        \<and> shown_between w w' ps"
      by (intro exI [of _ vs] exI [of _ ps]) (simp add: value_struct_def)
  qed
qed

section \<open>Signatures\<close>

text \<open>A struct value as a root object: its hash and its screens.\<close>

definition root_value :: "env \<Rightarrow> StructType list \<Rightarrow> RootObject \<Rightarrow> string \<Rightarrow> tvalue list \<Rightarrow> rendering" where
  "root_value E types ro name vs = value_struct E types name [] None (map (value_member E types ro) vs)"

text \<open>The message of a request whose primary type is the domain is left out.\<close>

definition typed_message :: "env \<Rightarrow> EthSignTypedMessageRequest \<Rightarrow> tvalue list \<Rightarrow> rendering" where
  "typed_message E request vs = (if etm_primary_type request = DOMAIN_TYPE_NAME then Some ([], [])
     else root_value E (etm_types request) RootMessage (etm_primary_type request) vs)"

lemma eip712_sighash_OkD:
  assumes "eip712_sighash E fuel (etm_types request) (etm_primary_type request) w = (Ok h, w')"
  shows "\<exists>dvs dh dps mvs mh mps. root_value E (etm_types request) RootDomain DOMAIN_TYPE_NAME dvs = Some (dh, dps)
    \<and> typed_message E request mvs = Some (mh, mps) \<and> h = env_keccak256 E ([0x19, 0x01] @ dh @ mh)
    \<and> shown_between w w' (dps @ mps)"
proof -
  let ?hash = "hash_struct E (etm_types request) fuel"
  from assms obtain dh mh u where 1: "?hash RootDomain DOMAIN_TYPE_NAME [] [] None w = (Ok dh, u)"
    and 2: "(if etm_primary_type request \<noteq> DOMAIN_TYPE_NAME
       then ?hash RootMessage (etm_primary_type request) [] [] None else returnM []) u = (Ok mh, w')"
    and h: "h = env_keccak256 E ([0x19, 0x01] @ dh @ mh)"
    by (auto simp: eip712_sighash_def runs)
  note ex = hash_struct_explained [of E "etm_types request" fuel, unfolded struct_explained_def, rule_format]
  from ex [OF 1] obtain dvs dps where
    d: "root_value E (etm_types request) RootDomain DOMAIN_TYPE_NAME dvs = Some (dh, dps)" "shown_between w u dps"
    unfolding root_value_def by blast
  have "\<exists>mvs mps. typed_message E request mvs = Some (mh, mps) \<and> shown_between u w' mps"
  proof (cases "etm_primary_type request = DOMAIN_TYPE_NAME")
    case True
    with 2 show ?thesis by (auto simp: typed_message_def runs shown_between_refl)
  next
    case False
    with 2 ex [of RootMessage "etm_primary_type request" "[]" "[]" None u mh w'] show ?thesis
      by (auto simp: typed_message_def root_value_def)
  qed
  with d h shown_between_trans show ?thesis by blast
qed

lemma quiet_get_value_from_host [quiet_rules]: "quiet (get_value_from_host E ro path)"
  unfolding get_value_from_host_def next_request_eth_def
  by (auto intro!: emits_rules quiet_rules split: EthRequest.splits Request.splits option.splits)

lemma emits_for_each [emits_rules]:
  assumes "\<And>i x acc. emits P (f i x acc)" shows "emits P (for_each f i xs acc)"
  by (induction xs arbitrary: i acc) (auto intro!: emits_rules assms)

lemma quiet_encode_member [quiet_rules]:
  assumes "\<And>ro name path fp ts. quiet (hash ro name path fp ts)"
  shows "quiet (encode_member E hash ro t path fp ts)"
proof (induction t arbitrary: path fp)
  case (MemberType ty sz name arr)
  have "quiet (encode_atom E ro t path fp ts)" for t path fp
    unfolding encode_atom_def by (auto intro!: emits_rules quiet_rules split: prod.splits)
  moreover have "quiet (get_array_size E ro sz path)" for path
    unfolding get_array_size_def by (auto intro!: emits_rules quiet_rules)
  ultimately show ?case using MemberType
    by (auto intro!: emits_rules quiet_rules assms split: option.splits)
qed

lemma quiet_hash_struct [quiet_rules]: "quiet (hash_struct E types fuel ro name path fp ts)"
  by (induction fuel arbitrary: ro name path fp ts) (auto simp: hash_step_def intro!: emits_rules quiet_rules)

lemma quiet_validate_chain_id [quiet_rules]: "quiet (validate_chain_id E request)"
  unfolding validate_chain_id_def by (auto intro!: emits_rules quiet_rules split: option.splits)

lemma quiet_typed_prepare [quiet_rules]: "quiet (typed_prepare E fuel request)"
  unfolding typed_prepare_def eip712_sighash_def by (auto intro!: emits_rules quiet_rules)

lemma validate_chain_id_OkD: "validate_chain_id E request w = (Ok a, w') \<Longrightarrow> shown_between w w' []"
  by (auto simp: validate_chain_id_def runs shown_between_refl split: option.splits dest: shown_between_host)

lemma filter_address_events: "filter is_ask (address_events coin chain_id keypath address) = address_events coin chain_id keypath address"
  by (auto simp: address_events_def network_events_def keypath_events_def ask_accepted_def is_ask_def Let_def)

lemma typed_prepare_OkD:
  assumes "typed_prepare E fuel request w = (Ok h, ext_trace w q)"
  shows "\<exists>address dvs dh dps mvs mh mps. eth_address_at E w (etm_keypath request) = Ok address
    \<and> is_valid_keypath_address (etm_keypath request)
    \<and> root_value E (etm_types request) RootDomain DOMAIN_TYPE_NAME dvs = Some (dh, dps)
    \<and> typed_message E request mvs = Some (mh, mps) \<and> h = env_keccak256 E ([0x19, 0x01] @ dh @ mh)
    \<and> filter is_ask q = address_events Eth (etm_chain_id request) (etm_keypath request) address
        @ map ask_accepted (dps @ mps @ [sign_data_params])"
proof -
  from assms obtain v1 v2 v3 b where 1: "validate_chain_id E request w = (Ok (), v1)"
    and 2: "pubrequest_process E (typed_pub_request request) v1 = (Ok b, v2)"
    and 3: "eip712_sighash E fuel (etm_types request) (etm_primary_type request) v2 = (Ok h, v3)"
    and 4: "confirm E sign_data_params v3 = (Ok (), ext_trace w q)"
    by (auto simp: typed_prepare_def runs)
  from validate_chain_id_OkD [OF 1] obtain t1 where t1: "v1 = ext_trace w t1" "filter is_ask t1 = []"
    by (auto simp: shown_between_def)
  from pubrequest_OkD [OF 2] obtain address where a: "eth_address_at E w (etm_keypath request) = Ok address"
    "is_valid_keypath_address (etm_keypath request)"
    "v2 = ext_trace v1 (address_events Eth (etm_chain_id request) (etm_keypath request) address)"
    by (auto simp: typed_pub_request_def eth_coin_try_from_def t1(1))
  from eip712_sighash_OkD [OF 3] obtain dvs dh dps mvs mh mps where
    d: "root_value E (etm_types request) RootDomain DOMAIN_TYPE_NAME dvs = Some (dh, dps)"
      "typed_message E request mvs = Some (mh, mps)" "h = env_keccak256 E ([0x19, 0x01] @ dh @ mh)"
      "shown_between v2 v3 (dps @ mps)" by blast
  from shown_between_trans [OF d(4) shown_between_confirm [OF 4]] obtain t3 where
    t3: "ext_trace w q = ext_trace v2 t3" "filter is_ask t3 = map ask_accepted (dps @ mps @ [sign_data_params])"
    by (auto simp: shown_between_def)
  from t3(1) have "ext_trace w q = ext_trace w (t1 @ address_events Eth (etm_chain_id request) (etm_keypath request) address @ t3)"
    by (simp add: t1(1) a(3))
  from ext_trace_inj [OF this] t1(2) t3(2)
  have "filter is_ask q = address_events Eth (etm_chain_id request) (etm_keypath request) address
      @ map ask_accepted (dps @ mps @ [sign_data_params])"
    by (simp add: filter_address_events)
  with a d(1-3) show ?thesis by blast
qed

text \<open>
  C32: a signature made while handling a typed message request is over the EIP-712 hash of a domain and
  a message, and before it the user accepted exactly the screens that show the signing address, every
  member of that domain and every member of that message, in order, and the final question. What is
  hashed is what was shown, whatever the host answered.
\<close>

theorem sign_typed_signs_what_was_shown:
  assumes run: "sign_typed_process E fuel request w = (r, w')"
    and tr: "w_trace w' = w_trace w @ t @ e # u" and e: "signs e"
  shows "\<exists>address dvs dh dps mvs mh mps n q v.
    e = EvSign (etm_keypath request) (env_keccak256 E ([0x19, 0x01] @ dh @ mh)) n
    \<and> root_value E (etm_types request) RootDomain DOMAIN_TYPE_NAME dvs = Some (dh, dps)
    \<and> typed_message E request mvs = Some (mh, mps)
    \<and> eth_address_at E w (etm_keypath request) = Ok address \<and> is_valid_keypath_address (etm_keypath request)
    \<and> t = q @ v \<and> filter is_ask q = address_events Eth (etm_chain_id request) (etm_keypath request) address
        @ map ask_accepted (dps @ mps @ [sign_data_params])"
proof -
  let ?g = "\<lambda>h. case etm_host_nonce_commitment request of
       Some c \<Rightarrow> eth_sign_hash E (Some c) (etm_keypath request) h | None \<Rightarrow> failM ErrInvalidInput"
  have "\<exists>h q v. typed_prepare E fuel request w = (Ok h, ext_trace w q) \<and> t = q @ v
      \<and> (\<exists>n. e = EvSign (etm_keypath request) h n)"
  proof (rule signature_after [OF quiet_typed_prepare emits_return _ tr e])
    show "on_user_abort (bindM (typed_prepare E fuel request) ?g) (returnM ()) w = (r, w')"
      using run by (simp add: on_user_abort_return sign_typed_process_def)
    show "yields w (\<lambda>e. signs e \<longrightarrow> (\<exists>n. e = EvSign (etm_keypath request) h n)) (\<lambda>_. True) (?g h)" for h
      by (auto intro!: yields_emits emits_eth_sign_hash emits_rules split: option.splits)
  qed
  then obtain h q v n where p: "typed_prepare E fuel request w = (Ok h, ext_trace w q)" and "t = q @ v"
    "e = EvSign (etm_keypath request) h n" by blast
  with typed_prepare_OkD [OF p] show ?thesis by blast
qed

section \<open>Hashing ends unless a struct contains itself\<close>

fun struct_names :: "MemberType \<Rightarrow> string list" where
  "struct_names (MemberType ty sz name arr) =
     (if ty = 8 then [name] else if ty = 7 then (case arr of None \<Rightarrow> [] | Some t \<Rightarrow> struct_names t) else [])"

text \<open>A rank that decreases from a struct to every struct it contains, directly or in an array.\<close>

definition ranked :: "(string \<Rightarrow> nat) \<Rightarrow> StructType list \<Rightarrow> bool" where
  "ranked rank types \<longleftrightarrow> list_all (\<lambda>st. list_all (\<lambda>m. case mem_type m of None \<Rightarrow> True
     | Some t \<Rightarrow> list_all (\<lambda>n. rank n < rank (st_name st)) (struct_names t)) (st_members st)) types"

lemma encode_member_cong:
  assumes "\<And>name path fp. name \<in> set (struct_names t) \<Longrightarrow> h ro name path fp ts = h' ro name path fp ts"
  shows "encode_member E h ro t path fp ts = encode_member E h' ro t path fp ts"
  using assms
proof (induction t arbitrary: path fp)
  case (MemberType ty sz name arr)
  show ?case
  proof (cases arr)
    case (Some t)
    have "encode_member E h ro t path fp ts = encode_member E h' ro t path fp ts" if "ty = 7" for path fp
      using MemberType.IH [of t] MemberType.prems Some that by simp
    with MemberType.prems Some show ?thesis by (cases "ty = 7") simp_all
  qed (use MemberType.prems in simp)
qed

lemma for_each_cong:
  "(\<And>i x acc. x \<in> set xs \<Longrightarrow> f i x acc = g i x acc) \<Longrightarrow> for_each f i xs acc = for_each g i xs acc"
  by (induction xs arbitrary: i acc) (auto intro: arg_cong2 [where f = bindM])

lemma hash_step_cong:
  assumes "ranked rank types" and "\<And>name path fp ts. rank name < rank st \<Longrightarrow> h ro name path fp ts = h' ro name path fp ts"
  shows "hash_step E types h ro st path fp ts = hash_step E types h' ro st path fp ts"
proof -
  have "encode_member E h ro t path fp ts = encode_member E h' ro t path fp ts"
    if "get_type types st = Some s" "m \<in> set (st_members s)" "mem_type m = Some t" for s m t path fp ts
  proof (rule encode_member_cong)
    fix name path fp
    assume "name \<in> set (struct_names t)"
    with that assms(1) have "rank name < rank st"
      by (fastforce simp: ranked_def list_all_iff get_type_def find_Some_iff split: option.splits)
    then show "h ro name path fp ts = h' ro name path fp ts" by (rule assms(2))
  qed
  then show ?thesis unfolding hash_step_def
    by (cases "get_type types st") (auto simp: bindM_lift intro!: arg_cong2 [where f = bindM] for_each_cong
        split: option.splits result.splits)
qed

text \<open>
  C34: if no struct type contains itself, directly or through others, then hashing a struct makes no
  recursive call deeper than the rank of its type: at any greater depth, what the recursive calls
  would do there does not change the result.
\<close>

theorem hash_struct_terminates:
  assumes "ranked rank types" "rank name < fuel"
  shows "(hash_step E types ^^ fuel) deeper ro name path fp ts = hash_struct E types fuel ro name path fp ts"
  using assms(2)
proof (induction fuel arbitrary: name path fp ts)
  case (Suc fuel)
  then show ?case by (auto intro!: hash_step_cong [OF assms(1)])
qed simp

text \<open>A struct type that contains itself is never hashed; the recursion goes on without the host or the user.\<close>

definition recursive_types :: "StructType list" where
  "recursive_types = [\<lparr>st_name = ''A'', st_members = [\<lparr>mem_name = ''a'', mem_type = Some (MemberType 8 0 ''A'' None)\<rparr>]\<rparr>]"

lemma recursive_struct_diverges:
  "hash_struct E recursive_types fuel ro ''A'' path fp ts w = (Pending, w)"
proof (induction fuel arbitrary: path fp ts)
  case (Suc fuel)
  have "is_ok (encode_type recursive_types ''A'')" by code_simp
  then have "\<exists>th. type_hash E recursive_types ''A'' = Ok th"
    by (cases "encode_type recursive_types ''A''") (auto simp: type_hash_def is_ok_def)
  moreover have "get_type recursive_types ''A'' = Some (hd recursive_types)" by (simp add: get_type_def recursive_types_def)
  ultimately show ?case using Suc
    by (auto simp: hash_step_def bindM_lift) (simp add: recursive_types_def bindM_lift bindM_def)
qed (simp add: liftM_def)

section \<open>Samples\<close>

definition sample_types :: "StructType list" where
  "sample_types = [\<lparr>st_name = ''EIP712Domain'', st_members = [\<lparr>mem_name = ''chainId'', mem_type = Some (MemberType 2 1 [] None)\<rparr>]\<rparr>,
     \<lparr>st_name = ''M'', st_members = [\<lparr>mem_name = ''xs'', mem_type = Some (MemberType 7 2 [] (Some (MemberType 4 0 [] None)))\<rparr>]\<rparr>,
     \<lparr>st_name = ''N'', st_members = [\<lparr>mem_name = ''m'', mem_type = Some (MemberType 8 0 ''M'' None)\<rparr>]\<rparr>]"

definition sample_typed_request :: EthSignTypedMessageRequest where
  "sample_typed_request = \<lparr>etm_chain_id = 1, etm_keypath = [44 + HARDENED, 60 + HARDENED, HARDENED, 0, 3],
     etm_types = sample_types, etm_primary_type = ''M'', etm_host_nonce_commitment = Some (replicate 32 2)\<rparr>"

text \<open>The host answers every request for a value with 1, but its second one with 5 if told so.\<close>

definition sample_typed_env :: "bool \<Rightarrow> env" where
  "sample_typed_env lie = sample_env\<lparr>env_host_next := (\<lambda>tr. case last tr of
     EvSend (RespEth (Some (EthRespAntikleptoSignerCommitment _))) \<Rightarrow> Ok (ReqEth (Some (EthAntikleptoSignature (replicate 32 3))))
   | _ \<Rightarrow> Ok (ReqEth (Some (EthTypedMsgValue [if lie \<and> length (filter (\<lambda>e. case e of EvSend _ \<Rightarrow> True | _ \<Rightarrow> False) tr) = 2 then 5 else 1]))))\<rparr>"

lemma sample_typed_runs:
  "case sign_typed_process (sample_typed_env False) 3 sample_typed_request sample_world of (r, w') \<Rightarrow>
     is_ok r \<and> list_ex signs (w_trace w')"
  by code_simp

theorem sign_typed_signs_what_was_shown_witness:
  "\<exists>dvs dh dps mvs mh mps n q u. w_trace (snd (sign_typed_process (sample_typed_env False) 3 sample_typed_request sample_world))
       = q @ EvSign (etm_keypath sample_typed_request) ([0x19, 0x01] @ dh @ mh) n # u
     \<and> root_value (sample_typed_env False) sample_types RootDomain DOMAIN_TYPE_NAME dvs = Some (dh, dps)
     \<and> root_value (sample_typed_env False) sample_types RootMessage ''M'' mvs = Some (mh, mps)
     \<and> set (map ask_accepted (dps @ mps)) \<subseteq> set q"
proof -
  obtain r w' where run: "sign_typed_process (sample_typed_env False) 3 sample_typed_request sample_world = (r, w')" by force
  with sample_typed_runs have "list_ex signs (w_trace w')" by simp
  then obtain e where "e \<in> set (w_trace w')" and e: "signs e" by (auto simp: list_ex_iff)
  then obtain t u where tu: "w_trace w' = t @ e # u" by (meson split_list)
  then have "w_trace w' = w_trace sample_world @ t @ e # u" by (simp add: sample_world_def)
  from sign_typed_signs_what_was_shown [OF run this e] obtain address dvs dh dps mvs mh mps n q v where
    w: "e = EvSign (etm_keypath sample_typed_request) (env_keccak256 (sample_typed_env False) ([0x19, 0x01] @ dh @ mh)) n"
      "root_value (sample_typed_env False) (etm_types sample_typed_request) RootDomain DOMAIN_TYPE_NAME dvs = Some (dh, dps)"
      "typed_message (sample_typed_env False) sample_typed_request mvs = Some (mh, mps)"
      "t = q @ v"
    and q: "filter is_ask q = address_events Eth (etm_chain_id sample_typed_request) (etm_keypath sample_typed_request) address
        @ map ask_accepted (dps @ mps @ [sign_data_params])" by blast
  have "set (map ask_accepted (dps @ mps)) \<subseteq> set (filter is_ask q)" unfolding q by auto
  then have "set (map ask_accepted (dps @ mps)) \<subseteq> set t" using w(4) by auto
  moreover have "env_keccak256 (sample_typed_env False) = (\<lambda>x. x)" by (simp add: sample_typed_env_def sample_env_def)
  moreover have "etm_types sample_typed_request = sample_types" "etm_primary_type sample_typed_request = ''M''"
    by (simp_all add: sample_typed_request_def)
  ultimately show ?thesis using w(1-3) tu run
    by (intro exI [of _ dvs] exI [of _ dh] exI [of _ dps] exI [of _ mvs] exI [of _ mh] exI [of _ mps]
        exI [of _ n] exI [of _ t] exI [of _ u])
      (simp add: typed_message_def DOMAIN_TYPE_NAME_def)
qed

theorem hash_struct_terminates_witness:
  "(hash_step sample_env sample_types ^^ 2) (\<lambda>_ _ _ _ _. liftM Panic) RootMessage ''N'' [] [] None
     = hash_struct sample_env sample_types 2 RootMessage ''N'' [] [] None"
proof -
  let ?rank = "\<lambda>n. if n = ''N'' then 1 else 0"
  have "ranked ?rank sample_types" by (simp add: ranked_def sample_types_def)
  then show ?thesis by (rule hash_struct_terminates) simp
qed

text \<open>
  The chain id that is checked need not be the one that is hashed: the host is asked for it a second
  time. Here it answers 1, the requested chain, and then 5, which is shown and hashed.
\<close>

lemma checked_chain_id_not_hashed:
  "case sign_typed_process (sample_typed_env True) 3 sample_typed_request sample_world of (r, w') \<Rightarrow>
     is_ok r \<and> etm_chain_id sample_typed_request = 1
     \<and> list_ex (\<lambda>e. e = ask_accepted (typed_params RootDomain (Some '' (1/1)'') ''chainId: 5'')) (w_trace w')"
  by code_simp

text \<open>A member name with a NUL character makes the device panic.\<close>

definition nul_request :: EthSignTypedMessageRequest where
  "nul_request = sample_typed_request\<lparr>etm_types := [\<lparr>st_name = ''EIP712Domain'',
     st_members = [\<lparr>mem_name = [CHR 0x00], mem_type = Some (MemberType 4 0 [] None)\<rparr>]\<rparr>]\<rparr>"

lemma nul_member_name_panics:
  "fst (sign_typed_process (sample_typed_env False) 3 nul_request sample_world) = Panic"
  by code_simp

end
