(* ===== verification/Cardano.thy ===== *)
theory Cardano
  imports Btc_Policies "HOL-Library.List_Lexorder"
begin

text \<open>
  Cardano (\<open>hww/api/cardano.rs\<close>, \<open>hww/api/cardano/\<close>): key paths, addresses, extended keys and transaction
  signing, with the part of the CBOR library the code uses. Blake2b, bech32, base58, the CRC and the
  Ed25519 keys are parts of the environment.
\<close>

section \<open>Networks and key paths\<close>

record CardanoParams =
  ca_network :: CardanoNetwork
  ca_name :: string
  ca_unit :: string
  ca_hrp_payment :: string
  ca_network_id :: u8
  ca_protocol_magic :: "u32 option"

fun cardano_params_get :: "CardanoNetwork \<Rightarrow> CardanoParams" where
  "cardano_params_get CardanoMainnet = \<lparr>ca_network = CardanoMainnet, ca_name = ''Cardano'', ca_unit = ''ADA'',
     ca_hrp_payment = ''addr'', ca_network_id = 1, ca_protocol_magic = None\<rparr>"
| "cardano_params_get CardanoTestnet = \<lparr>ca_network = CardanoTestnet, ca_name = ''ADA testnet'', ca_unit = ''TADA'',
     ca_hrp_payment = ''addr_test'', ca_network_id = 0, ca_protocol_magic = Some 1097911063\<rparr>"

definition check_account :: "u32 \<Rightarrow> (Error, unit) result" where
  "check_account account = (if HARDENED \<le> account \<and> account \<le> HARDENED + 99 then Ok () else Err ErrInvalidInput)"

definition check_address :: "u32 \<Rightarrow> (Error, unit) result" where
  "check_address addr = (if addr \<le> 9999 then Ok () else Err ErrInvalidInput)"

definition validate_account_shelley :: "keypath \<Rightarrow> (Error, unit) result" where
  "validate_account_shelley keypath = (case keypath of
     [purpose, coin, account] \<Rightarrow>
       if purpose = 1852 + HARDENED \<and> coin = 1815 + HARDENED then check_account account else Err ErrInvalidInput
   | _ \<Rightarrow> Err ErrInvalidInput)"

text \<open>An expected account, if there is one.\<close>

definition account_matches :: "u32 option \<Rightarrow> u32 \<Rightarrow> bool" where
  "account_matches bip44_account account = (case bip44_account of None \<Rightarrow> True | Some a \<Rightarrow> a = account)"

definition validate_address_shelley_payment :: "keypath \<Rightarrow> u32 option \<Rightarrow> (Error, unit) result" where
  "validate_address_shelley_payment keypath bip44_account = (case keypath of
     [purpose, coin, account, role, addr] \<Rightarrow>
       if purpose = 1852 + HARDENED \<and> coin = 1815 + HARDENED then
         (if \<not> account_matches bip44_account account then Err ErrInvalidInput
          else bindR (check_account account) (\<lambda>_.
            bindR (check_address addr) (\<lambda>_.
            if role \<le> 1 then Ok () else Err ErrInvalidInput)))
       else Err ErrInvalidInput
   | _ \<Rightarrow> Err ErrInvalidInput)"

definition validate_address_shelley_stake :: "keypath \<Rightarrow> u32 option \<Rightarrow> (Error, unit) result" where
  "validate_address_shelley_stake keypath bip44_account = (case keypath of
     [purpose, coin, account, role, addr] \<Rightarrow>
       if purpose = 1852 + HARDENED \<and> coin = 1815 + HARDENED \<and> role = 2 \<and> addr = 0 then
         (if \<not> account_matches bip44_account account then Err ErrInvalidInput
          else check_account account)
       else Err ErrInvalidInput
   | _ \<Rightarrow> Err ErrInvalidInput)"

definition validate_address_shelley :: "keypath \<Rightarrow> keypath \<Rightarrow> u32 option \<Rightarrow> (Error, unit) result" where
  "validate_address_shelley keypath_payment keypath_stake bip44_account =
     bindR (validate_address_shelley_payment keypath_payment bip44_account) (\<lambda>_.
     bindR (validate_address_shelley_stake keypath_stake bip44_account) (\<lambda>_.
     if take 3 keypath_payment \<noteq> take 3 keypath_stake then Err ErrInvalidInput else Ok ()))"

section \<open>CBOR\<close>

text \<open>
  \<open>Encoder::type_len\<close>; the type \<open>t\<close> is the three high bits of the first byte. Integers are encoded
  with type 0, whatever their width.
\<close>

definition cbor_head :: "u8 \<Rightarrow> u64 \<Rightarrow> bytes" where
  "cbor_head t x =
     (if x \<le> 0x17 then [t * 32 + ucast x]
      else if x \<le> 0xff then [t * 32 + 24, ucast x]
      else if x \<le> 0xffff then (t * 32 + 25) # rev (u16_le (ucast x))
      else if x \<le> 0xffffffff then (t * 32 + 26) # rev (u32_le (ucast x))
      else (t * 32 + 27) # rev (u64_le x))"

definition cbor_bytes :: "bytes \<Rightarrow> bytes" where
  "cbor_bytes x = cbor_head 2 (of_nat (length x)) @ x"

text \<open>\<open>Decoder::unsigned\<close> and the typed reads built on it.\<close>

definition cbor_unsigned :: "u8 \<Rightarrow> bytes \<Rightarrow> (u64 \<times> bytes) option" where
  "cbor_unsigned info bs =
     (let be = map_option (\<lambda>(h, r). (of_nat (le_val (rev h)), r)) in
      if info \<le> 0x17 then Some (ucast info, bs)
      else if info = 0x18 then be (take_exact 1 bs)
      else if info = 0x19 then be (take_exact 2 bs)
      else if info = 0x1a then be (take_exact 4 bs)
      else if info = 0x1b then be (take_exact 8 bs)
      else None)"

definition cbor_read :: "u8 \<Rightarrow> bytes \<Rightarrow> (u64 \<times> bytes) option" where
  "cbor_read t bs = (case bs of [] \<Rightarrow> None
     | b # r \<Rightarrow> if b div 32 = t then cbor_unsigned (b mod 32) r else None)"

definition cbor_read_u32 :: "bytes \<Rightarrow> (u32 \<times> bytes) option" where
  "cbor_read_u32 bs = (case cbor_read 0 bs of
     Some (v, r) \<Rightarrow> if v \<le> 0xffffffff then Some (ucast v, r) else None | None \<Rightarrow> None)"

definition cbor_read_bytes :: "bytes \<Rightarrow> (bytes \<times> bytes) option" where
  "cbor_read_bytes bs = (case cbor_read 2 bs of Some (n, r) \<Rightarrow> take_exact (unat n) r | None \<Rightarrow> None)"

section \<open>Addresses\<close>

definition decode_shelley_payment_address :: "env \<Rightarrow> CardanoParams \<Rightarrow> string \<Rightarrow> bytes option" where
  "decode_shelley_payment_address E params addr = (case env_bech32_decode E addr of
     None \<Rightarrow> None
   | Some (hrp, data) \<Rightarrow>
       if hrp \<noteq> ca_hrp_payment params then None
       else (case data of [] \<Rightarrow> None | header # _ \<Rightarrow>
         if header mod 16 \<noteq> ca_network_id params then None
         else if header div 16 > 7 then None
         else Some data))"

text \<open>
  The attributes of a Byron address up to the network magic (key 2). \<open>len\<close> is the number of entries
  left, None in a map of indefinite length. Every entry takes some bytes, so the length of the input
  bounds the recursion.
\<close>

fun byron_magic :: "nat \<Rightarrow> u64 option \<Rightarrow> bytes \<Rightarrow> (u32 option \<times> bytes) option" where
  "byron_magic 0 len bs = None"
| "byron_magic (Suc fuel) len bs =
     (if len = Some 0 then Some (None, bs)
      else if len = None \<and> bs \<noteq> [] \<and> hd bs = 0xff then Some (None, tl bs)
      else case cbor_read_u32 bs of None \<Rightarrow> None | Some (key, r) \<Rightarrow>
       (case cbor_read_bytes r of None \<Rightarrow> None | Some (value, r) \<Rightarrow>
        if key = 2 then (case cbor_read_u32 value of None \<Rightarrow> None | Some (magic, _) \<Rightarrow> Some (Some magic, r))
        else byron_magic fuel (map_option (\<lambda>n. n - 1) len) r))"

definition byron_attributes :: "bytes \<Rightarrow> (u32 option \<times> bytes) option" where
  "byron_attributes bs = (case bs of
     [] \<Rightarrow> None
   | b # r \<Rightarrow> if b div 32 \<noteq> 5 then None
       else if b mod 32 = 31 then byron_magic (length bs) None r
       else (case cbor_unsigned (b mod 32) r of None \<Rightarrow> None
         | Some (n, r) \<Rightarrow> byron_magic (length bs) (Some n) r))"

text \<open>The payload of a Byron address, checked against its CRC, and the check of the payload.\<close>

definition byron_payload :: "env \<Rightarrow> bytes \<Rightarrow> bytes option" where
  "byron_payload E decoded = (case cbor_read 4 decoded of None \<Rightarrow> None | Some (n, r) \<Rightarrow>
     if n \<noteq> 2 then None else (case cbor_read 6 r of None \<Rightarrow> None | Some (tag, r) \<Rightarrow>
     if tag \<noteq> 24 then None else (case cbor_read_bytes r of None \<Rightarrow> None | Some (payload, r) \<Rightarrow>
     (case cbor_read_u32 r of None \<Rightarrow> None | Some (address_crc, _) \<Rightarrow>
     if env_crc32 E payload \<noteq> address_crc then None else Some payload))))"

definition byron_payload_ok :: "CardanoParams \<Rightarrow> bytes \<Rightarrow> bool" where
  "byron_payload_ok params payload = (case cbor_read 4 payload of None \<Rightarrow> False | Some (n, r) \<Rightarrow>
     n = 3 \<and> (case cbor_read_bytes r of None \<Rightarrow> False | Some (root_digest, r) \<Rightarrow>
     length root_digest = 28 \<and> (case byron_attributes r of None \<Rightarrow> False | Some (magic, r) \<Rightarrow>
     (case magic of None \<Rightarrow> ca_network params = CardanoMainnet
      | Some m \<Rightarrow> ca_network params \<noteq> CardanoMainnet \<and> ca_protocol_magic params = Some m)
     \<and> (case cbor_read_u32 r of None \<Rightarrow> False | Some (ty, _) \<Rightarrow> ty = 0 \<or> ty = 2))))"

definition decode_byron_payment_address :: "env \<Rightarrow> CardanoParams \<Rightarrow> string \<Rightarrow> bytes option" where
  "decode_byron_payment_address E params addr = (case env_base58_decode E addr of
     None \<Rightarrow> None
   | Some decoded \<Rightarrow> (case byron_payload E decoded of
       None \<Rightarrow> None
     | Some payload \<Rightarrow> if byron_payload_ok params payload then Some decoded else None))"

definition decode_payment_address :: "env \<Rightarrow> CardanoParams \<Rightarrow> string \<Rightarrow> (Error, bytes) result" where
  "decode_payment_address E params addr = (case decode_shelley_payment_address E params addr of
     Some a \<Rightarrow> Ok a
   | None \<Rightarrow> ok_or ErrInvalidInput (decode_byron_payment_address E params addr))"

definition ed25519_get_xpub :: "env \<Rightarrow> world \<Rightarrow> keypath \<Rightarrow> (unit, bytes \<times> bytes) result" where
  "ed25519_get_xpub E w keypath = bindR (bip39_seed w) (\<lambda>seed. Ok (env_ed25519_xpub E seed keypath))"

definition pubkey_hash_at_keypath :: "env \<Rightarrow> world \<Rightarrow> keypath \<Rightarrow> (Error, bytes) result" where
  "pubkey_hash_at_keypath E w keypath =
     bindR (to_generic (ed25519_get_xpub E w keypath)) (\<lambda>(pubkey, _). Ok (env_blake2b E 28 pubkey))"

definition validate_and_encode_payment_address ::
  "env \<Rightarrow> world \<Rightarrow> CardanoParams \<Rightarrow> PkhSkh \<Rightarrow> u32 option \<Rightarrow> (Error, string) result" where
  "validate_and_encode_payment_address E w params config bip44_account =
     bindR (validate_address_shelley (pkh_keypath_payment config) (pkh_keypath_stake config) bip44_account) (\<lambda>_.
     bindR (pubkey_hash_at_keypath E w (pkh_keypath_payment config)) (\<lambda>payment_key_hash.
     bindR (pubkey_hash_at_keypath E w (pkh_keypath_stake config)) (\<lambda>stake_key_hash.
     Ok (env_bech32_encode E (ca_hrp_payment params) (ca_network_id params # payment_key_hash @ stake_key_hash)))))"

definition cardano_address_process :: "env \<Rightarrow> CardanoAddressRequest \<Rightarrow> CardanoResponse handler" where
  "cardano_address_process E request =
     bindM (liftM (ok_or ErrInvalidInput (cardano_network_try_from (car_network request)))) (\<lambda>network.
     bindM (liftM (ok_or ErrInvalidInput (car_script_config request))) (\<lambda>sc.
     bindM (liftM (ok_or ErrInvalidInput sc)) (\<lambda>script_config.
     bindM (readM (\<lambda>w. validate_and_encode_payment_address E w (cardano_params_get network) script_config None)) (\<lambda>addr.
     bindM (if car_display request then user_abort (confirm E (confirm_default\<lparr>
         cp_title := ca_name (cardano_params_get network), cp_body := addr, cp_scrollable := True\<rparr>))
       else returnM ()) (\<lambda>_.
     returnM (CardanoRespPub addr))))))"

definition cardano_xpubs_process :: "env \<Rightarrow> keypath list \<Rightarrow> CardanoResponse handler" where
  "cardano_xpubs_process E keypaths =
     bindM (readM (\<lambda>w. collectR (\<lambda>keypath.
         bindR (validate_account_shelley keypath) (\<lambda>_.
         bindR (to_generic (ed25519_get_xpub E w keypath)) (\<lambda>(pubkey, chain_code). Ok (pubkey @ chain_code)))) keypaths)) (\<lambda>xpubs.
     returnM (CardanoRespXpubs xpubs))"

section \<open>The transaction body\<close>

definition encode_stake_credential :: "env \<Rightarrow> world \<Rightarrow> keypath \<Rightarrow> (Error, bytes) result" where
  "encode_stake_credential E w keypath =
     bindR (pubkey_hash_at_keypath E w keypath) (\<lambda>pubkey_hash.
     Ok (cbor_head 4 2 @ cbor_head 0 0 @ cbor_bytes pubkey_hash))"

text \<open>The header of a reward address: tag 14 for a stake key hash, and the network.\<close>

definition encode_withdrawal_address :: "env \<Rightarrow> world \<Rightarrow> CardanoParams \<Rightarrow> keypath \<Rightarrow> (Error, bytes) result" where
  "encode_withdrawal_address E w params keypath =
     bindR (pubkey_hash_at_keypath E w keypath) (\<lambda>pubkey_hash.
     Ok ((0xe0 + ca_network_id params) # pubkey_hash))"

definition encode_input :: "CardanoInput \<Rightarrow> (Error, bytes) result" where
  "encode_input input =
     (if length (cin_prev_out_hash input) \<noteq> 32 then Err ErrInvalidInput
      else Ok (cbor_head 4 2 @ cbor_bytes (cin_prev_out_hash input) @ cbor_head 0 (ucast (cin_prev_out_index input))))"

definition encode_token :: "CardanoToken \<Rightarrow> bytes" where
  "encode_token token = cbor_bytes (ctok_asset_name token) @ cbor_head 0 (ctok_value token)"

definition encode_asset_group :: "CardanoAssetGroup \<Rightarrow> bytes" where
  "encode_asset_group g = cbor_bytes (cag_policy_id g) @ cbor_head 5 (of_nat (length (cag_tokens g)))
     @ concat (map encode_token (cag_tokens g))"

definition encode_output :: "env \<Rightarrow> CardanoParams \<Rightarrow> CardanoOutput \<Rightarrow> (Error, bytes) result" where
  "encode_output E params output =
     bindR (decode_payment_address E params (cout_encoded_address output)) (\<lambda>decoded_address.
     Ok (cbor_head 4 2 @ cbor_bytes decoded_address
       @ (if cout_asset_groups output = [] then cbor_head 0 (cout_value output)
          else cbor_head 4 2 @ cbor_head 0 (cout_value output)
            @ cbor_head 5 (of_nat (length (cout_asset_groups output)))
            @ concat (map encode_asset_group (cout_asset_groups output)))))"

fun encode_certificate :: "env \<Rightarrow> world \<Rightarrow> CardanoCert option \<Rightarrow> (Error, bytes) result" where
  "encode_certificate E w None = Err ErrInvalidInput"
| "encode_certificate E w (Some (StakeRegistration keypath)) =
     bindR (encode_stake_credential E w keypath) (\<lambda>c. Ok (cbor_head 4 2 @ cbor_head 0 0 @ c))"
| "encode_certificate E w (Some (StakeDeregistration keypath)) =
     bindR (encode_stake_credential E w keypath) (\<lambda>c. Ok (cbor_head 4 2 @ cbor_head 0 1 @ c))"
| "encode_certificate E w (Some (StakeDelegation keypath pool_keyhash)) =
     (if length pool_keyhash \<noteq> 28 then Err ErrInvalidInput
      else bindR (encode_stake_credential E w keypath) (\<lambda>c.
        Ok (cbor_head 4 3 @ cbor_head 0 2 @ c @ cbor_bytes pool_keyhash)))"

definition encode_withdrawal :: "env \<Rightarrow> world \<Rightarrow> CardanoParams \<Rightarrow> CardanoWithdrawal \<Rightarrow> (Error, bytes) result" where
  "encode_withdrawal E w params wd =
     bindR (encode_withdrawal_address E w params (cwd_keypath wd)) (\<lambda>a.
     Ok (cbor_bytes a @ cbor_head 0 (cwd_value wd)))"

definition has_ttl :: "CardanoSignTransactionRequest \<Rightarrow> bool" where
  "has_ttl tx \<longleftrightarrow> cst_ttl tx \<noteq> 0 \<or> cst_allow_zero_ttl tx"

definition encode_transaction_body :: "env \<Rightarrow> world \<Rightarrow> CardanoSignTransactionRequest \<Rightarrow> (Error, bytes) result" where
  "encode_transaction_body E w tx =
     bindR (ok_or ErrInvalidInput (cardano_network_try_from (cst_network tx))) (\<lambda>network.
     bindR (collectR encode_input (cst_inputs tx)) (\<lambda>inputs.
     bindR (collectR (encode_output E (cardano_params_get network)) (cst_outputs tx)) (\<lambda>outputs.
     bindR (collectR (encode_certificate E w) (cst_certificates tx)) (\<lambda>certificates.
     bindR (collectR (encode_withdrawal E w (cardano_params_get network)) (cst_withdrawals tx)) (\<lambda>withdrawals.
     Ok (cbor_head 5 (3 + of_bool (has_ttl tx) + of_bool (cst_certificates tx \<noteq> [])
           + of_bool (cst_withdrawals tx \<noteq> []) + of_bool (cst_validity_interval_start tx \<noteq> 0))
       @ cbor_head 0 0 @ cbor_head 4 (of_nat (length (cst_inputs tx))) @ concat inputs
       @ cbor_head 0 1 @ cbor_head 4 (of_nat (length (cst_outputs tx))) @ concat outputs
       @ cbor_head 0 2 @ cbor_head 0 (cst_fee tx)
       @ (if has_ttl tx then cbor_head 0 3 @ cbor_head 0 (cst_ttl tx) else [])
       @ (if cst_certificates tx \<noteq> [] then cbor_head 0 4 @ cbor_head 4 (of_nat (length (cst_certificates tx)))
            @ concat certificates else [])
       @ (if cst_withdrawals tx \<noteq> [] then cbor_head 0 5 @ cbor_head 5 (of_nat (length (cst_withdrawals tx)))
            @ concat withdrawals else [])
       @ (if cst_validity_interval_start tx \<noteq> 0 then cbor_head 0 8 @ cbor_head 0 (cst_validity_interval_start tx) else [])))))))"

section \<open>Confirmation\<close>

definition cardano_format_value :: "CardanoParams \<Rightarrow> u64 \<Rightarrow> string" where
  "cardano_format_value params v = decimal_format (unat v) 6 @ '' '' @ ca_unit params"

definition format_asset :: "env \<Rightarrow> bytes \<Rightarrow> bytes \<Rightarrow> string" where
  "format_asset E policy_id asset_name = env_bech32_encode E ''asset'' (env_blake2b E 20 (policy_id @ asset_name))"

definition SHELLEY_START_SLOT :: u64 where "SHELLEY_START_SLOT = 208 * 21600"

definition slot_params :: "CardanoParams \<Rightarrow> string \<Rightarrow> u64 \<Rightarrow> ConfirmParams" where
  "slot_params params title slot = confirm_default\<lparr>cp_title := ca_name params,
     cp_body := title @ [CHR 0x0A] @ ''slot '' @ show_nat (unat ((slot - SHELLEY_START_SLOT) mod 432000)) @ '' in''
       @ [CHR 0x0A] @ ''epoch '' @ show_nat (unat (208 + (slot - SHELLEY_START_SLOT) div 432000)),
     cp_accept_is_nextarrow := True\<rparr>"

definition verify_slot :: "env \<Rightarrow> CardanoParams \<Rightarrow> string \<Rightarrow> u64 \<Rightarrow> unit handler" where
  "verify_slot E params title slot =
     (if slot < SHELLEY_START_SLOT then failM ErrInvalidInput
      else user_abort (confirm E (slot_params params title slot)))"

definition cannot_be_mined_params :: "CardanoParams \<Rightarrow> ConfirmParams" where
  "cannot_be_mined_params params = confirm_default\<lparr>cp_title := ca_name params,
     cp_body := ''Transaction'' @ [CHR 0x0A] @ ''cannot be'' @ [CHR 0x0A] @ ''mined'', cp_accept_is_nextarrow := True\<rparr>"

definition verify_validity :: "env \<Rightarrow> CardanoParams \<Rightarrow> CardanoSignTransactionRequest \<Rightarrow> unit handler" where
  "verify_validity E params request =
     (let start = cst_validity_interval_start request; ttl = cst_ttl request in
      if (start \<noteq> 0 \<and> has_ttl request \<and> start > ttl) \<or> (has_ttl request \<and> ttl < SHELLEY_START_SLOT)
      then user_abort (confirm E (cannot_be_mined_params params))
      else bindM (if start \<noteq> 0 then verify_slot E params ''Can be mined from'' start else returnM ()) (\<lambda>_.
        if has_ttl request then verify_slot E params ''Can be mined until'' ttl else returnM ()))"

text \<open>A scrollable question with the network's name as title.\<close>

definition cardano_question :: "CardanoParams \<Rightarrow> string \<Rightarrow> ConfirmParams" where
  "cardano_question params body = confirm_default\<lparr>cp_title := ca_name params, cp_body := body,
     cp_scrollable := True, cp_accept_is_nextarrow := True\<rparr>"

definition account_number :: "keypath \<Rightarrow> string" where
  "account_number keypath = ''#'' @ show_nat (unat (keypath ! 2 + 1 - HARDENED))"

fun cert_keypath :: "CardanoCert \<Rightarrow> keypath" where
  "cert_keypath (StakeRegistration keypath) = keypath"
| "cert_keypath (StakeDeregistration keypath) = keypath"
| "cert_keypath (StakeDelegation keypath _) = keypath"

fun cert_body :: "CardanoCert \<Rightarrow> string" where
  "cert_body (StakeRegistration keypath) = ''Register staking key for account '' @ account_number keypath @ ''?''"
| "cert_body (StakeDeregistration keypath) = ''Stop stake delegation for account '' @ account_number keypath @ ''?''"
| "cert_body (StakeDelegation keypath pool_keyhash) =
     ''Delegate staking for account '' @ account_number keypath @ '' to pool '' @ hex_encode pool_keyhash @ ''?''"

definition verify_certificate ::
  "env \<Rightarrow> CardanoParams \<Rightarrow> u32 \<Rightarrow> CardanoCert option \<Rightarrow> keypath list \<Rightarrow> keypath list handler" where
  "verify_certificate E params bip44_account cert signing_keypaths = (case cert of
     None \<Rightarrow> failM ErrInvalidInput
   | Some c \<Rightarrow>
       bindM (liftM (validate_address_shelley_stake (cert_keypath c) (Some bip44_account))) (\<lambda>_.
       bindM (user_abort (confirm E (cardano_question params (cert_body c)))) (\<lambda>_.
       returnM (signing_keypaths @ [cert_keypath c]))))"

definition withdrawal_body :: "CardanoParams \<Rightarrow> CardanoWithdrawal \<Rightarrow> string" where
  "withdrawal_body params wd = ''Withdraw '' @ cardano_format_value params (cwd_value wd)
     @ '' in staking rewards for account '' @ account_number (cwd_keypath wd) @ ''?''"

definition verify_withdrawal ::
  "env \<Rightarrow> CardanoParams \<Rightarrow> u32 \<Rightarrow> CardanoWithdrawal \<Rightarrow> keypath list \<Rightarrow> keypath list handler" where
  "verify_withdrawal E params bip44_account wd signing_keypaths =
     bindM (liftM (validate_address_shelley_stake (cwd_keypath wd) (Some bip44_account))) (\<lambda>_.
     bindM (guardM (cwd_value wd \<noteq> 0) ErrInvalidInput) (\<lambda>_.
     bindM (user_abort (confirm E (cardano_question params (withdrawal_body params wd)))) (\<lambda>_.
     returnM (signing_keypaths @ [cwd_keypath wd]))))"

text \<open>Size limits, and no asset twice.\<close>

definition token_keys :: "CardanoAssetGroup list \<Rightarrow> (bytes \<times> bytes) list" where
  "token_keys groups = concat (map (\<lambda>g. map (\<lambda>t. (cag_policy_id g, ctok_asset_name t)) (cag_tokens g)) groups)"

definition validate_asset_groups :: "CardanoAssetGroup list \<Rightarrow> (Error, unit) result" where
  "validate_asset_groups groups =
     (if list_all (\<lambda>g. length (cag_policy_id g) = 28 \<and> list_all (\<lambda>t. length (ctok_asset_name t) \<le> 32) (cag_tokens g)) groups
         \<and> distinct (token_keys groups)
      then Ok () else Err ErrInvalidInput)"

definition cardano_token_params :: "env \<Rightarrow> bytes \<times> CardanoToken \<Rightarrow> ConfirmParams" where
  "cardano_token_params E = (\<lambda>(policy_id, token). confirm_default\<lparr>cp_title := ''Send token'',
     cp_body := ''Amount: '' @ decimal_format (unat (ctok_value token)) 0 @ ''. Asset: ''
       @ format_asset E policy_id (ctok_asset_name token),
     cp_accept_is_nextarrow := True, cp_scrollable := True\<rparr>)"

definition verify_token :: "env \<Rightarrow> bytes \<times> CardanoToken \<Rightarrow> unit \<Rightarrow> unit handler" where
  "verify_token E t u = user_abort (confirm E (cardano_token_params E t))"

definition output_tokens :: "CardanoOutput \<Rightarrow> (bytes \<times> CardanoToken) list" where
  "output_tokens output = concat (map (\<lambda>g. map (Pair (cag_policy_id g)) (cag_tokens g)) (cout_asset_groups output))"

definition verify_output :: "env \<Rightarrow> CardanoParams \<Rightarrow> u32 \<Rightarrow> CardanoOutput \<Rightarrow> u64 \<Rightarrow> u64 handler" where
  "verify_output E params bip44_account output subtotal =
     bindM (liftM (decode_payment_address E params (cout_encoded_address output))) (\<lambda>_.
     bindM (liftM (validate_asset_groups (cout_asset_groups output))) (\<lambda>_.
     case cout_script_config output of
       Some (Some config) \<Rightarrow>
         bindM (readM (\<lambda>w. validate_and_encode_payment_address E w params config (Some bip44_account))) (\<lambda>encoded_address.
         bindM (guardM (encoded_address = cout_encoded_address output) ErrInvalidInput) (\<lambda>_.
         returnM subtotal))
     | Some None \<Rightarrow> failM ErrInvalidInput
     | None \<Rightarrow>
         bindM (user_abort (verify_recipient E (cout_encoded_address output)
           (cardano_format_value params (cout_value output)))) (\<lambda>_.
         bindM (foldM (verify_token E) (output_tokens output) ()) (\<lambda>_.
         returnM (subtotal + cout_value output)))))"

definition fee_params :: "CardanoParams \<Rightarrow> u64 \<Rightarrow> ConfirmParams" where
  "fee_params params fee = confirm_default\<lparr>cp_title := ca_name params,
     cp_body := ''Fee'' @ [CHR 0x0A] @ cardano_format_value params fee, cp_longtouch := True\<rparr>"

definition verify_fee :: "env \<Rightarrow> CardanoParams \<Rightarrow> u64 \<Rightarrow> u64 \<Rightarrow> unit handler" where
  "verify_fee E params fee subtotal =
     (if subtotal = 0 then user_abort (confirm E (fee_params params fee))
      else user_abort (verify_total_fee E (cardano_format_value params (subtotal + fee))
        (cardano_format_value params fee) (Some (percentage_f64 (unat fee) (unat subtotal)))))"

section \<open>Signing\<close>

definition cardano_prepare :: "env \<Rightarrow> CardanoSignTransactionRequest \<Rightarrow> keypath list handler" where
  "cardano_prepare E request =
     bindM (liftM (ok_or ErrInvalidInput (cardano_network_try_from (cst_network request)))) (\<lambda>network.
     bindM (guardM (cst_inputs request \<noteq> []) ErrInvalidInput) (\<lambda>_.
     bindM (liftM (let kp = cin_keypath (hd (cst_inputs request)) in
        if 2 < length kp then Ok (kp ! 2) else Err ErrInvalidInput)) (\<lambda>bip44_account.
     bindM (liftM (collectR (\<lambda>input. validate_address_shelley_payment (cin_keypath input) (Some bip44_account))
        (cst_inputs request))) (\<lambda>_.
     bindM (if network = CardanoMainnet then verify_validity E (cardano_params_get network) request else returnM ()) (\<lambda>_.
     bindM (foldM (verify_certificate E (cardano_params_get network) bip44_account) (cst_certificates request)
        (map cin_keypath (cst_inputs request))) (\<lambda>signing_keypaths.
     bindM (foldM (verify_withdrawal E (cardano_params_get network) bip44_account) (cst_withdrawals request)
        signing_keypaths) (\<lambda>signing_keypaths.
     bindM (foldM (verify_output E (cardano_params_get network) bip44_account) (cst_outputs request) 0) (\<lambda>total.
     bindM (verify_fee E (cardano_params_get network) (cst_fee request) total) (\<lambda>_.
     bindM (status (''Transaction'' @ [CHR 0x0A] @ ''confirmed'') True) (\<lambda>_.
     returnM signing_keypaths))))))))))"

definition ed25519_sign :: "env \<Rightarrow> keypath \<Rightarrow> bytes \<Rightarrow> (world, unit, bytes \<times> bytes) io" where
  "ed25519_sign E keypath msg =
     bindM (readM bip39_seed) (\<lambda>seed.
     bindM (emit (EvEd25519Sign keypath msg)) (\<lambda>_. returnM (env_ed25519_sign E seed keypath msg)))"

definition make_shelley_witness :: "env \<Rightarrow> bytes \<Rightarrow> keypath \<Rightarrow> ShelleyWitness list \<Rightarrow> ShelleyWitness list handler" where
  "make_shelley_witness E tx_body_hash keypath witnesses =
     bindM (map_errM (\<lambda>_. ErrGeneric) (ed25519_sign E keypath tx_body_hash)) (\<lambda>(signature, public_key).
     returnM (witnesses @ [\<lparr>sw_public_key = public_key, sw_signature = signature\<rparr>]))"

definition cardano_sign :: "env \<Rightarrow> CardanoSignTransactionRequest \<Rightarrow> keypath list \<Rightarrow> CardanoResponse handler" where
  "cardano_sign E request signing_keypaths =
     bindM (readM (\<lambda>w. encode_transaction_body E w request)) (\<lambda>body.
     bindM (foldM (make_shelley_witness E (env_blake2b E 32 body)) (remdups_adj (sort signing_keypaths)) []) (\<lambda>witnesses.
     returnM (CardanoRespSignTransaction witnesses)))"

definition cardano_sign_process :: "env \<Rightarrow> CardanoSignTransactionRequest \<Rightarrow> CardanoResponse handler" where
  "cardano_sign_process E request =
     on_user_abort (bindM (cardano_prepare E request) (cardano_sign E request))
       (status (''Transaction'' @ [CHR 0x0A] @ ''canceled'') False)"

fun cardano_process_api :: "env \<Rightarrow> CardanoRequest \<Rightarrow> CardanoResponse handler" where
  "cardano_process_api E (CardanoXpubs keypaths) = cardano_xpubs_process E keypaths"
| "cardano_process_api E (CardanoAddress request) = cardano_address_process E request"
| "cardano_process_api E (CardanoSignTransaction request) = cardano_sign_process E request"

end
