(* ===== verification/Cardano_Safety.thy ===== *)
theory Cardano_Safety
  imports Cardano Verify_Message
begin

text \<open>
  What the Cardano handlers guarantee: the bytes that are hashed and signed determine the
  transaction, and a transaction is signed only after its screens were accepted.
\<close>

section \<open>Reading CBOR back\<close>

lemma cbor_first_byte:
  assumes "t < 8" "n < 32"
  shows "(t * 32 + n :: u8) div 32 = t" "(t * 32 + n :: u8) mod 32 = n"
proof -
  have le: "unat t < 8" "unat n < 32" using assms by (simp_all add: word_less_nat_alt)
  then have "unat (t * 32 + n) = unat t * 32 + unat n" by (simp add: unat_word_ariths)
  with le show "(t * 32 + n) div 32 = t" "(t * 32 + n) mod 32 = n"
    by (simp_all add: word_unat_eq_iff unat_div unat_mod)
qed

lemma cbor_read_head:
  assumes "t < 8" shows "cbor_read t (cbor_head t x @ r) = Some (x, r)"
proof -
  have small: "unat (ucast x :: u8) = unat x" if "x \<le> 0xff"
    using that by (intro unat_ucast_fits) (simp add: word_le_nat_alt)
  have u16: "unat (ucast x :: u16) = unat x" if "x \<le> 0xffff"
    using that by (intro unat_ucast_fits) (simp add: word_le_nat_alt)
  have u32: "unat (ucast x :: u32) = unat x" if "x \<le> 0xffffffff"
    using that by (intro unat_ucast_fits) (simp add: word_le_nat_alt)
  have tiny: "(ucast x :: u8) \<le> 0x17 \<and> (ucast x :: u8) < 32 \<and> ucast (ucast x :: u8) = x" if "x \<le> 0x17"
  proof -
    have "unat x \<le> 0x17" using that by (simp add: word_le_nat_alt)
    moreover from this have "unat (ucast x :: u8) = unat x" by (intro unat_ucast_fits) simp
    ultimately show ?thesis
      by (simp add: word_le_nat_alt word_less_nat_alt word_unat_eq_iff [of "ucast _"] unat_ucast_fits)
  qed
  note byte = cbor_first_byte [OF assms]
  have info: "(t * 32 + n) div 32 = t \<and> (t * 32 + n) mod 32 = n" if "n \<in> {24, 25, 26, 27}" for n
    using that by (auto intro!: byte)
  show ?thesis
    using tiny byte [of "ucast x"] info
    by (auto simp: cbor_head_def cbor_read_def cbor_unsigned_def small u16 u32 take_exact_def
        le_val_u16_le le_val_u32_le le_val_u64_le)
qed

interpretation cbor_uint: prefix_code "cbor_head 0" "cbor_read 0" "\<lambda>_. True"
  by unfold_locales (simp add: cbor_read_head)

interpretation cbor_array: prefix_code "cbor_head 4" "cbor_read 4" "\<lambda>_. True"
  by unfold_locales (simp add: cbor_read_head)

interpretation cbor_map: prefix_code "cbor_head 5" "cbor_read 5" "\<lambda>_. True"
  by unfold_locales (simp add: cbor_read_head)

interpretation cbor_string: prefix_code cbor_bytes cbor_read_bytes fits_u64
proof
  fix x r :: bytes
  assume "fits_u64 x"
  then have "unat (of_nat (length x) :: u64) = length x" by (simp add: unat_of_nat)
  then show "cbor_read_bytes (cbor_bytes x @ r) = Some (x, r)"
    by (simp add: cbor_bytes_def cbor_read_bytes_def cbor_read_head)
qed

text \<open>A list with its length in front is read back if its elements are.\<close>

context prefix_free
begin

lemma counted_inj:
  assumes "prefix_free cnt (\<lambda>_ :: u64. True)"
    and "list_all valid xs" "length xs < 2 ^ 64" "list_all valid ys" "length ys < 2 ^ 64"
    and eq: "cnt (of_nat (length xs)) @ concat (map enc xs) @ r = cnt (of_nat (length ys)) @ concat (map enc ys) @ s"
  shows "xs = ys \<and> r = s"
proof -
  from prefix_free.enc_append_inj [OF assms(1) _ _ eq]
  have "(of_nat (length xs) :: u64) = of_nat (length ys)" and
    rest: "concat (map enc xs) @ r = concat (map enc ys) @ s" by simp_all
  then have "unat (of_nat (length xs) :: u64) = unat (of_nat (length ys) :: u64)" by simp
  with assms have "length xs = length ys" by (simp add: unat_of_nat)
  with concat_enc_inj [OF assms(2,4) _ rest] show ?thesis by simp
qed

end

section \<open>What the transaction body contains\<close>

text \<open>
  The content of a transaction body: the outputs spent, the outputs created by address bytes, the
  fee, the time to live if there is one, certificates and withdrawals by key hashes, and the start of
  the validity interval (0 if there is none).
\<close>

datatype body_cert = BodyRegistration bytes | BodyDeregistration bytes | BodyDelegation bytes bytes

record tx_body =
  tb_inputs :: "(bytes \<times> u32) list"
  tb_outputs :: "(bytes \<times> u64 \<times> CardanoAssetGroup list) list"
  tb_fee :: u64
  tb_ttl :: "u64 option"
  tb_certs :: "body_cert list"
  tb_withdrawals :: "(bytes \<times> u64) list"
  tb_start :: u64

definition input_content :: "CardanoInput \<Rightarrow> (Error, bytes \<times> u32) result" where
  "input_content input = (if length (cin_prev_out_hash input) \<noteq> 32 then Err ErrInvalidInput
     else Ok (cin_prev_out_hash input, cin_prev_out_index input))"

definition output_content ::
  "env \<Rightarrow> CardanoParams \<Rightarrow> CardanoOutput \<Rightarrow> (Error, bytes \<times> u64 \<times> CardanoAssetGroup list) result" where
  "output_content E params output =
     bindR (decode_payment_address E params (cout_encoded_address output)) (\<lambda>a.
     Ok (a, cout_value output, cout_asset_groups output))"

fun cert_content :: "env \<Rightarrow> world \<Rightarrow> CardanoCert option \<Rightarrow> (Error, body_cert) result" where
  "cert_content E w None = Err ErrInvalidInput"
| "cert_content E w (Some (StakeRegistration keypath)) =
     bindR (pubkey_hash_at_keypath E w keypath) (\<lambda>h. Ok (BodyRegistration h))"
| "cert_content E w (Some (StakeDeregistration keypath)) =
     bindR (pubkey_hash_at_keypath E w keypath) (\<lambda>h. Ok (BodyDeregistration h))"
| "cert_content E w (Some (StakeDelegation keypath pool)) =
     (if length pool \<noteq> 28 then Err ErrInvalidInput
      else bindR (pubkey_hash_at_keypath E w keypath) (\<lambda>h. Ok (BodyDelegation h pool)))"

definition withdrawal_content :: "env \<Rightarrow> world \<Rightarrow> CardanoParams \<Rightarrow> CardanoWithdrawal \<Rightarrow> (Error, bytes \<times> u64) result" where
  "withdrawal_content E w params wd =
     bindR (encode_withdrawal_address E w params (cwd_keypath wd)) (\<lambda>a. Ok (a, cwd_value wd))"

definition tx_body_of :: "env \<Rightarrow> world \<Rightarrow> CardanoSignTransactionRequest \<Rightarrow> (Error, tx_body) result" where
  "tx_body_of E w tx =
     bindR (ok_or ErrInvalidInput (cardano_network_try_from (cst_network tx))) (\<lambda>network.
     bindR (collectR input_content (cst_inputs tx)) (\<lambda>inputs.
     bindR (collectR (output_content E (cardano_params_get network)) (cst_outputs tx)) (\<lambda>outputs.
     bindR (collectR (cert_content E w) (cst_certificates tx)) (\<lambda>certs.
     bindR (collectR (withdrawal_content E w (cardano_params_get network)) (cst_withdrawals tx)) (\<lambda>withdrawals.
     Ok \<lparr>tb_inputs = inputs, tb_outputs = outputs, tb_fee = cst_fee tx,
         tb_ttl = (if has_ttl tx then Some (cst_ttl tx) else None), tb_certs = certs,
         tb_withdrawals = withdrawals, tb_start = cst_validity_interval_start tx\<rparr>)))))"

text \<open>Its encoding, item by item.\<close>

definition input_bytes :: "bytes \<times> u32 \<Rightarrow> bytes" where
  "input_bytes = (\<lambda>(h, i). cbor_head 4 2 @ cbor_bytes h @ cbor_head 0 (ucast i))"

definition groups_bytes :: "CardanoAssetGroup list \<Rightarrow> bytes" where
  "groups_bytes gs = cbor_head 5 (of_nat (length gs)) @ concat (map encode_asset_group gs)"

definition output_bytes :: "bytes \<times> u64 \<times> CardanoAssetGroup list \<Rightarrow> bytes" where
  "output_bytes = (\<lambda>(a, v, gs). cbor_head 4 2 @ cbor_bytes a
     @ (if gs = [] then cbor_head 0 v else cbor_head 4 2 @ cbor_head 0 v @ groups_bytes gs))"

definition credential_bytes :: "bytes \<Rightarrow> bytes" where
  "credential_bytes h = cbor_head 4 2 @ cbor_head 0 0 @ cbor_bytes h"

fun cert_bytes :: "body_cert \<Rightarrow> bytes" where
  "cert_bytes (BodyRegistration h) = cbor_head 4 2 @ cbor_head 0 0 @ credential_bytes h"
| "cert_bytes (BodyDeregistration h) = cbor_head 4 2 @ cbor_head 0 1 @ credential_bytes h"
| "cert_bytes (BodyDelegation h pool) = cbor_head 4 3 @ cbor_head 0 2 @ credential_bytes h @ cbor_bytes pool"

definition withdrawal_bytes :: "bytes \<times> u64 \<Rightarrow> bytes" where
  "withdrawal_bytes = (\<lambda>(a, v). cbor_bytes a @ cbor_head 0 v)"

text \<open>An entry of the body that is there only under a condition, with its key.\<close>

definition entry :: "u64 \<Rightarrow> bool \<Rightarrow> bytes \<Rightarrow> bytes" where
  "entry k c x = (if c then cbor_head 0 k @ x else [])"

definition body_tail :: "tx_body \<Rightarrow> bytes" where
  "body_tail b =
     entry 3 (tb_ttl b \<noteq> None) (cbor_head 0 (case tb_ttl b of Some t \<Rightarrow> t | None \<Rightarrow> 0))
     @ entry 4 (tb_certs b \<noteq> []) (cbor_head 4 (of_nat (length (tb_certs b))) @ concat (map cert_bytes (tb_certs b)))
     @ entry 5 (tb_withdrawals b \<noteq> []) (cbor_head 5 (of_nat (length (tb_withdrawals b)))
         @ concat (map withdrawal_bytes (tb_withdrawals b)))
     @ entry 8 (tb_start b \<noteq> 0) (cbor_head 0 (tb_start b))"

definition body_bytes :: "tx_body \<Rightarrow> bytes" where
  "body_bytes b =
     cbor_head 5 (3 + of_bool (tb_ttl b \<noteq> None) + of_bool (tb_certs b \<noteq> [])
       + of_bool (tb_withdrawals b \<noteq> []) + of_bool (tb_start b \<noteq> 0))
     @ cbor_head 0 0 @ cbor_head 4 (of_nat (length (tb_inputs b))) @ concat (map input_bytes (tb_inputs b))
     @ cbor_head 0 1 @ cbor_head 4 (of_nat (length (tb_outputs b))) @ concat (map output_bytes (tb_outputs b))
     @ cbor_head 0 2 @ cbor_head 0 (tb_fee b) @ body_tail b"

section \<open>The encoder implements it\<close>

lemma bindR_assoc: "bindR (bindR r f) g = bindR r (\<lambda>a. bindR (f a) g)"
  by (cases r) simp_all

lemma bindR_cong: "(\<And>a. r = Ok a \<Longrightarrow> f a = g a) \<Longrightarrow> bindR r f = bindR r g"
  by (cases r) simp_all

lemma collectR_map:
  "collectR (\<lambda>x. bindR (f x) (\<lambda>y. Ok (g y))) xs = bindR (collectR f xs) (\<lambda>ys. Ok (map g ys))"
  by (induction xs) (simp_all add: bindR_assoc)

lemma encode_input_content: "encode_input = (\<lambda>i. bindR (input_content i) (\<lambda>y. Ok (input_bytes y)))"
  by (auto simp: fun_eq_iff encode_input_def input_content_def input_bytes_def)

lemma encode_output_content:
  "encode_output E params = (\<lambda>out. bindR (output_content E params out) (\<lambda>y. Ok (output_bytes y)))"
  by (auto simp: fun_eq_iff encode_output_def output_content_def output_bytes_def groups_bytes_def
      bindR_assoc intro: bindR_cong)

lemma encode_certificate_content:
  "encode_certificate E w = (\<lambda>c. bindR (cert_content E w c) (\<lambda>y. Ok (cert_bytes y)))"
proof (rule ext)
  fix c
  show "encode_certificate E w c = bindR (cert_content E w c) (\<lambda>y. Ok (cert_bytes y))"
    by (cases "(E, w, c)" rule: encode_certificate.cases)
      (auto simp: encode_stake_credential_def credential_bytes_def bindR_assoc)
qed

lemma encode_withdrawal_content:
  "encode_withdrawal E w params = (\<lambda>x. bindR (withdrawal_content E w params x) (\<lambda>y. Ok (withdrawal_bytes y)))"
  by (auto simp: fun_eq_iff encode_withdrawal_def withdrawal_content_def withdrawal_bytes_def
      bindR_assoc)

lemma collectR_Nil_iff: "collectR f xs = Ok ys \<Longrightarrow> ys = [] \<longleftrightarrow> xs = []"
  by (drule collectR_length) auto

lemma encode_transaction_body_refines:
  "encode_transaction_body E w tx = bindR (tx_body_of E w tx) (\<lambda>b. Ok (body_bytes b))"
  unfolding encode_transaction_body_def tx_body_of_def encode_input_content encode_output_content
    encode_certificate_content encode_withdrawal_content collectR_map bindR_assoc bindR.simps(1)
  by (intro bindR_cong)
    (simp add: body_bytes_def body_tail_def entry_def collectR_length collectR_Nil_iff)

section \<open>The encoding determines the content\<close>

text \<open>Lengths are encoded in 64 bits.\<close>

definition group_fits :: "CardanoAssetGroup \<Rightarrow> bool" where
  "group_fits g \<longleftrightarrow> fits_u64 (cag_policy_id g) \<and> length (cag_tokens g) < 2 ^ 64
     \<and> list_all (\<lambda>t. fits_u64 (ctok_asset_name t)) (cag_tokens g)"

fun output_fits :: "bytes \<times> u64 \<times> CardanoAssetGroup list \<Rightarrow> bool" where
  "output_fits (a, v, gs) \<longleftrightarrow> fits_u64 a \<and> length gs < 2 ^ 64 \<and> list_all group_fits gs"

fun cert_fits :: "body_cert \<Rightarrow> bool" where
  "cert_fits (BodyRegistration h) \<longleftrightarrow> fits_u64 h"
| "cert_fits (BodyDeregistration h) \<longleftrightarrow> fits_u64 h"
| "cert_fits (BodyDelegation h pool) \<longleftrightarrow> fits_u64 h \<and> fits_u64 pool"

definition body_fits :: "tx_body \<Rightarrow> bool" where
  "body_fits b \<longleftrightarrow>
     length (tb_inputs b) < 2 ^ 64 \<and> list_all (\<lambda>(h, i). fits_u64 h) (tb_inputs b)
     \<and> length (tb_outputs b) < 2 ^ 64 \<and> list_all output_fits (tb_outputs b)
     \<and> length (tb_certs b) < 2 ^ 64 \<and> list_all cert_fits (tb_certs b)
     \<and> length (tb_withdrawals b) < 2 ^ 64 \<and> list_all (\<lambda>(a, v). fits_u64 a) (tb_withdrawals b)"

lemmas cbor_eqs = cbor_uint.enc_append_eq cbor_uint.enc_inj cbor_array.enc_append_eq cbor_map.enc_append_eq
  cbor_string.enc_append_eq cbor_string.enc_inj

lemma cbor_head_types:
  assumes "t < 8" "t' < 8" "t \<noteq> t'" shows "cbor_head t x @ r \<noteq> cbor_head t' y @ s"
proof
  assume "cbor_head t x @ r = cbor_head t' y @ s"
  then have "cbor_read t (cbor_head t' y @ s) = Some (x, r)"
    using cbor_read_head [OF assms(1), of x r] by simp
  moreover have "cbor_read t' (cbor_head t' y @ s) = Some (y, s)" by (rule cbor_read_head [OF assms(2)])
  ultimately show False using assms(3) by (auto simp: cbor_read_def split: list.splits if_splits)
qed

lemma ucast_u32_u64_inj: "(ucast (i :: u32) :: u64) = ucast j \<longleftrightarrow> i = j"
proof
  assume "(ucast i :: u64) = ucast j"
  then have "unat (ucast i :: u64) = unat (ucast j :: u64)" by simp
  moreover have "unat (ucast k :: u64) = unat k" for k :: u32
    by (rule unat_ucast_fits) (rule less_trans [OF unsigned_less], simp)
  ultimately show "i = j" by (simp add: word_unat_eq_iff)
qed simp

interpretation cbor_input: prefix_free input_bytes "\<lambda>(h, i). fits_u64 h"
  by unfold_locales (auto simp: input_bytes_def cbor_eqs ucast_u32_u64_inj split: prod.splits)

interpretation cbor_token: prefix_free encode_token "\<lambda>t. fits_u64 (ctok_asset_name t)"
  by unfold_locales (simp add: encode_token_def cbor_eqs)

interpretation cbor_group: prefix_free encode_asset_group group_fits
proof
  fix x y r s
  assume fits: "group_fits x" "group_fits y" and eq: "encode_asset_group x @ r = encode_asset_group y @ s"
  then have "cag_policy_id x = cag_policy_id y" and
    "cbor_head 5 (of_nat (length (cag_tokens x))) @ concat (map encode_token (cag_tokens x)) @ r
     = cbor_head 5 (of_nat (length (cag_tokens y))) @ concat (map encode_token (cag_tokens y)) @ s"
    by (simp_all add: encode_asset_group_def group_fits_def cbor_eqs)
  with cbor_token.counted_inj [OF cbor_map.prefix_free_axioms _ _ _ _ this(2)] fits
  show "x = y \<and> r = s" by (simp add: group_fits_def)
qed

interpretation cbor_output: prefix_free output_bytes output_fits
proof
  fix x y r s
  assume fits: "output_fits x" "output_fits y" and eq: "output_bytes x @ r = output_bytes y @ s"
  obtain a v gs b u hs where xy: "x = (a, v, gs)" "y = (b, u, hs)" by (metis surj_pair)
  with fits eq have ab: "a = b" and rest:
    "(if gs = [] then cbor_head 0 v else cbor_head 4 2 @ cbor_head 0 v @ groups_bytes gs) @ r
     = (if hs = [] then cbor_head 0 u else cbor_head 4 2 @ cbor_head 0 u @ groups_bytes hs) @ s"
    by (simp_all add: output_bytes_def cbor_eqs)
  from rest have nil: "gs = [] \<longleftrightarrow> hs = []"
    using cbor_head_types [of 0 4 v _ 2] cbor_head_types [of 4 0 2 _ u] by (auto split: if_splits)
  show "x = y \<and> r = s"
  proof (cases "gs = []")
    case False
    with rest nil have "v = u" "groups_bytes gs @ r = groups_bytes hs @ s" by (simp_all add: cbor_eqs)
    with cbor_group.counted_inj [OF cbor_map.prefix_free_axioms, of gs hs r s] fits xy ab
    show ?thesis by (simp add: groups_bytes_def)
  qed (use rest nil xy ab in \<open>simp add: cbor_eqs\<close>)
qed

lemma credential_bytes_append_eq:
  "fits_u64 h \<Longrightarrow> fits_u64 k \<Longrightarrow> credential_bytes h @ r = credential_bytes k @ s \<longleftrightarrow> h = k \<and> r = s"
  by (simp add: credential_bytes_def cbor_eqs)

interpretation cbor_cert: prefix_free cert_bytes cert_fits
proof
  fix x y r s
  assume "cert_fits x" "cert_fits y" "cert_bytes x @ r = cert_bytes y @ s"
  then show "x = y \<and> r = s"
    by (cases x; cases y) (simp_all add: credential_bytes_append_eq cbor_eqs)
qed

interpretation cbor_withdrawal: prefix_free withdrawal_bytes "\<lambda>(a, v). fits_u64 a"
  by unfold_locales (auto simp: withdrawal_bytes_def cbor_eqs split: prod.splits)

text \<open>The optional entries start with different keys, so which of them are there can be read off.\<close>

definition starts_not :: "u8 \<Rightarrow> bytes \<Rightarrow> bool" where
  "starts_not k x \<longleftrightarrow> x = [] \<or> hd x \<noteq> k"

lemma entry_append_eq:
  assumes k: "cbor_head 0 k = [c]" and "starts_not c r" "starts_not c s"
  shows "entry k p x @ r = entry k q y @ s \<longleftrightarrow> (p \<longleftrightarrow> q) \<and> (if p then x @ r = y @ s else r = s)"
  using assms by (auto simp: entry_def starts_not_def)

lemma starts_not_entry:
  "cbor_head 0 k = [c] \<Longrightarrow> c \<noteq> d \<Longrightarrow> starts_not d r \<Longrightarrow> starts_not d (entry k p x @ r)"
  "cbor_head 0 k = [c] \<Longrightarrow> c \<noteq> d \<Longrightarrow> starts_not d (entry k p x)"
  by (auto simp: entry_def starts_not_def)

lemma entry_keys: "cbor_head 0 3 = [3]" "cbor_head 0 4 = [4]" "cbor_head 0 5 = [5]" "cbor_head 0 8 = [8]"
  by (simp_all add: cbor_head_def)

lemma entry_last_eq:
  "cbor_head 0 k = [c] \<Longrightarrow> entry k p x = entry k q y \<longleftrightarrow> (p \<longleftrightarrow> q) \<and> (p \<longrightarrow> x = y)"
  by (auto simp: entry_def)

lemma body_tail_inj:
  assumes "body_fits b" "body_fits c" and eq: "body_tail b = body_tail c"
  shows "tb_ttl b = tb_ttl c \<and> tb_certs b = tb_certs c \<and> tb_withdrawals b = tb_withdrawals c \<and> tb_start b = tb_start c"
proof -
  let ?w = "\<lambda>b. entry 5 (tb_withdrawals b \<noteq> []) (cbor_head 5 (of_nat (length (tb_withdrawals b)))
      @ concat (map withdrawal_bytes (tb_withdrawals b)))"
  let ?c = "\<lambda>b. entry 4 (tb_certs b \<noteq> []) (cbor_head 4 (of_nat (length (tb_certs b))) @ concat (map cert_bytes (tb_certs b)))"
  let ?s = "\<lambda>b. entry 8 (tb_start b \<noteq> 0) (cbor_head 0 (tb_start b))"
  have keys: "starts_not 3 (?c b @ ?w b @ ?s b)" "starts_not 4 (?w b @ ?s b)" "starts_not 5 (?s b)" for b :: tx_body
    by (simp_all add: starts_not_entry(1) [OF entry_keys(2)] starts_not_entry(1) [OF entry_keys(3)]
        starts_not_entry(2) [OF entry_keys(4)])
  from eq have "tb_ttl b = tb_ttl c" and 1: "?c b @ ?w b @ ?s b = ?c c @ ?w c @ ?s c"
    by (auto simp: body_tail_def entry_append_eq [OF entry_keys(1) keys(1) keys(1)] cbor_eqs
        split: if_splits option.splits)
  moreover have "tb_certs b = tb_certs c" and 2: "?w b @ ?s b = ?w c @ ?s c"
    using 1 cbor_cert.counted_inj [OF cbor_array.prefix_free_axioms, of "tb_certs b" "tb_certs c" "?w b @ ?s b" "?w c @ ?s c"] assms
    by (auto simp: entry_append_eq [OF entry_keys(2) keys(2) keys(2)] body_fits_def split: if_splits)
  moreover have "tb_withdrawals b = tb_withdrawals c" and "?s b = ?s c"
    using 2 cbor_withdrawal.counted_inj [OF cbor_map.prefix_free_axioms, of "tb_withdrawals b" "tb_withdrawals c" "?s b" "?s c"] assms
    by (auto simp: entry_append_eq [OF entry_keys(3) keys(3) keys(3)] body_fits_def split: if_splits)
  moreover from this(2) have "tb_start b = tb_start c"
    by (auto simp: entry_last_eq [OF entry_keys(4)] cbor_eqs)
  ultimately show ?thesis by simp
qed

lemma body_bytes_inj:
  assumes fits: "body_fits b" "body_fits c" and eq: "body_bytes b = body_bytes c"
  shows "b = c"
proof -
  let ?o = "\<lambda>b. cbor_head 0 1 @ cbor_head 4 (of_nat (length (tb_outputs b))) @ concat (map output_bytes (tb_outputs b))
    @ cbor_head 0 2 @ cbor_head 0 (tb_fee b) @ body_tail b"
  from eq have "cbor_head 4 (of_nat (length (tb_inputs b))) @ concat (map input_bytes (tb_inputs b)) @ ?o b
      = cbor_head 4 (of_nat (length (tb_inputs c))) @ concat (map input_bytes (tb_inputs c)) @ ?o c"
    by (simp add: body_bytes_def cbor_eqs)
  with cbor_input.counted_inj [OF cbor_array.prefix_free_axioms _ _ _ _ this] fits
  have "tb_inputs b = tb_inputs c" and o: "?o b = ?o c" by (simp_all add: body_fits_def)
  moreover from o have "cbor_head 4 (of_nat (length (tb_outputs b))) @ concat (map output_bytes (tb_outputs b))
        @ cbor_head 0 2 @ cbor_head 0 (tb_fee b) @ body_tail b
      = cbor_head 4 (of_nat (length (tb_outputs c))) @ concat (map output_bytes (tb_outputs c))
        @ cbor_head 0 2 @ cbor_head 0 (tb_fee c) @ body_tail c" by (simp add: cbor_eqs)
  with cbor_output.counted_inj [OF cbor_array.prefix_free_axioms _ _ _ _ this] fits
  have "tb_outputs b = tb_outputs c" "tb_fee b = tb_fee c" "body_tail b = body_tail c"
    by (simp_all add: body_fits_def cbor_eqs)
  moreover note body_tail_inj [OF fits this(3)]
  ultimately show ?thesis by (intro tx_body.equality) simp_all
qed

text \<open>
  C35: the hash that is signed for a Cardano transaction commits to everything in the transaction
  body: two requests whose encoded bodies have the same hash spend the same outputs, pay the same
  amounts and assets to the same addresses, and agree in fee, time to live, certificates, withdrawals
  and validity interval, or they are a collision of Blake2b. All lengths must fit 64 bits.
\<close>

theorem cardano_body_hash_commits:
  assumes body: "tx_body_of E w tx = Ok b" "tx_body_of E w' tx' = Ok c" and fits: "body_fits b" "body_fits c"
    and enc: "encode_transaction_body E w tx = Ok x" "encode_transaction_body E w' tx' = Ok y"
    and hash: "env_blake2b E 32 x = env_blake2b E 32 y"
  shows "b = c \<or> collides (env_blake2b E 32) x y"
proof -
  from enc body have "x = body_bytes b" "y = body_bytes c" by (simp_all add: encode_transaction_body_refines)
  with hash_eqD [of "env_blake2b E 32", OF hash] body_bytes_inj [OF fits] show ?thesis by auto
qed

text \<open>The bytes of a 32-bit word by shifts, for evaluation.\<close>

lemma byte_of_div: "(of_nat (unat (w :: (_::len) word) div 2 ^ n) :: u8) = ucast (drop_bit n w)"
proof -
  have "unat (drop_bit n w) = unat w div 2 ^ n" unfolding unat_drop_bit_eq by (rule drop_bit_eq_div)
  then have "(of_nat (unat w div 2 ^ n) :: u8) = of_nat (unat (drop_bit n w))" by (simp only:)
  also have "\<dots> = ucast (drop_bit n w)" by (rule of_nat_unat)
  finally show ?thesis .
qed

lemma le_bytes_Suc: "le_bytes (Suc k) v = of_nat v # le_bytes k (v div 2 ^ 8)"
  by simp

lemma le_bytes_4: "le_bytes 4 v = [of_nat v, of_nat (v div 2 ^ 8), of_nat (v div 2 ^ 16), of_nat (v div 2 ^ 24)]"
proof -
  have "le_bytes (Suc (Suc (Suc (Suc 0)))) v = [of_nat v, of_nat (v div 2 ^ 8), of_nat (v div 2 ^ 16), of_nat (v div 2 ^ 24)]"
    unfolding le_bytes_Suc le_bytes.simps(1) div_mult2_eq [symmetric] power_add [symmetric] by simp
  moreover have "Suc (Suc (Suc (Suc 0))) = 4" by simp
  ultimately show ?thesis by (simp only:)
qed

lemma u32_le_code [code]:
  "u32_le w = [ucast w, ucast (drop_bit 8 w), ucast (drop_bit 16 w), ucast (drop_bit 24 w)]"
  by (simp only: u32_le_def le_bytes_4 byte_of_div of_nat_unat)

definition sample_cardano_env :: env where
  "sample_cardano_env = sample_env\<lparr>env_blake2b := (\<lambda>n m. m), env_bech32_decode := (\<lambda>s. Some (''addr'', 1 # as_bytes s))\<rparr>"

definition payment_path :: keypath where
  "payment_path = [1852 + HARDENED, 1815 + HARDENED, HARDENED, 0, 7]"

definition stake_path :: keypath where
  "stake_path = [1852 + HARDENED, 1815 + HARDENED, HARDENED, 2, 0]"

definition sample_token :: CardanoToken where
  "sample_token = \<lparr>ctok_asset_name = [0x61], ctok_value = 3\<rparr>"

definition sample_groups :: "CardanoAssetGroup list" where
  "sample_groups = [\<lparr>cag_policy_id = replicate 28 0x31, cag_tokens = [sample_token]\<rparr>]"

definition own_address :: string where
  "own_address = ''addr1'' @ str_of_bytes (1 # replicate 64 8)"

definition sample_cardano_tx :: CardanoSignTransactionRequest where
  "sample_cardano_tx = \<lparr>cst_network = 0,
     cst_inputs = [\<lparr>cin_keypath = payment_path, cin_prev_out_hash = replicate 32 9, cin_prev_out_index = 300\<rparr>],
     cst_outputs = [
       \<lparr>cout_encoded_address = ''addr1a'', cout_value = 0, cout_script_config = None, cout_asset_groups = sample_groups\<rparr>,
       \<lparr>cout_encoded_address = own_address, cout_value = 7,
         cout_script_config = Some (Some \<lparr>pkh_keypath_payment = payment_path, pkh_keypath_stake = stake_path\<rparr>),
         cout_asset_groups = []\<rparr>],
     cst_fee = 2, cst_ttl = 4492801, cst_certificates = [Some (StakeDelegation stake_path (replicate 28 2))],
     cst_withdrawals = [\<lparr>cwd_keypath = stake_path, cwd_value = 1234\<rparr>],
     cst_validity_interval_start = 0, cst_allow_zero_ttl = False\<rparr>"

definition sample_body :: tx_body where
  "sample_body = \<lparr>tb_inputs = [(replicate 32 9, 300)],
     tb_outputs = [(1 # as_bytes ''addr1a'', 0, sample_groups), (1 # as_bytes own_address, 7, [])],
     tb_fee = 2, tb_ttl = Some 4492801, tb_certs = [BodyDelegation (replicate 32 8) (replicate 28 2)],
     tb_withdrawals = [(0xe1 # replicate 32 8, 1234)], tb_start = 0\<rparr>"

text \<open>The same transaction with another key for its input has the same body.\<close>

definition sample_cardano_tx' :: CardanoSignTransactionRequest where
  "sample_cardano_tx' = sample_cardano_tx\<lparr>cst_inputs := [\<lparr>cin_keypath = stake_path,
     cin_prev_out_hash = replicate 32 9, cin_prev_out_index = 300\<rparr>]\<rparr>"

lemma sample_body_of:
  "tx_body_of sample_cardano_env sample_world sample_cardano_tx = Ok sample_body"
  "tx_body_of sample_cardano_env sample_world sample_cardano_tx' = Ok sample_body"
  by code_simp+

lemma sample_body_fits: "body_fits sample_body"
  by (simp add: body_fits_def sample_body_def group_fits_def sample_groups_def sample_token_def own_address_def
      str_of_bytes_def)

theorem cardano_body_hash_commits_witness:
  "case (tx_body_of sample_cardano_env sample_world sample_cardano_tx,
      tx_body_of sample_cardano_env sample_world sample_cardano_tx') of
     (Ok b, Ok c) \<Rightarrow> b = c | _ \<Rightarrow> False"
proof -
  let ?E = sample_cardano_env
  have enc: "encode_transaction_body ?E sample_world sample_cardano_tx = Ok (body_bytes sample_body)"
    "encode_transaction_body ?E sample_world sample_cardano_tx' = Ok (body_bytes sample_body)"
    by (simp_all add: encode_transaction_body_refines sample_body_of)
  from cardano_body_hash_commits [OF sample_body_of sample_body_fits sample_body_fits enc refl]
  show ?thesis by (simp add: sample_body_of)
qed

section \<open>What the user accepts\<close>

definition validity_events :: "CardanoNetwork \<Rightarrow> CardanoSignTransactionRequest \<Rightarrow> trace" where
  "validity_events network request =
     (let params = cardano_params_get network; start = cst_validity_interval_start request; ttl = cst_ttl request in
      if network \<noteq> CardanoMainnet then []
      else if (start \<noteq> 0 \<and> has_ttl request \<and> start > ttl) \<or> (has_ttl request \<and> ttl < SHELLEY_START_SLOT)
      then [ask_accepted (cannot_be_mined_params params)]
      else (if start \<noteq> 0 then [ask_accepted (slot_params params ''Can be mined from'' start)] else [])
        @ (if has_ttl request then [ask_accepted (slot_params params ''Can be mined until'' ttl)] else []))"

definition output_events :: "env \<Rightarrow> CardanoParams \<Rightarrow> CardanoOutput \<Rightarrow> trace" where
  "output_events E params output =
     (if cout_script_config output = None
      then EvAsk (PRecipient (cout_encoded_address output) (cardano_format_value params (cout_value output))) True
        # map (\<lambda>t. EvAsk (PConfirm (cardano_token_params E t)) True) (output_tokens output)
      else [])"

text \<open>The sum of the outputs that are shown, in 64 bits.\<close>

definition shown_total :: "CardanoOutput list \<Rightarrow> u64" where
  "shown_total outputs = sum_list (map cout_value (filter (\<lambda>out. cout_script_config out = None) outputs))"

definition total_events :: "CardanoParams \<Rightarrow> u64 \<Rightarrow> u64 \<Rightarrow> trace" where
  "total_events params fee subtotal =
     (if subtotal = 0 then [ask_accepted (fee_params params fee)]
      else fee_events (cardano_format_value params (subtotal + fee)) (cardano_format_value params fee)
        (Some (percentage_f64 (unat fee) (unat subtotal))))"

definition cardano_screens :: "env \<Rightarrow> CardanoNetwork \<Rightarrow> CardanoSignTransactionRequest \<Rightarrow> trace" where
  "cardano_screens E network request =
     (let params = cardano_params_get network in
      validity_events network request
      @ map (\<lambda>c. ask_accepted (cardano_question params (cert_body (the c)))) (cst_certificates request)
      @ map (\<lambda>x. ask_accepted (cardano_question params (withdrawal_body params x))) (cst_withdrawals request)
      @ concat (map (output_events E params) (cst_outputs request))
      @ total_events params (cst_fee request) (shown_total (cst_outputs request))
      @ [EvShow (PStatus (''Transaction'' @ [CHR 0x0A] @ ''confirmed'') True)])"

text \<open>An output that is not shown pays to an address of the account of the inputs.\<close>

definition output_checked :: "env \<Rightarrow> world \<Rightarrow> CardanoParams \<Rightarrow> u32 \<Rightarrow> CardanoOutput \<Rightarrow> bool" where
  "output_checked E w params account output \<longleftrightarrow>
     (\<exists>a. decode_payment_address E params (cout_encoded_address output) = Ok a)
     \<and> validate_asset_groups (cout_asset_groups output) = Ok ()
     \<and> (case cout_script_config output of None \<Rightarrow> True | Some None \<Rightarrow> False
        | Some (Some config) \<Rightarrow>
            validate_and_encode_payment_address E w params config (Some account) = Ok (cout_encoded_address output))"

definition request_keypaths :: "CardanoSignTransactionRequest \<Rightarrow> keypath list" where
  "request_keypaths request = map cin_keypath (cst_inputs request)
     @ map (cert_keypath \<circ> the) (cst_certificates request) @ map cwd_keypath (cst_withdrawals request)"

text \<open>A key path of the account, for payments or for its stake key.\<close>

definition keypath_of_account :: "u32 \<Rightarrow> keypath \<Rightarrow> bool" where
  "keypath_of_account account keypath \<longleftrightarrow>
     validate_address_shelley_payment keypath (Some account) = Ok ()
     \<or> validate_address_shelley_stake keypath (Some account) = Ok ()"

lemma ed25519_get_xpub_trace [simp]: "ed25519_get_xpub E (w\<lparr>w_trace := t\<rparr>) = ed25519_get_xpub E w"
  by (auto simp: fun_eq_iff ed25519_get_xpub_def bip39_seed_def is_locked_def)

lemma pubkey_hash_trace [simp]: "pubkey_hash_at_keypath E (w\<lparr>w_trace := t\<rparr>) = pubkey_hash_at_keypath E w"
  by (simp add: fun_eq_iff pubkey_hash_at_keypath_def)

lemma validate_and_encode_trace [simp]:
  "validate_and_encode_payment_address E (w\<lparr>w_trace := t\<rparr>) = validate_and_encode_payment_address E w"
  by (simp add: fun_eq_iff validate_and_encode_payment_address_def)

lemma cert_content_trace [simp]: "cert_content E (w\<lparr>w_trace := t\<rparr>) = cert_content E w"
proof (rule ext)
  fix c
  show "cert_content E (w\<lparr>w_trace := t\<rparr>) c = cert_content E w c"
    by (cases "(E, w, c)" rule: cert_content.cases) simp_all
qed

lemma encode_transaction_body_trace [simp]:
  "encode_transaction_body E (w\<lparr>w_trace := t\<rparr>) tx = encode_transaction_body E w tx"
  by (simp add: encode_transaction_body_refines tx_body_of_def withdrawal_content_def [abs_def]
      encode_withdrawal_address_def)

lemma verify_validity_OkD:
  assumes "(if network = CardanoMainnet then verify_validity E (cardano_params_get network) request else returnM ()) w = (Ok a, w')"
  shows "w' = ext_trace w (validity_events network request)"
  using assms
  by (auto simp: verify_validity_def validity_events_def verify_slot_def ask_accepted_def Let_def runs
      split: if_splits dest!: confirm_OkD)

lemma verify_certificates_OkD:
  "foldM (verify_certificate E params account) cs kps w = (Ok ks, w') \<Longrightarrow>
     ks = kps @ map (cert_keypath \<circ> the) cs \<and> list_all (keypath_of_account account) (map (cert_keypath \<circ> the) cs)
     \<and> w' = ext_trace w (map (\<lambda>c. ask_accepted (cardano_question params (cert_body (the c)))) cs)"
proof (induction cs arbitrary: kps w)
  case (Cons c cs)
  from Cons.prems obtain kps' v where 1: "verify_certificate E params account c kps w = (Ok kps', v)"
    and 2: "foldM (verify_certificate E params account) cs kps' v = (Ok ks, w')" by (auto simp: runs)
  from 1 obtain d where "c = Some d" "kps' = kps @ [cert_keypath d]"
    "validate_address_shelley_stake (cert_keypath d) (Some account) = Ok ()"
    "confirm E (cardano_question params (cert_body d)) w = (Ok (), v)"
    by (auto simp: verify_certificate_def runs split: option.splits)
  with Cons.IH [OF 2] confirm_OkD [OF this(4)] show ?case
    by (simp add: keypath_of_account_def ask_accepted_def)
qed (simp add: runs)

lemma verify_withdrawals_OkD:
  "foldM (verify_withdrawal E params account) xs kps w = (Ok ks, w') \<Longrightarrow>
     ks = kps @ map cwd_keypath xs \<and> list_all (keypath_of_account account) (map cwd_keypath xs)
     \<and> w' = ext_trace w (map (\<lambda>x. ask_accepted (cardano_question params (withdrawal_body params x))) xs)"
proof (induction xs arbitrary: kps w)
  case (Cons x xs)
  from Cons.prems obtain kps' v where 1: "verify_withdrawal E params account x kps w = (Ok kps', v)"
    and 2: "foldM (verify_withdrawal E params account) xs kps' v = (Ok ks, w')" by (auto simp: runs)
  from 1 have "kps' = kps @ [cwd_keypath x]"
    "validate_address_shelley_stake (cwd_keypath x) (Some account) = Ok ()"
    "confirm E (cardano_question params (withdrawal_body params x)) w = (Ok (), v)"
    by (auto simp: verify_withdrawal_def runs)
  with Cons.IH [OF 2] confirm_OkD [OF this(3)] show ?case
    by (simp add: keypath_of_account_def ask_accepted_def)
qed (simp add: runs)

lemma output_checked_trace [simp]: "output_checked E (w\<lparr>w_trace := t\<rparr>) = output_checked E w"
  by (auto simp: fun_eq_iff output_checked_def split: option.splits)

lemma verify_output_OkD:
  assumes "verify_output E params account output subtotal w = (Ok s, w')"
  shows "output_checked E w params account output \<and> w' = ext_trace w (output_events E params output)
    \<and> s = (if cout_script_config output = None then subtotal + cout_value output else subtotal)"
proof (cases "cout_script_config output")
  case None
  with assms obtain a v where "decode_payment_address E params (cout_encoded_address output) = Ok a"
    "validate_asset_groups (cout_asset_groups output) = Ok ()" "s = subtotal + cout_value output"
    and 1: "verify_recipient E (cout_encoded_address output) (cardano_format_value params (cout_value output)) w = (Ok (), v)"
    and 2: "foldM (\<lambda>t _. user_abort (confirm E (cardano_token_params E t))) (output_tokens output) () v = (Ok (), w')"
    by (auto simp: verify_output_def verify_token_def [abs_def] runs)
  with None verify_recipient_OkD [OF 1] confirm_all_OkD [OF 2] show ?thesis
    by (simp add: output_checked_def output_events_def)
next
  case (Some c)
  with assms show ?thesis
    by (cases c) (auto simp: verify_output_def output_checked_def output_events_def runs)
qed

lemma verify_outputs_OkD:
  "foldM (verify_output E params account) outputs subtotal w = (Ok s, w') \<Longrightarrow>
     s = subtotal + shown_total outputs \<and> list_all (output_checked E w params account) outputs
     \<and> w' = ext_trace w (concat (map (output_events E params) outputs))"
proof (induction outputs arbitrary: subtotal w)
  case (Cons x xs)
  from Cons.prems obtain s' v where 1: "verify_output E params account x subtotal w = (Ok s', v)"
    and 2: "foldM (verify_output E params account) xs s' v = (Ok s, w')" by (auto simp: runs)
  from verify_output_OkD [OF 1] Cons.IH [OF 2] show ?case
    by (simp add: shown_total_def)
qed (simp add: runs shown_total_def)

lemma verify_fee_OkD:
  "verify_fee E params fee subtotal w = (Ok a, w') \<Longrightarrow> w' = ext_trace w (total_events params fee subtotal)"
  by (auto simp: verify_fee_def total_events_def ask_accepted_def runs
      split: if_splits dest!: confirm_OkD verify_total_fee_OkD)

lemma cardano_prepare_OkD:
  assumes "cardano_prepare E request w = (Ok ks, w')"
  shows "\<exists>network account. cardano_network_try_from (cst_network request) = Some network
    \<and> ks = request_keypaths request \<and> list_all (keypath_of_account account) ks
    \<and> list_all (output_checked E w (cardano_params_get network) account) (cst_outputs request)
    \<and> w' = ext_trace w (cardano_screens E network request)"
proof -
  from assms obtain network account us v1 ks1 v2 v3 s v4 v5 where
    n: "cardano_network_try_from (cst_network request) = Some network"
    and ins: "collectR (\<lambda>i. validate_address_shelley_payment (cin_keypath i) (Some account)) (cst_inputs request) = Ok us"
    and 1: "(if network = CardanoMainnet then verify_validity E (cardano_params_get network) request else returnM ()) w = (Ok (), v1)"
    and 2: "foldM (verify_certificate E (cardano_params_get network) account) (cst_certificates request)
       (map cin_keypath (cst_inputs request)) v1 = (Ok ks1, v2)"
    and 3: "foldM (verify_withdrawal E (cardano_params_get network) account) (cst_withdrawals request) ks1 v2 = (Ok ks, v3)"
    and 4: "foldM (verify_output E (cardano_params_get network) account) (cst_outputs request) 0 v3 = (Ok s, v4)"
    and 5: "verify_fee E (cardano_params_get network) (cst_fee request) s v4 = (Ok (), v5)"
    and 6: "status (''Transaction'' @ [CHR 0x0A] @ ''confirmed'') True v5 = (Ok () :: (Error, unit) result, w')"
    unfolding cardano_prepare_def by (auto simp: runs simp del: if_split split del: if_split)
  from ins have "list_all (keypath_of_account account) (map cin_keypath (cst_inputs request))"
    by (simp add: collectR_Ok_iff list_all2_conv_all_nth list_all_length keypath_of_account_def)
  moreover from 6 have "w' = ext_trace v5 [EvShow (PStatus (''Transaction'' @ [CHR 0x0A] @ ''confirmed'') True)]"
    by (auto simp: status_def show_prompt_def runs)
  ultimately show ?thesis
    using n verify_validity_OkD [OF 1] verify_certificates_OkD [OF 2] verify_withdrawals_OkD [OF 3]
      verify_outputs_OkD [OF 4] verify_fee_OkD [OF 5]
    by (intro exI [of _ network] exI [of _ account]) (simp add: request_keypaths_def cardano_screens_def Let_def)
qed

section \<open>Signatures\<close>

lemma quiet_verify_slot [quiet_rules]: "quiet (verify_slot E params title slot)"
  unfolding verify_slot_def by (auto intro!: emits_rules quiet_rules)

lemma quiet_cardano_prepare [quiet_rules]: "quiet (cardano_prepare E request)"
  unfolding cardano_prepare_def verify_validity_def verify_certificate_def verify_withdrawal_def
    verify_output_def verify_token_def [abs_def] verify_fee_def Let_def
  by (auto intro!: emits_rules quiet_rules split: option.splits)

lemma yields_mono: "yields w P Q m \<Longrightarrow> (\<And>e. P e \<Longrightarrow> P' e) \<Longrightarrow> yields w P' Q m"
  unfolding yields_def by (fastforce simp: list_all_iff)

lemma yields_make_shelley_witness:
  "yields w (\<lambda>e. signs e \<longrightarrow> e = EvEd25519Sign kp h) (\<lambda>_. True) (make_shelley_witness E h kp ws)"
  unfolding make_shelley_witness_def ed25519_sign_def
  by (intro yields_emits) (auto intro!: emits_rules split: prod.splits)

lemma yields_cardano_sign:
  "yields w (\<lambda>e. signs e \<longrightarrow> (\<exists>body kp. encode_transaction_body E w request = Ok body
     \<and> e = EvEd25519Sign kp (env_blake2b E 32 body) \<and> kp \<in> set ks)) (\<lambda>_. True) (cardano_sign E request ks)"
proof -
  have fold: "yields w (\<lambda>e. signs e \<longrightarrow> (\<exists>kp. e = EvEd25519Sign kp h \<and> kp \<in> set ks)) (\<lambda>_. True)
      (foldM (make_shelley_witness E h) (remdups_adj (sort ks)) [])" for h
  proof (rule yields_foldM)
    fix kp ws
    assume "kp \<in> set (remdups_adj (sort ks))"
    then have "kp \<in> set ks" by simp
    then show "yields w (\<lambda>e. signs e \<longrightarrow> (\<exists>kp. e = EvEd25519Sign kp h \<and> kp \<in> set ks)) (\<lambda>_. True) (make_shelley_witness E h kp ws)"
      by (intro yields_mono [OF yields_make_shelley_witness]) auto
  qed simp
  show ?thesis unfolding cardano_sign_def
    by (rule yields_bind [OF yields_read], simp, rule yields_bind [OF yields_mono [OF fold]])
      (auto intro!: yields_rules)
qed

text \<open>
  C36: a signature made while handling a Cardano transaction is over the hash of the encoded body of
  that transaction, at a key path of the request that belongs to the one account of the inputs, and
  comes after the user accepted its screens, in order and with nothing in between: from when and until
  when it can be mined, each certificate, each withdrawal, each output with its tokens, total and fee.
  An output that was not shown pays to an address of that account.
\<close>

theorem cardano_signs_what_was_shown:
  assumes run: "cardano_sign_process E request w = (r, w')"
    and tr: "w_trace w' = w_trace w @ t @ e # u" and e: "signs e"
  shows "\<exists>network account body kp v. cardano_network_try_from (cst_network request) = Some network
    \<and> encode_transaction_body E w request = Ok body \<and> e = EvEd25519Sign kp (env_blake2b E 32 body)
    \<and> kp \<in> set (request_keypaths request) \<and> list_all (keypath_of_account account) (request_keypaths request)
    \<and> list_all (output_checked E w (cardano_params_get network) account) (cst_outputs request)
    \<and> t = cardano_screens E network request @ v"
proof -
  let ?A = "\<lambda>ks e. \<exists>body kp. encode_transaction_body E w request = Ok body
     \<and> e = EvEd25519Sign kp (env_blake2b E 32 body) \<and> kp \<in> set ks"
  have "\<exists>ks q v. cardano_prepare E request w = (Ok ks, ext_trace w q) \<and> t = q @ v \<and> ?A ks e"
    by (rule signature_after [OF quiet_cardano_prepare quiet_status run [unfolded cardano_sign_process_def] tr e])
      (rule yields_cardano_sign)
  then obtain ks q v body kp where p: "cardano_prepare E request w = (Ok ks, ext_trace w q)" and "t = q @ v"
    "encode_transaction_body E w request = Ok body" "e = EvEd25519Sign kp (env_blake2b E 32 body)" "kp \<in> set ks"
    by blast
  moreover from cardano_prepare_OkD [OF p] obtain network account where
    "cardano_network_try_from (cst_network request) = Some network" "ks = request_keypaths request"
    "list_all (keypath_of_account account) ks" "q = cardano_screens E network request"
    "list_all (output_checked E w (cardano_params_get network) account) (cst_outputs request)"
    by (auto dest: ext_trace_inj)
  ultimately show ?thesis by blast
qed

lemma sample_cardano_tx_runs:
  "case cardano_sign_process sample_cardano_env sample_cardano_tx sample_world of (r, w') \<Rightarrow>
     is_ok r \<and> list_ex signs (w_trace w')"
  by code_simp

theorem cardano_signs_what_was_shown_witness:
  "\<exists>kp t v. w_trace (snd (cardano_sign_process sample_cardano_env sample_cardano_tx sample_world))
       = cardano_screens sample_cardano_env CardanoMainnet sample_cardano_tx
         @ t @ EvEd25519Sign kp (body_bytes sample_body) # v \<and> kp \<in> {payment_path, stake_path}"
proof -
  obtain r w' where run: "cardano_sign_process sample_cardano_env sample_cardano_tx sample_world = (r, w')" by force
  with sample_cardano_tx_runs have "list_ex signs (w_trace w')" by simp
  then obtain e where "e \<in> set (w_trace w')" and e: "signs e" by (auto simp: list_ex_iff)
  then obtain t u where tu: "w_trace w' = t @ e # u" by (meson split_list)
  then have "w_trace w' = w_trace sample_world @ t @ e # u" by (simp add: sample_world_def)
  from cardano_signs_what_was_shown [OF run this e] obtain network body kp v where
    n: "cardano_network_try_from (cst_network sample_cardano_tx) = Some network"
    and b: "encode_transaction_body sample_cardano_env sample_world sample_cardano_tx = Ok body"
    and k: "e = EvEd25519Sign kp (env_blake2b sample_cardano_env 32 body)" "kp \<in> set (request_keypaths sample_cardano_tx)"
    and "t = cardano_screens sample_cardano_env network sample_cardano_tx @ v" by blast
  moreover from n have "network = CardanoMainnet" by (simp add: sample_cardano_tx_def cardano_network_try_from_def)
  moreover from b have "body = body_bytes sample_body" by (simp add: encode_transaction_body_refines sample_body_of)
  moreover from k(2) have "kp \<in> {payment_path, stake_path}" by (auto simp: request_keypaths_def sample_cardano_tx_def)
  ultimately show ?thesis using tu run
    by (intro exI [of _ kp] exI [of _ v] exI [of _ u]) (simp add: sample_cardano_env_def)
qed

text \<open>The total is added up in 64 bits: two shown outputs can have the total 0, and then only the fee is shown.\<close>

lemma shown_total_wraps:
  "shown_total [o1\<lparr>cout_value := 0x8000000000000000, cout_script_config := None\<rparr>,
     o2\<lparr>cout_value := 0x8000000000000000, cout_script_config := None\<rparr>] = 0"
  by (simp add: shown_total_def)

end
