(* ===== verification/Noise.thy ===== *)
theory Noise
  imports World
begin

text \<open>
  The state machine of the encrypted channel to the host (\<open>bitbox02-noise/src/noise_xx.rs\<close>). The
  Noise protocol itself is the crate \<open>noise_protocol\<close>: a handshake state \<open>'h\<close> and a cipher state
  \<open>'c\<close> with the operations of \<open>noise_lib\<close>, which are parameters.
\<close>

text \<open>
  \<open>nl_write\<close> draws an ephemeral key, so it sees what happened so far. A handler may exchange further
  messages with the host while it runs; \<open>nl_streamed\<close> is what they do to a cipher, from the events
  before and after. \<open>nl_decode\<close> and \<open>nl_encode\<close> are the protobuf codec of requests and responses, and
  \<open>nl_b32\<close> is the base32 encoding of the pairing code.
\<close>

record ('h, 'c) noise_lib =
  nl_new :: "bytes \<Rightarrow> 'h"
  nl_read :: "'h \<Rightarrow> bytes \<Rightarrow> (bytes \<times> 'h) option"
  nl_write :: "trace \<Rightarrow> 'h \<Rightarrow> bytes \<Rightarrow> (bytes \<times> 'h) option"
  nl_completed :: "'h \<Rightarrow> bool"
  nl_ciphers :: "'h \<Rightarrow> 'c \<times> 'c"
  nl_rs :: "'h \<Rightarrow> bytes option"
  nl_hash :: "'h \<Rightarrow> bytes"
  nl_decrypt :: "'c \<Rightarrow> bytes \<Rightarrow> (bytes \<times> 'c) option"
  nl_encrypt :: "'c \<Rightarrow> bytes \<Rightarrow> bytes \<times> 'c"
  nl_streamed :: "trace \<Rightarrow> trace \<Rightarrow> 'c \<Rightarrow> 'c"
  nl_decode :: "bytes \<Rightarrow> Request option"
  nl_encode :: "Response \<Rightarrow> bytes"
  nl_b32 :: "bytes \<Rightarrow> string"

text \<open>The fields of \<open>Ready\<close>: verification required, handshake hash, remote key, send and receive.\<close>

datatype ('h, 'c) noise_state =
    NoiseNothing
  | NoiseInitialized 'h
  | NoiseReady bool bytes bytes 'c 'c

datatype HandshakeResult = HandshakeResponse bytes | HandshakeDone

datatype NoiseError = PairingVerificationRequired | NoiseFailed | WrongState

type_synonym ('h, 'c, 'a) noise = "(('h, 'c) noise_state, NoiseError, 'a) io"

definition putM :: "'s \<Rightarrow> ('s, 'e, unit) io" where
  "putM t = modifyM (\<lambda>_. t)"

definition noise_reset :: "('h, 'c, unit) noise" where
  "noise_reset = putM NoiseNothing"

definition noise_init :: "('h, 'c) noise_lib \<Rightarrow> bytes \<Rightarrow> ('h, 'c, unit) noise" where
  "noise_init L static_private_key = putM (NoiseInitialized (nl_new L static_private_key))"

text \<open>The last handshake message has been read: \<open>get_ciphers\<close> gives the initiator's cipher first.\<close>

definition noise_finish :: "('h, 'c) noise_lib \<Rightarrow> 'h \<Rightarrow> ('h, 'c, HandshakeResult) noise" where
  "noise_finish L hs =
     (case nl_rs L hs of
        None \<Rightarrow> failM NoiseFailed
      | Some remote_static_pubkey \<Rightarrow>
          bindM (liftM (if length (nl_hash L hs) = 32 then Ok () else Panic)) (\<lambda>_.
          bindM (putM (NoiseReady True (nl_hash L hs) remote_static_pubkey
            (snd (nl_ciphers L hs)) (fst (nl_ciphers L hs)))) (\<lambda>_.
          returnM HandshakeDone)))"

definition noise_handshake :: "('h, 'c) noise_lib \<Rightarrow> trace \<Rightarrow> bytes \<Rightarrow> ('h, 'c, HandshakeResult) noise" where
  "noise_handshake L tr msg =
     bindM (getM (\<lambda>st. st)) (\<lambda>st.
     case st of
       NoiseInitialized hs \<Rightarrow>
         (case nl_read L hs msg of
            None \<Rightarrow> bindM noise_reset (\<lambda>_. failM NoiseFailed)
          | Some (payload, hs) \<Rightarrow>
              bindM (putM (NoiseInitialized hs)) (\<lambda>_.
              if nl_completed L hs then noise_finish L hs
              else (case nl_write L tr hs payload of
                  None \<Rightarrow> failM NoiseFailed
                | Some (out, hs) \<Rightarrow>
                    bindM (putM (NoiseInitialized hs)) (\<lambda>_. returnM (HandshakeResponse out)))))
     | _ \<Rightarrow> failM WrongState)"

definition noise_handshake_hash :: "('h, 'c, bytes) noise" where
  "noise_handshake_hash = readM (\<lambda>st. case st of NoiseReady _ h _ _ _ \<Rightarrow> Ok h | _ \<Rightarrow> Err WrongState)"

definition noise_remote_static_pubkey :: "('h, 'c, bytes) noise" where
  "noise_remote_static_pubkey = readM (\<lambda>st. case st of NoiseReady _ _ k _ _ \<Rightarrow> Ok k | _ \<Rightarrow> Err WrongState)"

definition noise_set_pairing_verified :: "('h, 'c, unit) noise" where
  "noise_set_pairing_verified =
     bindM (getM (\<lambda>st. st)) (\<lambda>st.
     case st of
       NoiseReady _ h k send receive \<Rightarrow> putM (NoiseReady False h k send receive)
     | _ \<Rightarrow> failM WrongState)"

definition noise_decrypt :: "('h, 'c) noise_lib \<Rightarrow> bytes \<Rightarrow> ('h, 'c, bytes) noise" where
  "noise_decrypt L msg =
     bindM (getM (\<lambda>st. st)) (\<lambda>st.
     case st of
       NoiseReady True _ _ _ _ \<Rightarrow> failM PairingVerificationRequired
     | NoiseReady False h k send receive \<Rightarrow>
         (case nl_decrypt L receive msg of
            Some (out, receive) \<Rightarrow> bindM (putM (NoiseReady False h k send receive)) (\<lambda>_. returnM out)
          | None \<Rightarrow> failM NoiseFailed)
     | _ \<Rightarrow> failM WrongState)"

definition noise_encrypt :: "('h, 'c) noise_lib \<Rightarrow> bytes \<Rightarrow> ('h, 'c, bytes) noise" where
  "noise_encrypt L msg =
     bindM (getM (\<lambda>st. st)) (\<lambda>st.
     case st of
       NoiseReady True _ _ _ _ \<Rightarrow> failM PairingVerificationRequired
     | NoiseReady False h k send receive \<Rightarrow>
         (case nl_encrypt L send msg of (out, send) \<Rightarrow>
            bindM (putM (NoiseReady False h k send receive)) (\<lambda>_. returnM out))
     | _ \<Rightarrow> failM WrongState)"

text \<open>The ciphers after a handler that exchanged messages with the host.\<close>

definition noise_streamed :: "('h, 'c) noise_lib \<Rightarrow> trace \<Rightarrow> trace \<Rightarrow> ('h, 'c) noise_state \<Rightarrow> ('h, 'c) noise_state" where
  "noise_streamed L tr tr' st = (case st of
     NoiseReady v h k send receive \<Rightarrow> NoiseReady v h k (nl_streamed L tr tr' send) (nl_streamed L tr tr' receive)
   | _ \<Rightarrow> st)"

end
