(* ===== verification/Api.thy ===== *)
theory Api
  imports Noise Device_Api Btc_Signtx Btc_Handlers Eth_Typed Cardano
begin

text \<open>
  The entry points of the firmware for the host: the dispatch of API requests (\<open>hww/api.rs\<close>), the
  encrypted channel with its pairing (\<open>hww/noise.rs\<close>, \<open>workflow/pairing.rs\<close>), and the packets
  (\<open>hww.rs\<close>) with attestation (\<open>attestation.rs\<close>).
\<close>

section \<open>API requests\<close>

definition process_api_btc :: "env \<Rightarrow> edition \<Rightarrow> Request \<Rightarrow> Response handler" where
  "process_api_btc E ed request =
     (if \<not> (app_bitcoin ed \<or> app_litecoin ed) then failM ErrDisabled
      else (case request of
          ReqBtcPub r \<Rightarrow> btc_process_pub E ed r
        | ReqBtcSignInit r \<Rightarrow> signtx_process E r
        | ReqBtc (Some r) \<Rightarrow> bindM (btc_process_api E r) (\<lambda>r. returnM (RespBtc (Some r)))
        | _ \<Rightarrow> failM ErrGeneric))"

datatype api_state = StUninitialized | StSeeded | StInitialized

definition api_state_of :: "world \<Rightarrow> api_state" where
  "api_state_of w = (if w_initialized w then StInitialized else if w_seeded w then StSeeded else StUninitialized)"

definition can_call :: "world \<Rightarrow> Request \<Rightarrow> bool" where
  "can_call w request = (let state = api_state_of w in
     case request of
       ReqPerformAttestation _ \<Rightarrow> False
     | ReqDeviceInfo \<Rightarrow> True
     | ReqReboot _ \<Rightarrow> True
     | ReqDeviceName _ \<Rightarrow> True
     | ReqDeviceLanguage _ \<Rightarrow> True
     | ReqCheckSdcard \<Rightarrow> True
     | ReqInsertRemoveSdcard _ \<Rightarrow> True
     | ReqListBackups \<Rightarrow> True
     | ReqSetPassword _ \<Rightarrow> state = StUninitialized \<or> state = StSeeded
     | ReqRestoreBackup _ \<Rightarrow> state = StUninitialized \<or> state = StSeeded
     | ReqRestoreFromMnemonic _ \<Rightarrow> state = StUninitialized \<or> state = StSeeded
     | ReqCreateBackup _ \<Rightarrow> state = StSeeded \<or> state = StInitialized
     | ReqShowMnemonic \<Rightarrow> state = StSeeded \<or> state = StInitialized
     | ReqFingerprint \<Rightarrow> state = StInitialized
     | ReqElectrumEncryptionKey _ \<Rightarrow> state = StInitialized
     | ReqBtcPub _ \<Rightarrow> state = StInitialized
     | ReqBtc _ \<Rightarrow> state = StInitialized
     | ReqBtcSignInit _ \<Rightarrow> state = StInitialized
     | ReqBtcSignInput _ \<Rightarrow> False
     | ReqBtcSignOutput _ \<Rightarrow> False
     | ReqCheckBackup _ \<Rightarrow> state = StInitialized
     | ReqSetMnemonicPassphraseEnabled _ \<Rightarrow> state = StInitialized
     | ReqEth _ \<Rightarrow> state = StInitialized
     | ReqReset \<Rightarrow> state = StInitialized
     | ReqCardano _ \<Rightarrow> state = StInitialized
     | ReqBip85 _ \<Rightarrow> state = StInitialized)"

text \<open>The fuel bounds the nesting of Ethereum typed messages (see \<open>Eth_Typed\<close>).\<close>

fun process_api :: "env \<Rightarrow> edition \<Rightarrow> nat \<Rightarrow> Request \<Rightarrow> Response handler" where
  "process_api E ed fuel (ReqReboot purpose) = system_reboot E purpose"
| "process_api E ed fuel ReqDeviceInfo = device_info_process E"
| "process_api E ed fuel (ReqDeviceName name) = set_device_name_process E name"
| "process_api E ed fuel (ReqSetPassword entropy) = set_password_process E entropy"
| "process_api E ed fuel ReqReset = reset_process E"
| "process_api E ed fuel (ReqSetMnemonicPassphraseEnabled enabled) = set_mnemonic_passphrase_enabled_process E enabled"
| "process_api E ed fuel (ReqInsertRemoveSdcard action) = sdcard_process E action"
| "process_api E ed fuel ReqListBackups = backup_list E"
| "process_api E ed fuel ReqCheckSdcard = getM (\<lambda>w. RespCheckSdcard (env_sd_inserted E (w_trace w)))"
| "process_api E ed fuel (ReqCheckBackup silent) = backup_check E silent"
| "process_api E ed fuel (ReqCreateBackup request) = backup_create_process E request"
| "process_api E ed fuel (ReqRestoreBackup request) = restore_from_file E request"
| "process_api E ed fuel ReqShowMnemonic = show_mnemonic_process E"
| "process_api E ed fuel (ReqRestoreFromMnemonic request) = restore_from_mnemonic E request"
| "process_api E ed fuel (ReqElectrumEncryptionKey keypath) = electrum_process E keypath"
| "process_api E ed fuel (ReqEth request) =
     (if \<not> app_ethereum ed then failM ErrDisabled
      else (case request of Some r \<Rightarrow> bindM (eth_process_api E fuel r) (\<lambda>r. returnM (RespEth (Some r)))
        | None \<Rightarrow> failM ErrInvalidInput))"
| "process_api E ed fuel ReqFingerprint = rootfingerprint_process E"
| "process_api E ed fuel (ReqBtcPub request) = process_api_btc E ed (ReqBtcPub request)"
| "process_api E ed fuel (ReqBtc request) = process_api_btc E ed (ReqBtc request)"
| "process_api E ed fuel (ReqBtcSignInit request) = process_api_btc E ed (ReqBtcSignInit request)"
| "process_api E ed fuel (ReqCardano request) =
     (if \<not> app_cardano ed then failM ErrDisabled
      else (case request of Some r \<Rightarrow> bindM (cardano_process_api E r) (\<lambda>r. returnM (RespCardano (Some r)))
        | None \<Rightarrow> failM ErrInvalidInput))"
| "process_api E ed fuel (ReqBip85 request) = bip85_process E request"
| "process_api E ed fuel _ = failM ErrInvalidInput"

definition api_process :: "env \<Rightarrow> ('h, 'c) noise_lib \<Rightarrow> edition \<Rightarrow> nat \<Rightarrow> bytes \<Rightarrow> (world, 'e, bytes) io" where
  "api_process E L ed fuel input =
     (case nl_decode L input of
        None \<Rightarrow> returnM (nl_encode L (make_error ErrInvalidInput))
      | Some request \<Rightarrow>
          bindM (getM (\<lambda>w. can_call w request)) (\<lambda>callable.
          if \<not> callable then returnM (nl_encode L (make_error ErrInvalidState))
          else bindM (attempt (process_api E ed fuel request)) (\<lambda>r.
            returnM (nl_encode L (case r of Inr response \<Rightarrow> response | Inl e \<Rightarrow> make_error e)))))"

section \<open>The channel\<close>

record ('h, 'c) device =
  d_world :: world
  d_noise :: "('h, 'c) noise_state"

definition in_world :: "(world, 'e, 'a) io \<Rightarrow> (('h, 'c) device, 'e, 'a) io" where
  "in_world m d = (case m (d_world d) of (r, w) \<Rightarrow> (r, d\<lparr>d_world := w\<rparr>))"

text \<open>Any error of the channel becomes the one error of \<open>noise.rs\<close>.\<close>

definition in_noise :: "('h, 'c, 'a) noise \<Rightarrow> (('h, 'c) device, unit, 'a) io" where
  "in_noise m d = (case m (d_noise d) of (r, st) \<Rightarrow> (map_err (\<lambda>_. ()) r, d\<lparr>d_noise := st\<rparr>))"

definition pairing_code :: "('h, 'c) noise_lib \<Rightarrow> bytes \<Rightarrow> string" where
  "pairing_code L hash = (let encoded = nl_b32 L hash in
     take 5 encoded @ '' '' @ take 5 (drop 5 encoded) @ [CHR 0x0A]
       @ take 5 (drop 10 encoded) @ '' '' @ take 5 (drop 15 encoded))"

definition format_hash :: "('h, 'c) noise_lib \<Rightarrow> bytes \<Rightarrow> (world, 'e, string) io" where
  "format_hash L hash = liftM (if length (nl_b32 L hash) < 20 then Panic else Ok (pairing_code L hash))"

definition pairing_params :: "string \<Rightarrow> ConfirmParams" where
  "pairing_params code = confirm_default\<lparr>cp_title := ''Pairing code'', cp_body := code, cp_font := Monogram5X9\<rparr>"

definition pairing_confirm :: "env \<Rightarrow> ('h, 'c) noise_lib \<Rightarrow> bytes \<Rightarrow> (world, unit, unit) io" where
  "pairing_confirm E L hash = bindM (format_hash L hash) (\<lambda>code. confirm E (pairing_params code))"

definition get_noise_static_private_key :: "world \<Rightarrow> (unit, bytes) result" where
  "get_noise_static_private_key w = (if w_noise_private_key w = erased then Err () else Ok (w_noise_private_key w))"

definition noise_handshake_op :: "('h, 'c) noise_lib \<Rightarrow> bytes \<Rightarrow> (('h, 'c) device, unit, bytes) io" where
  "noise_handshake_op L rest =
     bindM (getM (\<lambda>d. w_trace (d_world d))) (\<lambda>tr.
     bindM (in_noise (noise_handshake L tr rest)) (\<lambda>r.
     case r of
       HandshakeResponse msg \<Rightarrow> returnM msg
     | HandshakeDone \<Rightarrow>
         bindM (in_noise noise_remote_static_pubkey) (\<lambda>key.
         bindM (getM (\<lambda>d. memory_check_noise_remote_static_pubkey (d_world d) key)) (\<lambda>already_verified.
         if already_verified then bindM (in_noise noise_set_pairing_verified) (\<lambda>_. returnM [0])
         else returnM [1]))))"

definition noise_pairing_op :: "env \<Rightarrow> ('h, 'c) noise_lib \<Rightarrow> (('h, 'c) device, unit, bytes) io" where
  "noise_pairing_op E L =
     bindM (in_noise noise_handshake_hash) (\<lambda>hash.
     bindM (in_world (attempt (pairing_confirm E L hash))) (\<lambda>r.
     case r of
       Inr _ \<Rightarrow>
         bindM (in_noise noise_set_pairing_verified) (\<lambda>_.
         bindM (in_noise noise_remote_static_pubkey) (\<lambda>key.
         bindM (in_world (attempt (memory_add_noise_remote_static_pubkey E key))) (\<lambda>_.
         returnM [])))
     | Inl _ \<Rightarrow> bindM (in_noise noise_reset) (\<lambda>_. failM ())))"

definition noise_msg_op ::
  "env \<Rightarrow> ('h, 'c) noise_lib \<Rightarrow> edition \<Rightarrow> nat \<Rightarrow> bytes \<Rightarrow> (('h, 'c) device, unit, bytes) io" where
  "noise_msg_op E L ed fuel encrypted_msg =
     bindM (in_noise (noise_decrypt L encrypted_msg)) (\<lambda>decrypted_msg.
     bindM (getM (\<lambda>d. w_trace (d_world d))) (\<lambda>tr.
     bindM (in_world (api_process E L ed fuel decrypted_msg)) (\<lambda>response.
     bindM (modifyM (\<lambda>d. d\<lparr>d_noise := noise_streamed L tr (w_trace (d_world d)) (d_noise d)\<rparr>)) (\<lambda>_.
     in_noise (noise_encrypt L response)))))"

definition OP_UNLOCK :: u8 where "OP_UNLOCK = 0x75"

definition OP_ATTESTATION :: u8 where "OP_ATTESTATION = 0x61"

definition OP_I_CAN_HAS_HANDSHAEK :: u8 where "OP_I_CAN_HAS_HANDSHAEK = 0x68"

definition OP_I_CAN_HAS_PAIRIN_VERIFICASHUN :: u8 where "OP_I_CAN_HAS_PAIRIN_VERIFICASHUN = 0x76"

definition OP_HER_COMEZ_TEH_HANDSHAEK :: u8 where "OP_HER_COMEZ_TEH_HANDSHAEK = 0x48"

definition OP_NOISE_MSG :: u8 where "OP_NOISE_MSG = 0x6e"

definition noise_process ::
  "env \<Rightarrow> ('h, 'c) noise_lib \<Rightarrow> edition \<Rightarrow> nat \<Rightarrow> bytes \<Rightarrow> (('h, 'c) device, unit, bytes) io" where
  "noise_process E L ed fuel usb_in =
     (case usb_in of
        [] \<Rightarrow> failM ()
      | op # rest \<Rightarrow>
          if op = OP_I_CAN_HAS_HANDSHAEK \<and> rest = [] then
            bindM (readM (\<lambda>d. get_noise_static_private_key (d_world d))) (\<lambda>key.
            bindM (in_noise (noise_init L key)) (\<lambda>_. returnM []))
          else if op = OP_HER_COMEZ_TEH_HANDSHAEK then noise_handshake_op L rest
          else if op = OP_I_CAN_HAS_PAIRIN_VERIFICASHUN \<and> rest = [] then noise_pairing_op E L
          else if op = OP_NOISE_MSG then noise_msg_op E L ed fuel rest
          else failM ())"

section \<open>Packets\<close>

definition OP_STATUS_SUCCESS :: u8 where "OP_STATUS_SUCCESS = 0"

definition OP_STATUS_FAILURE :: u8 where "OP_STATUS_FAILURE = 1"

definition OP_STATUS_FAILURE_UNINITIALIZED :: u8 where "OP_STATUS_FAILURE_UNINITIALIZED = 2"

definition api_unlock :: "env \<Rightarrow> (world, 'e, bytes) io" where
  "api_unlock E = bindM (attempt (workflow_unlock E)) (\<lambda>r.
     returnM (case r of Inr _ \<Rightarrow> [OP_STATUS_SUCCESS] | Inl _ \<Rightarrow> [OP_STATUS_FAILURE_UNINITIALIZED]))"

definition attestation_perform :: "env \<Rightarrow> bytes \<Rightarrow> PerformAttestationResponse option" where
  "attestation_perform E host_challenge =
     (case env_attestation E of
        None \<Rightarrow> None
      | Some (device_pubkey, certificate, root_pubkey_identifier) \<Rightarrow>
          (case env_attestation_sign E (env_sha256 E host_challenge) of
             None \<Rightarrow> None
           | Some challenge_signature \<Rightarrow>
               Some \<lparr>pa_bootloader_hash = env_bootloader_hash E, pa_device_pubkey = device_pubkey,
                 pa_certificate = certificate, pa_root_pubkey_identifier = root_pubkey_identifier,
                 pa_challenge_signature = challenge_signature\<rparr>))"

definition api_attestation :: "env \<Rightarrow> bytes \<Rightarrow> bytes" where
  "api_attestation E usb_in =
     (if length usb_in \<noteq> 32 then [OP_STATUS_FAILURE]
      else (case attestation_perform E usb_in of
          None \<Rightarrow> [OP_STATUS_FAILURE]
        | Some result \<Rightarrow> OP_STATUS_SUCCESS # pa_bootloader_hash result @ pa_device_pubkey result
            @ pa_certificate result @ pa_root_pubkey_identifier result @ pa_challenge_signature result))"

text \<open>The result of a channel operation as the host sees it.\<close>

definition reply_of :: "(('h, 'c) device, unit, bytes) io \<Rightarrow> (('h, 'c) device, 'e, bytes) io" where
  "reply_of m d = (case m d of
     (Ok out, d) \<Rightarrow> (Ok (OP_STATUS_SUCCESS # out), d)
   | (Err _, d) \<Rightarrow> (Ok [OP_STATUS_FAILURE], d)
   | (Panic, d) \<Rightarrow> (Panic, d)
   | (Pending, d) \<Rightarrow> (Pending, d))"

definition process_packet ::
  "env \<Rightarrow> ('h, 'c) noise_lib \<Rightarrow> edition \<Rightarrow> nat \<Rightarrow> bytes \<Rightarrow> (('h, 'c) device, 'e, bytes) io" where
  "process_packet E L ed fuel usb_in =
     (if usb_in = [OP_UNLOCK] then in_world (api_unlock E)
      else if usb_in \<noteq> [] \<and> hd usb_in = OP_ATTESTATION then returnM (api_attestation E (tl usb_in))
      else bindM (getM (\<lambda>d. w_initialized (d_world d) \<and> is_locked (d_world d))) (\<lambda>refuse.
        if refuse then returnM [] else reply_of (noise_process E L ed fuel usb_in)))"

end
