(* ===== verification/Api_Safety.thy ===== *)
theory Api_Safety
  imports Keystore_Safety Btc_Signtx_Safety Btc_Handlers_Safety Eth_Typed_Safety Cardano_Safety Api
begin

text \<open>
  The device as a whole: every packet keeps the invariant of the device, and signatures are only
  made by a device that was initialized, unlocked and paired when the packet arrived.
\<close>

section \<open>Workflows that only ask\<close>

lemma emits_cases [emits_rules]:
  "(\<And>x. emits P (f x)) \<Longrightarrow> (\<And>y. emits P (g y)) \<Longrightarrow> emits P (case s of Inl x \<Rightarrow> f x | Inr y \<Rightarrow> g y)"
  "emits P m \<Longrightarrow> (\<And>x. emits P (h x)) \<Longrightarrow> emits P (case v of None \<Rightarrow> m | Some x \<Rightarrow> h x)"
  "(\<And>x y. emits P (k x y)) \<Longrightarrow> emits P (case z of (x, y) \<Rightarrow> k x y)"
  by (simp_all split: sum.splits option.splits prod.splits)

lemma keeps_cases [keeps_rules]:
  "(\<And>x. keeps I (f x)) \<Longrightarrow> (\<And>y. keeps I (g y)) \<Longrightarrow> keeps I (case s of Inl x \<Rightarrow> f x | Inr y \<Rightarrow> g y)"
  "keeps I m \<Longrightarrow> (\<And>x. keeps I (h x)) \<Longrightarrow> keeps I (case v of None \<Rightarrow> m | Some x \<Rightarrow> h x)"
  "(\<And>x y. keeps I (k x y)) \<Longrightarrow> keeps I (case z of (x, y) \<Rightarrow> k x y)"
  by (simp_all split: sum.splits option.splits prod.splits)

lemma quiet_enter [quiet_rules]: "quiet (enter E params c preset)"
  unfolding enter_def
  by (intro emits_rules) (auto split: option.splits CanCancel.splits intro!: emits_rules)

lemma quiet_choose_from [quiet_rules]: "quiet (choose_from E p n)"
  unfolding choose_from_def by (intro emits_rules) (auto split: option.splits intro!: emits_rules)

lemma quiet_check_cstrs [quiet_rules]: "quiet (check_cstrs ss)"
  unfolding check_cstrs_def by (intro emits_rules)

lemma quiet_menu_pick [quiet_rules]: "quiet (menu_pick E ws title)"
  unfolding menu_pick_def by (intro emits_rules quiet_rules)

lemma quiet_trinary_choose [quiet_rules]: "quiet (trinary_choose E m l c r)"
  unfolding trinary_choose_def Let_def by (intro emits_rules quiet_rules) simp

lemma quiet_sdcard [quiet_rules]: "quiet (sdcard E b)"
  unfolding sdcard_def by (intro quiet_rules)

lemma quiet_with_cancel [quiet_rules]: "quiet m \<Longrightarrow> quiet (with_cancel E title m)"
  unfolding with_cancel_def by (intro emits_rules quiet_rules)

lemma quiet_password_enter [quiet_rules]: "quiet (password_enter E title b c)"
  unfolding password_enter_def prompt_cancel_def by (intro emits_rules quiet_rules)

lemma quiet_enter_twice [quiet_rules]: "quiet (enter_twice E)"
  unfolding enter_twice_def warn_short_def prompt_cancel_def by (intro emits_rules quiet_rules)

lemma quiet_show_mnemonic [quiet_rules]: "quiet (show_mnemonic E ws)"
  unfolding show_mnemonic_def by (intro emits_rules quiet_rules)

lemma quiet_random_words [quiet_rules]: "quiet (create_random_unique_words E word n)"
  unfolding create_random_unique_words_def random_word_def rand16_def by (intro emits_rules quiet_rules)

lemma quiet_quiz_word [quiet_rules]: "quiet (quiz_word E ws title i choices)"
  unfolding quiz_word_def confirm_word_def by (intro emits_rules quiet_rules)

lemma quiet_quiz_words [quiet_rules]: "quiet (quiz_words E ws n rest)"
  by (induction rest arbitrary: n) (auto intro!: emits_rules quiet_rules)

lemma quiet_show_and_confirm [quiet_rules]: "quiet (show_and_confirm_mnemonic E ws)"
  unfolding show_and_confirm_mnemonic_def by (intro emits_rules quiet_rules)

lemma quiet_enter_word [quiet_rules]: "quiet (enter_word E wordlist n i ws)"
  unfolding enter_word_def get_24th_word_def get_12th_18th_word_def by (intro emits_rules quiet_rules)

lemma quiet_mnemonic_get [quiet_rules]: "quiet (mnemonic_get E)"
  unfolding mnemonic_get_def get_words_def entry_cancelled_def Let_def by (intro emits_rules quiet_rules)

lemma quiet_get_mnemonic [quiet_rules]: "quiet (get_bip39_mnemonic E)"
  unfolding get_bip39_mnemonic_def by (intro emits_rules quiet_rules)

lemma quiet_sd_access [quiet_rules]: "quiet (sd_access E)"
  unfolding sd_access_def by (intro emits_rules) simp

lemma quiet_sd_reads [quiet_rules]: "quiet (sd_list_dirs E)" "quiet (sd_list_subdir E dir)" "quiet (sd_load_bin E f dir)"
  unfolding sd_list_dirs_def sd_list_subdir_def sd_load_bin_def by (intro emits_rules quiet_rules)+

lemma quiet_backup_load [quiet_rules]: "quiet (backup_load E dir)"
  unfolding backup_load_def by (intro emits_rules quiet_rules)

lemma quiet_confirm_passphrase [quiet_rules]: "quiet (confirm_mnemonic_passphrase E p)"
  unfolding confirm_mnemonic_passphrase_def by (intro emits_rules quiet_rules)

lemma quiet_enter_passphrase [quiet_rules]: "quiet (enter_passphrase E)"
  unfolding enter_passphrase_def by (intro emits_rules quiet_rules)

section \<open>Invariants of the device\<close>

text \<open>
  What is kept by the operations on the memory and the keystore, and by events that are no signature,
  is kept by every request that manages the device.
\<close>

locale kept =
  fixes E :: env and I :: "world \<Rightarrow> bool"
  assumes kept_trace: "I w \<Longrightarrow> list_all (\<lambda>e. \<not> signs e) t \<Longrightarrow> I (ext_trace w t)"
    and kept_sd: "I w \<Longrightarrow> I (w\<lparr>w_sd := s\<rparr>)"
    and kept_lock: "I w \<Longrightarrow> I (keystore_lock w)"
    and kept_store: "keeps I (encrypt_and_store_seed E seed password)"
    and kept_unlock: "keeps I (keystore_unlock E password)"
    and kept_unlock_bip39: "keeps I (keystore_unlock_bip39 E passphrase)"
    and kept_reset: "keeps I (reset_reset E :: Response handler)"
    and kept_initialized: "keeps I (memory_set_initialized E)"
    and kept_name: "keeps I (memory_set_device_name E name)"
    and kept_passphrase: "I w \<Longrightarrow> I (w\<lparr>w_passphrase_enabled := b\<rparr>)"
    and kept_birthdate: "I w \<Longrightarrow> I (w\<lparr>w_seed_birthdate := n\<rparr>)"
    and kept_host: "keeps I (memory_add_noise_remote_static_pubkey E key)"
    and kept_accounts: "I w \<Longrightarrow> I (w\<lparr>w_multisigs := slots\<rparr>)"
begin

lemma kept_quiet: "quiet m \<Longrightarrow> keeps I m"
proof (rule keepsI)
  fix w assume "quiet m" "I w"
  obtain r v where run: "m w = (r, v)" by force
  with \<open>quiet m\<close> obtain t where "v = ext_trace w t" "list_all (\<lambda>e. \<not> signs e) t" by (rule emitsD)
  with run \<open>I w\<close> show "wp m (\<lambda>_. I) (\<lambda>_. I) I w" by (simp add: wp_def kept_trace split: result.splits)
qed

lemma kept_event: "\<not> signs e \<Longrightarrow> I w \<Longrightarrow> I (ext_trace w [e])"
  by (rule kept_trace) simp_all

lemma kept_write: "(\<And>w. I w \<Longrightarrow> I (f w)) \<Longrightarrow> keeps I (write_chunk E f)"
  by (auto intro!: keepsI simp: write_chunk_def wps kept_event)

lemmas kept_ops = kept_store kept_unlock kept_unlock_bip39 kept_reset kept_initialized kept_name kept_host

lemma kept_user_abort: "keeps I m \<Longrightarrow> keeps I (user_abort m)"
  unfolding user_abort_def by (rule keeps_map_err)

lemma kept_settings: "keeps I (memory_set_mnemonic_passphrase_enabled E b)" "keeps I (memory_set_seed_birthdate E n)"
  unfolding memory_set_mnemonic_passphrase_enabled_def memory_set_seed_birthdate_def
  by (intro kept_write kept_passphrase kept_birthdate; assumption)+

lemma kept_create_seed: "keeps I (create_and_store_seed E password entropy)"
  unfolding create_and_store_seed_def by (intro keeps_rules kept_ops kept_quiet quiet_rules)

lemma kept_unlock_keystore: "keeps I (unlock_keystore E title c)"
  unfolding unlock_keystore_def
  by (intro keeps_rules kept_ops kept_quiet quiet_rules)
    (auto split: KeystoreError.splits intro!: kept_quiet emits_rules quiet_rules)

lemma kept_workflow_bip39: "keeps I (unlock_bip39 E)"
  unfolding unlock_bip39_def by (intro keeps_rules kept_ops kept_quiet quiet_rules emits_rules)

lemma kept_workflow_unlock: "keeps I (workflow_unlock E)"
  unfolding workflow_unlock_def by (intro keeps_rules kept_unlock_keystore kept_workflow_bip39)

lemma kept_unlock_new: "keeps I (unlock_new E password)"
  unfolding unlock_new_def by (intro keeps_rules kept_ops)

lemma kept_restore_seed: "keeps I (restore_seed E seed password)"
  unfolding restore_seed_def by (intro keeps_rules kept_ops kept_quiet quiet_rules)

lemma kept_confirm_now: "keeps I (confirm_now E t z)" "keeps I (u2f_counter_set E)"
  unfolding confirm_now_def u2f_counter_set_def
  by (intro keeps_rules kept_quiet quiet_rules emits_rules; simp)+

lemmas kept_wallet = kept_workflow_bip39 kept_unlock_new kept_restore_seed kept_confirm_now kept_create_seed
  kept_settings kept_unlock_keystore

lemma kept_set_password: "keeps I (set_password_process E entropy)"
  unfolding set_password_process_def by (intro keeps_rules kept_wallet kept_quiet quiet_rules)

lemma kept_restore_from_file: "keeps I (restore_from_file E request)"
  unfolding restore_from_file_def by (intro keeps_rules kept_wallet kept_ops kept_quiet quiet_rules)

lemma kept_enter_new_password: "keeps I (enter_new_password E)"
  unfolding enter_new_password_def
  by (intro keeps_rules kept_quiet quiet_rules)
    (auto split: EnterTwiceError.splits intro!: kept_quiet emits_rules quiet_rules)

lemma kept_restore_from_mnemonic: "keeps I (restore_from_mnemonic E request)"
  unfolding restore_from_mnemonic_def
  by (intro keeps_rules kept_wallet kept_enter_new_password kept_ops kept_quiet quiet_rules)

lemma kept_reset_process: "keeps I (reset_process E)"
  unfolding reset_process_def by (intro keeps_rules kept_ops kept_quiet quiet_rules)

lemma quiet_sdcard_process [quiet_rules]: "quiet (sdcard_process E action)"
  unfolding sdcard_process_def by (intro emits_rules quiet_rules)

lemma quiet_backup_check [quiet_rules]: "quiet (backup_check E silent)"
  unfolding backup_check_def by (intro emits_rules quiet_rules)

lemma kept_write_bin: "keeps I (sd_write_bin E f dir data)" "keeps I (sd_erase_file_in_subdir E f dir)"
  unfolding sd_write_bin_def sd_erase_file_in_subdir_def
  by (intro keeps_bind keeps_if keeps_cases keeps_pure keeps_modify kept_sd kept_quiet [OF quiet_check_cstrs]
      kept_quiet [OF quiet_sd_access]; assumption)+

lemma kept_backup_create: "keeps I (backup_create E seed name t b)"
  unfolding backup_create_def write_copy_def erase_old_def
  by (intro keeps_rules kept_write_bin kept_quiet quiet_rules)

lemma kept_backup_create_process: "keeps I (backup_create_process E request)"
  unfolding backup_create_process_def backup_birthdate_def
  by (intro keeps_rules kept_wallet kept_ops kept_backup_create kept_quiet quiet_rules)

lemma kept_backup_list: "keeps I (backup_list E)"
  unfolding backup_list_def backup_info_step_def by (intro keeps_rules kept_quiet quiet_rules)

lemma kept_show_mnemonic: "keeps I (show_mnemonic_process E)"
  unfolding show_mnemonic_process_def by (intro keeps_rules kept_wallet kept_ops kept_quiet quiet_rules)

lemma kept_set_passphrase: "keeps I (set_mnemonic_passphrase_enabled_process E b)"
  unfolding set_mnemonic_passphrase_enabled_process_def by (intro keeps_rules kept_settings kept_quiet quiet_rules)

lemma kept_set_device_name: "keeps I (set_device_name_process E name)"
  unfolding set_device_name_process_def by (intro keeps_rules kept_ops kept_quiet quiet_rules)

lemma kept_reboot: "keeps I (system_reboot E purpose)"
  unfolding system_reboot_def
  by (intro keeps_bind keeps_modify kept_lock keeps_pure kept_quiet [OF quiet_user_abort [OF quiet_confirm]]; assumption)

lemma quiet_info [quiet_rules]: "quiet (device_info_process E)" "quiet (rootfingerprint_process E)"
  "quiet (electrum_process E keypath)"
  unfolding device_info_process_def rootfingerprint_process_def electrum_process_def by (intro emits_rules)+

lemma quiet_bip85 [quiet_rules]: "quiet (bip85_process E request)"
proof -
  have "quiet (bip85_process_bip39 E)"
    unfolding bip85_process_bip39_def bip85_index_def by (intro emits_rules quiet_rules)
  moreover have "quiet (bip85_process_ln E n)" for n
    unfolding bip85_process_ln_def by (intro emits_rules quiet_rules)
  ultimately show ?thesis by (cases "(E, request)" rule: bip85_process.cases) (auto intro!: emits_rules)
qed

lemmas kept_requests = kept_set_password kept_restore_from_file kept_restore_from_mnemonic kept_reset_process
  kept_backup_create_process kept_backup_list kept_show_mnemonic kept_set_passphrase kept_set_device_name kept_reboot

end

section \<open>Requests that use keys\<close>

abbreviation only_events :: "(world, 'e, 'a) io \<Rightarrow> bool" where
  "only_events m \<equiv> emits (\<lambda>_. True) m"

lemma only_events_quiet: "quiet m \<Longrightarrow> only_events m"
  by (erule emits_mono) simp

lemma only_events_btc_pub: "only_events (btc_process_pub E ed request)"
proof -
  have "quiet (btc_xpub E c x k d)" "quiet (address_simple E c t k d)" "quiet (address_multisig E c m k d)"
    "quiet (address_policy E c p k d)" for c x k d t m p
    unfolding btc_xpub_def address_simple_def address_multisig_def address_policy_def Let_def
    by (intro emits_rules quiet_rules)+
  then have "quiet (btc_process_pub E ed request)"
    unfolding btc_process_pub_def
    by (intro emits_bind emits_lift) (auto split: option.splits PubOutput.splits Config.splits intro!: emits_bind emits_lift emits_fail)
  then show ?thesis by (rule only_events_quiet)
qed

lemma only_events_sign: "only_events (secp256k1_sign E k m n)" "only_events (secp256k1_schnorr_bip86_sign E k m)"
  by (intro emits_secp256k1_sign emits_schnorr_sign; simp)+

lemma only_events_sign_input: "only_events (sign_input E P i x c cache r)"
  unfolding sign_input_def sign_taproot_def sign_segwit_def Let_def
  by (intro emits_rules only_events_sign only_events_quiet [OF quiet_with_cache]
      only_events_quiet [OF quiet_antiklepto_host_nonce])

lemma only_events_signtx: "only_events (signtx_process E request)"
  unfolding signtx_process_def signtx_inner_def sign_inputs_def pass2_input_def
  by (intro emits_rules only_events_sign_input only_events_quiet [OF quiet_sign_prepare]
      only_events_quiet [OF quiet_get_tx_input] only_events_quiet [OF quiet_status])

lemma only_events_signmsg: "only_events (signmsg_process E request)"
  unfolding signmsg_process_def signmsg_sign_def Let_def
  by (intro emits_rules only_events_sign only_events_quiet [OF quiet_signmsg_prepare]
      only_events_quiet [OF quiet_signmsg_host_nonce])

lemma only_events_eth_hash: "only_events (eth_sign_hash E c k h)"
  unfolding eth_sign_hash_def
  by (intro emits_rules only_events_sign only_events_quiet [OF quiet_eth_host_nonce])

lemma only_events_eth: "only_events (eth_process_api E fuel request)"
  by (cases request)
    (auto simp: eth_sign_process_def eth_sign_def eth_signmsg_process_def sign_typed_process_def
      intro!: emits_rules only_events_eth_hash only_events_quiet [OF quiet_pubrequest_process]
        only_events_quiet [OF quiet_eth_prepare] only_events_quiet [OF quiet_eth_signmsg_prepare]
        only_events_quiet [OF quiet_typed_prepare])

lemma only_events_cardano: "only_events (cardano_process_api E request)"
proof (cases request)
  case (CardanoAddress r)
  have "quiet (cardano_address_process E r)"
    unfolding cardano_address_process_def by (intro emits_rules quiet_rules)
  with CardanoAddress show ?thesis by (simp add: only_events_quiet)
qed (auto simp: cardano_xpubs_process_def cardano_sign_process_def cardano_sign_def make_shelley_witness_def
    ed25519_sign_def intro!: emits_rules only_events_quiet [OF quiet_cardano_prepare] only_events_quiet [OF quiet_status])

lemma keeps_inv_events: "only_events m \<Longrightarrow> keeps (device_inv E) m"
  by (simp add: keeps_emits)

lemma keeps_multisig_set: "keeps (device_inv E) (multisig_set_by_hash E hash name)"
  unfolding multisig_set_by_hash_def
  by (intro keeps_bind keeps_cases keeps_if keeps_pure keeps_guard keeps_read keeps_modify keeps_inv_events emits_emit) simp_all

lemma keeps_register: "keeps (device_inv E) (process_register_script_config E request)"
proof -
  have "keeps (device_inv E) (register_multisig E request c m k)" "keeps (device_inv E) (register_policy E request c p)"
    for c m k p
    unfolding register_multisig_def register_policy_def
    by (intro keeps_bind keeps_pure keeps_read keeps_map_err keeps_multisig_set
        keeps_inv_events [OF only_events_quiet] quiet_rules)+
  then show ?thesis
    unfolding process_register_script_config_def
    by (auto split: option.splits Config.splits intro!: keeps_pure)
qed

lemma keeps_btc_api: "keeps (device_inv E) (btc_process_api E request)"
proof (cases request)
  case (BtcIsScriptConfigRegistered r)
  have "only_events (process_is_script_config_registered E r)"
    unfolding process_is_script_config_registered_def
    by (auto split: option.splits Config.splits intro!: emits_rules)
  with BtcIsScriptConfigRegistered show ?thesis by (simp add: keeps_inv_events)
qed (auto intro: keeps_register keeps_inv_events only_events_signmsg keeps_pure)

section \<open>Interpretations\<close>

text \<open>The trace since some point has no signature.\<close>

definition unsigned_since :: "trace \<Rightarrow> world \<Rightarrow> bool" where
  "unsigned_since tr w \<longleftrightarrow> (\<exists>t. w_trace w = tr @ t \<and> list_all (\<lambda>e. \<not> signs e) t)"

lemma unsigned_since_ext:
  "unsigned_since tr w \<Longrightarrow> list_all (\<lambda>e. \<not> signs e) t \<Longrightarrow> unsigned_since tr (ext_trace w t)"
  by (auto simp: unsigned_since_def)

lemma unsigned_quiet: "quiet m \<Longrightarrow> keeps (unsigned_since tr) m"
proof (rule keepsI)
  fix w assume "quiet m" "unsigned_since tr w"
  obtain r v where run: "m w = (r, v)" by force
  with \<open>quiet m\<close> obtain t where "v = ext_trace w t" "list_all (\<lambda>e. \<not> signs e) t" by (rule emitsD)
  with run \<open>unsigned_since tr w\<close> show "wp m (\<lambda>_. unsigned_since tr) (\<lambda>_. unsigned_since tr) (unsigned_since tr) w"
    by (simp add: wp_def unsigned_since_ext split: result.splits)
qed

lemma unsigned_modify: "(\<And>w. w_trace (f w) = w_trace w) \<Longrightarrow> keeps (unsigned_since tr) (modifyM f)"
  by (rule keeps_modify) (simp add: unsigned_since_def)

lemma unsigned_write: "(\<And>w. w_trace (f w) = w_trace w) \<Longrightarrow> keeps (unsigned_since tr) (write_chunk E f)"
  unfolding write_chunk_def by (intro keeps_bind keeps_if keeps_pure unsigned_modify unsigned_quiet emits_emit) simp_all

lemma unsigned_update_keys: "keeps (unsigned_since tr) (securechip_update_keys E)"
  unfolding securechip_update_keys_def roll_key_def
  by (intro keeps_bind keeps_if keeps_pure unsigned_modify unsigned_quiet emits_securechip) simp_all

lemma unsigned_memory_reset: "keeps (unsigned_since tr) (memory_reset_hww E)"
  unfolding memory_reset_hww_def foldM.simps
  by (intro keeps_bind keeps_pure unsigned_write unsigned_quiet quiet_rules) (simp_all add: erase_chunk_1_def erase_chunk_2_def)

lemma unsigned_reset: "keeps (unsigned_since tr) (reset_reset E)"
  unfolding reset_reset_def
  by (intro keeps_bind keeps_if keeps_pure keeps_retry keeps_attempt unsigned_modify unsigned_update_keys
      unsigned_memory_reset unsigned_quiet emits_securechip) (simp_all add: keystore_lock_def)

lemma unsigned_store: "keeps (unsigned_since tr) (encrypt_and_store_seed E seed password)"
  unfolding encrypt_and_store_seed_def
  by (intro keeps_bind keeps_if keeps_pure keeps_map_err keeps_attempt unsigned_modify unsigned_update_keys
      unsigned_write unsigned_memory_reset unsigned_quiet quiet_rules) (simp_all add: keystore_lock_def)

lemma unsigned_unlock: "keeps (unsigned_since tr) (keystore_unlock E password)"
proof -
  have retain: "keeps (unsigned_since tr) (check_or_retain E seed)" for seed
    unfolding check_or_retain_def retain_seed_def
    by (intro keeps_bind keeps_if keeps_pure keeps_attempt unsigned_modify unsigned_quiet quiet_rules) simp_all
  show ?thesis
    unfolding keystore_unlock_def unlock_result_def
    by (intro keeps_bind keeps_if keeps_cases keeps_pure retain unsigned_modify unsigned_reset
        unsigned_quiet [OF quiet_decrypt]) simp_all
qed

lemma unsigned_unlock_bip39: "keeps (unsigned_since tr) (keystore_unlock_bip39 E passphrase)"
  unfolding keystore_unlock_bip39_def retain_bip39_seed_def
  by (intro keeps_bind keeps_map_err keeps_pure unsigned_modify unsigned_quiet quiet_rules) simp_all

interpretation unsigned: kept E "unsigned_since tr" for E tr
proof (unfold_locales)
  show "unsigned_since tr (ext_trace w t)" if "unsigned_since tr w" "list_all (\<lambda>e. \<not> signs e) t" for w t
    using that by (rule unsigned_since_ext)
  show "keeps (unsigned_since tr) (memory_set_initialized E)"
    "keeps (unsigned_since tr) (memory_set_device_name E name)"
    "keeps (unsigned_since tr) (memory_add_noise_remote_static_pubkey E key)" for name key
    unfolding memory_set_initialized_def memory_set_device_name_def memory_add_noise_remote_static_pubkey_def
    by (intro keeps_bind keeps_if keeps_pure unsigned_write; simp)+
qed (simp_all add: unsigned_store unsigned_unlock unsigned_unlock_bip39 unsigned_reset
    unsigned_since_def keystore_lock_def)

lemma keeps_inv_write: "(\<And>w. device_inv E w \<Longrightarrow> device_inv E (f w)) \<Longrightarrow> keeps (device_inv E) (write_chunk E' f)"
  by (rule keeps_write_chunk) simp_all

interpretation inv: kept E "device_inv E" for E
proof (unfold_locales)
  show "keeps (device_inv E) (memory_set_initialized E)"
    by (auto intro!: keepsI simp: memory_set_initialized_def write_chunk_def wps)
      (auto simp: device_inv_def is_seed_of_def)
  show "keeps (device_inv E) (memory_set_device_name E name)" for name
    unfolding memory_set_device_name_def
    by (intro keeps_bind keeps_if keeps_pure keeps_inv_write) (auto simp: device_inv_def is_seed_of_def)
  show "keeps (device_inv E) (memory_add_noise_remote_static_pubkey E key)" for key
    unfolding memory_add_noise_remote_static_pubkey_def
    by (intro keeps_bind keeps_if keeps_pure keeps_inv_write) (auto simp: device_inv_def is_seed_of_def)
  show "device_inv E (w\<lparr>w_passphrase_enabled := b\<rparr>)" "device_inv E (w\<lparr>w_seed_birthdate := n\<rparr>)"
    if "device_inv E w" for w b n
    using that by (simp_all add: device_inv_def is_seed_of_def)
qed (simp_all add: keeps_store keeps_unlock keeps_unlock_bip39 keeps_reset device_inv_locked)

section \<open>Requests and packets\<close>

text \<open>The requests of the coin applications, the only ones that may sign.\<close>

definition key_request :: "Request \<Rightarrow> bool" where
  "key_request request = (case request of
     ReqBtcPub _ \<Rightarrow> True | ReqBtcSignInit _ \<Rightarrow> True | ReqBtc _ \<Rightarrow> True | ReqEth _ \<Rightarrow> True | ReqCardano _ \<Rightarrow> True
   | _ \<Rightarrow> False)"

lemma key_request_callable: "key_request request \<Longrightarrow> can_call w request \<Longrightarrow> w_initialized w"
  by (cases request) (simp_all add: key_request_def can_call_def api_state_of_def Let_def split: if_splits)

context kept
begin

lemma kept_process_api: "\<not> key_request request \<Longrightarrow> keeps I (process_api E ed fuel request)"
  by (cases request)
    (simp_all add: key_request_def kept_requests kept_quiet quiet_sdcard_process quiet_backup_check quiet_info quiet_bip85
      keeps_pure)

lemma kept_api_process:
  "(\<And>request. nl_decode L input = Some request \<Longrightarrow> \<not> key_request request) \<Longrightarrow> keeps I (api_process E L ed fuel input)"
  unfolding api_process_def
  by (auto split: option.splits intro!: keeps_bind keeps_if keeps_attempt keeps_pure kept_process_api)

lemma kept_pairing_confirm: "keeps I (pairing_confirm E L hash)"
  unfolding pairing_confirm_def format_hash_def by (intro keeps_bind keeps_pure kept_quiet quiet_rules)

lemma kept_api_unlock: "keeps I (api_unlock E)"
  unfolding api_unlock_def by (intro keeps_bind keeps_attempt keeps_pure kept_workflow_unlock)

end

lemma keeps_process_api: "keeps (device_inv E) (process_api E ed fuel request)"
proof (cases "key_request request")
  case True
  then show ?thesis
    by (cases request)
      (auto simp: key_request_def process_api_btc_def split: option.splits
        intro!: keeps_bind keeps_pure keeps_btc_api keeps_inv_events [OF only_events_btc_pub]
          keeps_inv_events [OF only_events_signtx] keeps_inv_events [OF only_events_eth]
          keeps_inv_events [OF only_events_cardano])
qed (rule inv.kept_process_api)

lemma keeps_api_process: "keeps (device_inv E) (api_process E L ed fuel input)"
  unfolding api_process_def
  by (auto split: option.splits intro!: keeps_bind keeps_if keeps_attempt keeps_pure keeps_process_api)

text \<open>Computations on the device whose effect on the world keeps \<open>I\<close>.\<close>

abbreviation on_world :: "(world \<Rightarrow> bool) \<Rightarrow> ('h, 'c) device \<Rightarrow> bool" where
  "on_world I d \<equiv> I (d_world d)"

definition d_keeps :: "(world \<Rightarrow> bool) \<Rightarrow> (('h, 'c) device, 'e, 'a) io \<Rightarrow> bool" where
  "d_keeps I m \<longleftrightarrow> (\<forall>d. on_world I d \<longrightarrow> on_world I (snd (m d)))"

lemma d_keepsD: "d_keeps I m \<Longrightarrow> m d = (r, d') \<Longrightarrow> on_world I d \<Longrightarrow> on_world I d'"
  unfolding d_keeps_def by (metis snd_conv)

named_theorems d_rules

lemma d_bind [d_rules]: "d_keeps I m \<Longrightarrow> (\<And>a. d_keeps I (f a)) \<Longrightarrow> d_keeps I (bindM m f)"
  by (fastforce simp: d_keeps_def bindM_def split: prod.splits result.splits)

lemma d_pure [d_rules]: "d_keeps I (returnM a)" "d_keeps I (failM e)" "d_keeps I (getM f)" "d_keeps I (readM g)"
  by (simp_all add: d_keeps_def returnM_def failM_def getM_def readM_def)

lemma d_in_noise [d_rules]: "d_keeps I (in_noise m)"
  by (simp add: d_keeps_def in_noise_def split: prod.splits)

lemma keeps_state: "keeps I m \<Longrightarrow> I w \<Longrightarrow> m w = (r, v) \<Longrightarrow> I v"
  by (drule (1) keepsD) (simp add: wp_def split: result.splits)

lemma d_in_world [d_rules]: "keeps I m \<Longrightarrow> d_keeps I (in_world m)"
  by (simp add: d_keeps_def in_world_def keeps_state split: prod.splits)

lemma d_modify_noise [d_rules]: "d_keeps I (modifyM (\<lambda>d. d\<lparr>d_noise := f d\<rparr>))"
  by (simp add: d_keeps_def modifyM_def)

lemma d_reply [d_rules]: "d_keeps I m \<Longrightarrow> d_keeps I (reply_of m)"
  by (fastforce simp: d_keeps_def reply_of_def split: prod.splits result.splits)

lemma d_if [d_rules]: "(c \<Longrightarrow> d_keeps I m) \<Longrightarrow> (\<not> c \<Longrightarrow> d_keeps I n) \<Longrightarrow> d_keeps I (if c then m else n)"
  by simp

lemma d_cases [d_rules]:
  "(\<And>x. d_keeps I (f x)) \<Longrightarrow> (\<And>y. d_keeps I (g y)) \<Longrightarrow> d_keeps I (case s of Inl x \<Rightarrow> f x | Inr y \<Rightarrow> g y)"
  "(\<And>x. d_keeps I (h x)) \<Longrightarrow> d_keeps I k \<Longrightarrow> d_keeps I (case r of HandshakeResponse x \<Rightarrow> h x | HandshakeDone \<Rightarrow> k)"
  by (simp_all split: sum.splits HandshakeResult.splits)

context kept
begin

lemma kept_pairing: "d_keeps I (noise_pairing_op E L)"
  unfolding noise_pairing_op_def by (intro d_rules keeps_attempt kept_pairing_confirm kept_host)

lemma kept_handshake: "d_keeps I (noise_handshake_op L rest)"
  unfolding noise_handshake_op_def by (intro d_rules)

text \<open>A packet keeps \<open>I\<close> if the message it may carry does.\<close>

lemma kept_packet:
  assumes "\<And>msg. usb_in = OP_NOISE_MSG # msg \<Longrightarrow> d_keeps I (noise_msg_op E L ed fuel msg)"
  shows "d_keeps I (process_packet E L ed fuel usb_in)"
proof -
  have "d_keeps I (noise_process E L ed fuel usb_in)"
  proof (cases usb_in)
    case (Cons op rest)
    then show ?thesis unfolding noise_process_def
      by simp (intro conjI impI d_rules kept_pairing kept_handshake assms; simp)
  qed (simp add: noise_process_def d_pure)
  then show ?thesis
    unfolding process_packet_def by (intro d_rules kept_api_unlock)
qed

end

lemma keeps_packet: "d_keeps (device_inv E) (process_packet E L ed fuel usb_in)"
  by (rule inv.kept_packet) (unfold noise_msg_op_def, intro d_rules keeps_api_process)

section \<open>Reachable devices\<close>

text \<open>
  A device leaves the factory without a wallet. It processes packets one after the other, each with its
  own user and hardware faults but the same cryptography, and it may lose power in between, which clears
  its RAM. A prompt the user never answers leaves the state in the middle of a packet, so that
  interrupted packets are included.
\<close>

definition factory_state :: "world \<Rightarrow> bool" where
  "factory_state w \<longleftrightarrow> \<not> w_seeded w \<and> \<not> w_initialized w \<and> w_seed w = None \<and> w_bip39_seed w = None \<and>
     w_unlock_attempts w = 0 \<and> w_noise_pubkeys w = replicate 5 erased \<and> w_device_name w = MEMORY_DEFAULT_DEVICE_NAME"

definition same_crypto :: "env \<Rightarrow> env \<Rightarrow> bool" where
  "same_crypto E' E \<longleftrightarrow> env_aes_decrypt E' = env_aes_decrypt E \<and> env_stretch E' = env_stretch E \<and>
     env_bip39_from_bytes E' = env_bip39_from_bytes E \<and> env_bip39_to_seed E' = env_bip39_to_seed E"

definition power_cycle :: "('h, 'c) device \<Rightarrow> ('h, 'c) device" where
  "power_cycle d = d\<lparr>d_world := keystore_lock (d_world d), d_noise := NoiseNothing\<rparr>"

inductive device_reachable :: "env \<Rightarrow> ('h, 'c) noise_lib \<Rightarrow> edition \<Rightarrow> nat \<Rightarrow> ('h, 'c) device \<Rightarrow> bool"
  for E L ed fuel where
  factory: "factory_state w \<Longrightarrow> device_reachable E L ed fuel \<lparr>d_world = w, d_noise = NoiseNothing\<rparr>"
| packet: "device_reachable E L ed fuel d \<Longrightarrow> same_crypto E' E \<Longrightarrow>
    process_packet E' L ed fuel usb_in d = (r :: (unit, bytes) result, d') \<Longrightarrow> device_reachable E L ed fuel d'"
| power: "device_reachable E L ed fuel d \<Longrightarrow> device_reachable E L ed fuel (power_cycle d)"

lemma device_inv_same_crypto: "same_crypto E' E \<Longrightarrow> device_inv E' = device_inv E"
  by (simp add: same_crypto_def device_inv_def is_seed_of_def is_bip39_seed_of_def fun_eq_iff)

lemma device_inv_factory: "factory_state w \<Longrightarrow> device_inv E w"
  by (simp add: factory_state_def device_inv_def MEMORY_DEFAULT_DEVICE_NAME_def)

text \<open>
  C38: In every reachable state of the device the invariant holds: an initialized device has a seed; a
  seed in RAM is the stored one, decrypted under some password, and has one of the three lengths; a
  BIP-39 seed in RAM is derived from that seed with some passphrase; at most ten failed unlocks are
  counted; five paired hosts are remembered and the name of the device fits its field.
\<close>

theorem reachable_device_inv:
  assumes "device_reachable E L ed fuel d"
  shows "device_inv E (d_world d)"
  using assms
proof induction
  case (packet d E' usb_in r d')
  then have "device_inv E' (d_world d)" by (simp add: device_inv_same_crypto)
  with packet.hyps(3) have "device_inv E' (d_world d')" by (rule d_keepsD [OF keeps_packet])
  with packet.hyps(2) show ?case by (simp add: device_inv_same_crypto)
qed (simp_all add: device_inv_factory power_cycle_def device_inv_locked)

section \<open>Signatures are made by unlocked and paired devices\<close>

lemma unsigned_refl: "unsigned_since (w_trace w) w"
  by (simp add: unsigned_since_def)

lemma api_process_signs:
  assumes "\<not> unsigned_since (w_trace w) (snd (api_process E L ed fuel input w :: (unit, bytes) result \<times> world))"
  shows "w_initialized w \<and> (\<exists>request. nl_decode L input = Some request \<and> key_request request)"
proof -
  let ?m = "api_process E L ed fuel input :: (world, unit, bytes) io"
  have "\<not> keeps (unsigned_since (w_trace w)) ?m"
  proof
    assume "keeps (unsigned_since (w_trace w)) ?m"
    then have "unsigned_since (w_trace w) (snd (?m w))"
      by (rule keeps_state [OF _ unsigned_refl, where r = "fst (?m w)"]) simp
    with assms show False by simp
  qed
  then obtain request where r: "nl_decode L input = Some request" "key_request request"
    using unsigned.kept_api_process by blast
  have "can_call w request"
  proof (rule ccontr)
    assume "\<not> can_call w request"
    with r have "snd (?m w) = w"
      by (simp add: api_process_def bindM_def getM_def returnM_def)
    with assms show False by (simp add: unsigned_refl)
  qed
  with r show ?thesis by (auto dest: key_request_callable)
qed

lemma noise_msg_world:
  assumes "noise_msg_op E L ed fuel m d = (r, d')"
  obtains "d_world d' = d_world d"
  | h k send receive msg receive' where "d_noise d = NoiseReady False h k send receive"
      "nl_decrypt L receive m = Some (msg, receive')"
      "d_world d' = snd (api_process E L ed fuel msg (d_world d) :: (unit, bytes) result \<times> world)"
proof (cases "\<exists>h k send receive msg receive'. d_noise d = NoiseReady False h k send receive
    \<and> nl_decrypt L receive m = Some (msg, receive')")
  case True
  then obtain h k send receive msg receive' where d: "d_noise d = NoiseReady False h k send receive"
    "nl_decrypt L receive m = Some (msg, receive')" by blast
  obtain q w where run: "api_process E L ed fuel msg (d_world d) = (q :: (unit, bytes) result, w)" by force
  with assms d have "d_world d' = w"
    by (cases q) (auto simp: noise_msg_op_def noise_decrypt_def noise_encrypt_def in_noise_def in_world_def bindM_def
        getM_def putM_def modifyM_def returnM_def noise_streamed_def split: prod.splits)
  with run have "d_world d' = snd (api_process E L ed fuel msg (d_world d) :: (unit, bytes) result \<times> world)" by simp
  with d show thesis by (rule that(2))
next
  case False
  then have "d_world d' = d_world d"
    using assms by (cases "d_noise d") (auto simp: noise_msg_op_def noise_decrypt_def in_noise_def bindM_def getM_def
        failM_def split: option.splits bool.splits)
  then show thesis by (rule that(1))
qed

text \<open>
  C39: A packet leads to a signature only if, when it arrived, the device was initialized and unlocked,
  the channel was established with its pairing verified, and the packet decrypts to a request
  of one of the coin applications.
\<close>

theorem signatures_only_unlocked_and_paired:
  assumes run: "process_packet E L ed fuel usb_in d = (r :: (unit, bytes) result, d')"
    and new: "w_trace (d_world d') = w_trace (d_world d) @ t" "e \<in> set t" "signs e"
  shows "w_initialized (d_world d) \<and> \<not> is_locked (d_world d) \<and>
    (\<exists>h k send receive m msg receive' request. d_noise d = NoiseReady False h k send receive \<and>
       usb_in = OP_NOISE_MSG # m \<and> nl_decrypt L receive m = Some (msg, receive') \<and>
       nl_decode L msg = Some request \<and> key_request request)"
proof -
  let ?tr = "w_trace (d_world d)"
  have signed: "\<not> unsigned_since ?tr (d_world d')"
    using new by (auto simp: unsigned_since_def list_all_iff)
  then have "\<not> d_keeps (unsigned_since ?tr) (process_packet E L ed fuel usb_in :: (_, unit, bytes) io)"
    using d_keepsD [where I = "unsigned_since ?tr" and m = "process_packet E L ed fuel usb_in", OF _ run] unsigned_refl
    by blast
  then obtain m where m: "usb_in = OP_NOISE_MSG # m"
    using unsigned.kept_packet [of usb_in ?tr E L ed fuel] by blast
  have ops: "OP_NOISE_MSG \<noteq> OP_UNLOCK" "OP_NOISE_MSG \<noteq> OP_ATTESTATION" "OP_NOISE_MSG \<noteq> OP_I_CAN_HAS_HANDSHAEK"
    "OP_NOISE_MSG \<noteq> OP_HER_COMEZ_TEH_HANDSHAEK" "OP_NOISE_MSG \<noteq> OP_I_CAN_HAS_PAIRIN_VERIFICASHUN"
    by (simp_all add: OP_NOISE_MSG_def OP_UNLOCK_def OP_ATTESTATION_def OP_I_CAN_HAS_HANDSHAEK_def
        OP_HER_COMEZ_TEH_HANDSHAEK_def OP_I_CAN_HAS_PAIRIN_VERIFICASHUN_def)
  have open_d: "\<not> (w_initialized (d_world d) \<and> is_locked (d_world d))"
  proof
    assume "w_initialized (d_world d) \<and> is_locked (d_world d)"
    with run m ops have "d' = d" by (simp add: process_packet_def bindM_def getM_def returnM_def)
    with signed show False by (simp add: unsigned_refl)
  qed
  obtain q where "noise_msg_op E L ed fuel m d = (q, d')"
    using run m ops open_d
    by (auto simp: process_packet_def noise_process_def bindM_def getM_def reply_of_def split: prod.splits result.splits if_splits)
  then show ?thesis
  proof (cases rule: noise_msg_world)
    case 1
    with signed show ?thesis by (simp add: unsigned_refl)
  next
    case 2
    with signed api_process_signs [of "d_world d" E L ed fuel] open_d m show ?thesis by auto
  qed
qed

text \<open>A channel of the sample hardware: two handshake messages, the identity as cipher.\<close>

definition sample_lib :: "(nat, nat) noise_lib" where
  "sample_lib = \<lparr>nl_new = (\<lambda>key. 0), nl_read = (\<lambda>h m. Some (m, h + 1)), nl_write = (\<lambda>tr h p. Some (p, h)),
     nl_completed = (\<lambda>h. 2 \<le> h), nl_ciphers = (\<lambda>h. (0, 0)), nl_rs = (\<lambda>h. Some (replicate 32 9)),
     nl_hash = (\<lambda>h. replicate 32 1), nl_decrypt = (\<lambda>c m. Some (m, c)), nl_encrypt = (\<lambda>c m. (m, c)),
     nl_streamed = (\<lambda>tr tr' c. c),
     nl_decode = (\<lambda>m. if m = [1] then Some (ReqSetPassword (replicate 16 3))
       else if m = [2] then Some (ReqEth (Some (EthSignMsg sample_eth_message))) else None),
     nl_encode = (\<lambda>r. []), nl_b32 = (\<lambda>m. replicate 56 (CHR ''A''))\<rparr>"

definition sample_edition :: edition where
  "sample_edition = \<lparr>app_bitcoin = True, app_litecoin = True, app_ethereum = True, app_cardano = True\<rparr>"

definition sample_device :: "(nat, nat) device" where
  "sample_device = \<lparr>d_world = sample_world, d_noise = NoiseReady False (replicate 32 1) (replicate 32 9) 0 0\<rparr>"

definition sample_packet :: "bytes \<Rightarrow> (nat, nat) device \<Rightarrow> (unit, bytes) result \<times> (nat, nat) device" where
  "sample_packet = process_packet sample_env sample_lib sample_edition 1"

lemma sample_packet_signs:
  "list_ex signs (w_trace (d_world (snd (sample_packet [OP_NOISE_MSG, 2] sample_device))))"
  by code_simp

theorem signatures_only_unlocked_and_paired_witness:
  "\<exists>e. signs e \<and> e \<in> set (w_trace (d_world (snd (sample_packet [OP_NOISE_MSG, 2] sample_device)))) \<and>
     w_initialized (d_world sample_device) \<and> \<not> is_locked (d_world sample_device)"
proof -
  obtain r d' where run: "sample_packet [OP_NOISE_MSG, 2] sample_device = (r, d')" by force
  with sample_packet_signs obtain e where e: "e \<in> set (w_trace (d_world d'))" "signs e" by (auto simp: list_ex_iff)
  have "w_trace (d_world d') = w_trace (d_world sample_device) @ w_trace (d_world d')"
    by (simp add: sample_device_def sample_world_def)
  from signatures_only_unlocked_and_paired [OF run [unfolded sample_packet_def] this e] e run show ?thesis by auto
qed

text \<open>A device from the factory that is paired and gets a password.\<close>

definition sample_factory :: "(nat, nat) device" where
  "sample_factory = \<lparr>d_world = sample_world\<lparr>w_seed := None, w_bip39_seed := None, w_initialized := False,
     w_seeded := False, w_noise_pubkeys := replicate 5 erased\<rparr>, d_noise = NoiseNothing\<rparr>"

definition sample_new_wallet :: "(nat, nat) device" where
  "sample_new_wallet = fold (\<lambda>p d. snd (sample_packet p d))
     [[OP_I_CAN_HAS_HANDSHAEK], [OP_HER_COMEZ_TEH_HANDSHAEK, 0], [OP_HER_COMEZ_TEH_HANDSHAEK, 1],
      [OP_I_CAN_HAS_PAIRIN_VERIFICASHUN], [OP_NOISE_MSG, 1]] sample_factory"

lemma sample_new_wallet_unlocked: "\<not> is_locked (d_world sample_new_wallet)"
  by code_simp

lemma sample_step:
  "device_reachable sample_env sample_lib sample_edition 1 d \<Longrightarrow>
   device_reachable sample_env sample_lib sample_edition 1 (snd (sample_packet p d))"
  by (erule device_reachable.packet [where E' = sample_env and r = "fst (sample_packet p d)"])
    (simp_all add: same_crypto_def sample_packet_def)

lemma sample_new_wallet_reachable: "device_reachable sample_env sample_lib sample_edition 1 sample_new_wallet"
proof -
  have "device_reachable sample_env sample_lib sample_edition 1 sample_factory"
    unfolding sample_factory_def
    by (rule device_reachable.factory) (simp add: factory_state_def sample_world_def MEMORY_DEFAULT_DEVICE_NAME_def)
  then show ?thesis unfolding sample_new_wallet_def by (simp add: sample_step del: One_nat_def)
qed

theorem reachable_device_inv_witness:
  "device_inv sample_env (d_world sample_new_wallet) \<and> \<not> is_locked (d_world sample_new_wallet)"
  using reachable_device_inv [OF sample_new_wallet_reachable] sample_new_wallet_unlocked by simp

section \<open>Pairing\<close>

text \<open>The handshake hash and the key of the host of a channel whose pairing is verified.\<close>

fun paired_with :: "('h, 'c) noise_state \<Rightarrow> (bytes \<times> bytes) option" where
  "paired_with (NoiseReady False h k _ _) = Some (h, k)"
| "paired_with _ = None"

lemma pairing_confirm_OkD:
  assumes "pairing_confirm E L hash w = (Ok u, w')"
  shows "w' = ext_trace w [EvAsk (PConfirm (pairing_params (pairing_code L hash))) True]"
  using assms by (auto simp: pairing_confirm_def format_hash_def runs dest: confirm_OkD split: if_splits)

text \<open>What happened while a packet was processed.\<close>

definition new_events :: "('h, 'c) device \<Rightarrow> ('h, 'c) device \<Rightarrow> trace" where
  "new_events d d' = drop (length (w_trace (d_world d))) (w_trace (d_world d'))"

lemma quiet_add_host_trace:
  "\<exists>t. w_trace (snd (memory_add_noise_remote_static_pubkey E key w)) = w_trace w @ t"
  by (auto simp: memory_add_noise_remote_static_pubkey_def write_chunk_def bindM_def getM_def emit_def modifyM_def
      returnM_def failM_def)

lemma pairing_op_paired:
  assumes "noise_pairing_op E L d = (r, d')" "paired_with (d_noise d') = Some (h, k)"
    "paired_with (d_noise d) \<noteq> Some (h, k)"
  shows "EvAsk (PConfirm (pairing_params (pairing_code L h))) True \<in> set (new_events d d')"
proof -
  obtain v h0 k0 s c where d: "d_noise d = NoiseReady v h0 k0 s c"
    using assms(1,2) by (cases "d_noise d")
      (auto simp: noise_pairing_op_def noise_handshake_hash_def in_noise_def bindM_def readM_def)
  obtain q w where q: "pairing_confirm E L h0 (d_world d) = (q, w)" by force
  show ?thesis
  proof (cases q)
    case (Ok u)
    with q have w: "w = ext_trace (d_world d) [EvAsk (PConfirm (pairing_params (pairing_code L h0))) True]"
      by (simp add: pairing_confirm_OkD)
    obtain t where t: "w_trace (snd (memory_add_noise_remote_static_pubkey E k0 w)) = w_trace w @ t"
      using quiet_add_host_trace by blast
    have "d_world d' = snd (memory_add_noise_remote_static_pubkey E k0 w) \<and> h = h0"
      using assms(1,2) d q Ok
      by (auto simp: noise_pairing_op_def noise_handshake_hash_def noise_set_pairing_verified_def
          noise_remote_static_pubkey_def in_noise_def in_world_def bindM_def readM_def getM_def putM_def modifyM_def
          attempt_def returnM_def split: prod.splits result.splits)
    with t w show ?thesis by (simp add: new_events_def)
  qed (use assms d q in \<open>auto simp: noise_pairing_op_def noise_handshake_hash_def noise_reset_def in_noise_def in_world_def
      bindM_def readM_def attempt_def putM_def modifyM_def failM_def\<close>)
qed

lemma handshake_op_paired:
  assumes "noise_handshake_op L m d = (r, d')" "paired_with (d_noise d') = Some (h, k)"
    "paired_with (d_noise d) \<noteq> Some (h, k)"
  shows "k \<in> set (w_noise_pubkeys (d_world d))"
  using assms
  by (cases "d_noise d")
    (auto simp: noise_handshake_op_def noise_handshake_def noise_finish_def noise_reset_def noise_set_pairing_verified_def
      noise_remote_static_pubkey_def memory_check_noise_remote_static_pubkey_def in_noise_def bindM_def readM_def getM_def
      putM_def modifyM_def returnM_def failM_def liftM_def split: option.splits if_splits)

lemma msg_op_paired:
  assumes "noise_msg_op E L ed fuel m d = (r, d')" "paired_with (d_noise d') = Some (h, k)"
  shows "paired_with (d_noise d) = Some (h, k)"
  using assms
  by (cases "d_noise d")
    (auto simp: noise_msg_op_def noise_decrypt_def noise_encrypt_def noise_streamed_def in_noise_def in_world_def
      bindM_def getM_def putM_def modifyM_def returnM_def failM_def split: option.splits if_splits prod.splits bool.splits
        result.splits)
text \<open>
  C40: A packet establishes a verified pairing with a host only if the host's key is one of the remembered
  ones, or the user accepted, while the packet was processed, the code derived from the hash of this
  very handshake.
\<close>

theorem pairing_needs_confirmation:
  assumes "process_packet E L ed fuel usb_in d = (r :: (unit, bytes) result, d')"
    and "paired_with (d_noise d') = Some (h, k)" and "paired_with (d_noise d) \<noteq> Some (h, k)"
  shows "k \<in> set (w_noise_pubkeys (d_world d)) \<or>
    EvAsk (PConfirm (pairing_params (pairing_code L h))) True \<in> set (new_events d d')"
proof -
  have changed: "d_noise d' \<noteq> d_noise d" using assms(2,3) by auto
  then obtain q where q: "noise_process E L ed fuel usb_in d = (q, d')"
    using assms(1)
    by (auto simp: process_packet_def in_world_def returnM_def bindM_def getM_def reply_of_def
        split: if_splits prod.splits result.splits)
  then obtain op rest where usb: "usb_in = op # rest"
    using changed by (cases usb_in) (auto simp: noise_process_def failM_def)
  consider (init) "op = OP_I_CAN_HAS_HANDSHAEK" "rest = []" | (handshake) "noise_handshake_op L rest d = (q, d')"
    | (pairing) "noise_pairing_op E L d = (q, d')" | (msg) "noise_msg_op E L ed fuel rest d = (q, d')"
    using q usb changed by (auto simp: noise_process_def failM_def split: if_splits)
  then show ?thesis
  proof cases
    case init
    with q usb assms(2,3) show ?thesis
      by (auto simp: noise_process_def bindM_def readM_def in_noise_def noise_init_def putM_def modifyM_def returnM_def
          split: result.splits)
  next
    case handshake
    with assms(2,3) show ?thesis by (blast dest: handshake_op_paired)
  next
    case pairing
    with assms(2,3) show ?thesis by (blast dest: pairing_op_paired)
  next
    case msg
    with assms(2,3) show ?thesis by (blast dest: msg_op_paired)
  qed
qed

definition sample_unverified :: "(nat, nat) device" where
  "sample_unverified = sample_device\<lparr>d_noise := NoiseReady True (replicate 32 1) (replicate 32 9) 0 0\<rparr>"

theorem pairing_needs_confirmation_witness:
  "EvAsk (PConfirm (pairing_params (pairing_code sample_lib (replicate 32 1)))) True \<in>
     set (new_events sample_unverified (snd (sample_packet [OP_I_CAN_HAS_PAIRIN_VERIFICASHUN] sample_unverified)))"
proof -
  let ?d' = "snd (sample_packet [OP_I_CAN_HAS_PAIRIN_VERIFICASHUN] sample_unverified)"
  have "process_packet sample_env sample_lib sample_edition 1 [OP_I_CAN_HAS_PAIRIN_VERIFICASHUN] sample_unverified
      = (fst (sample_packet [OP_I_CAN_HAS_PAIRIN_VERIFICASHUN] sample_unverified), ?d')"
    by (simp add: sample_packet_def)
  moreover have "paired_with (d_noise ?d') = Some (replicate 32 1, replicate 32 9)" by code_simp
  moreover have "paired_with (d_noise sample_unverified) \<noteq> Some (replicate 32 1, replicate 32 9)"
    by (simp add: sample_unverified_def)
  ultimately show ?thesis
    using pairing_needs_confirmation by (fastforce simp: sample_unverified_def sample_device_def sample_world_def)
qed

end
