(* ===== verification/Spec2Isabelle.thy ===== *)
theory Spec2Isabelle
  imports Api_Safety
begin

text \<open>
  A verification library for the firmware of the BitBox02 hardware wallet: the Rust crates under
  \<open>src/src/rust\<close> that handle the requests of the host, and the C code of the keystore, the flash
  memory, the SD card and the factory reset they call.

  \<^bold>\<open>The program.\<close> The host sends packets over USB. \<open>hww.rs\<close> answers unlock and attestation packets
  itself and gives the others to \<open>hww/noise.rs\<close>, which runs the Noise handshake, asks the user to
  compare a pairing code, and decrypts messages. \<open>hww/api.rs\<close> decodes a message, checks whether the
  request is allowed in the state of the device, and calls a handler: device management and backups,
  Bitcoin, Ethereum or Cardano. A handler asks the user on the screen of the device (\<open>workflow/\<close>),
  may ask the host for more data, and uses the keystore to derive keys and to sign.

  \<^bold>\<open>How it is modelled.\<close> A handler is a function from the state to a result and a state. The result is
  \<open>Ok\<close>, \<open>Err\<close>, \<open>Panic\<close> (the firmware aborts) or \<open>Pending\<close> (an await, loop or halt that never ends).
  \<open>World\<close> declares the state (record \<open>world\<close>: flash contents, seeds in RAM and the trace of all
  interactions) and the environment (record \<open>env\<close>): hashes, curves, ciphers, address encodings,
  miniscript, the FAT file system and the protobuf encoding of backups are fields of it. The user, the
  host, the random numbers and the failures of flash, SD card and secure chip are arbitrary functions of
  the trace. The Noise library and the protobuf encoding of requests are the fields of \<open>noise_lib\<close>.

  \<^bold>\<open>Theories and sources.\<close>
  \<^item> \<open>Prelude\<close>: integers and byte strings, results, the monad, rules for it, and the locales
    \<open>prefix_free\<close> and \<open>prefix_code\<close> of self-delimiting encodings.
  \<^item> \<open>Pb\<close>, \<open>World\<close>, \<open>Workflows\<close>, \<open>Verify_Message\<close>: the messages of the host API, the state, and the
    screens of \<open>workflow/\<close> and \<open>bitbox02/src/ui\<close>.
  \<^item> \<open>Util_Fmt\<close>, \<open>F64\<close>: the crate \<open>util\<close>, and the floating point arithmetic of the fee warning.
  \<^item> \<open>Bip32\<close>, \<open>Xpub_Cache\<close>, \<open>Multisig_Memory\<close>: extended keys, their cache, the account registry.
  \<^item> \<open>Btc_Script\<close>, \<open>Btc_Keypath\<close>, \<open>Btc_Payload\<close>, \<open>Btc_Multisig\<close>, \<open>Btc_Policies\<close>, \<open>Payment_Request\<close>,
    \<open>Btc_Signtx\<close>, \<open>Btc_Handlers\<close>: \<open>hww/api/bitcoin.rs\<close> and \<open>hww/api/bitcoin/\<close>.
  \<^item> \<open>Eth_Sighash\<close>, \<open>Eth_Erc20\<close>, \<open>Eth_Sign\<close>, \<open>Eth_Typed\<close>: \<open>hww/api/ethereum/\<close> and \<open>erc20_params\<close>.
  \<^item> \<open>Cardano\<close>: \<open>hww/api/cardano/\<close> and the part of \<open>minicbor\<close> it uses.
  \<^item> \<open>Keystore\<close>: \<open>keystore.c\<close>, \<open>reset.c\<close>, and what they use of \<open>memory.c\<close> and \<open>securechip.c\<close>.
  \<^item> \<open>Mnemonic\<close>, \<open>Backup\<close>, \<open>Device_Api\<close>: \<open>workflow/mnemonic.rs\<close>, \<open>backup.rs\<close> with \<open>sd.c\<close>,
    \<open>workflow/unlock.rs\<close> and the device requests of \<open>hww/api/\<close>.
  \<^item> \<open>Noise\<close>, \<open>Api\<close>: \<open>noise_xx.rs\<close>, \<open>hww/noise.rs\<close>, \<open>workflow/pairing.rs\<close>, \<open>attestation.rs\<close>,
    \<open>hww/api.rs\<close> and \<open>hww.rs\<close>.

  The theories whose names end in \<open>_Safety\<close> hold the theorems about the handlers.

  \<^bold>\<open>What is shown.\<close>
  \<^item> Signing: every Bitcoin, Ethereum and Cardano signature is over data whose screens the user
    accepted before (\<open>Btc_Signtx_Safety\<close>, \<open>Btc_Handlers_Safety\<close>, \<open>Eth_Sign_Safety\<close>,
    \<open>Eth_Typed_Safety\<close>, \<open>Cardano_Safety\<close>).
  \<^item> Encodings: what is hashed determines the transaction, account or payment request up to a collision
    of the hash, by the interpretations of the two locales of encodings; screens determine what they show
    as far as it fits the label component.
  \<^item> Data structures: the cache of extended keys and the registry refine what they stand for; the token
    search finds exactly the listed tokens; validation accepts exactly what it documents.
  \<^item> The device: an invariant of all states reachable by packets and power cycles, every branch of
    unlocking, signatures only by an unlocked device in a paired session, and pairings only with the
    user's consent (\<open>Keystore_Safety\<close>, \<open>Api_Safety\<close>).
  \<^item> Deviations: theorems that a message longer than the label is cut on the screen, that an EIP-1559 fee
    with a leading zero is accepted, that the checked chain id need not be the hashed one, that a
    recursive struct type is hashed forever, that a NUL byte in a member name panics, and that the total
    of a Cardano transaction wraps around.

  \<^bold>\<open>Bounds and fuel.\<close> Loops are \<open>loopM\<close>, over \<open>while_option\<close>: one that never ends is \<open>Pending\<close>. The
  recursion of \<open>hash_struct\<close> over host-supplied types has a depth as a parameter, which \<open>eth_process_api\<close>,
  \<open>api_process\<close> and \<open>process_packet\<close> pass on; theorems hold for every depth, and if no struct type
  contains itself a depth above the rank of the type is never used up (\<open>hash_struct_terminates\<close>). The
  walk over the types gets one more than the number of types, which is enough
  (\<open>get_transitive_types_terminates\<close>). Machine integers are words, and additions that wrap in the code
  wrap in the model.

  \<^bold>\<open>Not modelled.\<close> The executor of futures (\<open>async_usb.rs\<close>, \<open>bb02_async.rs\<close>): a handler runs to its end,
  and a request that cancels another is outside the model. U2F, rendering, drivers, the bootloader,
  factory setup, formatting of the SD card and the C bindings. The BIP-39 seed in RAM is encrypted in the
  code with a key from the secure chip; reading it for a signature does not fail in the model. Zeroing of
  memory has no effect on values and is left out.
\<close>

end
